(* ===== verification/Prelude.thy ===== *)
theory Prelude
  imports Main "HOL-Library.Word" "HOL-Library.Signed_Division" "HOL-Library.Multiset"
begin

text \<open>
  What the models of all components share: the types that stand for the Go types of the
  repository (bytes, \<open>uint64\<close>, \<open>time.Duration\<close>), Go errors as values, panics as values,
  the shape of an operation with side effects, and the generic facts about association lists
  that Go maps need.
\<close>

section \<open>Types of the model\<close>

text \<open>
  A Go string is a sequence of bytes, as \<^typ>\<open>string\<close> is. A \<open>[]byte\<close> that only travels
  through the program is a \<^typ>\<open>string\<close> as well; arithmetic on bytes uses \<open>byte\<close>.
  A \<open>time.Duration\<close> and a \<open>time.Time\<close> count nanoseconds; the durations of the program are
  configured in seconds or years and are far from the limits of \<open>int64\<close>, so they are \<^typ>\<open>int\<close>.
\<close>

type_synonym byte = "8 word"
type_synonym u64 = "64 word"
type_synonym bytes = string
type_synonym duration = int
type_synonym time = int

abbreviation (input) millisecond :: duration where "millisecond \<equiv> 1000000"
abbreviation (input) second :: duration where "second \<equiv> 1000000000"
abbreviation (input) hour :: duration where "hour \<equiv> 3600 * second"

text \<open>
  Errors. \<open>New\<close> is \<open>errors.New\<close> or an \<open>fmt.Errorf\<close> without a wrapped error, with the
  values its format mentions; \<open>Wrap\<close> is \<open>fmt.Errorf\<close> with the verb \<open>%w\<close> (the wrapped error
  can be unwrapped again) and \<open>Fmt\<close> with the verb \<open>%v\<close> (only its text is kept); \<open>Ext\<close> is an
  error value of a package outside the repository.
\<close>

datatype arg = Str string | Num u64

datatype 'e go_error =
    New string "arg list"
  | Wrap string "arg list" "'e go_error"
  | Fmt string "'e go_error"
  | Ext 'e

text \<open>A call that may panic: it panics or returns.\<close>

datatype 'a outcome = Panics string | Returns 'a

text \<open>
  An operation with side effects on a world \<open>'w\<close> that fails with an error or returns a value,
  as a Go function with the results \<open>(value, error)\<close>; and one that only returns an \<open>error\<close>
  (\<open>None\<close> is \<open>nil\<close>).
\<close>

type_synonym ('w, 'e, 'a) action = "'w \<Rightarrow> ('e go_error + 'a) \<times> 'w"
type_synonym ('w, 'e) effect = "'w \<Rightarrow> 'e go_error option \<times> 'w"

section \<open>Hint collections\<close>

named_theorems config_simps \<open>unfoldings of the configuration checks\<close>
named_theorems step_simps \<open>unfoldings of the handlers of the state machines\<close>

section \<open>Maps filled from a list\<close>

text \<open>
  A Go map built by assigning the entries of a list in order: a later entry replaces an earlier
  one with the same key.
\<close>

definition assign_all :: "('k \<times> 'v) list \<Rightarrow> ('k \<rightharpoonup> 'v)" where
  "assign_all kvs = foldl (\<lambda>m (k, v). m(k \<mapsto> v)) Map.empty kvs"

lemma foldl_assign: "foldl (\<lambda>m (k, v). m(k \<mapsto> v)) m kvs = m ++ map_of (rev kvs)"
  by (induction kvs arbitrary: m) (auto simp: map_add_upd_left map_add_def split: option.splits)

lemma assign_all_eq: "assign_all kvs = map_of (rev kvs)"
  by (simp add: assign_all_def foldl_assign)

lemma dom_assign_all [simp]: "dom (assign_all kvs) = fst ` set kvs"
  by (simp add: assign_all_eq dom_map_of_conv_image_fst)

lemma assign_all_Nil [simp]: "assign_all [] = Map.empty"
  by (simp add: assign_all_eq)

lemma assign_all_snoc: "assign_all (kvs @ [(k, v)]) = (assign_all kvs)(k \<mapsto> v)"
  by (simp add: assign_all_def)

lemma assign_all_SomeD: "assign_all kvs k = Some v \<Longrightarrow> (k, v) \<in> set kvs"
  by (auto simp: assign_all_eq dest: map_of_SomeD)

lemma assign_all_distinct:
  assumes "distinct (map fst kvs)" and "(k, v) \<in> set kvs"
  shows "assign_all kvs k = Some v"
proof -
  from assms(1) have "distinct (map fst (rev kvs))" by (simp add: rev_map [symmetric])
  with assms(2) show ?thesis by (simp add: assign_all_eq)
qed

text \<open>When the value is a function of the key, duplicates do not matter.\<close>

lemma assign_all_consistent:
  assumes "(k, v) \<in> set kvs" and "\<And>v'. (k, v') \<in> set kvs \<Longrightarrow> v' = v"
  shows "assign_all kvs k = Some v"
proof -
  from assms(1) have "k \<in> dom (assign_all kvs)" unfolding dom_assign_all by force
  then obtain v' where v': "assign_all kvs k = Some v'" by blast
  with assms(2) have "v' = v" by (blast dest: assign_all_SomeD)
  with v' show ?thesis by simp
qed

section \<open>Integer division of Go\<close>

text \<open>Go's \<open>/\<close> on signed integers truncates towards zero: it is \<open>sdiv\<close> of the library.\<close>

abbreviation go_div :: "int \<Rightarrow> int \<Rightarrow> int" where "go_div a b \<equiv> a sdiv b"

lemma go_div_nonneg: "0 \<le> a \<Longrightarrow> 0 < b \<Longrightarrow> go_div a b = a div b"
  by (cases "a = 0") (simp_all add: signed_divide_int_def)

end
