(* ===== verification/Go_Url.thy ===== *)
theory Go_Url
  imports Prelude
begin

text \<open>
  The part of Go's \<open>net/url\<close> that the flags of the repository rely on: \<open>url.Parse\<close>, with the three fields
  the repository reads (scheme, host, path). The functions follow the standard library; the query, the
  fragment and the user information are cut off, after the checks that can make \<open>Parse\<close> fail.
\<close>

section \<open>Strings\<close>

definition is_lower :: "char \<Rightarrow> bool" where "is_lower c \<longleftrightarrow> 97 \<le> (of_char c :: nat) \<and> (of_char c :: nat) \<le> 122"
definition is_upper :: "char \<Rightarrow> bool" where "is_upper c \<longleftrightarrow> 65 \<le> (of_char c :: nat) \<and> (of_char c :: nat) \<le> 90"
definition is_digit :: "char \<Rightarrow> bool" where "is_digit c \<longleftrightarrow> 48 \<le> (of_char c :: nat) \<and> (of_char c :: nat) \<le> 57"

definition to_lower :: "char \<Rightarrow> char" where
  "to_lower c = (if is_upper c then char_of ((of_char c :: nat) + 32) else c)"

text \<open>\<open>strings.Cut\<close>: the text before and after the first occurrence of a character.\<close>

fun cut :: "char \<Rightarrow> string \<Rightarrow> string \<times> string" where
  "cut sep [] = ([], [])"
| "cut sep (c # cs) = (if c = sep then ([], cs) else (let (a, b) = cut sep cs in (c # a, b)))"

text \<open>The text after the last occurrence of a character, if there is one, and the text before it.\<close>

fun cut_last :: "char \<Rightarrow> string \<Rightarrow> (string \<times> string) option" where
  "cut_last sep [] = None"
| "cut_last sep (c # cs) =
     (case cut_last sep cs of
        Some (a, b) \<Rightarrow> Some (c # a, b)
      | None \<Rightarrow> if c = sep then Some ([], cs) else None)"

lemma cut_absent: "sep \<notin> set s \<Longrightarrow> cut sep s = (s, [])"
  by (induction s) auto

lemma cut_append: "sep \<notin> set a \<Longrightarrow> cut sep (a @ sep # b) = (a, b)"
  by (induction a) auto

lemma cut_last_absent: "sep \<notin> set s \<Longrightarrow> cut_last sep s = None"
  by (induction s) auto

lemma cut_last_append: "sep \<notin> set b \<Longrightarrow> cut_last sep (a @ sep # b) = Some (a, b)"
  by (induction a) (auto simp: cut_last_absent)

section \<open>Scheme\<close>

text \<open>
  \<open>getScheme\<close> scans for the colon: \<open>None\<close> is the error ``missing protocol scheme''; a text without a scheme
  is all rest.
\<close>

fun scan_scheme :: "string \<Rightarrow> string \<Rightarrow> string \<Rightarrow> (string \<times> string) option" where
  "scan_scheme raw seen [] = Some ([], raw)"
| "scan_scheme raw seen (c # cs) =
     (if is_lower c \<or> is_upper c then scan_scheme raw (seen @ [c]) cs
      else if is_digit c \<or> c \<in> set ''+-.'' then
        (if seen = [] then Some ([], raw) else scan_scheme raw (seen @ [c]) cs)
      else if c = CHR '':'' then (if seen = [] then None else Some (seen, cs))
      else Some ([], raw))"

definition getScheme :: "string \<Rightarrow> (string \<times> string) option" where
  "getScheme raw = scan_scheme raw [] raw"

section \<open>Escapes\<close>

definition is_hex :: "char \<Rightarrow> bool" where
  "is_hex c \<longleftrightarrow> is_digit c \<or> (97 \<le> (of_char c :: nat) \<and> (of_char c :: nat) \<le> 102) \<or>
     (65 \<le> (of_char c :: nat) \<and> (of_char c :: nat) \<le> 70)"

definition unhex :: "char \<Rightarrow> nat" where
  "unhex c = (if is_digit c then of_char c - 48
              else if 97 \<le> (of_char c :: nat) then of_char c - 87 else of_char c - 55)"

definition host_ascii :: "char \<Rightarrow> bool" where
  "host_ascii c \<longleftrightarrow> is_lower c \<or> is_upper c \<or> is_digit c \<or>
     c \<in> set ''-_.~!$&()*+,;=:[]<>'' \<or> c = CHR 39 \<or> c = CHR 34"

definition host_char :: "char \<Rightarrow> bool" where
  "host_char c \<longleftrightarrow> host_ascii c \<or> 128 \<le> (of_char c :: nat)"

text \<open>\<open>unescape\<close> in a path and in a host, \<open>None\<close> for an invalid text.\<close>

fun unescape_path :: "string \<Rightarrow> string option" where
  "unescape_path [] = Some []"
| "unescape_path (c # cs) =
     (if c = CHR ''%'' then
        (case cs of
           a # b # ds \<Rightarrow>
             if is_hex a \<and> is_hex b
             then map_option ((#) (char_of (16 * unhex a + unhex b))) (unescape_path ds) else None
         | _ \<Rightarrow> None)
      else map_option ((#) c) (unescape_path cs))"

text \<open>In a host only the escapes of bytes outside of ASCII and of the percent sign are allowed.\<close>

fun unescape_host :: "string \<Rightarrow> string option" where
  "unescape_host [] = Some []"
| "unescape_host (c # cs) =
     (if c = CHR ''%'' then
        (case cs of
           a # b # ds \<Rightarrow>
             if is_hex a \<and> is_hex b \<and> (8 \<le> unhex a \<or> [a, b] = ''25'')
             then map_option ((#) (char_of (16 * unhex a + unhex b))) (unescape_host ds) else None
         | _ \<Rightarrow> None)
      else if host_char c then map_option ((#) c) (unescape_host cs) else None)"

section \<open>Host and authority\<close>

fun validOptionalPort :: "string \<Rightarrow> bool" where
  "validOptionalPort [] = True"
| "validOptionalPort (c # cs) = (c = CHR '':'' \<and> list_all is_digit cs)"

text \<open>
  A host in brackets is an IPv6 address; the zone of such an address (after \<open>%25\<close>) is decoded like a path,
  except that \<open>%25\<close>, a space and the ASCII characters of a host are the only escapes in it.
\<close>

fun cut_zone :: "string \<Rightarrow> (string \<times> string) option" where
  "cut_zone [] = None"
| "cut_zone (c # cs) =
     (if take 3 (c # cs) = ''%25'' then Some ([], c # cs)
      else map_option (\<lambda>(a, b). (c # a, b)) (cut_zone cs))"

fun unescape_zone :: "string \<Rightarrow> string option" where
  "unescape_zone [] = Some []"
| "unescape_zone (c # cs) =
     (if c = CHR ''%'' then
        (case cs of
           a # b # ds \<Rightarrow>
             if is_hex a \<and> is_hex b \<and>
                ([a, b] = ''25'' \<or> 16 * unhex a + unhex b = 32 \<or>
                 host_ascii (char_of (16 * unhex a + unhex b)))
             then map_option ((#) (char_of (16 * unhex a + unhex b))) (unescape_zone ds) else None
         | _ \<Rightarrow> None)
      else if host_char c then map_option ((#) c) (unescape_zone cs) else None)"

definition parseHost :: "string \<Rightarrow> string option" where
  "parseHost host =
     (if take 1 host = ''['' then
        (case cut_last CHR '']'' host of
           None \<Rightarrow> None
         | Some (inside, port) \<Rightarrow>
             if \<not> validOptionalPort port then None
             else (case cut_zone inside of
                     Some (h1, zone) \<Rightarrow>
                       (case (unescape_host h1, unescape_zone zone, unescape_host ('']'' @ port)) of
                          (Some a, Some b, Some c) \<Rightarrow> Some (a @ b @ c)
                        | _ \<Rightarrow> None)
                   | None \<Rightarrow> unescape_host host))
      else (case cut_last CHR '':'' host of
              Some (_, port) \<Rightarrow>
                if validOptionalPort (CHR '':'' # port) then unescape_host host else None
            | None \<Rightarrow> unescape_host host))"

definition userinfo_char :: "char \<Rightarrow> bool" where
  "userinfo_char c \<longleftrightarrow> is_lower c \<or> is_upper c \<or> is_digit c \<or> c \<in> set ''-._:~!$&()*+,;=%@'' \<or> c = CHR 39"

definition parseAuthority :: "string \<Rightarrow> string option" where
  "parseAuthority authority =
     (case cut_last CHR ''@'' authority of
        None \<Rightarrow> parseHost authority
      | Some (userinfo, host) \<Rightarrow>
          (case parseHost host of
             None \<Rightarrow> None
           | Some h \<Rightarrow>
               if list_all userinfo_char userinfo \<and>
                  (case cut CHR '':'' userinfo of
                     (u, p) \<Rightarrow> unescape_path u \<noteq> None \<and> unescape_path p \<noteq> None)
               then Some h else None))"

section \<open>Parse\<close>

record url =
  url_Scheme :: string
  url_Host :: string
  url_Path :: string

definition is_ctl :: "char \<Rightarrow> bool" where
  "is_ctl c \<longleftrightarrow> (of_char c :: nat) < 32 \<or> (of_char c :: nat) = 127"

text \<open>What follows the scheme, with the query cut off: authority and path, or an opaque rest.\<close>

definition parse_rest :: "string \<Rightarrow> string \<Rightarrow> url option" where
  "parse_rest scheme rest =
     (if take 1 rest \<noteq> ''/'' \<and> scheme \<noteq> [] then Some \<lparr>url_Scheme = scheme, url_Host = [], url_Path = []\<rparr>
      else if take 1 rest \<noteq> ''/'' \<and> CHR '':'' \<in> set (fst (cut CHR ''/'' rest)) then None
      else
        (case (if (scheme \<noteq> [] \<or> take 3 rest \<noteq> ''///'') \<and> take 2 rest = ''//'' then
                 map_option (\<lambda>h. (h, dropWhile (\<lambda>c. c \<noteq> CHR ''/'') (drop 2 rest)))
                   (parseAuthority (takeWhile (\<lambda>c. c \<noteq> CHR ''/'') (drop 2 rest)))
               else Some ([], rest)) of
           None \<Rightarrow> None
         | Some (host, path) \<Rightarrow>
             map_option (\<lambda>p. \<lparr>url_Scheme = scheme, url_Host = host, url_Path = p\<rparr>)
               (unescape_path path)))"

definition url_Parse :: "string \<Rightarrow> url option" where
  "url_Parse rawURL =
     (let (u, frag) = cut CHR ''#'' rawURL
      in if list_ex is_ctl u then None
         else if u = ''*'' then
           (if unescape_path frag = None then None
            else Some \<lparr>url_Scheme = [], url_Host = [], url_Path = ''*''\<rparr>)
         else
           (case getScheme u of
              None \<Rightarrow> None
            | Some (scheme, rest) \<Rightarrow>
                (case parse_rest (map to_lower scheme) (fst (cut CHR ''?'' rest)) of
                   None \<Rightarrow> None
                 | Some r \<Rightarrow> if unescape_path frag = None then None else Some r)))"

section \<open>Plain URLs\<close>

text \<open>
  URLs of the shape \<open>scheme://host:port/path\<close> without escapes, queries or fragments, which is what the peer
  flags are made of.
\<close>

definition plain_scheme :: "string \<Rightarrow> bool" where
  "plain_scheme s \<longleftrightarrow>
     (case s of [] \<Rightarrow> False | c # cs \<Rightarrow> (is_lower c \<or> is_upper c) \<and>
        list_all (\<lambda>c. is_lower c \<or> is_upper c \<or> is_digit c \<or> c \<in> set ''+-.'') cs)"

definition plain_char :: "char \<Rightarrow> bool" where
  "plain_char c \<longleftrightarrow> is_lower c \<or> is_upper c \<or> is_digit c \<or> c \<in> set ''-._~''"

definition plain_host :: "string \<Rightarrow> bool" where
  "plain_host h \<longleftrightarrow> h \<noteq> [] \<and> list_all plain_char h"

definition plain_path :: "string \<Rightarrow> bool" where
  "plain_path p \<longleftrightarrow>
     (case p of [] \<Rightarrow> True | c # cs \<Rightarrow> c = CHR ''/'') \<and> list_all (\<lambda>c. \<not> is_ctl c \<and> c \<notin> set ''%#?'') p"

lemma of_char_of_nat_less: "n < 256 \<Longrightarrow> (of_char (char_of (n :: nat) :: char) :: nat) = n"
  by simp

lemma scan_scheme_plain:
  "list_all (\<lambda>c. is_lower c \<or> is_upper c \<or> is_digit c \<or> c \<in> set ''+-.'') cs \<Longrightarrow> seen \<noteq> [] \<Longrightarrow>
     scan_scheme raw seen (cs @ CHR '':'' # rest) = Some (seen @ cs, rest)"
  by (induction cs arbitrary: seen) (auto simp: is_lower_def is_upper_def is_digit_def)

lemma getScheme_plain:
  assumes "plain_scheme s"
  shows "getScheme (s @ CHR '':'' # rest) = Some (s, rest)"
proof (cases s)
  case (Cons c cs)
  with assms scan_scheme_plain [of cs "[c]" "s @ CHR '':'' # rest" rest]
  show ?thesis by (auto simp: getScheme_def plain_scheme_def)
qed (use assms in \<open>simp add: plain_scheme_def\<close>)

lemma unescape_host_plain:
  "list_all (\<lambda>c. host_char c \<and> c \<noteq> CHR ''%'') s \<Longrightarrow> unescape_host s = Some s"
  by (induction s) auto

lemma unescape_path_plain: "CHR ''%'' \<notin> set s \<Longrightarrow> unescape_path s = Some s"
  by (induction s) auto

lemma plain_char_host: "plain_char c \<Longrightarrow> host_char c"
  by (auto simp: plain_char_def host_char_def host_ascii_def)

lemma plain_char_not: "c \<in> set '':/@#?[%'' \<Longrightarrow> \<not> plain_char c"
  by (auto simp: plain_char_def is_lower_def is_upper_def is_digit_def)

lemma plain_char_ctl: "plain_char c \<Longrightarrow> \<not> is_ctl c"
  by (auto simp: plain_char_def is_ctl_def is_lower_def is_upper_def is_digit_def)

lemma plain_absent:
  assumes "list_all plain_char h" and "c \<in> set '':/@#?[%''"
  shows "c \<notin> set h"
  using plain_char_not [OF assms(2)] assms(1) by (auto simp: list_all_iff)

lemma plain_chars:
  assumes "list_all plain_char h"
  shows "list_all (\<lambda>c. host_char c \<and> c \<noteq> CHR ''%'') h" and "list_all (\<lambda>c. \<not> is_ctl c) h"
proof -
  have "CHR ''%'' \<notin> set h" by (rule plain_absent [OF assms]) simp
  with assms plain_char_host show "list_all (\<lambda>c. host_char c \<and> c \<noteq> CHR ''%'') h"
    by (auto simp: list_all_iff)
  from assms plain_char_ctl show "list_all (\<lambda>c. \<not> is_ctl c) h"
    by (auto simp: list_all_iff)
qed

lemma digit_chars: "list_all is_digit p \<Longrightarrow> list_all plain_char p"
  by (simp add: list_all_iff plain_char_def)

lemma host_char_colon: "host_char CHR '':''"
  by (simp add: host_char_def host_ascii_def)

text \<open>A host with a port, as it stands between the scheme and the path.\<close>

definition plain_address :: "string \<Rightarrow> string \<Rightarrow> string" where
  "plain_address h p = h @ CHR '':'' # p"

lemma plain_address_absent:
  assumes "plain_host h" and "list_all is_digit p" and "c \<in> set ''/@#?[%''"
  shows "c \<notin> set (plain_address h p)"
proof -
  from assms(3) have c: "c \<in> set '':/@#?[%''" "c \<noteq> CHR '':''" by auto
  from assms(1) have "list_all plain_char h" by (simp add: plain_host_def)
  then have "c \<notin> set h" by (rule plain_absent [OF _ c(1)])
  moreover have "c \<notin> set p" using plain_absent [OF digit_chars [OF assms(2)] c(1)] .
  ultimately show ?thesis using c(2) by (simp add: plain_address_def)
qed

lemma plain_address_chars:
  assumes "plain_host h" and "list_all is_digit p"
  shows "list_all (\<lambda>c. host_char c \<and> c \<noteq> CHR ''%'') (plain_address h p)"
    and "list_all (\<lambda>c. \<not> is_ctl c) (plain_address h p)"
  using plain_chars [of h] plain_chars [OF digit_chars [OF assms(2)]] assms(1) host_char_colon
  by (simp_all add: plain_address_def plain_host_def is_ctl_def)

lemma take_absent: "c \<notin> set s \<Longrightarrow> take 1 s \<noteq> [c]"
  by (cases s) auto

lemma parseAuthority_plain:
  assumes "plain_host h" and "list_all is_digit p"
  shows "parseAuthority (plain_address h p) = Some (plain_address h p)"
proof -
  note absent = plain_address_absent [OF assms]
  have "cut_last CHR ''@'' (plain_address h p) = None"
    by (rule cut_last_absent [OF absent]) simp
  moreover have "take 1 (plain_address h p) \<noteq> ''[''"
    by (rule take_absent [OF absent]) simp
  moreover have "CHR '':'' \<notin> set p" by (rule plain_absent [OF digit_chars [OF assms(2)]]) simp
  then have "cut_last CHR '':'' (plain_address h p) = Some (h, p)"
    unfolding plain_address_def by (rule cut_last_append)
  moreover have "unescape_host (plain_address h p) = Some (plain_address h p)"
    by (rule unescape_host_plain [OF plain_address_chars(1) [OF assms]])
  ultimately show ?thesis
    using assms(2) by (simp add: parseAuthority_def parseHost_def)
qed

lemma plain_scheme_absent:
  assumes "plain_scheme s" and "c \<in> set ''#?''"
  shows "c \<notin> set s"
  using assms
  by (auto simp: plain_scheme_def list_all_iff is_lower_def is_upper_def is_digit_def split: list.splits)

lemma plain_scheme_ctl:
  assumes "plain_scheme s" and "c \<in> set s"
  shows "\<not> is_ctl c"
  using assms
  by (auto simp: plain_scheme_def list_all_iff is_lower_def is_upper_def is_digit_def is_ctl_def
      split: list.splits)

lemma parse_rest_plain:
  assumes "plain_host h" and "list_all is_digit p" and "plain_path path" and "s \<noteq> []"
  shows "parse_rest s (''//'' @ plain_address h p @ path) =
    Some \<lparr>url_Scheme = s, url_Host = plain_address h p, url_Path = path\<rparr>"
proof -
  have noslash: "CHR ''/'' \<notin> set (plain_address h p)" by (rule plain_address_absent [OF assms(1,2)]) simp
  then have "takeWhile (\<lambda>c. c \<noteq> CHR ''/'') (plain_address h p @ path) = plain_address h p"
    using assms(3) by (cases path) (auto simp: plain_path_def takeWhile_append)
  moreover have "dropWhile (\<lambda>c. c \<noteq> CHR ''/'') (plain_address h p @ path) = path"
    using noslash assms(3) by (cases path) (auto simp: plain_path_def dropWhile_append)
  moreover have "CHR ''%'' \<notin> set path"
    using assms(3) by (auto simp: plain_path_def list_all_iff)
  ultimately show ?thesis
    using assms(4) parseAuthority_plain [OF assms(1,2)]
    by (simp add: parse_rest_def unescape_path_plain)
qed

lemma url_Parse_plain:
  assumes "plain_scheme s" and "plain_host h" and "list_all is_digit p" and "plain_path path"
  shows "url_Parse (s @ ''://'' @ plain_address h p @ path) =
    Some \<lparr>url_Scheme = map to_lower s, url_Host = plain_address h p, url_Path = path\<rparr>"
proof -
  let ?rest = "''//'' @ plain_address h p @ path" and ?raw = "s @ ''://'' @ plain_address h p @ path"
  note absent = plain_address_absent [OF assms(2,3)]
  have path: "c \<notin> set path" if "c \<in> set ''%#?''" for c
    using assms(4) that by (auto simp: plain_path_def list_all_iff)
  have hash: "CHR ''#'' \<notin> set ?raw"
    using plain_scheme_absent [OF assms(1), of "CHR ''#''"] absent [of "CHR ''#''"] path [of "CHR ''#''"]
    by simp
  have query: "CHR ''?'' \<notin> set ?rest"
    using absent [of "CHR ''?''"] path [of "CHR ''?''"] by simp
  have "\<not> is_ctl c" if "c \<in> set path" for c
    using assms(4) that by (auto simp: plain_path_def list_all_iff)
  then have ctl: "\<not> list_ex is_ctl ?raw"
    using plain_scheme_ctl [OF assms(1)] plain_address_chars(2) [OF assms(2,3)]
    by (auto simp: list_ex_iff list_all_iff is_ctl_def)
  have "s \<noteq> []" using assms(1) by (auto simp: plain_scheme_def)
  moreover from this have "?raw \<noteq> ''*''" by (cases s) auto
  moreover have "getScheme ?raw = Some (s, ?rest)" using getScheme_plain [OF assms(1), of ?rest] by simp
  ultimately show ?thesis
    using parse_rest_plain [OF assms(2-4), of "map to_lower s"] hash query ctl
    by (simp add: url_Parse_def cut_absent unescape_path_plain del: list_ex_append)
qed

end
