(* ===== verification/Raft_Config.thy ===== *)
theory Raft_Config
  imports Prelude
begin

text \<open>
  The configuration of the raft lock (first part of \<open>raft/locker.go\<close>): its records, its validation,
  the peer tables derived from the list of nodes, and the tick counts handed to etcd's raft.
  The type \<open>'f\<close> is \<open>KubeconfigFetcher\<close> and \<open>'lg\<close> is \<open>raft.Logger\<close>; a nil interface is \<open>None\<close>.
\<close>

section \<open>Records and validation\<close>

definition defaultHeartbeatInterval :: duration where "defaultHeartbeatInterval = 1 * second"
definition defaultElectionTimeout :: duration where "defaultElectionTimeout = 10 * second"

record LockerNode =
  ln_ID :: u64
  ln_Address :: string

record ('f, 'lg) RaftLockConfiguration =
  rc_ID :: u64
  rc_Address :: string
  rc_CA :: bytes
  rc_PrivateKey :: bytes
  rc_Certificate :: bytes
  rc_Meta :: bytes
  rc_Peers :: "LockerNode list"
  rc_Insecure :: bool
  rc_Fetcher :: "'f option"
  rc_ElectionTimeout :: duration
  rc_HeartbeatInterval :: duration
  rc_Logger :: "'lg option"

definition validate_raft :: "('f, 'lg) RaftLockConfiguration \<Rightarrow> 'e go_error option" where
  "validate_raft c =
     (if rc_ID c = 0 then Some (New ''id must be specified'' [])
      else if rc_Address c = '''' then Some (New ''address must be specified'' [])
      else
        (case (if \<not> rc_Insecure c then
                 (if length (rc_CA c) = 0 then Some (New ''ca must be specified'' [])
                  else if length (rc_PrivateKey c) = 0
                       then Some (New ''private key must be specified'' [])
                  else if length (rc_Certificate c) = 0
                       then Some (New ''certificate must be specified'' [])
                  else None)
               else None) of
           Some err \<Rightarrow> Some err
         | None \<Rightarrow> if length (rc_Peers c) = 0 then Some (New ''peers must be set'' []) else None))"

section \<open>Peer tables\<close>

record raft_Peer =
  peer_ID :: u64
  peer_Context :: bytes

definition asPeer :: "LockerNode \<Rightarrow> raft_Peer" where
  "asPeer n = \<lparr>peer_ID = ln_ID n, peer_Context = ln_Address n\<rparr>"

definition peersForNodes :: "LockerNode list \<Rightarrow> (u64 \<rightharpoonup> string)" where
  "peersForNodes nodes =
     foldl (\<lambda>peers node. peers(ln_ID node \<mapsto> ln_Address node)) Map.empty nodes"

definition asPeers :: "LockerNode list \<Rightarrow> raft_Peer list" where
  "asPeers nodes = foldl (\<lambda>peers node. peers @ [asPeer node]) [] nodes"

lemma peersForNodes_eq:
  "peersForNodes nodes = assign_all (map (\<lambda>n. (ln_ID n, ln_Address n)) nodes)"
  by (simp add: peersForNodes_def assign_all_def foldl_map)

lemma asPeers_eq: "asPeers nodes = map asPeer nodes"
proof -
  have "foldl (\<lambda>peers node. peers @ [asPeer node]) acc nodes = acc @ map asPeer nodes" for acc
    by (induction nodes arbitrary: acc) auto
  then show ?thesis by (simp add: asPeers_def)
qed

section \<open>Ticks\<close>

text \<open>
  \<open>Duration.Milliseconds\<close> truncates, and so does the integer division by 10: the loop ticks every ten
  milliseconds. The defaults are filled in where a duration is zero.
\<close>

definition Milliseconds :: "duration \<Rightarrow> int" where
  "Milliseconds d = go_div d millisecond"

definition with_timeouts ::
  "('f, 'lg) RaftLockConfiguration \<Rightarrow> ('f, 'lg) RaftLockConfiguration" where
  "with_timeouts c =
     (let c1 = (if rc_ElectionTimeout c = 0
                then c\<lparr>rc_ElectionTimeout := defaultElectionTimeout\<rparr> else c);
          c2 = (if rc_HeartbeatInterval c1 = 0
                then c1\<lparr>rc_HeartbeatInterval := defaultHeartbeatInterval\<rparr> else c1)
      in c2)"

definition electionTick :: "('f, 'lg) RaftLockConfiguration \<Rightarrow> int" where
  "electionTick c = go_div (Milliseconds (rc_ElectionTimeout c)) 10"

definition heartbeatTick :: "('f, 'lg) RaftLockConfiguration \<Rightarrow> int" where
  "heartbeatTick c = go_div (Milliseconds (rc_HeartbeatInterval c)) 10"

lemma ticks_floor:
  assumes "0 \<le> d"
  shows "go_div (Milliseconds d) 10 = d div (10 * millisecond)"
proof -
  have "go_div (Milliseconds d) 10 = d div millisecond div 10"
    using assms by (simp add: Milliseconds_def go_div_nonneg pos_imp_zdiv_nonneg_iff)
  also have "\<dots> = d div (millisecond * 10)" by (rule zdiv_zmult2_eq [symmetric]) simp
  finally show ?thesis by (simp only: mult.commute)
qed

lemma div_grid:
  fixes h t k :: int
  assumes "0 < k" and "k \<le> h" and "h + k \<le> t"
  shows "0 < h div k" and "h div k < t div k" and "t div k * k \<le> t" and "t < (t div k + 1) * k"
proof -
  from assms(1,2) show "0 < h div k" by (simp add: pos_imp_zdiv_pos_iff)
  have "h div k + 1 = (h + k) div k" using assms(1) div_add_self2 [of k h] by simp
  also have "\<dots> \<le> t div k" by (rule zdiv_mono1 [OF assms(3,1)])
  finally show "h div k < t div k" by simp
  have t: "t div k * k + t mod k = t" by (rule div_mult_mod_eq)
  from assms(1) have "0 \<le> t mod k" and "t mod k < k" by simp_all
  with t show "t div k * k \<le> t" and "t < (t div k + 1) * k"
    unfolding distrib_right mult_1 by linarith+
qed

section \<open>The compaction counter\<close>

text \<open>
  The goroutine that ticks the raft node every ten milliseconds counts down to the next compaction
  of the log. \<open>ticker_step\<close> is one round: the counter afterwards, and whether the round compacted.
\<close>

definition ticker_step :: "int \<Rightarrow> int \<times> bool" where
  "ticker_step compactions =
     (let (c, compacted) = (if compactions = 0 then (1000, True) else (compactions, False))
      in (c - 1, compacted))"

fun ticker_run :: "nat \<Rightarrow> int \<times> bool" where
  "ticker_run 0 = ticker_step 1000"
| "ticker_run (Suc n) = ticker_step (fst (ticker_run n))"

lemma ticker_counter: "fst (ticker_run n) = 999 - int (n mod 1000)"
proof (induction n)
  case 0
  then show ?case by (simp add: ticker_step_def)
next
  case (Suc n)
  show ?case
  proof (cases "Suc (n mod 1000) = 1000")
    case True
    then have "n mod 1000 = 999" by simp
    with Suc.IH show ?thesis by (simp add: ticker_step_def mod_Suc)
  next
    case False
    then have "int (n mod 1000) \<noteq> 999" by simp
    with Suc.IH False show ?thesis by (simp add: ticker_step_def mod_Suc)
  qed
qed

section \<open>Properties\<close>

text \<open>
  Validation accepts exactly the configurations with a non-zero id, an address, at least one peer
  and, unless insecure, a CA, a private key and a certificate.
\<close>

theorem validate_raft_spec:
  "validate_raft c = None \<longleftrightarrow>
     rc_ID c \<noteq> 0 \<and> rc_Address c \<noteq> '''' \<and> rc_Peers c \<noteq> [] \<and>
     (rc_Insecure c \<or> rc_CA c \<noteq> [] \<and> rc_PrivateKey c \<noteq> [] \<and> rc_Certificate c \<noteq> [])"
  by (auto simp: validate_raft_def)

text \<open>
  The peer table has exactly the ids of the nodes; with distinct ids it maps each to its address,
  and the list handed to raft names the same ids and addresses in the same order.
\<close>

theorem peer_tables_agree:
  assumes "distinct (map ln_ID nodes)"
  shows "dom (peersForNodes nodes) = peer_ID ` set (asPeers nodes) \<and>
    map (\<lambda>p. peersForNodes nodes (peer_ID p)) (asPeers nodes) =
      map (\<lambda>p. Some (peer_Context p)) (asPeers nodes) \<and>
    map peer_ID (asPeers nodes) = map ln_ID nodes"
proof -
  have "peersForNodes nodes (ln_ID n) = Some (ln_Address n)" if "n \<in> set nodes" for n
    unfolding peersForNodes_eq by (rule assign_all_distinct) (use assms that in \<open>auto simp: comp_def\<close>)
  then have "map (\<lambda>p. peersForNodes nodes (peer_ID p)) (asPeers nodes) =
      map (\<lambda>p. Some (peer_Context p)) (asPeers nodes)"
    by (simp add: asPeers_eq asPeer_def)
  moreover have "dom (peersForNodes nodes) = peer_ID ` set (asPeers nodes)"
    unfolding peersForNodes_eq dom_assign_all by (simp add: asPeers_eq asPeer_def image_image)
  moreover have "map peer_ID (asPeers nodes) = map ln_ID nodes"
    by (simp add: asPeers_eq asPeer_def)
  ultimately show ?thesis by blast
qed

lemma peer_tables_agree_witness:
  "peersForNodes [\<lparr>ln_ID = 1, ln_Address = ''a:1''\<rparr>, \<lparr>ln_ID = 2, ln_Address = ''b:2''\<rparr>] 2 = Some ''b:2'' \<and>
   dom (peersForNodes [\<lparr>ln_ID = 1, ln_Address = ''a:1''\<rparr>, \<lparr>ln_ID = 2, ln_Address = ''b:2''\<rparr>]) = {1, 2}"
  using peer_tables_agree [of "[\<lparr>ln_ID = 1, ln_Address = ''a:1''\<rparr>, \<lparr>ln_ID = 2, ln_Address = ''b:2''\<rparr>]"]
  by (simp add: asPeers_eq asPeer_def)

text \<open>
  A tick count times the ten milliseconds of a tick is the configured duration, rounded down to
  a multiple of ten milliseconds; with the defaults these are 1000 and 100 ticks. When the heartbeat is
  at least one tick and the election timeout at least one tick longer, the counts meet raft's
  requirement that \<open>0 < HeartbeatTick < ElectionTick\<close>.
\<close>

theorem tick_counts:
  assumes "10 * millisecond \<le> rc_HeartbeatInterval (with_timeouts c)"
    and "rc_HeartbeatInterval (with_timeouts c) + 10 * millisecond \<le> rc_ElectionTimeout (with_timeouts c)"
  shows "0 < heartbeatTick (with_timeouts c) \<and>
    heartbeatTick (with_timeouts c) < electionTick (with_timeouts c) \<and>
    electionTick (with_timeouts c) * (10 * millisecond) \<le> rc_ElectionTimeout (with_timeouts c) \<and>
    rc_ElectionTimeout (with_timeouts c) < (electionTick (with_timeouts c) + 1) * (10 * millisecond)"
proof -
  define k :: int where "k = 10 * millisecond"
  have k: "0 < k" by (simp add: k_def)
  from assms have "0 \<le> rc_HeartbeatInterval (with_timeouts c)" "0 \<le> rc_ElectionTimeout (with_timeouts c)"
    by linarith+
  with div_grid [OF k assms [folded k_def]] show ?thesis
    by (simp only: heartbeatTick_def electionTick_def ticks_floor k_def [symmetric])
qed

definition default_raft_config :: "(unit, unit) RaftLockConfiguration" where
  "default_raft_config =
     \<lparr>rc_ID = 1, rc_Address = ''127.0.0.1:1'', rc_CA = [], rc_PrivateKey = [], rc_Certificate = [],
      rc_Meta = [], rc_Peers = [\<lparr>ln_ID = 1, ln_Address = ''127.0.0.1:1''\<rparr>], rc_Insecure = True,
      rc_Fetcher = None, rc_ElectionTimeout = 0, rc_HeartbeatInterval = 0, rc_Logger = None\<rparr>"

lemma tick_counts_witness:
  "electionTick (with_timeouts default_raft_config) = 1000 \<and>
   heartbeatTick (with_timeouts default_raft_config) = 100 \<and>
   heartbeatTick (with_timeouts default_raft_config) < electionTick (with_timeouts default_raft_config)"
  using tick_counts [of default_raft_config]
  by (simp add: electionTick_def heartbeatTick_def ticks_floor with_timeouts_def
      default_raft_config_def defaultElectionTimeout_def defaultHeartbeatInterval_def)

text \<open>
  Compactions. Counting the ticks from 0, a compaction happens exactly at the ticks 1000, 2000, and
  so on: every 1000 ticks of ten milliseconds, and never in the first ten seconds.
\<close>

theorem compaction_every_1000_ticks:
  "snd (ticker_run n) \<longleftrightarrow> 0 < n \<and> n mod 1000 = 0"
proof (cases n)
  case 0
  then show ?thesis by (simp add: ticker_step_def)
next
  case (Suc m)
  have "999 - int (m mod 1000) = 0 \<longleftrightarrow> Suc (m mod 1000) = 1000" by linarith
  with Suc ticker_counter [of m] show ?thesis by (simp add: ticker_step_def mod_Suc)
qed

end
