(* ===== verification/Multicluster_Config.thy ===== *)
theory Multicluster_Config
  imports Go_Url Raft_Config
begin

unbundle bit_operations_syntax

text \<open>
  The configuration of the multicluster manager (first part of \<open>multicluster/raft.go\<close>): the hash that turns
  node names into raft ids, the validation, the command line flags, and the adapter between the two
  logger interfaces.
\<close>

section \<open>Node ids\<close>

text \<open>FNV-1a on 64 bits, as in \<open>hash/fnv\<close>: exclusive or with the byte, then a product modulo \<open>2^64\<close>.\<close>

definition fnv_offset :: u64 where "fnv_offset = 14695981039346656037"
definition fnv_prime :: u64 where "fnv_prime = 1099511628211"

definition fnv_step :: "u64 \<Rightarrow> char \<Rightarrow> u64" where
  "fnv_step h c = (h XOR of_char c) * fnv_prime"

definition stringToHash :: "string \<Rightarrow> u64" where
  "stringToHash s = foldl fnv_step fnv_offset s"

section \<open>Configuration\<close>

record RaftCluster =
  rcl_Name :: string
  rcl_Address :: string
  rcl_KubeconfigFile :: string

record ('sch, 'lg, 'rest) RaftConfiguration =
  mc_Name :: string
  mc_Address :: string
  mc_Peers :: "RaftCluster list"
  mc_ElectionTimeout :: duration
  mc_HeartbeatInterval :: duration
  mc_Meta :: bytes
  mc_Scheme :: "'sch option"
  mc_Logger :: 'lg
  mc_Metrics :: bool
  mc_RestConfig :: "'rest option"
  mc_Insecure :: bool
  mc_CAFile :: string
  mc_PrivateKeyFile :: string
  mc_CertificateFile :: string
  mc_Bootstrap :: bool
  mc_KubernetesAPIServer :: string
  mc_KubeconfigNamespace :: string
  mc_KubeconfigName :: string

definition validate_mc :: "('sch, 'lg, 'rest) RaftConfiguration \<Rightarrow> 'e go_error option" where
  "validate_mc r =
     (if mc_Name r = '''' then Some (New ''name must be specified'' [])
      else if mc_Address r = '''' then Some (New ''address must be specified'' [])
      else
        (case (if \<not> mc_Insecure r then
                 (if length (mc_CAFile r) = 0 then Some (New ''ca must be specified'' [])
                  else if length (mc_PrivateKeyFile r) = 0
                       then Some (New ''private key must be specified'' [])
                  else if length (mc_CertificateFile r) = 0
                       then Some (New ''certificate must be specified'' [])
                  else None)
               else None) of
           Some err \<Rightarrow> Some err
         | None \<Rightarrow> if length (mc_Peers r) = 0 then Some (New ''peers must be set'' []) else None))"

section \<open>Flags\<close>

text \<open>
  The two package variables that the flags write to. Registering the flags sets every variable to the
  default of its flag; parsing the command line then changes them.
\<close>

record ('sch, 'lg, 'rest) cli_flags =
  cliRaftConfiguration :: "('sch, 'lg, 'rest) RaftConfiguration"
  cliRaftConfigurationPeers :: "string list"

definition AddRaftConfigurationFlags ::
  "('sch, 'lg, 'rest) cli_flags \<Rightarrow> ('sch, 'lg, 'rest) cli_flags" where
  "AddRaftConfigurationFlags g =
     \<lparr>cliRaftConfiguration = (cliRaftConfiguration g)
        \<lparr>mc_Name := '''', mc_Address := '''', mc_Insecure := False, mc_CAFile := '''',
         mc_PrivateKeyFile := '''', mc_CertificateFile := '''',
         mc_ElectionTimeout := 10 * second, mc_HeartbeatInterval := 1 * second,
         mc_Bootstrap := False, mc_KubernetesAPIServer := '''',
         mc_KubeconfigNamespace := ''default'', mc_KubeconfigName := ''multicluster-kubeconfig''\<rparr>,
      cliRaftConfigurationPeers = []\<rparr>"

definition peerFromFlag ::
  "('sch, 'lg, 'rest) RaftConfiguration \<Rightarrow> string \<Rightarrow> 'e go_error + RaftCluster" where
  "peerFromFlag configuration value =
     (case url_Parse value of
        None \<Rightarrow> Inl (New ''format of peer flag is name://address/path/to/kubeconfig'' [])
      | Some parsed \<Rightarrow>
          if \<not> mc_Bootstrap configuration \<and> url_Path parsed = ''''
          then Inl (New ''format of peer flag is name://address/path/to/kubeconfig'' [])
          else Inr \<lparr>rcl_Name = url_Scheme parsed, rcl_Address = url_Host parsed,
                 rcl_KubeconfigFile = url_Path parsed\<rparr>)"

text \<open>
  The loop appends to the peers of the package variable itself, which the next call finds again: the result
  is a pair of the returned value and the variables afterwards.
\<close>

fun flags_loop ::
  "string list \<Rightarrow> ('sch, 'lg, 'rest) cli_flags \<Rightarrow>
   'e go_error option \<times> ('sch, 'lg, 'rest) cli_flags" where
  "flags_loop [] g = (None, g)"
| "flags_loop (peer # peers) g =
     (case peerFromFlag (cliRaftConfiguration g) peer of
        Inl err \<Rightarrow> (Some err, g)
      | Inr cluster \<Rightarrow>
          flags_loop peers
            (g\<lparr>cliRaftConfiguration := (cliRaftConfiguration g)
                 \<lparr>mc_Peers := mc_Peers (cliRaftConfiguration g) @ [cluster]\<rparr>\<rparr>))"

definition RaftConfigurationFromFlags ::
  "('sch, 'lg, 'rest) cli_flags \<Rightarrow>
   ('e go_error + ('sch, 'lg, 'rest) RaftConfiguration) \<times> ('sch, 'lg, 'rest) cli_flags" where
  "RaftConfigurationFromFlags g =
     (case flags_loop (cliRaftConfigurationPeers g) g of
        (Some err, g1) \<Rightarrow> (Inl err, g1)
      | (None, g1) \<Rightarrow> (Inr (cliRaftConfiguration g1), g1))"

section \<open>The logger adapter\<close>

text \<open>
  \<open>raftLogr\<close> hands etcd's log calls to a \<open>logr\<close> logger: what it writes, and whether the call returns, exits
  the process or panics. The text is already formatted (\<open>fmt.Sprint\<close> or \<open>fmt.Sprintf\<close>).
\<close>

datatype log_line = Info nat string | Error string string
datatype log_end = LogReturns | ExitProcess nat | LogPanics string

definition raftLogr_Debug :: "string \<Rightarrow> log_line list \<times> log_end" where
  "raftLogr_Debug txt = ([Info 1 (''[DEBUG] '' @ txt)], LogReturns)"
definition raftLogr_Error :: "string \<Rightarrow> log_line list \<times> log_end" where
  "raftLogr_Error txt = ([Error txt txt], LogReturns)"
definition raftLogr_Info :: "string \<Rightarrow> log_line list \<times> log_end" where
  "raftLogr_Info txt = ([Info 0 (''[INFO] '' @ txt)], LogReturns)"
definition raftLogr_Warning :: "string \<Rightarrow> log_line list \<times> log_end" where
  "raftLogr_Warning txt = ([Info 0 (''[WARN] '' @ txt)], LogReturns)"
definition raftLogr_Fatal :: "string \<Rightarrow> log_line list \<times> log_end" where
  "raftLogr_Fatal txt = (fst (raftLogr_Error txt), ExitProcess 1)"
definition raftLogr_Panic :: "string \<Rightarrow> log_line list \<times> log_end" where
  "raftLogr_Panic txt = (fst (raftLogr_Error txt), LogPanics txt)"

section \<open>Facts about the hash\<close>

text \<open>Both halves of a step can be undone: the prime is odd.\<close>

definition fnv_inverse :: u64 where "fnv_inverse = 14886173955864302971"

lemma fnv_prime_inverse: "fnv_prime * fnv_inverse = 1"
  by (simp add: fnv_prime_def fnv_inverse_def)

lemma fnv_step_undo: "fnv_step h c * fnv_inverse XOR of_char c = h"
  by (simp add: fnv_step_def mult.assoc fnv_prime_inverse xor.assoc)

lemma fnv_step_inj: "fnv_step h c = fnv_step h' c \<longleftrightarrow> h = h'"
  using fnv_step_undo by metis

lemma fnv_fold_inj: "foldl fnv_step h s = foldl fnv_step h' s \<longleftrightarrow> h = h'"
  by (induction s arbitrary: h h') (auto simp: fnv_step_inj)

lemma of_char_u64_inj: "(of_char c :: u64) = of_char d \<longleftrightarrow> c = d"
proof
  assume "(of_char c :: u64) = of_char d"
  then have "unat (word_of_nat (of_char c) :: u64) = unat (word_of_nat (of_char d) :: u64)"
    by (simp only: of_nat_of_char)
  moreover have "(of_char x :: nat) < 2 ^ 64" for x :: char
    by (rule less_trans [OF nat_of_char_less_256]) simp
  ultimately have "(of_char c :: nat) = of_char d" by (simp add: unat_of_nat)
  then show "c = d" by simp
qed simp

lemma fnv_step_char: "fnv_step h c = fnv_step h d \<longleftrightarrow> c = d"
proof
  assume "fnv_step h c = fnv_step h d"
  then have "(h XOR of_char c) * fnv_prime * fnv_inverse = (h XOR of_char d) * fnv_prime * fnv_inverse"
    by (simp add: fnv_step_def)
  then have "h XOR of_char c = h XOR of_char d" by (simp add: mult.assoc fnv_prime_inverse)
  then have "h XOR (h XOR of_char c) = h XOR (h XOR of_char d)" by simp
  then have "(of_char c :: u64) = of_char d" by (simp flip: xor.assoc)
  then show "c = d" by (simp only: of_char_u64_inj)
qed simp

section \<open>Facts about validation and flags\<close>

lemma validate_mc_None:
  "validate_mc r = None \<longleftrightarrow>
     mc_Name r \<noteq> '''' \<and> mc_Address r \<noteq> '''' \<and> mc_Peers r \<noteq> [] \<and>
     (mc_Insecure r \<or> mc_CAFile r \<noteq> '''' \<and> mc_PrivateKeyFile r \<noteq> '''' \<and> mc_CertificateFile r \<noteq> '''')"
  by (auto simp: validate_mc_def)

lemma peerFromFlag_mc_Peers [simp]:
  "peerFromFlag (mc_Peers_update f c) = peerFromFlag c"
  by (rule ext) (simp add: peerFromFlag_def split: option.split)

lemma flags_loop_success:
  assumes "list_all2 (\<lambda>v c. peerFromFlag (cliRaftConfiguration g) v = (Inr c :: 'e go_error + RaftCluster)) vs cs"
  shows "(flags_loop vs g :: 'e go_error option \<times> _) =
    (None, g\<lparr>cliRaftConfiguration := (cliRaftConfiguration g)
        \<lparr>mc_Peers := mc_Peers (cliRaftConfiguration g) @ cs\<rparr>\<rparr>)"
  using assms
proof (induction vs arbitrary: cs g)
  case Nil
  then show ?case by simp
next
  case (Cons v vs)
  then obtain c ds where cs: "cs = c # ds" and hd: "peerFromFlag (cliRaftConfiguration g) v = (Inr c :: 'e go_error + RaftCluster)"
    and tl: "list_all2 (\<lambda>v c. peerFromFlag (cliRaftConfiguration g) v = (Inr c :: 'e go_error + RaftCluster)) vs ds"
    by (auto simp: list_all2_Cons1)
  let ?g = "g\<lparr>cliRaftConfiguration := (cliRaftConfiguration g)
        \<lparr>mc_Peers := mc_Peers (cliRaftConfiguration g) @ [c]\<rparr>\<rparr>"
  from tl have "list_all2 (\<lambda>v c. peerFromFlag (cliRaftConfiguration ?g) v = (Inr c :: 'e go_error + RaftCluster)) vs ds"
    by simp
  from Cons.IH [OF this] hd cs show ?case by simp
qed

section \<open>Properties\<close>

text \<open>
  The ids of two names that differ in one character are different, wherever the character stands and
  whatever is around it.
\<close>

theorem hash_distinguishes_one_char:
  "stringToHash (p @ c # s) = stringToHash (p @ d # s) \<longleftrightarrow> c = d"
  by (simp add: stringToHash_def fnv_fold_inj fnv_step_char)

text \<open>
  C39: a flag \<open>name://host:port/path\<close> is read as the three parts it was written with, except that the letters
  of the name become lower case: a node whose name has a capital letter does not find itself among
  its peers.
\<close>

theorem peer_flag_parse:
  assumes "plain_scheme name" and "plain_host host" and "list_all is_digit port" and "plain_path path"
    and "path \<noteq> [] \<or> mc_Bootstrap configuration"
  shows "peerFromFlag configuration (name @ ''://'' @ plain_address host port @ path) =
    Inr \<lparr>rcl_Name = map to_lower name, rcl_Address = host @ '':'' @ port, rcl_KubeconfigFile = path\<rparr>"
  unfolding peerFromFlag_def url_Parse_plain [OF assms(1-4)]
  using assms(5) by (auto simp: plain_address_def)

definition example_mc :: "(unit, unit, unit) RaftConfiguration" where
  "example_mc =
     \<lparr>mc_Name = ''Node-a'', mc_Address = ''10.0.0.1:9443'', mc_Peers = [], mc_ElectionTimeout = 0,
      mc_HeartbeatInterval = 0, mc_Meta = [], mc_Scheme = None, mc_Logger = (), mc_Metrics = False,
      mc_RestConfig = None, mc_Insecure = True, mc_CAFile = [], mc_PrivateKeyFile = [],
      mc_CertificateFile = [], mc_Bootstrap = True, mc_KubernetesAPIServer = [],
      mc_KubeconfigNamespace = [], mc_KubeconfigName = []\<rparr>"

theorem peer_flag_parse_witness:
  "peerFromFlag example_mc ''Node-a://10.0.0.1:9443/etc/kube'' =
     Inr \<lparr>rcl_Name = ''node-a'', rcl_Address = ''10.0.0.1:9443'', rcl_KubeconfigFile = ''/etc/kube''\<rparr>"
  using peer_flag_parse [of "''Node-a''" "''10.0.0.1''" "''9443''" "''/etc/kube''" example_mc]
  by (simp add: plain_scheme_def plain_host_def plain_char_def plain_path_def plain_address_def
      is_lower_def is_upper_def is_digit_def is_ctl_def to_lower_def char_of_def bit_0)

text \<open>
  Reading the flags twice duplicates the peers. The first call returns the peers of the flags behind
  those that the package variable had; the second call returns the peers of the flags twice.
\<close>

theorem flags_twice_duplicate:
  assumes "list_all2 (\<lambda>v c. peerFromFlag (cliRaftConfiguration g) v = (Inr c :: 'e go_error + RaftCluster))
    (cliRaftConfigurationPeers g) cs"
  shows "case (RaftConfigurationFromFlags g :: ('e go_error + _) \<times> _) of (r1, g1) \<Rightarrow>
    r1 = Inr ((cliRaftConfiguration g)\<lparr>mc_Peers := mc_Peers (cliRaftConfiguration g) @ cs\<rparr>) \<and>
    fst (RaftConfigurationFromFlags g1 :: ('e go_error + _) \<times> _) =
      Inr ((cliRaftConfiguration g)\<lparr>mc_Peers := mc_Peers (cliRaftConfiguration g) @ cs @ cs\<rparr>)"
proof -
  let ?g = "g\<lparr>cliRaftConfiguration := (cliRaftConfiguration g)
        \<lparr>mc_Peers := mc_Peers (cliRaftConfiguration g) @ cs\<rparr>\<rparr>"
  have "(peerFromFlag (cliRaftConfiguration ?g) :: _ \<Rightarrow> 'e go_error + RaftCluster) =
      peerFromFlag (cliRaftConfiguration g)"
    by simp
  with assms have "list_all2 (\<lambda>v c. peerFromFlag (cliRaftConfiguration ?g) v = (Inr c :: 'e go_error + RaftCluster))
      (cliRaftConfigurationPeers ?g) cs"
    by simp
  from flags_loop_success [OF this] flags_loop_success [OF assms] show ?thesis
    by (simp add: RaftConfigurationFromFlags_def)
qed

theorem flags_twice_duplicate_witness:
  "map rcl_Name (case fst (RaftConfigurationFromFlags (snd (RaftConfigurationFromFlags
       \<lparr>cliRaftConfiguration = example_mc, cliRaftConfigurationPeers = [''a://h:1'', ''b://h:2'']\<rparr>
       :: (string go_error + _) \<times> _)) :: (string go_error + _) \<times> _) of Inl e \<Rightarrow> [] | Inr c \<Rightarrow> mc_Peers c) =
     [''a'', ''b'', ''a'', ''b'']"
proof -
  have parse: "(peerFromFlag example_mc (n @ ''://'' @ ''h:'' @ p) :: string go_error + _) =
      Inr \<lparr>rcl_Name = map to_lower n, rcl_Address = ''h:'' @ p, rcl_KubeconfigFile = ''''\<rparr>"
    if "plain_scheme n" "list_all is_digit p" for n p
    using url_Parse_plain [OF that(1) _ that(2), of "''h''" "[]"]
    by (simp add: peerFromFlag_def plain_host_def plain_char_def is_lower_def plain_path_def
        plain_address_def example_mc_def)
  have a: "(peerFromFlag example_mc ''a://h:1'' :: string go_error + _) =
      Inr \<lparr>rcl_Name = ''a'', rcl_Address = ''h:1'', rcl_KubeconfigFile = ''''\<rparr>"
    and b: "(peerFromFlag example_mc ''b://h:2'' :: string go_error + _) =
      Inr \<lparr>rcl_Name = ''b'', rcl_Address = ''h:2'', rcl_KubeconfigFile = ''''\<rparr>"
    using parse [of "''a''" "''1''"] parse [of "''b''" "''2''"]
    by (simp_all add: plain_scheme_def is_lower_def is_upper_def is_digit_def to_lower_def)
  show ?thesis
    using flags_twice_duplicate [where 'e = string and
        g = "\<lparr>cliRaftConfiguration = example_mc, cliRaftConfigurationPeers = [''a://h:1'', ''b://h:2'']\<rparr>"
        and cs = "[\<lparr>rcl_Name = ''a'', rcl_Address = ''h:1'', rcl_KubeconfigFile = ''''\<rparr>,
          \<lparr>rcl_Name = ''b'', rcl_Address = ''h:2'', rcl_KubeconfigFile = ''''\<rparr>]"] a b
    by (auto simp: example_mc_def split: prod.splits)
qed

end
