(* ===== verification/Kube_Config.thy ===== *)
theory Kube_Config
  imports Prelude
begin

text \<open>
  The configuration of the Kubernetes lock (\<open>kube/locker.go\<close>): its record, its validation with
  the defaults it fills in, and the construction of one lease lock (\<open>kube/single.go\<close>).
  The type \<open>'cfg\<close> is \<open>rest.Config\<close> and \<open>'r\<close> is \<open>recorder.Provider\<close>; both are client-go and
  controller-runtime types.
\<close>

section \<open>Constants and records\<close>

definition defaultRenewDeadline :: duration where "defaultRenewDeadline = 15 * second"
definition defaultLeaseDuration :: duration where "defaultLeaseDuration = 30 * second"
definition defaultRetryPeriod :: duration where "defaultRetryPeriod = 5 * second"

record 'cfg ClusterNamespaceConfig =
  cn_Namespace :: string
  cn_Config :: "'cfg option"

record ('cfg, 'r) LockConfiguration =
  lc_ID :: string
  lc_Name :: string
  lc_Configs :: "'cfg ClusterNamespaceConfig list"
  lc_LeaderLabels :: "string \<rightharpoonup> string"
  lc_RenewDeadline :: duration
  lc_LeaseDuration :: duration
  lc_RetryPeriod :: duration
  lc_RecorderProvider :: "'r option"

section \<open>Validation\<close>

text \<open>The loop over the cluster configurations stops at the first incomplete one.\<close>

fun validate_configs :: "'cfg ClusterNamespaceConfig list \<Rightarrow> 'e go_error option" where
  "validate_configs [] = None"
| "validate_configs (c # cs) =
     (if cn_Namespace c = '''' then Some (New ''all lock configs must specify namespace'' [])
      else if cn_Config c = None then Some (New ''all lock configs must specify kube config'' [])
      else validate_configs cs)"

definition validate_kube ::
  "('cfg, 'r) LockConfiguration \<Rightarrow> 'e go_error + ('cfg, 'r) LockConfiguration" where
  "validate_kube lc =
     (if lc_Name lc = '''' then Inl (New ''lock name must be specified'' [])
      else if length (lc_Configs lc) = 0 then Inl (New ''configurations must be specified'' [])
      else (case validate_configs (lc_Configs lc) of
        Some err \<Rightarrow> Inl err
      | None \<Rightarrow>
          let lc1 = (if lc_RenewDeadline lc = 0
                     then lc\<lparr>lc_RenewDeadline := defaultRenewDeadline\<rparr> else lc);
              lc2 = (if lc_LeaseDuration lc1 = 0
                     then lc1\<lparr>lc_LeaseDuration := defaultLeaseDuration\<rparr> else lc1);
              lc3 = (if lc_RetryPeriod lc2 = 0
                     then lc2\<lparr>lc_RetryPeriod := defaultRetryPeriod\<rparr> else lc2)
          in Inr lc3))"

lemmas default_defs = defaultRenewDeadline_def defaultLeaseDuration_def defaultRetryPeriod_def

text \<open>What a complete cluster configuration is, and what the loop decides.\<close>

definition complete :: "'cfg ClusterNamespaceConfig \<Rightarrow> bool" where
  "complete c \<longleftrightarrow> cn_Namespace c \<noteq> '''' \<and> cn_Config c \<noteq> None"

lemma validate_configs_None [config_simps]:
  "validate_configs cs = None \<longleftrightarrow> (\<forall>c \<in> set cs. complete c)"
  by (induction cs) (auto simp: complete_def)

lemma validate_kube_Inr_iff:
  "(validate_kube lc :: 'e go_error + ('cfg, 'r) LockConfiguration) = Inr lc' \<longleftrightarrow>
     lc_Name lc \<noteq> '''' \<and> lc_Configs lc \<noteq> [] \<and> (\<forall>c \<in> set (lc_Configs lc). complete c) \<and>
     lc' = lc\<lparr>lc_RenewDeadline := if lc_RenewDeadline lc = 0 then defaultRenewDeadline
                                  else lc_RenewDeadline lc,
              lc_LeaseDuration := if lc_LeaseDuration lc = 0 then defaultLeaseDuration
                                  else lc_LeaseDuration lc,
              lc_RetryPeriod := if lc_RetryPeriod lc = 0 then defaultRetryPeriod
                                else lc_RetryPeriod lc\<rparr>"
proof (cases "validate_configs (lc_Configs lc) :: 'e go_error option")
  case None
  then have "\<forall>c \<in> set (lc_Configs lc). complete c" by (simp add: config_simps)
  with None show ?thesis by (cases lc) (auto simp: validate_kube_def Let_def)
next
  case (Some err)
  then have "\<not> (\<forall>c \<in> set (lc_Configs lc). complete c)"
    by (metis option.distinct(1) validate_configs_None)
  with Some show ?thesis by (auto simp: validate_kube_def)
qed

lemma validate_kube_frame:
  assumes "validate_kube lc = Inr lc'"
  shows "lc_ID lc' = lc_ID lc" and "lc_Name lc' = lc_Name lc" and "lc_Configs lc' = lc_Configs lc"
    and "lc_LeaderLabels lc' = lc_LeaderLabels lc"
    and "lc_RecorderProvider lc' = lc_RecorderProvider lc"
  using assms by (auto simp: validate_kube_Inr_iff)

lemma validate_kube_durations_nonzero:
  assumes "validate_kube lc = Inr lc'"
  shows "lc_RenewDeadline lc' \<noteq> 0" and "lc_LeaseDuration lc' \<noteq> 0" and "lc_RetryPeriod lc' \<noteq> 0"
  using assms by (auto simp: validate_kube_Inr_iff default_defs)

section \<open>One lease lock\<close>

text \<open>
  \<open>lease_timeout\<close> is the request timeout that \<open>newSingleResourceLock\<close> sets: half the renew
  deadline, at least a second; with no renew deadline the timeout of the given configuration stays.
\<close>

definition lease_timeout :: "duration \<Rightarrow> duration option" where
  "lease_timeout deadline =
     (if deadline \<noteq> 0 then
        let timeout = go_div deadline 2;
            timeout' = (if timeout < second then second else timeout)
        in Some timeout'
      else None)"

text \<open>
  The calls into client-go and controller-runtime that the constructor makes; a nil \<open>rest.Config\<close> makes it panic. \<open>LeaseLock\<close> builds
  the lock value from the fields the code sets: namespace, name, client, identity, the event
  recorder when there is a provider, and the labels.
\<close>

record ('cfg, 'r, 'cl, 'ev, 'e, 'lock) lease_api =
  AddUserAgent :: "'cfg \<Rightarrow> string \<Rightarrow> 'cfg"
  SetTimeout :: "duration \<Rightarrow> 'cfg \<Rightarrow> 'cfg"
  NewForConfig :: "'cfg \<Rightarrow> 'e go_error + 'cl"
  GetEventRecorderFor :: "'r \<Rightarrow> string \<Rightarrow> 'ev"
  LeaseLock :: "string \<Rightarrow> string \<Rightarrow> 'cl \<Rightarrow> string \<Rightarrow> 'ev option \<Rightarrow> (string \<rightharpoonup> string) \<Rightarrow> 'lock"

definition newSingleResourceLock ::
  "('cfg, 'r, 'cl, 'ev, 'e, 'lock) lease_api \<Rightarrow> string \<Rightarrow> ('cfg, 'r) LockConfiguration \<Rightarrow>
   'cfg ClusterNamespaceConfig \<Rightarrow> ('e go_error + 'lock) outcome" where
  "newSingleResourceLock api ident config cnConfig =
     (case cn_Config cnConfig of
       None \<Rightarrow> Panics ''nil rest.Config''
     | Some cfg \<Rightarrow>
        let k8sConfig = AddUserAgent api cfg ''leader-election'';
            k8sConfig' = (case lease_timeout (lc_RenewDeadline config) of
                            Some timeout \<Rightarrow> SetTimeout api timeout k8sConfig
                          | None \<Rightarrow> k8sConfig)
        in case NewForConfig api k8sConfig' of
          Inl err \<Rightarrow> Returns (Inl err)
        | Inr coordinationClient \<Rightarrow>
            let recorder = map_option (\<lambda>p. GetEventRecorderFor api p ident) (lc_RecorderProvider config)
            in Returns (Inr (LeaseLock api (cn_Namespace cnConfig) (lc_Name config)
                  coordinationClient ident recorder (lc_LeaderLabels config))))"

lemma lease_timeout_ge_second: "lease_timeout d = Some t \<Longrightarrow> second \<le> t"
  by (auto simp: lease_timeout_def Let_def split: if_splits)

lemma lease_timeout_half:
  "2 * second \<le> d \<Longrightarrow> lease_timeout d = Some (d div 2)"
  by (auto simp: lease_timeout_def Let_def go_div_nonneg)

lemma newSingleResourceLock_returns:
  "complete c \<Longrightarrow> \<exists>r. newSingleResourceLock api ident config c = Returns r"
  by (auto simp: newSingleResourceLock_def complete_def Let_def split: sum.splits)

section \<open>Properties\<close>

text \<open>
  Validation succeeds exactly on a configuration with a name and at least one cluster, each with
  a namespace and a kube config; the result is the configuration with the three zero durations
  replaced by their defaults, and validating it again changes nothing.
\<close>

theorem validate_kube_spec:
  "((\<exists>lc'. (validate_kube lc :: 'e go_error + ('cfg, 'r) LockConfiguration) = Inr lc') \<longleftrightarrow>
      lc_Name lc \<noteq> '''' \<and> lc_Configs lc \<noteq> [] \<and> list_all complete (lc_Configs lc)) \<and>
   (case (validate_kube lc :: 'e go_error + ('cfg, 'r) LockConfiguration) of
      Inl err \<Rightarrow> True
    | Inr lc' \<Rightarrow>
        lc' = lc\<lparr>lc_RenewDeadline := if lc_RenewDeadline lc = 0 then 15 * second else lc_RenewDeadline lc,
                lc_LeaseDuration := if lc_LeaseDuration lc = 0 then 30 * second else lc_LeaseDuration lc,
                lc_RetryPeriod := if lc_RetryPeriod lc = 0 then 5 * second else lc_RetryPeriod lc\<rparr> \<and>
        (validate_kube lc' :: 'e go_error + ('cfg, 'r) LockConfiguration) = Inr lc')"
  by (auto simp: validate_kube_Inr_iff default_defs list_all_iff split: sum.splits)

text \<open>
  The request timeout of a lease lock built from a validated configuration is at least one
  second and, unless that minimum applies, at most half the renew deadline, so that two requests
  fit into it.
\<close>

theorem lease_timeout_bounds:
  assumes "validate_kube lc = Inr lc'"
  shows "\<exists>t. lease_timeout (lc_RenewDeadline lc') = Some t \<and> second \<le> t \<and>
    (t = second \<or> 2 * t \<le> lc_RenewDeadline lc')"
proof -
  from validate_kube_durations_nonzero(1) [OF assms] obtain t where
    t: "lease_timeout (lc_RenewDeadline lc') = Some t" by (auto simp: lease_timeout_def Let_def)
  moreover from t have "t = second \<or> (second \<le> go_div (lc_RenewDeadline lc') 2 \<and> t = go_div (lc_RenewDeadline lc') 2)"
    by (auto simp: lease_timeout_def Let_def split: if_splits)
  moreover have "0 < d \<Longrightarrow> 2 * go_div d 2 \<le> d" for d :: int
    by (simp add: go_div_nonneg)
  moreover have "second \<le> go_div d 2 \<Longrightarrow> 0 < d" for d :: int
    by (cases "d = 0"; cases "0 < d") (simp_all add: signed_divide_int_def)
  ultimately show ?thesis using lease_timeout_ge_second by fastforce
qed

definition example_config :: "(nat, unit) LockConfiguration" where
  "example_config =
     \<lparr>lc_ID = ''one'', lc_Name = ''multi'',
      lc_Configs = [\<lparr>cn_Namespace = ''namespace-1'', cn_Config = Some 1\<rparr>,
                    \<lparr>cn_Namespace = ''namespace-2'', cn_Config = Some 2\<rparr>],
      lc_LeaderLabels = Map.empty, lc_RenewDeadline = 0, lc_LeaseDuration = 0, lc_RetryPeriod = 0,
      lc_RecorderProvider = None\<rparr>"

definition valid_example :: "(nat, unit) LockConfiguration" where
  "valid_example = example_config\<lparr>lc_RenewDeadline := 15 * second, lc_LeaseDuration := 30 * second,
     lc_RetryPeriod := 5 * second\<rparr>"

lemma validate_example: "validate_kube example_config = Inr valid_example"
  by (simp add: validate_kube_Inr_iff example_config_def valid_example_def complete_def default_defs)

lemma lease_timeout_bounds_witness:
  "lease_timeout (15 * second) = Some 7500000000 \<and>
   (\<exists>t. lease_timeout (lc_RenewDeadline valid_example) = Some t \<and> second \<le> t \<and>
      (t = second \<or> 2 * t \<le> lc_RenewDeadline valid_example))"
  using lease_timeout_bounds [OF validate_example] by (simp add: lease_timeout_half)

end
