(* ===== verification/Kube_Multi.thy ===== *)
theory Kube_Multi
  imports Kube_Config
begin

text \<open>
  The multi-cluster lock of \<open>kube/multi.go\<close>: a \<open>resourcelock.Interface\<close> over one primary and
  several secondary locks. The interface of client-go is the record \<open>resource_lock\<close> of
  operations on a world \<open>'w\<close> (the API servers and the client-side caches); what the program
  relies on in an implementation of it is the locale \<open>lease_family\<close>.
\<close>

section \<open>The lock interface\<close>

text \<open>
  Of client-go's election record the code reads and writes the holder only; the other fields are
  the extension \<open>'m\<close> of the record. \<open>lock_env\<close> holds what the code calls in client-go,
  apimachinery and \<open>encoding/json\<close>: the classification of errors, the serialisation of a record,
  the concatenation of raw records and the identity that stands for an unknown leader.
\<close>

record LeaderElectionRecord =
  HolderIdentity :: string

record ('w, 'e, 'm) resource_lock =
  rl_Get :: "('w, 'e, 'm LeaderElectionRecord_scheme \<times> bytes) action"
  rl_Create :: "'m LeaderElectionRecord_scheme \<Rightarrow> ('w, 'e) effect"
  rl_Update :: "'m LeaderElectionRecord_scheme \<Rightarrow> ('w, 'e) effect"
  rl_RecordEvent :: "string \<Rightarrow> 'w \<Rightarrow> 'w"
  rl_Describe :: string
  rl_Identity :: string

record ('e, 'm) lock_env =
  IsNotFound :: "'e go_error \<Rightarrow> bool"
  IsAlreadyExists :: "'e go_error \<Rightarrow> bool"
  MarshalRecord :: "'m LeaderElectionRecord_scheme \<Rightarrow> 'e go_error + bytes"
  ConcatRawRecord :: "bytes \<Rightarrow> bytes \<Rightarrow> bytes"
  UnknownLeader :: string

section \<open>The multi lock\<close>

record ('w, 'e, 'm) multiLock =
  ml_primary :: "('w, 'e, 'm) resource_lock"
  ml_secondaries :: "('w, 'e, 'm) resource_lock list"

text \<open>
  \<open>get_secondaries\<close> is the loop of \<open>Get\<close>: \<open>primary\<close> is the record read from the primary lock, which
  the loop overwrites with the unknown leader on a disagreement, and \<open>raw\<close> is the variable
  \<open>record\<close> of the code. A secondary that is not found ends the loop when its own identity does
  not hold the primary lock.
\<close>

fun get_secondaries ::
  "('e, 'm) lock_env \<Rightarrow> 'm LeaderElectionRecord_scheme \<Rightarrow> bytes \<Rightarrow>
   ('w, 'e, 'm) resource_lock list \<Rightarrow> ('w, 'e, 'm LeaderElectionRecord_scheme \<times> bytes) action" where
  "get_secondaries env primary raw [] w = (Inr (primary, raw), w)"
| "get_secondaries env primary raw (ml # mls) w =
     (case rl_Get ml w of
        (Inl err, w1) \<Rightarrow>
          if IsNotFound env err \<and> HolderIdentity primary \<noteq> rl_Identity ml
          then (Inr (primary, raw), w1)
          else (Inl err, w1)
      | (Inr (secondary, secondaryRaw), w1) \<Rightarrow>
          if HolderIdentity primary \<noteq> HolderIdentity secondary then
            let primary' = primary\<lparr>HolderIdentity := UnknownLeader env\<rparr>
            in case MarshalRecord env primary' of
                 Inl err \<Rightarrow> (Inl err, w1)
               | Inr raw' \<Rightarrow>
                   get_secondaries env primary' (ConcatRawRecord env raw' secondaryRaw) mls w1
          else get_secondaries env primary (ConcatRawRecord env raw secondaryRaw) mls w1)"

definition multi_Get ::
  "('e, 'm) lock_env \<Rightarrow> ('w, 'e, 'm) multiLock \<Rightarrow>
   ('w, 'e, 'm LeaderElectionRecord_scheme \<times> bytes) action" where
  "multi_Get env ml w =
     (case rl_Get (ml_primary ml) w of
        (Inl err, w1) \<Rightarrow> (Inl err, w1)
      | (Inr (primary, raw), w1) \<Rightarrow> get_secondaries env primary raw (ml_secondaries ml) w1)"

fun create_secondaries ::
  "('e, 'm) lock_env \<Rightarrow> 'm LeaderElectionRecord_scheme \<Rightarrow>
   ('w, 'e, 'm) resource_lock list \<Rightarrow> ('w, 'e) effect" where
  "create_secondaries env ler [] w = (None, w)"
| "create_secondaries env ler (ml # mls) w =
     (case rl_Create ml ler w of
        (Some err, w1) \<Rightarrow>
          if \<not> IsAlreadyExists env err then (Some err, w1)
          else create_secondaries env ler mls w1
      | (None, w1) \<Rightarrow> create_secondaries env ler mls w1)"

definition multi_Create ::
  "('e, 'm) lock_env \<Rightarrow> ('w, 'e, 'm) multiLock \<Rightarrow> 'm LeaderElectionRecord_scheme \<Rightarrow>
   ('w, 'e) effect" where
  "multi_Create env ml ler w =
     (case rl_Create (ml_primary ml) ler w of
        (Some err, w1) \<Rightarrow>
          if \<not> IsAlreadyExists env err then (Some err, w1)
          else create_secondaries env ler (ml_secondaries ml) w1
      | (None, w1) \<Rightarrow> create_secondaries env ler (ml_secondaries ml) w1)"

text \<open>
  The loop of \<open>Update\<close> reads each secondary first; one that is not found is created, and the
  result of that creation is the result of the whole update.
\<close>

definition not_found_result :: "('e, 'm) lock_env \<Rightarrow> 'e go_error + 'a \<Rightarrow> bool" where
  "not_found_result env r = (case r of Inl err \<Rightarrow> IsNotFound env err | Inr _ \<Rightarrow> False)"

fun update_secondaries ::
  "('e, 'm) lock_env \<Rightarrow> 'm LeaderElectionRecord_scheme \<Rightarrow>
   ('w, 'e, 'm) resource_lock list \<Rightarrow> ('w, 'e) effect" where
  "update_secondaries env ler [] w = (None, w)"
| "update_secondaries env ler (ml # mls) w =
     (case rl_Get ml w of
        (got, w1) \<Rightarrow>
          if not_found_result env got then rl_Create ml ler w1
          else (case rl_Update ml ler w1 of
                  (Some err, w2) \<Rightarrow> (Some err, w2)
                | (None, w2) \<Rightarrow> update_secondaries env ler mls w2))"

definition multi_Update ::
  "('e, 'm) lock_env \<Rightarrow> ('w, 'e, 'm) multiLock \<Rightarrow> 'm LeaderElectionRecord_scheme \<Rightarrow>
   ('w, 'e) effect" where
  "multi_Update env ml ler w =
     (case rl_Update (ml_primary ml) ler w of
        (Some err, w1) \<Rightarrow> (Some err, w1)
      | (None, w1) \<Rightarrow> update_secondaries env ler (ml_secondaries ml) w1)"

definition multi_RecordEvent :: "('w, 'e, 'm) multiLock \<Rightarrow> string \<Rightarrow> 'w \<Rightarrow> 'w" where
  "multi_RecordEvent ml s w =
     foldl (\<lambda>w ml. rl_RecordEvent ml s w) (rl_RecordEvent (ml_primary ml) s w) (ml_secondaries ml)"

definition multi_Describe :: "('w, 'e, 'm) multiLock \<Rightarrow> string" where
  "multi_Describe ml = rl_Describe (ml_primary ml)"

definition multi_Identity :: "('w, 'e, 'm) multiLock \<Rightarrow> string" where
  "multi_Identity ml = rl_Identity (ml_primary ml)"

text \<open>The multi lock as a value of the interface, with the methods above.\<close>

definition as_lock ::
  "('e, 'm) lock_env \<Rightarrow> ('w, 'e, 'm) multiLock \<Rightarrow> ('w, 'e, 'm) resource_lock" where
  "as_lock env ml =
     \<lparr>rl_Get = multi_Get env ml, rl_Create = multi_Create env ml, rl_Update = multi_Update env ml,
      rl_RecordEvent = multi_RecordEvent ml, rl_Describe = multi_Describe ml,
      rl_Identity = multi_Identity ml\<rparr>"

section \<open>Construction\<close>

type_synonym ('w, 'e, 'm, 'cfg, 'r, 'cl, 'ev) lock_api =
  "('cfg, 'r, 'cl, 'ev, 'e, ('w, 'e, 'm) resource_lock) lease_api"

fun new_secondaries ::
  "('w, 'e, 'm, 'cfg, 'r, 'cl, 'ev) lock_api \<Rightarrow> string \<Rightarrow> ('cfg, 'r) LockConfiguration \<Rightarrow>
   'cfg ClusterNamespaceConfig list \<Rightarrow> ('e go_error + ('w, 'e, 'm) resource_lock list) outcome" where
  "new_secondaries api ident config [] = Returns (Inr [])"
| "new_secondaries api ident config (c # cs) =
     (case newSingleResourceLock api ident config c of
        Panics p \<Rightarrow> Panics p
      | Returns (Inl err) \<Rightarrow> Returns (Inl err)
      | Returns (Inr l) \<Rightarrow>
          (case new_secondaries api ident config cs of
             Returns (Inr ls) \<Rightarrow> Returns (Inr (l # ls))
           | r \<Rightarrow> r))"

definition newMultiResourceLock ::
  "('e, 'm) lock_env \<Rightarrow> ('w, 'e, 'm, 'cfg, 'r, 'cl, 'ev) lock_api \<Rightarrow> string \<Rightarrow>
   ('cfg, 'r) LockConfiguration \<Rightarrow> ('e go_error + ('w, 'e, 'm) resource_lock) outcome" where
  "newMultiResourceLock env api ident config =
     (case lc_Configs config of
        c0 # c1 # cs \<Rightarrow>
          (case new_secondaries api ident config (c1 # cs) of
             Panics p \<Rightarrow> Panics p
           | Returns (Inl err) \<Rightarrow> Returns (Inl err)
           | Returns (Inr secondaryLocks) \<Rightarrow>
               (case newSingleResourceLock api ident config c0 of
                  Panics p \<Rightarrow> Panics p
                | Returns (Inl err) \<Rightarrow> Returns (Inl err)
                | Returns (Inr primaryLock) \<Rightarrow>
                    Returns (Inr (as_lock env
                      \<lparr>ml_primary = primaryLock, ml_secondaries = secondaryLocks\<rparr>))))
      | _ \<Rightarrow> Returns (Inl (New
          ''at least two configurations are required to create a multi resource lock'' [])))"

end
