(* ===== verification/Lease_Contract.thy ===== *)
theory Lease_Contract
  imports Kube_Multi
begin

text \<open>
  What the multi lock relies on in the locks it is made of, as two locales, and what it then
  promises. The locks form a family indexed by \<open>'i\<close> (a cluster), \<open>lease i w\<close> is the election
  record that cluster \<open>i\<close> stores in the world \<open>w\<close>, and every call may fail.
\<close>

section \<open>How far a write gets\<close>

text \<open>
  \<open>written lease ss ler w w' k\<close>: the locks before position \<open>k\<close> hold the new record, lock \<open>k\<close> may or may
  not, and no other lease has changed.
\<close>

definition written ::
  "('i \<Rightarrow> 'w \<Rightarrow> 'm LeaderElectionRecord_scheme option) \<Rightarrow> 'i list \<Rightarrow>
   'm LeaderElectionRecord_scheme \<Rightarrow> 'w \<Rightarrow> 'w \<Rightarrow> nat \<Rightarrow> bool" where
  "written lease ss ler w w' k \<longleftrightarrow> k \<le> length ss \<and>
     (\<forall>i \<in> set (take k ss). lease i w' = Some ler) \<and>
     (k < length ss \<longrightarrow> lease (ss ! k) w' = lease (ss ! k) w \<or> lease (ss ! k) w' = Some ler) \<and>
     (\<forall>j. j \<notin> set (take (Suc k) ss) \<longrightarrow> lease j w' = lease j w)"

section \<open>The contract of a family of lease locks\<close>

text \<open>
  A call on lock \<open>i\<close> touches the lease of cluster \<open>i\<close> only. A failed \<open>Create\<close> or \<open>Update\<close> may or
  may not have reached the server; \<open>Create\<close> never overwrites a lease, and an ``already exists''
  error says that nothing was written.
\<close>

locale lease_family =
  fixes L :: "'i \<Rightarrow> ('w, 'e, 'm) resource_lock"
    and env :: "('e, 'm) lock_env"
    and lease :: "'i \<Rightarrow> 'w \<Rightarrow> 'm LeaderElectionRecord_scheme option"
  assumes get_ok: "rl_Get (L i) w = (Inr (r, b), w') \<Longrightarrow> lease i w = Some r"
    and get_missing: "rl_Get (L i) w = (Inl e, w') \<Longrightarrow> IsNotFound env e \<Longrightarrow> lease i w = None"
    and get_frame: "rl_Get (L i) w = (g, w') \<Longrightarrow> lease j w' = lease j w"
    and create_ok: "rl_Create (L i) r w = (None, w') \<Longrightarrow> lease i w = None \<and> lease i w' = Some r"
    and create_exists: "rl_Create (L i) r w = (Some e, w') \<Longrightarrow> IsAlreadyExists env e \<Longrightarrow>
      lease i w \<noteq> None \<and> lease i w' = lease i w"
    and create_err: "rl_Create (L i) r w = (Some e, w') \<Longrightarrow>
      lease i w' = lease i w \<or> (lease i w = None \<and> lease i w' = Some r)"
    and create_frame: "rl_Create (L i) r w = (x, w') \<Longrightarrow> j \<noteq> i \<Longrightarrow> lease j w' = lease j w"
    and update_ok: "rl_Update (L i) r w = (None, w') \<Longrightarrow> lease i w' = Some r"
    and update_err: "rl_Update (L i) r w = (Some e, w') \<Longrightarrow>
      lease i w' = lease i w \<or> lease i w' = Some r"
    and update_frame: "rl_Update (L i) r w = (x, w') \<Longrightarrow> j \<noteq> i \<Longrightarrow> lease j w' = lease j w"
begin

lemmas frames = get_frame create_frame update_frame

text \<open>The loop of \<open>Get\<close>: the holder it returns is the one it was given, or the unknown leader.\<close>

lemma get_secondaries_holder:
  "get_secondaries env p b ls w = (Inr (r, b'), w') \<Longrightarrow>
     HolderIdentity r = HolderIdentity p \<or> HolderIdentity r = UnknownLeader env"
  by (induction env p b ls w rule: get_secondaries.induct)
     (auto simp: Let_def split: prod.splits sum.splits if_splits)

lemma get_secondaries_agree:
  assumes "get_secondaries env p b (map L ss) w = (Inr (r, b'), w')"
    and "HolderIdentity r \<noteq> UnknownLeader env"
  shows "HolderIdentity r = HolderIdentity p \<and>
    (\<exists>k \<le> length ss.
       (\<forall>i \<in> set (take k ss). \<exists>q. lease i w = Some q \<and> HolderIdentity q = HolderIdentity r) \<and>
       (k < length ss \<longrightarrow> lease (ss ! k) w = None \<and> HolderIdentity r \<noteq> rl_Identity (L (ss ! k))))"
  using assms
proof (induction ss arbitrary: p b w)
  case Nil
  then show ?case by simp
next
  case (Cons s ss)
  from Cons.prems(2) have known: "HolderIdentity r \<noteq> UnknownLeader env" .
  show ?case
  proof (cases "rl_Get (L s) w")
    case (Pair g w1)
    note same = get_frame [OF Pair]
    show ?thesis
    proof (cases g)
      case (Inl e)
      with Pair Cons.prems(1) have "IsNotFound env e" and "r = p"
        and "HolderIdentity p \<noteq> rl_Identity (L s)"
        by (auto split: if_splits)
      moreover from this Pair Inl have "lease s w = None" using get_missing by blast
      ultimately show ?thesis by (intro conjI exI [of _ 0]) auto
    next
      case (Inr qb)
      obtain q c where qb: "qb = (q, c)" by (cases qb)
      from Pair Inr qb have q: "lease s w = Some q" by (auto dest: get_ok)
      have agree: "HolderIdentity p = HolderIdentity q"
      proof (rule ccontr)
        assume "HolderIdentity p \<noteq> HolderIdentity q"
        with Pair Inr qb Cons.prems(1) show False
          using known by (auto simp: Let_def split: sum.splits dest: get_secondaries_holder)
      qed
      with Pair Inr qb Cons.prems(1)
      have rest: "get_secondaries env p (ConcatRawRecord env b c) (map L ss) w1 = (Inr (r, b'), w')"
        by simp
      from Cons.IH [OF rest known] obtain k where hr: "HolderIdentity r = HolderIdentity p"
        and k: "k \<le> length ss"
        and seen: "\<forall>i \<in> set (take k ss). \<exists>q. lease i w1 = Some q \<and> HolderIdentity q = HolderIdentity r"
        and stop: "k < length ss \<longrightarrow>
          lease (ss ! k) w1 = None \<and> HolderIdentity r \<noteq> rl_Identity (L (ss ! k))" by blast
      from k seen stop q agree hr have
        "Suc k \<le> length (s # ss) \<and>
         (\<forall>i \<in> set (take (Suc k) (s # ss)). \<exists>q. lease i w = Some q \<and> HolderIdentity q = HolderIdentity r) \<and>
         (Suc k < length (s # ss) \<longrightarrow> lease ((s # ss) ! Suc k) w = None \<and>
            HolderIdentity r \<noteq> rl_Identity (L ((s # ss) ! Suc k)))"
        by (auto simp: same)
      with hr show ?thesis by blast
    qed
  qed
qed

text \<open>
  \<open>Get\<close> names a known holder only when the locks it read agree on it; it stops early only at a
  missing lease.
\<close>

lemma multi_Get_agree:
  assumes "multi_Get env \<lparr>ml_primary = L p, ml_secondaries = map L ss\<rparr> w = (Inr (r, b), w')"
    and "HolderIdentity r \<noteq> UnknownLeader env"
  shows "\<exists>k \<le> length ss.
    (\<forall>i \<in> set (p # take k ss). \<exists>q. lease i w = Some q \<and> HolderIdentity q = HolderIdentity r) \<and>
    (k < length ss \<longrightarrow> lease (ss ! k) w = None \<and> HolderIdentity r \<noteq> rl_Identity (L (ss ! k)))"
proof -
  from assms(1) obtain q c w1 where q: "rl_Get (L p) w = (Inr (q, c), w1)"
    and rest: "get_secondaries env q c (map L ss) w1 = (Inr (r, b), w')"
    by (auto simp: multi_Get_def split: prod.splits sum.splits)
  note same = get_frame [OF q]
  from get_secondaries_agree [OF rest assms(2), unfolded same] obtain k where
    "HolderIdentity r = HolderIdentity q" "k \<le> length ss"
    "\<forall>i \<in> set (take k ss). \<exists>q. lease i w = Some q \<and> HolderIdentity q = HolderIdentity r"
    "k < length ss \<longrightarrow> lease (ss ! k) w = None \<and> HolderIdentity r \<noteq> rl_Identity (L (ss ! k))"
    by blast
  with get_ok [OF q] show ?thesis by (intro exI [of _ k]) auto
qed

lemma written_Cons:
  assumes "written lease ss ler w1 w' k" and "s \<notin> set ss" and "lease s w1 = Some ler"
    and "\<And>j. j \<noteq> s \<Longrightarrow> lease j w1 = lease j w"
  shows "written lease (s # ss) ler w w' (Suc k)"
proof -
  have "s \<notin> set (take (Suc k) ss)" using assms(2) by (meson in_set_takeD)
  with assms(1,3) have "lease s w' = Some ler" by (simp add: written_def)
  moreover have "ss ! k \<noteq> s" if "k < length ss" using that assms(2) by auto
  ultimately show ?thesis using assms(1,4) by (auto simp: written_def)
qed

lemma written_0I:
  assumes "lease s w' = lease s w \<or> lease s w' = Some ler"
    and "\<And>j. j \<noteq> s \<Longrightarrow> lease j w' = lease j w"
  shows "written lease (s # ss) ler w w' 0"
  using assms by (auto simp: written_def)

text \<open>
  How far the loop of \<open>Update\<close> gets. It returns no error only after the last lock, or at a missing
  lease, which it creates without looking at the locks after it.
\<close>

lemma update_secondaries_written:
  assumes "update_secondaries env ler (map L ss) w = (x, w')" and "distinct ss"
  shows "\<exists>k. written lease ss ler w w' k \<and>
    (x = None \<longrightarrow> k < length ss \<longrightarrow> lease (ss ! k) w = None \<and> lease (ss ! k) w' = Some ler)"
  using assms
proof (induction ss arbitrary: w)
  case Nil
  then show ?case by (auto simp: written_def)
next
  case (Cons s ss)
  obtain g w1 where got: "rl_Get (L s) w = (g, w1)" by (cases "rl_Get (L s) w")
  note same = get_frame [OF got]
  show ?case
  proof (cases "not_found_result env g")
    case True
    then obtain e where "g = Inl e" "IsNotFound env e"
      by (auto simp: not_found_result_def split: sum.splits)
    with got have none: "lease s w = None" using get_missing by blast
    from True got Cons.prems(1) have made: "rl_Create (L s) ler w1 = (x, w')" by simp
    have "lease s w' = lease s w \<or> lease s w' = Some ler"
      using create_ok [of s ler w1 w'] create_err [of s ler w1 _ w'] made same
      by (cases x) auto
    moreover have "x = None \<longrightarrow> lease s w' = Some ler"
      using create_ok [of s ler w1 w'] made by auto
    ultimately show ?thesis
      using written_0I [of s w' w ler ss] create_frame [OF made] same none
      by (intro exI [of _ 0]) auto
  next
    case False
    obtain y w2 where up: "rl_Update (L s) ler w1 = (y, w2)" by (cases "rl_Update (L s) ler w1")
    note frame = update_frame [OF up]
    show ?thesis
    proof (cases y)
      case (Some e)
      with False got up Cons.prems(1) have "x = Some e" and "w' = w2" by auto
      with update_err [of s ler w1 e w2] up Some frame same show ?thesis
        using written_0I [of s w' w ler ss] by (intro exI [of _ 0]) auto
    next
      case None
      with False got up Cons.prems(1)
      have rest: "update_secondaries env ler (map L ss) w2 = (x, w')" by auto
      from Cons.prems(2) have s: "s \<notin> set ss" and "distinct ss" by auto
      from Cons.IH [OF rest this(2)] obtain k where k: "written lease ss ler w2 w' k"
        and last: "x = None \<longrightarrow> k < length ss \<longrightarrow>
          lease (ss ! k) w2 = None \<and> lease (ss ! k) w' = Some ler" by blast
      have frame2: "\<And>j. j \<noteq> s \<Longrightarrow> lease j w2 = lease j w" using frame same by simp
      have "written lease (s # ss) ler w w' (Suc k)"
        using written_Cons [OF k s _ frame2] update_ok [of s ler w1 w2] up None by simp
      moreover have "k < length ss \<Longrightarrow> lease (ss ! k) w2 = lease (ss ! k) w"
        using s frame2 by (metis nth_mem)
      ultimately show ?thesis using last by (intro exI [of _ "Suc k"]) auto
    qed
  qed
qed

lemma multi_Update_written:
  assumes "multi_Update env \<lparr>ml_primary = L p, ml_secondaries = map L ss\<rparr> ler w = (x, w')"
    and "distinct (p # ss)"
  shows "\<exists>k. written lease (p # ss) ler w w' k \<and>
    (x = None \<longrightarrow> 0 < k \<and> (k < Suc (length ss) \<longrightarrow>
       lease ((p # ss) ! k) w = None \<and> lease ((p # ss) ! k) w' = Some ler))"
proof -
  obtain y w1 where up: "rl_Update (L p) ler w = (y, w1)" by (cases "rl_Update (L p) ler w")
  note frame = update_frame [OF up]
  show ?thesis
  proof (cases y)
    case (Some e)
    with assms(1) up have "x = Some e" and "w' = w1" by (auto simp: multi_Update_def)
    with update_err [of p ler w e w1] up Some frame show ?thesis
      using written_0I [of p w' w ler ss] by (intro exI [of _ 0]) auto
  next
    case None
    with assms(1) up have rest: "update_secondaries env ler (map L ss) w1 = (x, w')"
      by (auto simp: multi_Update_def)
    from assms(2) have p: "p \<notin> set ss" and "distinct ss" by auto
    from update_secondaries_written [OF rest this(2)] obtain k where k: "written lease ss ler w1 w' k"
      and last: "x = None \<longrightarrow> k < length ss \<longrightarrow>
        lease (ss ! k) w1 = None \<and> lease (ss ! k) w' = Some ler" by blast
    have "written lease (p # ss) ler w w' (Suc k)"
      using written_Cons [OF k p _ frame] update_ok [of p ler w w1] up None by simp
    moreover have "k < length ss \<Longrightarrow> lease (ss ! k) w1 = lease (ss ! k) w"
      using p frame by (metis nth_mem)
    ultimately show ?thesis using last by (intro exI [of _ "Suc k"]) auto
  qed
qed

text \<open>When every lease exists, an update without error has reached every cluster.\<close>

lemma multi_Update_all:
  assumes "multi_Update env \<lparr>ml_primary = L p, ml_secondaries = map L ss\<rparr> ler w = (None, w')"
    and "distinct (p # ss)" and "\<forall>i \<in> set ss. lease i w \<noteq> None"
  shows "\<forall>i \<in> set (p # ss). lease i w' = Some ler"
proof -
  from multi_Update_written [OF assms(1,2)] obtain k where k: "written lease (p # ss) ler w w' k"
    and pos: "0 < k" and missing: "k < Suc (length ss) \<longrightarrow> lease ((p # ss) ! k) w = None" by blast
  have "k = Suc (length ss)"
  proof (rule ccontr)
    assume "k \<noteq> Suc (length ss)"
    with k have "k < Suc (length ss)" by (simp add: written_def)
    with pos missing have "k - 1 < length ss" "lease (ss ! (k - 1)) w = None"
      by (auto simp: nth_Cons')
    with assms(3) show False by (metis nth_mem)
  qed
  with k show ?thesis by (simp add: written_def)
qed

text \<open>
  \<open>Create\<close> fills the missing leases and keeps the others, whoever holds them; it fails only for an
  error other than ``already exists''.
\<close>

lemma create_secondaries_keeps:
  "create_secondaries env ler (map L ss) w = (x, w') \<Longrightarrow> lease i w = Some r \<Longrightarrow> lease i w' = Some r"
proof (induction ss arbitrary: w)
  case Nil
  then show ?case by simp
next
  case (Cons s ss)
  obtain y w1 where made: "rl_Create (L s) ler w = (y, w1)" by (cases "rl_Create (L s) ler w")
  have "lease i w1 = Some r"
    using create_frame [OF made, of i] create_ok [of s ler w w1] create_err [of s ler w _ w1]
      made Cons.prems(2) by (cases y; cases "i = s") auto
  with Cons.IH [of w1] Cons.prems made show ?case by (auto split: option.splits if_splits)
qed

lemma create_secondaries_fills:
  "create_secondaries env ler (map L ss) w = (None, w') \<Longrightarrow> i \<in> set ss \<Longrightarrow> lease i w = None \<Longrightarrow>
     lease i w' = Some ler"
proof (induction ss arbitrary: w)
  case Nil
  then show ?case by simp
next
  case (Cons s ss)
  obtain y w1 where made: "rl_Create (L s) ler w = (y, w1)" by (cases "rl_Create (L s) ler w")
  with Cons.prems(1) have rest: "create_secondaries env ler (map L ss) w1 = (None, w')"
    and exists: "\<And>e. y = Some e \<Longrightarrow> IsAlreadyExists env e"
    by (auto split: option.splits if_splits)
  show ?case
  proof (cases "i = s")
    case True
    have "y = None"
    proof (cases y)
      case (Some e)
      with create_exists [of s ler w e w1] made exists True Cons.prems(3) show ?thesis by simp
    qed simp
    with made True create_ok have "lease i w1 = Some ler" by blast
    with rest show ?thesis by (rule create_secondaries_keeps)
  next
    case False
    with create_frame [OF made] Cons.prems(3) have "lease i w1 = None" by simp
    with Cons.IH [OF rest] False Cons.prems(2) show ?thesis by simp
  qed
qed

lemma multi_Create_eq:
  "multi_Create env \<lparr>ml_primary = L p, ml_secondaries = map L ss\<rparr> ler w =
     create_secondaries env ler (map L (p # ss)) w"
  by (auto simp: multi_Create_def split: prod.splits option.splits)

lemma multi_Create_keeps:
  "multi_Create env \<lparr>ml_primary = L p, ml_secondaries = map L ss\<rparr> ler w = (x, w') \<Longrightarrow>
     lease i w = Some r \<Longrightarrow> lease i w' = Some r"
  unfolding multi_Create_eq by (rule create_secondaries_keeps)

lemma multi_Create_fills:
  "multi_Create env \<lparr>ml_primary = L p, ml_secondaries = map L ss\<rparr> ler w = (None, w') \<Longrightarrow>
     i \<in> set (p # ss) \<Longrightarrow> lease i w = None \<Longrightarrow> lease i w' = Some ler"
  unfolding multi_Create_eq by (rule create_secondaries_fills)

end

section \<open>Leases without failures\<close>

text \<open>
  The same family when no call fails for a reason of its own: every call does what the state of
  the lease allows.
\<close>

locale reliable_leases = lease_family L env lease
  for L :: "'i \<Rightarrow> ('w, 'e, 'm) resource_lock" and env :: "('e, 'm) lock_env"
    and lease :: "'i \<Rightarrow> 'w \<Rightarrow> 'm LeaderElectionRecord_scheme option" +
  assumes get_found: "lease i w = Some r \<Longrightarrow> \<exists>b. rl_Get (L i) w = (Inr (r, b), w)"
    and get_none: "lease i w = None \<Longrightarrow> \<exists>e. rl_Get (L i) w = (Inl e, w) \<and> IsNotFound env e"
    and create_free: "lease i w = None \<Longrightarrow> \<exists>w'. rl_Create (L i) r w = (None, w')"
    and create_taken: "lease i w = Some q \<Longrightarrow>
      \<exists>e. rl_Create (L i) r w = (Some e, w) \<and> IsAlreadyExists env e"
    and update_found: "lease i w = Some q \<Longrightarrow> \<exists>w'. rl_Update (L i) r w = (None, w')"
    and marshals: "\<exists>b. MarshalRecord env r = Inr b"
begin

lemma update_secondaries_all_found:
  "distinct ss \<Longrightarrow> \<forall>i \<in> set ss. lease i w \<noteq> None \<Longrightarrow>
     \<exists>w'. update_secondaries env ler (map L ss) w = (None, w')"
proof (induction ss arbitrary: w)
  case Nil
  then show ?case by simp
next
  case (Cons s ss)
  from Cons.prems(2) obtain q where q: "lease s w = Some q" by auto
  from get_found [OF q] obtain b where got: "rl_Get (L s) w = (Inr (q, b), w)" by blast
  from update_found [OF q] obtain w1 where up: "rl_Update (L s) ler w = (None, w1)" by blast
  from Cons.prems(1) have same: "i \<in> set ss \<Longrightarrow> lease i w1 = lease i w" for i
    by (metis distinct.simps(2) update_frame [OF up])
  from Cons.prems same have "distinct ss" and "\<forall>i \<in> set ss. lease i w1 \<noteq> None" by auto
  from Cons.IH [OF this] got up show ?case by (simp add: not_found_result_def)
qed

lemma multi_Update_all_found:
  assumes "distinct (p # ss)" and "\<forall>i \<in> set (p # ss). lease i w \<noteq> None"
  shows "\<exists>w'. multi_Update env \<lparr>ml_primary = L p, ml_secondaries = map L ss\<rparr> ler w = (None, w')"
proof -
  from assms(2) obtain q where q: "lease p w = Some q" by auto
  from update_found [OF q] obtain w1 where up: "rl_Update (L p) ler w = (None, w1)" by blast
  from assms(1) have same: "i \<in> set ss \<Longrightarrow> lease i w1 = lease i w" for i
    by (metis distinct.simps(2) update_frame [OF up])
  from assms same have "distinct ss" and "\<forall>i \<in> set ss. lease i w1 \<noteq> None" by auto
  from update_secondaries_all_found [OF this] up show ?thesis by (simp add: multi_Update_def)
qed

text \<open>A missing secondary ends the update with success, before the locks behind it.\<close>

lemma multi_Update_missing:
  assumes "distinct (p # s # ss)" and "lease p w \<noteq> None" and "lease s w = None"
  shows "\<exists>w'. multi_Update env \<lparr>ml_primary = L p, ml_secondaries = map L (s # ss)\<rparr> ler w = (None, w') \<and>
    lease p w' = Some ler \<and> lease s w' = Some ler \<and> (\<forall>i \<in> set ss. lease i w' = lease i w)"
proof -
  from assms(2) obtain q where q: "lease p w = Some q" by blast
  from update_found [OF q] obtain w1 where up: "rl_Update (L p) ler w = (None, w1)" by blast
  from assms(1,3) update_frame [OF up] have none: "lease s w1 = None" by auto
  from get_none [OF none] obtain e where got: "rl_Get (L s) w1 = (Inl e, w1)" "IsNotFound env e"
    by blast
  from create_free [OF none] obtain w2 where made: "rl_Create (L s) ler w1 = (None, w2)" by blast
  have "multi_Update env \<lparr>ml_primary = L p, ml_secondaries = map L (s # ss)\<rparr> ler w = (None, w2)"
    using up got made by (simp add: multi_Update_def not_found_result_def)
  moreover have "lease p w2 = Some ler" "lease s w2 = Some ler"
    using assms(1) create_frame [OF made, of p] update_ok [OF up] create_ok [OF made] by auto
  moreover have "\<forall>i \<in> set ss. lease i w2 = lease i w"
  proof
    fix i assume "i \<in> set ss"
    with assms(1) have "i \<noteq> s" and "i \<noteq> p" by auto
    then show "lease i w2 = lease i w"
      by (simp add: create_frame [OF made] update_frame [OF up])
  qed
  ultimately show ?thesis by blast
qed

text \<open>With every lease present, \<open>Get\<close> answers, and names the common holder or the unknown leader.\<close>

lemma get_secondaries_all_found:
  "\<forall>i \<in> set ss. lease i w \<noteq> None \<Longrightarrow>
     \<exists>r b'. get_secondaries env p b (map L ss) w = (Inr (r, b'), w) \<and>
       HolderIdentity r =
         (if \<forall>i \<in> set ss. \<forall>q. lease i w = Some q \<longrightarrow> HolderIdentity q = HolderIdentity p
          then HolderIdentity p else UnknownLeader env)"
proof (induction ss arbitrary: p b)
  case Nil
  then show ?case by simp
next
  case (Cons s ss)
  from Cons.prems obtain q where q: "lease s w = Some q" by auto
  from get_found [OF q] obtain c where got: "rl_Get (L s) w = (Inr (q, c), w)" by blast
  show ?case
  proof (cases "HolderIdentity p = HolderIdentity q")
    case True
    with got q Cons.IH [of p "ConcatRawRecord env b c"] Cons.prems show ?thesis by simp
  next
    case False
    let ?p = "p\<lparr>HolderIdentity := UnknownLeader env\<rparr>"
    from marshals obtain m where m: "MarshalRecord env ?p = Inr m" by blast
    have "\<exists>r b'. get_secondaries env ?p (ConcatRawRecord env m c) (map L ss) w = (Inr (r, b'), w) \<and>
        HolderIdentity r = UnknownLeader env"
      using Cons.IH [of ?p "ConcatRawRecord env m c"] Cons.prems by (auto split: if_splits)
    moreover have "\<not> (\<forall>i \<in> set (s # ss). \<forall>q. lease i w = Some q \<longrightarrow> HolderIdentity q = HolderIdentity p)"
      using q False by auto
    ultimately show ?thesis using got m False q by (auto simp: Let_def)
  qed
qed

lemma multi_Get_all_found:
  assumes "lease p w = Some q" and "\<forall>i \<in> set ss. lease i w \<noteq> None"
  shows "\<exists>r b. multi_Get env \<lparr>ml_primary = L p, ml_secondaries = map L ss\<rparr> w = (Inr (r, b), w) \<and>
    HolderIdentity r =
      (if \<forall>i \<in> set ss. \<forall>r. lease i w = Some r \<longrightarrow> HolderIdentity r = HolderIdentity q
       then HolderIdentity q else UnknownLeader env)"
proof -
  from get_found [OF assms(1)] obtain c where "rl_Get (L p) w = (Inr (q, c), w)" by blast
  with get_secondaries_all_found [OF assms(2), of q c] show ?thesis by (simp add: multi_Get_def)
qed

text \<open>With every lease taken, \<open>Create\<close> reports success and changes nothing.\<close>

lemma create_secondaries_taken:
  "\<forall>i \<in> set ss. lease i w \<noteq> None \<Longrightarrow> create_secondaries env ler (map L ss) w = (None, w)"
proof (induction ss)
  case Nil
  then show ?case by simp
next
  case (Cons s ss)
  from Cons.prems obtain q where "lease s w = Some q" by auto
  from create_taken [OF this] obtain e where
    "rl_Create (L s) ler w = (Some e, w)" "IsAlreadyExists env e" by blast
  with Cons show ?case by simp
qed

lemma multi_Create_taken:
  "\<forall>i \<in> set (p # ss). lease i w \<noteq> None \<Longrightarrow>
     multi_Create env \<lparr>ml_primary = L p, ml_secondaries = map L ss\<rparr> ler w = (None, w)"
  unfolding multi_Create_eq by (rule create_secondaries_taken)

end

end
