(* ===== verification/Lease_Store.thy ===== *)
theory Lease_Store
  imports Lease_Contract
begin

text \<open>
  A reference instance of client-go's lease locks: API servers numbered by \<^typ>\<open>nat\<close> that store
  one election record per namespace and name, and never fail. It instantiates the parameters of
  \<open>kube/single.go\<close> and \<open>kube/multi.go\<close>, shows that the contracts of \<open>Lease_Contract\<close> can be
  met, and is where the properties of the multi lock are stated and applied to concrete leases.
\<close>

section \<open>The store\<close>

datatype api_error = LeaseNotFound | LeaseAlreadyExists

type_synonym lease_key = "nat \<times> string \<times> string"
type_synonym lease_store = "lease_key \<rightharpoonup> LeaderElectionRecord"

definition store_lock :: "string \<Rightarrow> lease_key \<Rightarrow> (lease_store, api_error, unit) resource_lock" where
  "store_lock ident k =
     \<lparr>rl_Get = (\<lambda>w. case w k of None \<Rightarrow> (Inl (Ext LeaseNotFound), w)
                           | Some r \<Rightarrow> (Inr (r, HolderIdentity r), w)),
      rl_Create = (\<lambda>r w. case w k of None \<Rightarrow> (None, w(k \<mapsto> r))
                           | Some _ \<Rightarrow> (Some (Ext LeaseAlreadyExists), w)),
      rl_Update = (\<lambda>r w. case w k of None \<Rightarrow> (Some (Ext LeaseNotFound), w)
                           | Some _ \<Rightarrow> (None, w(k \<mapsto> r))),
      rl_RecordEvent = (\<lambda>_ w. w),
      rl_Describe = fst (snd k) @ ''/'' @ snd (snd k),
      rl_Identity = ident\<rparr>"

definition store_api ::
  "(lease_store, api_error, unit, nat, unit, nat, unit) lock_api" where
  "store_api =
     \<lparr>AddUserAgent = (\<lambda>c _. c), SetTimeout = (\<lambda>_ c. c), NewForConfig = Inr,
      GetEventRecorderFor = (\<lambda>_ _. ()),
      LeaseLock = (\<lambda>namespace name client ident _ _. store_lock ident (client, namespace, name))\<rparr>"

definition store_env :: "(api_error, unit) lock_env" where
  "store_env =
     \<lparr>IsNotFound = (\<lambda>e. e = Ext LeaseNotFound),
      IsAlreadyExists = (\<lambda>e. e = Ext LeaseAlreadyExists),
      MarshalRecord = (\<lambda>r. Inr (HolderIdentity r)), ConcatRawRecord = (@),
      UnknownLeader = ''leaderelection.k8s.io/unknown''\<rparr>"

lemmas store_defs = store_lock_def store_api_def store_env_def

text \<open>The locks of the store meet both contracts.\<close>

interpretation store: reliable_leases "store_lock ident" store_env "\<lambda>k w. w k" for ident
  by unfold_locales (auto simp: store_lock_def store_env_def split: option.splits if_splits)

section \<open>Properties of the multi lock\<close>

text \<open>Leases for two and three clusters, each with its holder.\<close>

definition key :: "nat \<Rightarrow> lease_key" where
  "key i = (i, ''ns'', ''lock'')"

definition held :: "(nat \<times> string) list \<Rightarrow> lease_store" where
  "held hs = map_of (map (\<lambda>(i, h). (key i, \<lparr>HolderIdentity = h\<rparr>)) hs)"

lemma key_eq [simp]: "key i = key j \<longleftrightarrow> i = j"
  by (simp add: key_def)

lemma held_simps [simp]:
  "held [] k = None"
  "held ((i, h) # hs) (key j) = (if j = i then Some \<lparr>HolderIdentity = h\<rparr> else held hs (key j))"
  by (simp_all add: held_def)

lemmas store_eval = multi_Get_def multi_Create_def multi_Update_def store_defs not_found_result_def

text \<open>
  C14: agreement. The multi lock's \<open>Get\<close> reports a known holder only if every lease it read names that
  holder, and it leaves leases unread only behind a missing one whose lock does not belong to the
  holder. So while all leases exist, a candidate that reads a known holder from the multi lock
  holds the lock in every cluster.
\<close>

theorem multi_get_agreement:
  assumes "lease_family L env lease"
    and "multi_Get env \<lparr>ml_primary = L p, ml_secondaries = map L ss\<rparr> w = (Inr (r, b), w')"
    and "HolderIdentity r \<noteq> UnknownLeader env"
  shows "\<exists>k \<le> length ss.
    list_all (\<lambda>i. map_option HolderIdentity (lease i w) = Some (HolderIdentity r)) (p # take k ss) \<and>
    (k = length ss \<or> lease (ss ! k) w = None \<and> HolderIdentity r \<noteq> rl_Identity (L (ss ! k)))"
proof -
  from lease_family.multi_Get_agree [OF assms] obtain k where k: "k \<le> length ss"
    and "\<forall>i \<in> set (p # take k ss). \<exists>q. lease i w = Some q \<and> HolderIdentity q = HolderIdentity r"
    and "k < length ss \<longrightarrow> lease (ss ! k) w = None \<and> HolderIdentity r \<noteq> rl_Identity (L (ss ! k))"
    by blast
  then show ?thesis by (intro exI [of _ k]) (fastforce simp: list_all_iff)
qed

lemma multi_get_agreement_witness:
  "\<exists>k \<le> length [key 1, key 2].
    list_all (\<lambda>i. map_option HolderIdentity (held [(0, ''a''), (1, ''a''), (2, ''a'')] i) = Some ''a'')
      (key 0 # take k [key 1, key 2]) \<and>
    (k = length [key 1, key 2] \<or>
      held [(0, ''a''), (1, ''a''), (2, ''a'')] ([key 1, key 2] ! k) = None \<and>
      ''a'' \<noteq> rl_Identity (store_lock ''b'' ([key 1, key 2] ! k)))"
proof -
  have "multi_Get store_env
      \<lparr>ml_primary = store_lock ''b'' (key 0), ml_secondaries = map (store_lock ''b'') [key 1, key 2]\<rparr>
      (held [(0, ''a''), (1, ''a''), (2, ''a'')]) =
    (Inr (\<lparr>HolderIdentity = ''a''\<rparr>, ''aaa''), held [(0, ''a''), (1, ''a''), (2, ''a'')])"
    by (simp add: store_eval)
  from multi_get_agreement [OF store.lease_family_axioms this] show ?thesis
    by (simp add: store_env_def)
qed

text \<open>
  C21: how far an update gets. Whatever fails, a multi lock's \<open>Update\<close> has written a prefix of its
  locks (\<open>written\<close>): those before some position hold the new record, the one at that position may or
  may not, the others are as before; nothing is rolled back. It reports success only when the prefix
  is everything, or ends in a missing secondary lease that it has created.
\<close>

theorem multi_update_prefix:
  assumes "lease_family L env lease" and "distinct (p # ss)"
    and "multi_Update env \<lparr>ml_primary = L p, ml_secondaries = map L ss\<rparr> ler w = (x, w')"
  shows "\<exists>k. written lease (p # ss) ler w w' k \<and>
    (x = None \<longrightarrow> k = length (p # ss) \<or>
       0 < k \<and> lease ((p # ss) ! k) w = None \<and> lease ((p # ss) ! k) w' = Some ler)"
proof -
  from lease_family.multi_Update_written [OF assms(1,3,2)] obtain k where
    k: "written lease (p # ss) ler w w' k"
    and "x = None \<longrightarrow> 0 < k \<and> (k < Suc (length ss) \<longrightarrow>
      lease ((p # ss) ! k) w = None \<and> lease ((p # ss) ! k) w' = Some ler)" by blast
  moreover from k have "k \<le> Suc (length ss)" by (simp add: written_def)
  ultimately show ?thesis by (intro exI [of _ k]) auto
qed

lemma multi_update_prefix_witness:
  "\<exists>k. written (\<lambda>k w. w k) [key 0, key 1] \<lparr>HolderIdentity = ''a''\<rparr>
      (held [(0, ''b''), (1, ''b'')]) (held [(0, ''a''), (1, ''a'')]) k \<and>
    ((None :: api_error go_error option) = None \<longrightarrow> k = length [key 0, key 1] \<or>
       0 < k \<and> held [(0, ''b''), (1, ''b'')] ([key 0, key 1] ! k) = None \<and>
       held [(0, ''a''), (1, ''a'')] ([key 0, key 1] ! k) = Some \<lparr>HolderIdentity = ''a''\<rparr>)"
proof -
  have "multi_Update store_env
      \<lparr>ml_primary = store_lock ''a'' (key 0), ml_secondaries = map (store_lock ''a'') [key 1]\<rparr>
      \<lparr>HolderIdentity = ''a''\<rparr> (held [(0, ''b''), (1, ''b'')]) = (None, held [(0, ''a''), (1, ''a'')])"
    by (auto simp: store_eval held_def key_def fun_eq_iff)
  from multi_update_prefix [OF store.lease_family_axioms _ this] show ?thesis by simp
qed



text \<open>
  A creation that creates nothing. When every cluster already stores a lease, whoever holds it,
  the multi lock's \<open>Create\<close> reports success and leaves all leases as they are: the ``already exists''
  answers of the secondaries are dropped like that of the primary. A candidate that lost the race to
  create the lock is told that it won.
\<close>

theorem multi_create_taken_succeeds:
  assumes "reliable_leases L env lease" and "list_all (\<lambda>i. lease i w \<noteq> None) (p # ss)"
  shows "multi_Create env \<lparr>ml_primary = L p, ml_secondaries = map L ss\<rparr> ler w = (None, w)"
  using reliable_leases.multi_Create_taken [OF assms(1)] assms(2) by (simp add: list_all_iff)

lemma multi_create_taken_succeeds_witness:
  "multi_Create store_env \<lparr>ml_primary = store_lock ''b'' (key 0),
      ml_secondaries = map (store_lock ''b'') [key 1]\<rparr> \<lparr>HolderIdentity = ''b''\<rparr>
    (held [(0, ''a''), (1, ''a'')]) = (None, held [(0, ''a''), (1, ''a'')])"
  by (rule multi_create_taken_succeeds [OF store.reliable_leases_axioms]) simp

text \<open>
  An update that skips clusters. When the first secondary lease is missing, \<open>Update\<close> creates it
  and returns success at once; the locks behind it keep their old records, and \<open>Update\<close> is not
  retried because it reported no error.
\<close>

theorem multi_update_skips_behind_missing:
  assumes "reliable_leases L env lease" and "distinct (p # s # ss)"
    and "lease p w \<noteq> None" and "lease s w = None"
  shows "\<exists>w'. multi_Update env \<lparr>ml_primary = L p, ml_secondaries = map L (s # ss)\<rparr> ler w = (None, w') \<and>
    lease p w' = Some ler \<and> lease s w' = Some ler \<and> list_all (\<lambda>i. lease i w' = lease i w) ss"
  using reliable_leases.multi_Update_missing [OF assms] by (simp add: list_all_iff)

lemma multi_update_skips_behind_missing_witness:
  "\<exists>w'. multi_Update store_env \<lparr>ml_primary = store_lock ''a'' (key 0),
        ml_secondaries = map (store_lock ''a'') [key 1, key 2]\<rparr> \<lparr>HolderIdentity = ''a''\<rparr>
      (held [(0, ''b''), (2, ''b'')]) = (None, w') \<and>
    w' (key 0) = Some \<lparr>HolderIdentity = ''a''\<rparr> \<and> w' (key 1) = Some \<lparr>HolderIdentity = ''a''\<rparr> \<and>
    list_all (\<lambda>i. w' i = held [(0, ''b''), (2, ''b'')] i) [key 2]"
  by (rule multi_update_skips_behind_missing [OF store.reliable_leases_axioms]) simp_all

text \<open>
  Raw records. When both of two secondaries disagree with the primary, the raw record that \<open>Get\<close>
  returns consists of the rewritten primary record and the last secondary's bytes only: the bytes of
  the first secondary, \<open>b1\<close>, are lost, so a change of its lease does not change the result.
\<close>

theorem multi_get_drops_raw:
  assumes "rl_Get (ml_primary ml) w = (Inr (p, b), w0)" and "ml_secondaries ml = [s1, s2]"
    and "rl_Get s1 w0 = (Inr (r1, b1), w1)" and "rl_Get s2 w1 = (Inr (r2, b2), w2)"
    and "HolderIdentity r1 \<noteq> HolderIdentity p" and "HolderIdentity r2 \<noteq> UnknownLeader env"
    and "MarshalRecord env (p\<lparr>HolderIdentity := UnknownLeader env\<rparr>) = Inr m"
  shows "multi_Get env ml w =
    (Inr (p\<lparr>HolderIdentity := UnknownLeader env\<rparr>, ConcatRawRecord env m b2), w2)"
proof -
  from assms(5,6) have "HolderIdentity p \<noteq> HolderIdentity r1" "UnknownLeader env \<noteq> HolderIdentity r2"
    by auto
  with assms show ?thesis by (simp add: multi_Get_def Let_def)
qed

lemma multi_get_drops_raw_witness:
  "multi_Get store_env \<lparr>ml_primary = store_lock ''a'' (key 0),
      ml_secondaries = [store_lock ''a'' (key 1), store_lock ''a'' (key 2)]\<rparr>
    (held [(0, ''a''), (1, ''b''), (2, ''c'')]) =
   (Inr (\<lparr>HolderIdentity = UnknownLeader store_env\<rparr>, UnknownLeader store_env @ ''c''),
    held [(0, ''a''), (1, ''b''), (2, ''c'')])"
  using multi_get_drops_raw
    [of "\<lparr>ml_primary = store_lock ''a'' (key 0),
          ml_secondaries = [store_lock ''a'' (key 1), store_lock ''a'' (key 2)]\<rparr>"
        "held [(0, ''a''), (1, ''b''), (2, ''c'')]" "\<lparr>HolderIdentity = ''a''\<rparr>" "''a''"
        "held [(0, ''a''), (1, ''b''), (2, ''c'')]" "store_lock ''a'' (key 1)" "store_lock ''a'' (key 2)"
        "\<lparr>HolderIdentity = ''b''\<rparr>" "''b''" "held [(0, ''a''), (1, ''b''), (2, ''c'')]"
        "\<lparr>HolderIdentity = ''c''\<rparr>" "''c''" "held [(0, ''a''), (1, ''b''), (2, ''c'')]" store_env
        "UnknownLeader store_env"]
  by (simp add: store_defs)

end
