(* ===== verification/Leadership.thy ===== *)
theory Leadership
  imports Prelude
begin

text \<open>
  The interface between the two lock implementations and their client: a lock tells its client
  about leadership by the callbacks \<open>OnStartedLeading\<close> and \<open>OnStoppedLeading\<close> of its
  \<open>LeaderCallbacks\<close>. The locales say what a client may rely on.
\<close>

section \<open>Callbacks and the flag a client derives from them\<close>

datatype callback = OnStartedLeading | OnStoppedLeading

text \<open>
  The client of \<open>leader.go\<close> keeps one flag: the first callback sets it, the second clears it.
  \<open>deliver\<close> is that flag after a sequence of callbacks.
\<close>

fun deliver :: "bool \<Rightarrow> callback list \<Rightarrow> bool" where
  "deliver f [] = f"
| "deliver f (OnStartedLeading # cs) = deliver True cs"
| "deliver f (OnStoppedLeading # cs) = deliver False cs"

lemma deliver_append [simp]: "deliver f (cs @ ds) = deliver (deliver f cs) ds"
  by (induction f cs rule: deliver.induct) auto

text \<open>The callbacks alternate, starting with \<open>OnStartedLeading\<close> exactly when the flag is down.\<close>

fun alternates :: "bool \<Rightarrow> callback list \<Rightarrow> bool" where
  "alternates f [] = True"
| "alternates f (OnStartedLeading # cs) = (\<not> f \<and> alternates True cs)"
| "alternates f (OnStoppedLeading # cs) = (f \<and> alternates False cs)"

lemma alternates_append [simp]:
  "alternates f (cs @ ds) \<longleftrightarrow> alternates f cs \<and> alternates (deliver f cs) ds"
  by (induction f cs rule: alternates.induct) auto

section \<open>Running a lock\<close>

text \<open>
  A lock reacts to its inputs one after the other; \<open>run_lock\<close> collects the callbacks of a whole
  sequence of inputs, in order.
\<close>

fun run_lock :: "('s \<Rightarrow> 'i \<Rightarrow> 's \<times> callback list) \<Rightarrow> 's \<Rightarrow> 'i list \<Rightarrow> 's \<times> callback list" where
  "run_lock step s [] = (s, [])"
| "run_lock step s (i # is) =
     (let (s1, cs) = step s i; (s2, ds) = run_lock step s1 is in (s2, cs @ ds))"

lemma run_lock_append:
  "run_lock step s (is @ js) =
     (let (s1, cs) = run_lock step s is; (s2, ds) = run_lock step s1 js in (s2, cs @ ds))"
  by (induction "is" arbitrary: s) (auto simp: Let_def split: prod.splits)

lemma run_lock_snoc:
  "run_lock step s (is @ [i]) =
     (let (s1, cs) = run_lock step s is; (s2, ds) = step s1 i in (s2, cs @ ds))"
  by (simp add: run_lock_append split: prod.splits)

section \<open>The contracts\<close>

text \<open>
  \<open>leadership_source\<close>: an input \<open>promotes\<close> when it says that this node leads. \<open>rel s f\<close> relates the
  state of the lock to the flag of its client. The law \<open>safe\<close> is what makes the flag a lock: after
  an input that does not promote, the client does not believe to lead.
\<close>

locale leadership_source =
  fixes init :: 's
    and step :: "'s \<Rightarrow> 'i \<Rightarrow> 's \<times> callback list"
    and promotes :: "'i \<Rightarrow> bool"
    and rel :: "'s \<Rightarrow> bool \<Rightarrow> bool"
  assumes rel_init: "rel init False"
    and rel_step: "rel s f \<Longrightarrow> step s i = (s', cs) \<Longrightarrow> rel s' (deliver f cs)"
    and safe: "rel s f \<Longrightarrow> step s i = (s', cs) \<Longrightarrow> \<not> promotes i \<Longrightarrow> \<not> deliver f cs"
begin

lemma run_rel: "run_lock step init is = (s, cs) \<Longrightarrow> rel s (deliver False cs)"
proof (induction "is" arbitrary: s cs rule: rev_induct)
  case Nil
  then show ?case using rel_init by auto
next
  case (snoc i "is")
  then show ?case by (auto simp: run_lock_snoc Let_def split: prod.splits dest: rel_step)
qed

text \<open>Whatever happened before: the flag is up only if the last input said that this node leads.\<close>

lemma flag_safe:
  assumes "run_lock step init is = (s, cs)" and "deliver False cs"
  shows "is \<noteq> [] \<and> promotes (last is)"
proof (cases "is" rule: rev_cases)
  case Nil
  with assms show ?thesis by simp
next
  case (snoc js j)
  with assms(1) obtain s1 cs1 ds where run: "run_lock step init js = (s1, cs1)"
    and st: "step s1 j = (s, ds)" and cs: "cs = cs1 @ ds"
    by (auto simp: run_lock_snoc Let_def split: prod.splits)
  from safe [OF run_rel [OF run] st] assms(2) cs snoc show ?thesis by auto
qed

end

text \<open>
  \<open>faithful_source\<close>: every promoting input puts the flag up as well, so that the flag is exactly
  what the last input said.
\<close>

locale faithful_source = leadership_source init step promotes rel
  for init :: 's and step :: "'s \<Rightarrow> 'i \<Rightarrow> 's \<times> callback list"
    and promotes :: "'i \<Rightarrow> bool" and rel :: "'s \<Rightarrow> bool \<Rightarrow> bool" +
  assumes live: "rel s f \<Longrightarrow> step s i = (s', cs) \<Longrightarrow> promotes i \<Longrightarrow> deliver f cs"
begin

lemma flag_exact:
  assumes "run_lock step init is = (s, cs)"
  shows "deliver False cs \<longleftrightarrow> is \<noteq> [] \<and> promotes (last is)"
proof (cases "is" rule: rev_cases)
  case Nil
  with assms show ?thesis by simp
next
  case (snoc js j)
  with assms obtain s1 cs1 ds where run: "run_lock step init js = (s1, cs1)"
    and st: "step s1 j = (s, ds)" and cs: "cs = cs1 @ ds"
    by (auto simp: run_lock_snoc Let_def split: prod.splits)
  from live [OF run_rel [OF run] st] flag_safe [OF assms] cs snoc show ?thesis by auto
qed

end

end
