(* ===== verification/Kube_Elector.thy ===== *)
theory Kube_Elector
  imports Lease_Store Leadership
begin

text \<open>
  The leader elector of \<open>kube/locker.go\<close>: the callbacks that \<open>leaderElector\<close> hands to client-go,
  with the two atomic flags they share, and \<open>Run\<close>, which validates the configuration, builds the
  lock and starts the elector.
\<close>

section \<open>The callbacks of leaderElector\<close>

text \<open>
  The \<open>LeaderCallbacks\<close> of the client: which of the two function fields are not nil. A call of a
  field is emitted as a \<^typ>\<open>callback\<close>.
\<close>

record KubeLeaderCallbacks =
  has_OnStartedLeading :: bool
  has_OnStoppedLeading :: bool

record elector_flags =
  initialized :: bool
  isLeader :: bool

definition elector_init :: elector_flags where
  "elector_init = \<lparr>initialized = False, isLeader = False\<rparr>"

definition elector_started ::
  "KubeLeaderCallbacks option \<Rightarrow> elector_flags \<Rightarrow> elector_flags \<times> callback list" where
  "elector_started callbacks fl =
     (case callbacks of
        None \<Rightarrow> (fl, [])
      | Some cb \<Rightarrow>
          let fl1 = fl\<lparr>initialized := True\<rparr>;
              was = isLeader fl1;
              fl2 = fl1\<lparr>isLeader := True\<rparr>
          in (fl2, if \<not> was \<and> has_OnStartedLeading cb then [OnStartedLeading] else []))"

text \<open>
  \<open>OnStoppedLeading\<close> and \<open>OnNewLeader\<close> have the same body. The disjunction is evaluated from the
  left: when the first swap finds the flag down, \<open>isLeader\<close> is not touched.
\<close>

definition elector_stopped ::
  "KubeLeaderCallbacks option \<Rightarrow> elector_flags \<Rightarrow> elector_flags \<times> callback list" where
  "elector_stopped callbacks fl =
     (case callbacks of
        None \<Rightarrow> (fl, [])
      | Some cb \<Rightarrow>
          let wasInit = initialized fl;
              fl1 = fl\<lparr>initialized := True\<rparr>;
              was = isLeader fl1;
              fl2 = (if \<not> wasInit then fl1 else fl1\<lparr>isLeader := False\<rparr>)
          in (fl2, if (\<not> wasInit \<or> was) \<and> has_OnStoppedLeading cb then [OnStoppedLeading] else []))"

definition elector_new_leader ::
  "KubeLeaderCallbacks option \<Rightarrow> string \<Rightarrow> elector_flags \<Rightarrow> elector_flags \<times> callback list" where
  "elector_new_leader callbacks _ fl =
     (case callbacks of
        None \<Rightarrow> (fl, [])
      | Some cb \<Rightarrow>
          let wasInit = initialized fl;
              fl1 = fl\<lparr>initialized := True\<rparr>;
              was = isLeader fl1;
              fl2 = (if \<not> wasInit then fl1 else fl1\<lparr>isLeader := False\<rparr>)
          in (fl2, if (\<not> wasInit \<or> was) \<and> has_OnStoppedLeading cb then [OnStoppedLeading] else []))"

text \<open>The callbacks client-go may invoke, as one step function.\<close>

datatype elector_event = StartedLeading | StoppedLeading | NewLeader string

fun elector_step ::
  "KubeLeaderCallbacks option \<Rightarrow> elector_flags \<Rightarrow> elector_event \<Rightarrow> elector_flags \<times> callback list" where
  "elector_step callbacks fl StartedLeading = elector_started callbacks fl"
| "elector_step callbacks fl StoppedLeading = elector_stopped callbacks fl"
| "elector_step callbacks fl (NewLeader ident) = elector_new_leader callbacks ident fl"

fun elector_promotes :: "elector_event \<Rightarrow> bool" where
  "elector_promotes StartedLeading = True"
| "elector_promotes StoppedLeading = False"
| "elector_promotes (NewLeader _) = False"

definition elector_rel :: "elector_flags \<Rightarrow> bool \<Rightarrow> bool" where
  "elector_rel fl f \<longleftrightarrow> f = isLeader fl \<and> (isLeader fl \<longrightarrow> initialized fl)"

definition both_callbacks :: KubeLeaderCallbacks where
  "both_callbacks = \<lparr>has_OnStartedLeading = True, has_OnStoppedLeading = True\<rparr>"

lemmas elector_defs [step_simps] =
  elector_started_def elector_stopped_def elector_new_leader_def both_callbacks_def Let_def

text \<open>With both callbacks set, the elector is a faithful source of leadership.\<close>

interpretation elector: faithful_source elector_init "elector_step (Some both_callbacks)"
  elector_promotes elector_rel
proof unfold_locales
  show "elector_rel elector_init False" by (simp add: elector_rel_def elector_init_def)
next
  fix s f i s' cs
  assume "elector_rel s f" and "elector_step (Some both_callbacks) s i = (s', cs)"
  then show "elector_rel s' (deliver f cs)"
    by (cases i) (auto simp: elector_rel_def step_simps split: if_splits)
next
  fix s f i s' cs
  assume "elector_rel s f" and "elector_step (Some both_callbacks) s i = (s', cs)"
    and "\<not> elector_promotes i"
  then show "\<not> deliver f cs"
    by (cases i) (auto simp: elector_rel_def step_simps split: if_splits)
next
  fix s f i s' cs
  assume "elector_rel s f" and "elector_step (Some both_callbacks) s i = (s', cs)"
    and "elector_promotes i"
  then show "deliver f cs"
    by (cases i) (auto simp: elector_rel_def step_simps split: if_splits)
qed

text \<open>
  After the first input the callbacks alternate: a step emits a callback exactly when it moves the
  flag, except that the first input, if it does not promote, is reported once.
\<close>

lemma elector_step_alternates:
  assumes "elector_rel s f" and "initialized s" and "elector_step (Some both_callbacks) s i = (s', cs)"
  shows "initialized s' \<and> alternates f cs"
  using assms by (cases i) (auto simp: elector_rel_def step_simps split: if_splits)

lemma elector_run_alternates:
  "elector_rel s f \<Longrightarrow> initialized s \<Longrightarrow> run_lock (elector_step (Some both_callbacks)) s is = (s', cs) \<Longrightarrow>
     alternates f cs"
proof (induction "is" arbitrary: s f cs)
  case Nil
  then show ?case by simp
next
  case (Cons i "is")
  obtain s1 cs1 where st: "elector_step (Some both_callbacks) s i = (s1, cs1)"
    by (cases "elector_step (Some both_callbacks) s i")
  with Cons.prems(3) obtain ds where
    run: "run_lock (elector_step (Some both_callbacks)) s1 is = (s', ds)" and "cs = cs1 @ ds"
    by (auto split: prod.splits)
  with elector_step_alternates [OF Cons.prems(1,2) st]
    Cons.IH [OF elector.rel_step [OF Cons.prems(1) st] _ run] show ?case by simp
qed

section \<open>Building the elector and running it\<close>

text \<open>
  What \<open>leaderElector\<close> hands to \<open>leaderelection.NewLeaderElector\<close>; the closures over the two flags
  are the step function above.
\<close>

record 'lock LeaderElectionConfig =
  el_Lock :: 'lock
  el_LeaseDuration :: duration
  el_RenewDeadline :: duration
  el_RetryPeriod :: duration
  el_Callbacks :: "elector_flags \<Rightarrow> elector_event \<Rightarrow> elector_flags \<times> callback list"
  el_ReleaseOnCancel :: bool
  el_Name :: string

definition leaderElector ::
  "('lock LeaderElectionConfig \<Rightarrow> 'e go_error + 'el) \<Rightarrow> string \<Rightarrow> 'lock \<Rightarrow>
   KubeLeaderCallbacks option \<Rightarrow> ('cfg, 'r) LockConfiguration \<Rightarrow> 'e go_error + 'el" where
  "leaderElector NewLeaderElector name lock callbacks config =
     (case NewLeaderElector
        \<lparr>el_Lock = lock, el_LeaseDuration = lc_LeaseDuration config,
         el_RenewDeadline = lc_RenewDeadline config, el_RetryPeriod = lc_RetryPeriod config,
         el_Callbacks = elector_step callbacks, el_ReleaseOnCancel = True, el_Name = name\<rparr> of
        Inl err \<Rightarrow> Inl (Wrap ''failed to initialize leader elector'' [] err)
      | Inr elector \<Rightarrow> Inr elector)"

text \<open>
  The outside of \<open>Run\<close>: the host name and a fresh UUID, the constructor of electors and the blocking
  run of an elector, which acts on the world.
\<close>

record ('w, 'e, 'm, 'el) run_env =
  re_Hostname :: "'e go_error + string"
  re_NewUUID :: string
  re_NewLeaderElector :: "('w, 'e, 'm) resource_lock LeaderElectionConfig \<Rightarrow> 'e go_error + 'el"
  re_ElectorRun :: "'el \<Rightarrow> 'w \<Rightarrow> 'w"

text \<open>
  The identity that \<open>Run\<close> uses. In the branch for an empty \<open>ID\<close> the code declares a second variable
  \<open>id\<close> (with \<open>:=\<close>), gives it the generated identity, and leaves the outer one as it is: \<open>inner\<close> is
  computed and dropped.
\<close>

definition run_identity :: "('w, 'e, 'm, 'el) run_env \<Rightarrow> string \<Rightarrow> 'e go_error + string" where
  "run_identity re configID =
     (let outer = configID
      in if outer = '''' then
           (case re_Hostname re of
              Inl err \<Rightarrow> Inl err
            | Inr host \<Rightarrow> let inner = host @ ''_'' @ re_NewUUID re in Inr outer)
         else Inr outer)"

definition run_lock_for ::
  "('e, 'm) lock_env \<Rightarrow> ('w, 'e, 'm, 'cfg, 'r, 'cl, 'ev) lock_api \<Rightarrow> string \<Rightarrow>
   ('cfg, 'r) LockConfiguration \<Rightarrow> ('e go_error + ('w, 'e, 'm) resource_lock) outcome" where
  "run_lock_for env api ident config =
     (case lc_Configs config of
        [c] \<Rightarrow> newSingleResourceLock api ident config c
      | _ \<Rightarrow> newMultiResourceLock env api ident config)"

definition kube_Run ::
  "('e, 'm) lock_env \<Rightarrow> ('w, 'e, 'm, 'cfg, 'r, 'cl, 'ev) lock_api \<Rightarrow> ('w, 'e, 'm, 'el) run_env \<Rightarrow>
   ('cfg, 'r) LockConfiguration \<Rightarrow> KubeLeaderCallbacks option \<Rightarrow> 'w \<Rightarrow>
   ('e go_error option \<times> 'w) outcome" where
  "kube_Run env api re config0 callbacks w =
     (case validate_kube config0 of
        Inl err \<Rightarrow> Returns (Some err, w)
      | Inr config \<Rightarrow>
        (case run_identity re (lc_ID config) of
           Inl err \<Rightarrow> Returns (Some err, w)
         | Inr ident \<Rightarrow>
           (case run_lock_for env api ident config of
              Panics p \<Rightarrow> Panics p
            | Returns (Inl err) \<Rightarrow> Returns (Some (Wrap ''could not create resource lock'' [] err), w)
            | Returns (Inr lock) \<Rightarrow>
              (case leaderElector (re_NewLeaderElector re) (lc_Name config) lock callbacks config of
                 Inl err \<Rightarrow> Returns (Some (Wrap ''could not create leader elector'' [] err), w)
               | Inr elector \<Rightarrow> Returns (None, re_ElectorRun re elector w)))))"

lemma new_secondaries_returns:
  "\<forall>c \<in> set cs. complete c \<Longrightarrow> \<exists>r. new_secondaries api ident config cs = Returns r"
proof (induction cs)
  case Nil
  then show ?case by simp
next
  case (Cons c cs)
  from Cons.prems newSingleResourceLock_returns [of c api ident config] obtain r where
    "newSingleResourceLock api ident config c = Returns r" by auto
  with Cons show ?case by (auto split: sum.splits)
qed

lemma newMultiResourceLock_returns:
  assumes "\<forall>c \<in> set (lc_Configs config). complete c"
  shows "\<exists>r. newMultiResourceLock env api ident config = Returns r"
proof (cases "lc_Configs config")
  case Nil
  then show ?thesis by (simp add: newMultiResourceLock_def)
next
  case (Cons c0 cs)
  from assms Cons newSingleResourceLock_returns [of c0 api ident config] obtain r0 where
    r0: "newSingleResourceLock api ident config c0 = Returns r0" by auto
  from assms Cons new_secondaries_returns [of cs api ident config] obtain r where
    r: "new_secondaries api ident config cs = Returns r" by auto
  show ?thesis
  proof (cases cs)
    case Nil
    with Cons show ?thesis by (simp add: newMultiResourceLock_def)
  next
    case snd: (Cons c1 cs1)
    with Cons r r0 show ?thesis by (simp add: newMultiResourceLock_def split: sum.splits)
  qed
qed

lemma run_lock_for_returns:
  assumes "\<forall>c \<in> set (lc_Configs config). complete c"
  shows "\<exists>r. run_lock_for env api ident config = Returns r"
  using newMultiResourceLock_returns [OF assms, of env api ident] assms
    newSingleResourceLock_returns [of "hd (lc_Configs config)" api ident config]
  by (cases "lc_Configs config" rule: remdups_adj.cases) (auto simp: run_lock_for_def)

text \<open>An identity that the locks report as their own, when client-go's lock keeps the given one.\<close>

definition keeps_identity :: "('w, 'e, 'm, 'cfg, 'r, 'cl, 'ev) lock_api \<Rightarrow> bool" where
  "keeps_identity api \<longleftrightarrow>
     (\<forall>ns n cl ident ev lb. rl_Identity (LeaseLock api ns n cl ident ev lb) = ident)"

lemma newSingleResourceLock_identity:
  "keeps_identity api \<Longrightarrow> newSingleResourceLock api ident config c = Returns (Inr l) \<Longrightarrow>
     rl_Identity l = ident"
  by (auto simp: newSingleResourceLock_def keeps_identity_def Let_def split: option.splits sum.splits)

lemma newMultiResourceLock_identity:
  "keeps_identity api \<Longrightarrow> newMultiResourceLock env api ident config = Returns (Inr l) \<Longrightarrow>
     rl_Identity l = ident"
  by (auto simp: newMultiResourceLock_def as_lock_def multi_Identity_def newSingleResourceLock_identity
      split: list.splits sum.splits outcome.splits)

lemma run_lock_for_identity:
  "keeps_identity api \<Longrightarrow> run_lock_for env api ident config = Returns (Inr l) \<Longrightarrow> rl_Identity l = ident"
  by (auto simp: run_lock_for_def newSingleResourceLock_identity newMultiResourceLock_identity
      split: list.splits)

lemma run_identity_id: "run_identity re i = Inr j \<Longrightarrow> j = i"
  by (auto simp: run_identity_def Let_def split: if_splits sum.splits)

section \<open>Properties\<close>


text \<open>
  No callback is repeated. Apart from one \<open>OnStoppedLeading\<close> at the very beginning, which reports
  that this node does not lead, the client's callbacks alternate and start with \<open>OnStartedLeading\<close>.
\<close>

theorem elector_callbacks_alternate:
  "case snd (run_lock (elector_step (Some both_callbacks)) elector_init is) of
     OnStoppedLeading # cs \<Rightarrow> alternates False cs
   | cs \<Rightarrow> alternates False cs"
proof (cases "is")
  case Nil
  then show ?thesis by simp
next
  case (Cons i js)
  obtain s cs where st: "elector_step (Some both_callbacks) elector_init i = (s, cs)"
    by (cases "elector_step (Some both_callbacks) elector_init i")
  obtain s' ds where run: "run_lock (elector_step (Some both_callbacks)) s js = (s', ds)"
    by (cases "run_lock (elector_step (Some both_callbacks)) s js")
  have first: "initialized s \<and> (cs = [OnStartedLeading] \<or> cs = [OnStoppedLeading])"
    using st by (cases i) (auto simp: elector_init_def step_simps)
  have "elector_rel s (deliver False cs)"
    using elector.rel_step [OF elector.rel_init st] .
  from elector_run_alternates [OF this _ run] first Cons st run show ?thesis by auto
qed

text \<open>
  A new-leader notification always demotes. In the state after \<open>OnStartedLeading\<close>, the callback
  \<open>OnNewLeader\<close> clears the leader flag and calls the client's \<open>OnStoppedLeading\<close> for every identity
  it is given, this node's own included.
\<close>

theorem elector_new_leader_demotes:
  "case run_lock (elector_step (Some both_callbacks)) elector_init (is @ [StartedLeading]) of
     (s, cs) \<Rightarrow> deliver False cs \<and>
       elector_step (Some both_callbacks) s (NewLeader me) =
         (s\<lparr>isLeader := False\<rparr>, [OnStoppedLeading])"
proof (cases "run_lock (elector_step (Some both_callbacks)) elector_init (is @ [StartedLeading])")
  case (Pair s cs)
  from elector.flag_exact [OF Pair] have up: "deliver False cs" by simp
  with elector.run_rel [OF Pair] have "isLeader s \<and> initialized s" by (simp add: elector_rel_def)
  with up Pair show ?thesis by (cases s) (simp add: step_simps)
qed

text \<open>
  \<open>Run\<close> never panics on a bad configuration: for every configuration and every behaviour of the
  libraries it returns an error or runs the elector.
\<close>

theorem kube_Run_returns:
  fixes config :: "('cfg, 'r) LockConfiguration" and env :: "('e, 'm) lock_env"
  shows "\<exists>r. kube_Run env api re config callbacks w = Returns r"
proof (cases "validate_kube config :: 'e go_error + ('cfg, 'r) LockConfiguration")
  case (Inl err)
  then show ?thesis by (simp add: kube_Run_def)
next
  case (Inr c)
  then have ok: "\<forall>k \<in> set (lc_Configs c). complete k" by (auto simp: validate_kube_Inr_iff)
  show ?thesis
  proof (cases "run_identity re (lc_ID c)")
    case (Inl err)
    with \<open>validate_kube config = Inr c\<close> show ?thesis by (simp add: kube_Run_def)
  next
    case (Inr ident)
    from run_lock_for_returns [OF ok] obtain r where "run_lock_for env api ident c = Returns r"
      by blast
    with Inr \<open>validate_kube config = Inr c\<close> show ?thesis
      by (cases r) (auto simp: kube_Run_def split: sum.splits)
  qed
qed

text \<open>
  The generated identity is lost. With an empty \<open>ID\<close>, a client-go whose locks keep the identity
  they are given and whose elector constructor refuses an empty identity never gets to run: \<open>Run\<close>
  fails although the host name is known, because the identity it generates never leaves the block
  it is declared in.
\<close>

theorem kube_Run_empty_id_fails:
  fixes config :: "('cfg, 'r) LockConfiguration" and env :: "('e, 'm) lock_env"
  assumes "(validate_kube config :: 'e go_error + ('cfg, 'r) LockConfiguration) = Inr c" and "lc_ID config = ''''" and "re_Hostname re = Inr host"
    and "keeps_identity api"
    and refuses: "\<And>ec. rl_Identity (el_Lock ec) = '''' \<Longrightarrow> \<exists>e. re_NewLeaderElector re ec = Inl e"
  shows "\<exists>e. kube_Run env api re config callbacks w = Returns (Some e, w)"
proof -
  from assms(1,2) have idn: "lc_ID c = ''''" by (auto simp: validate_kube_Inr_iff)
  with assms(3) have ri: "run_identity re (lc_ID c) = Inr ''''" by (simp add: run_identity_def)
  from assms(1) have "\<forall>k \<in> set (lc_Configs c). complete k" by (auto simp: validate_kube_Inr_iff)
  from run_lock_for_returns [OF this] obtain r where
    r: "run_lock_for env api '''' c = Returns r" by blast
  show ?thesis
  proof (cases r)
    case (Inl e)
    with assms(1) ri r show ?thesis by (simp add: kube_Run_def)
  next
    case (Inr lock)
    with r assms(4) have "rl_Identity lock = ''''" by (simp add: run_lock_for_identity)
    then have "\<exists>e. leaderElector (re_NewLeaderElector re) (lc_Name c) lock callbacks c = Inl e"
      using refuses [of "\<lparr>el_Lock = lock, el_LeaseDuration = lc_LeaseDuration c,
         el_RenewDeadline = lc_RenewDeadline c, el_RetryPeriod = lc_RetryPeriod c,
         el_Callbacks = elector_step callbacks, el_ReleaseOnCancel = True, el_Name = lc_Name c\<rparr>"]
      by (auto simp: leaderElector_def)
    with assms(1) ri r Inr show ?thesis by (auto simp: kube_Run_def)
  qed
qed

text \<open>A client-go that builds locks of the store and refuses empty identities.\<close>

definition strict_env :: "(lease_store, api_error, unit, string) run_env" where
  "strict_env = \<lparr>re_Hostname = Inr ''host'', re_NewUUID = ''uuid'',
     re_NewLeaderElector = (\<lambda>ec. if rl_Identity (el_Lock ec) = ''''
                             then Inl (New ''Lock identity is empty'' [])
                             else Inr (rl_Identity (el_Lock ec))),
     re_ElectorRun = (\<lambda>_ w. w)\<rparr>"

lemma kube_Run_empty_id_fails_witness:
  "\<exists>e. kube_Run store_env store_api strict_env (example_config\<lparr>lc_ID := ''''\<rparr>) None Map.empty =
     Returns (Some e, Map.empty)"
proof (rule kube_Run_empty_id_fails)
  show "validate_kube (example_config\<lparr>lc_ID := ''''\<rparr>) = Inr (valid_example\<lparr>lc_ID := ''''\<rparr>)"
    by (simp add: validate_kube_Inr_iff example_config_def valid_example_def complete_def default_defs)
qed (simp_all add: strict_env_def store_api_def store_lock_def keeps_identity_def)

end
