(* ===== verification/Raft_Loop.thy ===== *)
theory Raft_Loop
  imports Raft_Config Leadership
begin

text \<open>
  The main loop of \<open>runRaft\<close> (\<open>raft/locker.go\<close>): one round per \<open>Ready\<close> of etcd's raft node, with the
  leadership callbacks, the context handed to the leader routines, and the delivery of messages.
\<close>

section \<open>What a round reads\<close>

text \<open>
  Of etcd's types the loop reads the leader and whether the raft state is \<open>StateLeader\<close>, from the soft
  state of the \<open>Ready\<close> or, when that is nil, from the status of the node.
\<close>

record soft_state =
  ss_Lead :: u64
  ss_StateLeader :: bool

record ('ent, 'msg) ready =
  rd_SoftState :: "soft_state option"
  rd_Status :: soft_state
  rd_Entries :: "'ent list"
  rd_Messages :: "'msg list"

definition observe :: "u64 \<Rightarrow> ('ent, 'msg) ready \<Rightarrow> u64 \<times> bool" where
  "observe cid rd =
     (case rd_SoftState rd of
        Some ss \<Rightarrow>
          let leader = ss_Lead ss; nowLeader = (leader = cid \<or> ss_StateLeader ss)
          in (leader, nowLeader)
      | None \<Rightarrow>
          let status = rd_Status rd;
              leader = ss_Lead status; nowLeader = (leader = cid \<or> ss_StateLeader status)
          in (leader, nowLeader))"

section \<open>Leadership\<close>

text \<open>
  The variables of the loop. The leader contexts are numbered in the order they are made: \<open>lp_ctx\<close> is the
  current \<open>leaderCtx\<close>. The two fields of the transport that the loop stores are \<open>lp_leader\<close> and
  \<open>lp_transport_isLeader\<close>.
\<close>

record raft_loop =
  lp_isLeader :: bool
  lp_initialized :: bool
  lp_ctx :: nat
  lp_leader :: u64
  lp_transport_isLeader :: bool

definition loop_init :: raft_loop where
  "loop_init = \<lparr>lp_isLeader = False, lp_initialized = False, lp_ctx = 0, lp_leader = 0,
     lp_transport_isLeader = False\<rparr>"

record RaftLeaderCallbacks =
  raft_SetLeader :: bool
  raft_OnStartedLeading :: bool
  raft_OnStoppedLeading :: bool

text \<open>
  What a round does besides updating its variables: calls of the client's callbacks (the last two in
  goroutines of their own) and cancellations of leader contexts.
\<close>

datatype loop_effect =
    SetLeader u64
  | Started nat
  | Stopped
  | CancelCtx nat

text \<open>
  A callback is called through the pointer \<open>callbacks\<close>, which is checked against nil before \<open>SetLeader\<close> and
  nowhere else.
\<close>

definition set_leader :: "RaftLeaderCallbacks option \<Rightarrow> u64 \<Rightarrow> loop_effect list" where
  "set_leader callbacks leader =
     (case callbacks of
        Some cb \<Rightarrow> if raft_SetLeader cb then [SetLeader leader] else []
      | None \<Rightarrow> [])"

definition leadership_change ::
  "RaftLeaderCallbacks option \<Rightarrow> bool \<Rightarrow> raft_loop \<Rightarrow> (raft_loop \<times> loop_effect list) outcome" where
  "leadership_change callbacks nowLeader s =
     (if nowLeader \<noteq> lp_isLeader s \<or> \<not> lp_initialized s then
        let s1 = s\<lparr>lp_initialized := True\<rparr>
        in if nowLeader then
             let s2 = s1\<lparr>lp_isLeader := True\<rparr>
             in case callbacks of
                  None \<Rightarrow> Panics ''nil callbacks''
                | Some cb \<Rightarrow> Returns (s2, if raft_OnStartedLeading cb then [Started (lp_ctx s2)] else [])
           else
             let s2 = s1\<lparr>lp_ctx := Suc (lp_ctx s1)\<rparr>
             in case callbacks of
                  None \<Rightarrow> Panics ''nil callbacks''
                | Some cb \<Rightarrow>
                    Returns (s2, CancelCtx (lp_ctx s1) # (if raft_OnStoppedLeading cb then [Stopped] else []))
      else Returns (s, []))"

definition handle_leadership ::
  "u64 \<Rightarrow> RaftLeaderCallbacks option \<Rightarrow> ('ent, 'msg) ready \<Rightarrow> raft_loop \<Rightarrow>
   (raft_loop \<times> loop_effect list) outcome" where
  "handle_leadership cid callbacks rd s =
     (let (leader, nowLeader) = observe cid rd;
          s1 = s\<lparr>lp_leader := leader, lp_transport_isLeader := nowLeader\<rparr>
      in case leadership_change callbacks nowLeader s1 of
           Panics p \<Rightarrow> Panics p
         | Returns (s2, effs) \<Rightarrow> Returns (s2, set_leader callbacks leader @ effs))"

text \<open>The end of the loop, when the context of \<open>Run\<close> is cancelled.\<close>

definition handle_done ::
  "RaftLeaderCallbacks option \<Rightarrow> raft_loop \<Rightarrow> loop_effect list outcome" where
  "handle_done callbacks s =
     (if lp_isLeader s then
        (case callbacks of
           None \<Rightarrow> Panics ''nil callbacks''
         | Some cb \<Rightarrow>
             Returns (CancelCtx (lp_ctx s) # (if raft_OnStoppedLeading cb then [Stopped] else [])))
      else Returns [CancelCtx (lp_ctx s)])"

section \<open>Messages\<close>

text \<open>
  What the loop calls to store entries and to deliver messages, as operations on a world \<open>'w\<close>: the
  storage, the node, the transport and the clock. Their results are dropped where the code drops
  them.
\<close>

record ('w, 'e, 'ent, 'msg) loop_api =
  la_Append :: "'ent list \<Rightarrow> 'w \<Rightarrow> 'w"
  la_To :: "'msg \<Rightarrow> u64"
  la_Step :: "'msg \<Rightarrow> 'w \<Rightarrow> 'w"
  la_DoSend :: "'msg \<Rightarrow> ('w, 'e, bool) action"
  la_ReportUnreachable :: "u64 \<Rightarrow> 'w \<Rightarrow> 'w"
  la_Sleep :: "'w \<Rightarrow> 'w"
  la_Advance :: "'w \<Rightarrow> 'w"

text \<open>
  The inner loop sends one message until the peer has applied it or the send fails; each answer ``not
  applied'' is followed by a sleep of a second and another attempt, without a limit. \<open>None\<close> means that
  it never ends.
\<close>

partial_function (option) send_retry ::
  "('w, 'e, 'ent, 'msg) loop_api \<Rightarrow> 'msg \<Rightarrow> 'w \<Rightarrow> 'w option" where
  "send_retry api msg w =
     (case la_DoSend api msg w of
        (Inl err, w1) \<Rightarrow> Some (la_ReportUnreachable api (la_To api msg) w1)
      | (Inr applied, w1) \<Rightarrow>
          if \<not> applied then send_retry api msg (la_Sleep api w1) else Some w1)"

fun send_messages ::
  "('w, 'e, 'ent, 'msg) loop_api \<Rightarrow> u64 \<Rightarrow> 'msg list \<Rightarrow> 'w \<Rightarrow> 'w option" where
  "send_messages api cid [] w = Some w"
| "send_messages api cid (msg # msgs) w =
     (if la_To api msg = cid then send_messages api cid msgs (la_Step api msg w)
      else (case send_retry api msg w of
              None \<Rightarrow> None
            | Some w1 \<Rightarrow> send_messages api cid msgs w1))"

text \<open>One round of the loop.\<close>

definition handle_ready ::
  "('w, 'e, 'ent, 'msg) loop_api \<Rightarrow> u64 \<Rightarrow> RaftLeaderCallbacks option \<Rightarrow> ('ent, 'msg) ready \<Rightarrow>
   raft_loop \<Rightarrow> 'w \<Rightarrow> (raft_loop \<times> loop_effect list \<times> 'w) outcome option" where
  "handle_ready api cid callbacks rd s w =
     (case handle_leadership cid callbacks rd s of
        Panics p \<Rightarrow> Some (Panics p)
      | Returns (s1, effs) \<Rightarrow>
          (case send_messages api cid (rd_Messages rd) (la_Append api (rd_Entries rd) w) of
             None \<Rightarrow> None
           | Some w1 \<Rightarrow> Some (Returns (s1, effs, la_Advance api w1))))"

section \<open>The loop as a source of leadership\<close>

definition all_callbacks :: RaftLeaderCallbacks where
  "all_callbacks =
     \<lparr>raft_SetLeader = True, raft_OnStartedLeading = True, raft_OnStoppedLeading = True\<rparr>"

fun client_callback :: "loop_effect \<Rightarrow> callback list" where
  "client_callback (Started _) = [OnStartedLeading]"
| "client_callback Stopped = [OnStoppedLeading]"
| "client_callback (SetLeader _) = []"
| "client_callback (CancelCtx _) = []"

definition loop_step ::
  "u64 \<Rightarrow> raft_loop \<Rightarrow> ('ent, 'msg) ready \<Rightarrow> raft_loop \<times> callback list" where
  "loop_step cid s rd =
     (case handle_leadership cid (Some all_callbacks) rd s of
        Panics p \<Rightarrow> (s, [])
      | Returns (s', effs) \<Rightarrow> (s', concat (map client_callback effs)))"

definition raft_promotes :: "u64 \<Rightarrow> ('ent, 'msg) ready \<Rightarrow> bool" where
  "raft_promotes cid rd = snd (observe cid rd)"

definition raft_rel :: "raft_loop \<Rightarrow> bool \<Rightarrow> bool" where
  "raft_rel s f \<longleftrightarrow> (f \<longrightarrow> lp_isLeader s \<and> lp_initialized s)"

lemmas leadership_defs [step_simps] =
  handle_leadership_def leadership_change_def set_leader_def all_callbacks_def

text \<open>A round in one equation, without the detour through effects.\<close>

lemma loop_step_eq:
  "loop_step cid s rd =
     (let s1 = s\<lparr>lp_leader := fst (observe cid rd), lp_transport_isLeader := raft_promotes cid rd,
                lp_initialized := True\<rparr>
      in if raft_promotes cid rd then
           (s1\<lparr>lp_isLeader := True\<rparr>,
            if lp_isLeader s \<and> lp_initialized s then [] else [OnStartedLeading])
         else if lp_isLeader s \<or> \<not> lp_initialized s then
           (s1\<lparr>lp_ctx := Suc (lp_ctx s)\<rparr>, [OnStoppedLeading])
         else (s1, []))"
  by (cases s) (auto simp: loop_step_def raft_promotes_def step_simps Let_def split: prod.splits)

interpretation raft_lock: leadership_source loop_init "loop_step cid" "raft_promotes cid" raft_rel
  for cid
proof unfold_locales
  show "raft_rel loop_init False" by (simp add: raft_rel_def)
next
  fix s f and i :: "('ent, 'msg) ready" and s' cs
  assume "raft_rel s f" and "loop_step cid s i = (s', cs)"
  then show "raft_rel s' (deliver f cs)"
    by (auto simp: raft_rel_def loop_step_eq Let_def split: if_splits)
next
  fix s f and i :: "('ent, 'msg) ready" and s' cs
  assume "raft_rel s f" and "loop_step cid s i = (s', cs)" and "\<not> raft_promotes cid i"
  then show "\<not> deliver f cs"
    by (auto simp: raft_rel_def loop_step_eq Let_def split: if_splits)
qed

text \<open>
  The callbacks of a whole run, by the state it starts in: once \<open>lp_isLeader\<close> is set it stays set, so a
  leader never emits \<open>OnStartedLeading\<close> again.
\<close>

lemma run_as_leader:
  "lp_isLeader s \<Longrightarrow> lp_initialized s \<Longrightarrow>
     snd (run_lock (loop_step cid) s is) =
       replicate (length (filter (\<lambda>i. \<not> raft_promotes cid i) is)) OnStoppedLeading"
proof (induction "is" arbitrary: s)
  case Nil
  then show ?case by simp
next
  case (Cons i "is")
  obtain s1 cs where st: "loop_step cid s i = (s1, cs)" by (cases "loop_step cid s i")
  with Cons.prems have "lp_isLeader s1 \<and> lp_initialized s1 \<and>
      cs = (if raft_promotes cid i then [] else [OnStoppedLeading])"
    by (auto simp: loop_step_eq Let_def split: if_splits)
  with Cons.IH [of s1] st show ?case by (auto split: prod.splits)
qed

lemma run_as_follower:
  "\<not> lp_isLeader s \<Longrightarrow> lp_initialized s \<Longrightarrow>
     snd (run_lock (loop_step cid) s is) =
       (case dropWhile (\<lambda>i. \<not> raft_promotes cid i) is of
          [] \<Rightarrow> []
        | k # ks \<Rightarrow> OnStartedLeading #
            replicate (length (filter (\<lambda>i. \<not> raft_promotes cid i) ks)) OnStoppedLeading)"
proof (induction "is" arbitrary: s)
  case Nil
  then show ?case by simp
next
  case (Cons i "is")
  obtain s1 cs where st: "loop_step cid s i = (s1, cs)" by (cases "loop_step cid s i")
  show ?case
  proof (cases "raft_promotes cid i")
    case True
    with st Cons.prems have "lp_isLeader s1" "lp_initialized s1" "cs = [OnStartedLeading]"
      by (auto simp: loop_step_eq Let_def)
    with run_as_leader [of s1 cid "is"] st True show ?thesis by (auto split: prod.splits)
  next
    case False
    with st Cons.prems have "\<not> lp_isLeader s1" "lp_initialized s1" "cs = []"
      by (auto simp: loop_step_eq Let_def)
    with Cons.IH [of s1] st False show ?thesis by (auto split: prod.splits)
  qed
qed

lemma run_from_init:
  "snd (run_lock (loop_step cid) loop_init is) =
     (case is of [] \<Rightarrow> [] | i # is' \<Rightarrow> if raft_promotes cid i then [] else [OnStoppedLeading]) @
     (case dropWhile (\<lambda>i. \<not> raft_promotes cid i) is of
        [] \<Rightarrow> []
      | k # ks \<Rightarrow> OnStartedLeading #
          replicate (length (filter (\<lambda>i. \<not> raft_promotes cid i) ks)) OnStoppedLeading)"
proof (cases "is")
  case (Cons i js)
  obtain s1 cs where st: "loop_step cid loop_init i = (s1, cs)" by (cases "loop_step cid loop_init i")
  then have "lp_initialized s1" "lp_isLeader s1 = raft_promotes cid i"
    and "cs = [if raft_promotes cid i then OnStartedLeading else OnStoppedLeading]"
    by (auto simp: loop_step_eq loop_init_def Let_def split: if_splits)
  with run_as_leader [of s1 cid js] run_as_follower [of s1 cid js] st Cons
  show ?thesis by (auto split: prod.splits)
qed simp

section \<open>Contexts\<close>

text \<open>All rounds of a run, with their effects.\<close>

fun run_loop ::
  "u64 \<Rightarrow> RaftLeaderCallbacks option \<Rightarrow> ('ent, 'msg) ready list \<Rightarrow> raft_loop \<Rightarrow>
   (raft_loop \<times> loop_effect list) outcome" where
  "run_loop cid callbacks [] s = Returns (s, [])"
| "run_loop cid callbacks (rd # rds) s =
     (case handle_leadership cid callbacks rd s of
        Panics p \<Rightarrow> Panics p
      | Returns (s1, effs) \<Rightarrow>
          (case run_loop cid callbacks rds s1 of
             Panics p \<Rightarrow> Panics p
           | Returns (s2, effs2) \<Rightarrow> Returns (s2, effs @ effs2)))"

definition contexts_inv :: "raft_loop \<Rightarrow> loop_effect list \<Rightarrow> bool" where
  "contexts_inv s effs \<longleftrightarrow>
     (\<forall>k. Started k \<in> set effs \<longrightarrow> k \<le> lp_ctx s \<and> lp_isLeader s \<and> lp_initialized s) \<and>
     (\<forall>k < lp_ctx s. CancelCtx k \<in> set effs)"

lemma contexts_inv_init: "contexts_inv loop_init []"
  by (simp add: contexts_inv_def loop_init_def)

lemma handle_leadership_contexts:
  assumes "handle_leadership cid callbacks rd s = Returns (s', effs')" and "contexts_inv s effs"
  shows "contexts_inv s' (effs @ effs') \<and>
    (\<not> raft_promotes cid rd \<longrightarrow> (\<forall>k. Started k \<in> set (effs @ effs') \<longrightarrow> k < lp_ctx s'))"
  using assms
  by (auto simp: contexts_inv_def step_simps raft_promotes_def Let_def less_Suc_eq_le le_less
      split: prod.splits if_splits option.splits)

lemma run_loop_contexts:
  "run_loop cid callbacks rds s = Returns (s', effs') \<Longrightarrow> contexts_inv s effs \<Longrightarrow>
     contexts_inv s' (effs @ effs') \<and>
     (rds \<noteq> [] \<longrightarrow> \<not> raft_promotes cid (last rds) \<longrightarrow>
        (\<forall>k. Started k \<in> set (effs @ effs') \<longrightarrow> k < lp_ctx s'))"
proof (induction rds arbitrary: s effs effs')
  case Nil
  then show ?case by simp
next
  case (Cons rd rds)
  from Cons.prems(1) obtain s1 e1 e2 where hd: "handle_leadership cid callbacks rd s = Returns (s1, e1)"
    and tl: "run_loop cid callbacks rds s1 = Returns (s', e2)" and effs': "effs' = e1 @ e2"
    by (auto split: outcome.splits)
  note step = handle_leadership_contexts [OF hd Cons.prems(2)]
  from Cons.IH [OF tl, of "effs @ e1"] step effs' tl show ?case by (cases rds) auto
qed

text \<open>
  C22: the callbacks of a raft lock over a whole run, whatever the sequence of \<open>Ready\<close> values.
  \<open>OnStoppedLeading\<close> is called on the first round if that round does not promote; \<open>OnStartedLeading\<close> is
  called once, on the first promoting round; from then on every round that does not promote calls
  \<open>OnStoppedLeading\<close> again.
\<close>
theorem raft_callbacks_exact:
  "snd (run_lock (loop_step cid) loop_init is) =
     (case is of [] \<Rightarrow> [] | i # is' \<Rightarrow> if raft_promotes cid i then [] else [OnStoppedLeading]) @
     (case dropWhile (\<lambda>i. \<not> raft_promotes cid i) is of
        [] \<Rightarrow> []
      | k # ks \<Rightarrow> OnStartedLeading #
          replicate (length (filter (\<lambda>i. \<not> raft_promotes cid i) ks)) OnStoppedLeading)"
  by (rule run_from_init)

text \<open>
  The flag of a client that gets these callbacks is up exactly when some round promoted and no
  round since the first such one did not: a node that loses the leadership and wins it again never
  tells its client, since \<open>isLeader\<close> is not reset when it is demoted.
\<close>
theorem raft_flag_exact:
  "deliver False (snd (run_lock (loop_step cid) loop_init is)) =
     (dropWhile (\<lambda>i. \<not> raft_promotes cid i) is \<noteq> [] \<and>
      list_all (raft_promotes cid) (dropWhile (\<lambda>i. \<not> raft_promotes cid i) is))"
proof -
  have stops: "deliver f (replicate n OnStoppedLeading) = (f \<and> n = 0)" for f n
    by (induction n arbitrary: f) auto
  have drop: "raft_promotes cid k \<and> k \<in> set js"
    if "dropWhile (\<lambda>i. \<not> raft_promotes cid i) js = k # ks" for k ks and js :: "('a, 'b) ready list"
    using that by (induction js) (auto split: if_splits)
  show ?thesis
    unfolding run_from_init
    by (cases "is") (auto simp: stops filter_empty_conv list_all_iff split: list.splits dest: drop)
qed


definition ready_of :: "u64 \<Rightarrow> (nat, nat) ready" where
  "ready_of leader =
     \<lparr>rd_SoftState = Some \<lparr>ss_Lead = leader, ss_StateLeader = False\<rparr>,
      rd_Status = \<lparr>ss_Lead = 0, ss_StateLeader = False\<rparr>, rd_Entries = [], rd_Messages = []\<rparr>"

lemma observe_ready_of [simp]: "observe cid (ready_of l) = (l, l = cid)"
  by (simp add: observe_def ready_of_def)


text \<open>
  A leader routine never outlives the leadership. After any run that ends in a round that does not
  promote, every context given to \<open>OnStartedLeading\<close> has been cancelled.
\<close>
theorem demotion_cancels:
  assumes "run_loop cid callbacks rds loop_init = Returns (s, effs)"
    and "rds \<noteq> []" and "\<not> raft_promotes cid (last rds)" and "Started k \<in> set effs"
  shows "CancelCtx k \<in> set effs"
  using run_loop_contexts [OF assms(1) contexts_inv_init] assms(2-4)
  by (auto simp: contexts_inv_def)

theorem demotion_cancels_witness: "CancelCtx 0 \<in> set [SetLeader 1, Started 0, SetLeader 2, CancelCtx 0, Stopped]"
proof (rule demotion_cancels [of 1 "Some all_callbacks" "[ready_of 1, ready_of 2]"])
  show "run_loop 1 (Some all_callbacks) [ready_of 1, ready_of 2] loop_init =
    Returns (\<lparr>lp_isLeader = True, lp_initialized = True, lp_ctx = 1, lp_leader = 2,
       lp_transport_isLeader = False\<rparr>, [SetLeader 1, Started 0, SetLeader 2, CancelCtx 0, Stopped])"
    by (simp add: step_simps loop_init_def)
qed (simp_all add: raft_promotes_def)

text \<open>
  When the context of \<open>Run\<close> ends the loop, every leader context made so far, the current one
  included, has been cancelled.
\<close>
theorem done_cancels_all:
  assumes "run_loop cid callbacks rds loop_init = Returns (s, effs)"
    and "handle_done callbacks s = Returns effs'" and "k \<le> lp_ctx s"
  shows "CancelCtx k \<in> set (effs @ effs')"
  using run_loop_contexts [OF assms(1) contexts_inv_init] assms(2,3)
  by (auto simp: contexts_inv_def handle_done_def le_less split: if_splits option.splits)

theorem done_cancels_all_witness:
  "CancelCtx 1 \<in> set ([SetLeader 1, Started 0, SetLeader 2, CancelCtx 0, Stopped] @ [CancelCtx 1, Stopped])"
proof (rule done_cancels_all [of 1 "Some all_callbacks" "[ready_of 1, ready_of 2]"])
  show "run_loop 1 (Some all_callbacks) [ready_of 1, ready_of 2] loop_init =
    Returns (\<lparr>lp_isLeader = True, lp_initialized = True, lp_ctx = 1, lp_leader = 2,
       lp_transport_isLeader = False\<rparr>, [SetLeader 1, Started 0, SetLeader 2, CancelCtx 0, Stopped])"
    by (simp add: step_simps loop_init_def)
qed (simp_all add: handle_done_def all_callbacks_def)

text \<open>
  \<open>Run\<close> called without callbacks crashes on the first round: the nil check in front of \<open>SetLeader\<close>
  does not cover the two leadership callbacks.
\<close>
theorem nil_callbacks_panic:
  "handle_ready api cid None rd loop_init w = Some (Panics ''nil callbacks'')"
  by (simp add: handle_ready_def handle_leadership_def leadership_change_def loop_init_def Let_def
      split: prod.splits)

section \<open>Delivery\<close>

text \<open>The world after \<open>n\<close> attempts that were each answered ``not applied''.\<close>

fun after_retries ::
  "('w, 'e, 'ent, 'msg) loop_api \<Rightarrow> 'msg \<Rightarrow> nat \<Rightarrow> 'w \<Rightarrow> 'w" where
  "after_retries api msg 0 w = w"
| "after_retries api msg (Suc n) w =
     after_retries api msg n (la_Sleep api (snd (la_DoSend api msg w)))"

lemma send_retry_answered:
  "fst (la_DoSend api msg (after_retries api msg n w)) \<noteq> Inr False \<Longrightarrow> \<exists>w'. send_retry api msg w = Some w'"
proof (induction n arbitrary: w)
  case 0
  then show ?case by (subst send_retry.simps) (auto split: prod.splits sum.splits)
next
  case (Suc n)
  then show ?case by (subst send_retry.simps) (auto split: prod.splits sum.splits)
qed

lemma send_retry_SomeD:
  "send_retry api msg w = Some w' \<Longrightarrow> \<exists>n. fst (la_DoSend api msg (after_retries api msg n w)) \<noteq> Inr False"
proof (induction rule: send_retry.raw_induct [rotated 1, consumes 1, case_names step])
  case (step f api msg w w')
  show ?case
  proof (cases "fst (la_DoSend api msg w) = Inr False")
    case True
    with step(2) have "f api msg (la_Sleep api (snd (la_DoSend api msg w))) = Some w'"
      by (auto split: prod.splits sum.splits)
    from step(1) [OF this] obtain n where
      "fst (la_DoSend api msg (after_retries api msg (Suc n) w)) \<noteq> Inr False" by auto
    then show ?thesis by blast
  next
    case False
    then have "fst (la_DoSend api msg (after_retries api msg 0 w)) \<noteq> Inr False" by simp
    then show ?thesis by blast
  qed
qed

lemma send_retry_once:
  "fst (la_DoSend api msg w) \<noteq> Inr False \<Longrightarrow>
     send_retry api msg w = Some (case la_DoSend api msg w of
       (Inl err, w1) \<Rightarrow> la_ReportUnreachable api (la_To api msg) w1 | (Inr b, w1) \<Rightarrow> w1)"
  by (subst send_retry.simps) (auto split: prod.splits sum.splits)

lemma send_messages_append:
  "send_messages api cid (ms @ ns) w =
     (case send_messages api cid ms w of None \<Rightarrow> None | Some w1 \<Rightarrow> send_messages api cid ns w1)"
  by (induction ms arbitrary: w) (auto split: option.splits)

text \<open>
  The delivery of one message never ends exactly when the peer answers every attempt with ``not
  applied''; one error or one confirmation ends it.
\<close>
theorem send_retry_stuck:
  "send_retry api msg w = None \<longleftrightarrow>
     (\<forall>n. fst (la_DoSend api msg (after_retries api msg n w)) = Inr False)"
  using send_retry_answered [of api msg _ w] send_retry_SomeD [of api msg w]
  by (metis not_None_eq)

text \<open>
  One peer that never applies a message stops the whole loop: the round does not end, so the
  messages behind it are not sent, no further \<open>Ready\<close> is handled and the cancellation of the context
  is not seen.
\<close>
theorem round_blocked:
  assumes "rd_Messages rd = ms @ msg # ns" and "la_To api msg \<noteq> cid"
    and "send_messages api cid ms (la_Append api (rd_Entries rd) w) = Some w1"
    and "\<forall>n. fst (la_DoSend api msg (after_retries api msg n w1)) = Inr False"
  shows "handle_ready api cid (Some cb) rd s w = None"
proof -
  have "send_retry api msg w1 = None"
    using assms(4) send_retry_SomeD [of api msg w1] by (cases "send_retry api msg w1") auto
  with assms show ?thesis
    by (auto simp: handle_ready_def handle_leadership_def leadership_change_def send_messages_append
        Let_def split: prod.splits)
qed

definition log_api :: "(nat \<Rightarrow> (string + bool)) \<Rightarrow> ((nat \<times> nat) list, string, nat, nat) loop_api" where
  "log_api answer =
     \<lparr>la_Append = (\<lambda>es w. w), la_To = (\<lambda>m. word_of_nat m), la_Step = (\<lambda>m w. w @ [(0, m)]),
      la_DoSend = (\<lambda>m w. (case answer m of Inl e \<Rightarrow> Inl (New e []) | Inr b \<Rightarrow> Inr b, w @ [(1, m)])),
      la_ReportUnreachable = (\<lambda>i w. w @ [(2, unat i)]), la_Sleep = (\<lambda>w. w), la_Advance = (\<lambda>w. w)\<rparr>"

theorem round_blocked_witness:
  "handle_ready (log_api (\<lambda>m. Inr (m \<noteq> 3))) 1 (Some all_callbacks)
     (ready_of 1\<lparr>rd_Messages := [1, 2, 3, 4]\<rparr>) loop_init [] = None"
  by (rule round_blocked [of _ "[1, 2]" 3 "[4]" _ _ _ "[(0, 1), (1, 2)]"])
    (simp_all add: log_api_def send_retry_once ready_of_def)

text \<open>What a message does to the world when the peer never answers ``not applied''.\<close>

definition send_once :: "('w, 'e, 'ent, 'msg) loop_api \<Rightarrow> u64 \<Rightarrow> 'msg \<Rightarrow> 'w \<Rightarrow> 'w" where
  "send_once api cid msg w =
     (if la_To api msg = cid then la_Step api msg w
      else (case la_DoSend api msg w of
              (Inl err, w1) \<Rightarrow> la_ReportUnreachable api (la_To api msg) w1
            | (Inr b, w1) \<Rightarrow> w1))"

lemma send_messages_fold:
  assumes "\<And>msg w. msg \<in> set msgs \<Longrightarrow> fst (la_DoSend api msg w) \<noteq> Inr False"
  shows "send_messages api cid msgs w = Some (fold (send_once api cid) msgs w)"
  using assms by (induction msgs arbitrary: w) (auto simp: send_once_def send_retry_once)



end
