(* ===== verification/Raft_Transport.thy ===== *)
theory Raft_Transport
  imports Raft_Loop
begin

text \<open>
  The transport of the raft lock (\<open>raft/transport.go\<close>): credentials and clients, the two handlers that
  move raft messages between nodes, the health check with its forwarding to the leader, the kubeconfig
  handler and the life of the server.

  gRPC and \<open>crypto/tls\<close> are parameters: \<open>transport_api\<close> holds what the constructors call, \<open>rpc\<close> what a
  node gets when it calls a peer. A Go map is the list of its entries in the order in which \<open>range\<close> yields
  them, so that a theorem over every such list holds for every iteration order.
\<close>

section \<open>Credentials\<close>

record ('cert, 'pool) tls_Config =
  tls_Certificates :: "'cert list"
  tls_RequireAndVerifyClientCert :: bool
  tls_ClientCAs :: "'pool option"
  tls_RootCAs :: "'pool option"
  tls_InsecureSkipVerify :: bool

text \<open>\<open>credentials.TransportCredentials\<close>: \<open>insecure.NewCredentials()\<close> or \<open>credentials.NewTLS(config)\<close>.\<close>

datatype ('cert, 'pool) credentials =
    InsecureCredentials
  | TLS "('cert, 'pool) tls_Config"

text \<open>\<open>ta_CertPool\<close> is a new pool with the certificates of a PEM text, if it has any.\<close>

record ('e, 'cert, 'pool, 'cl) transport_api =
  ta_X509KeyPair :: "bytes \<Rightarrow> bytes \<Rightarrow> 'e go_error + 'cert"
  ta_CertPool :: "bytes \<Rightarrow> 'pool option"
  ta_NewClient :: "string \<Rightarrow> ('cert, 'pool) credentials \<Rightarrow> 'e go_error + 'cl"

definition serverTLSConfig ::
  "('e, 'cert, 'pool, 'cl) transport_api \<Rightarrow> bytes \<Rightarrow> bytes \<Rightarrow> bytes \<Rightarrow>
   'e go_error + ('cert, 'pool) credentials" where
  "serverTLSConfig api certPEM keyPEM caPEM =
     (case ta_X509KeyPair api certPEM keyPEM of
        Inl err \<Rightarrow> Inl (Wrap ''failed to load server certificate'' [] err)
      | Inr certificate \<Rightarrow>
          (case ta_CertPool api caPEM of
             None \<Rightarrow> Inl (New ''unable to append the CA certificate to CA pool'' [])
           | Some capool \<Rightarrow>
               Inr (TLS \<lparr>tls_Certificates = [certificate], tls_RequireAndVerifyClientCert = True,
                 tls_ClientCAs = Some capool, tls_RootCAs = None,
                 tls_InsecureSkipVerify = False\<rparr>)))"

text \<open>The last argument is variadic in the code: a list of which the first element counts.\<close>

definition clientTLSConfig ::
  "('e, 'cert, 'pool, 'cl) transport_api \<Rightarrow> bytes \<Rightarrow> bytes \<Rightarrow> bytes \<Rightarrow> bool list \<Rightarrow>
   'e go_error + ('cert, 'pool) credentials" where
  "clientTLSConfig api certPEM keyPEM caPEM insecure =
     (let isInsecure = (case insecure of [] \<Rightarrow> False | b # _ \<Rightarrow> b)
      in case ta_X509KeyPair api certPEM keyPEM of
           Inl err \<Rightarrow> Inl (Wrap ''failed to load client certificate'' [] err)
         | Inr certificate \<Rightarrow>
             (case ta_CertPool api caPEM of
                None \<Rightarrow> Inl (New ''unable to append the CA certificate to CA pool'' [])
              | Some capool \<Rightarrow>
                  Inr (TLS \<lparr>tls_Certificates = [certificate], tls_RequireAndVerifyClientCert = False,
                    tls_ClientCAs = None, tls_RootCAs = Some capool,
                    tls_InsecureSkipVerify = isInsecure\<rparr>)))"

definition client_credentials ::
  "('e, 'cert, 'pool, 'cl) transport_api \<Rightarrow> ('f, 'lg) RaftLockConfiguration \<Rightarrow> bool list \<Rightarrow>
   'e go_error + ('cert, 'pool) credentials" where
  "client_credentials api config insecure =
     (if rc_Insecure config then Inr InsecureCredentials
      else clientTLSConfig api (rc_Certificate config) (rc_PrivateKey config) (rc_CA config) insecure)"

definition client_with ::
  "('e, 'cert, 'pool, 'cl) transport_api \<Rightarrow> 'e go_error + ('cert, 'pool) credentials \<Rightarrow>
   LockerNode \<Rightarrow> 'e go_error + 'cl" where
  "client_with api creds node =
     (case creds of
        Inl err \<Rightarrow> Inl (Wrap ''unable to initialize client credentials'' [] err)
      | Inr c \<Rightarrow> ta_NewClient api (ln_Address node) c)"

definition InsecureClientFor ::
  "('e, 'cert, 'pool, 'cl) transport_api \<Rightarrow> ('f, 'lg) RaftLockConfiguration \<Rightarrow> LockerNode \<Rightarrow>
   'e go_error + 'cl" where
  "InsecureClientFor api config node = client_with api (client_credentials api config [True]) node"

definition ClientFor ::
  "('e, 'cert, 'pool, 'cl) transport_api \<Rightarrow> ('f, 'lg) RaftLockConfiguration \<Rightarrow> LockerNode \<Rightarrow>
   'e go_error + 'cl" where
  "ClientFor api config node = client_with api (client_credentials api config []) node"

section \<open>The transport and its constructors\<close>

record 'cl peer =
  pe_addr :: string
  pe_client :: 'cl

definition newPeer ::
  "('e, 'cert, 'pool, 'cl) transport_api \<Rightarrow> string \<Rightarrow> ('cert, 'pool) credentials option \<Rightarrow>
   'e go_error + 'cl peer" where
  "newPeer api addr creds =
     (let c = (case creds of None \<Rightarrow> InsecureCredentials | Some c \<Rightarrow> c)
      in case ta_NewClient api addr c of
           Inl err \<Rightarrow> Inl err
         | Inr conn \<Rightarrow> Inr \<lparr>pe_addr = addr, pe_client = conn\<rparr>)"

text \<open>
  The fields of \<open>grpcTransport\<close>. Its lock guards the node, which is set once; the leader fields are
  atomics that the main loop stores.
\<close>

record ('cl, 'nd, 'f, 'cert, 'pool, 'lg) grpcTransport =
  gt_addr :: string
  gt_peers :: "(u64 \<times> 'cl peer) list"
  gt_meta :: bytes
  gt_leader :: u64
  gt_isLeader :: bool
  gt_node :: "'nd option"
  gt_kubeconfigFetcher :: "'f option"
  gt_serverCredentials :: "('cert, 'pool) credentials option"
  gt_clientCredentials :: "('cert, 'pool) credentials option"
  gt_logger :: "'lg option"

fun initialize_peers ::
  "('e, 'cert, 'pool, 'cl) transport_api \<Rightarrow> ('cert, 'pool) credentials option \<Rightarrow>
   (u64 \<times> string) list \<Rightarrow> 'e go_error + (u64 \<times> 'cl peer) list" where
  "initialize_peers api creds [] = Inr []"
| "initialize_peers api creds ((i, addr) # peers) =
     (case newPeer api addr creds of
        Inl err \<Rightarrow> Inl err
      | Inr p \<Rightarrow>
          (case initialize_peers api creds peers of
             Inl err \<Rightarrow> Inl err
           | Inr ps \<Rightarrow> Inr ((i, p) # ps)))"

definition newInsecureGRPCTransport ::
  "('e, 'cert, 'pool, 'cl) transport_api \<Rightarrow> bytes \<Rightarrow> string \<Rightarrow> (u64 \<times> string) list \<Rightarrow> 'f option \<Rightarrow>
   'e go_error + ('cl, 'nd, 'f, 'cert, 'pool, 'lg) grpcTransport" where
  "newInsecureGRPCTransport api meta addr peers fetcher =
     (case initialize_peers api None peers of
        Inl err \<Rightarrow> Inl err
      | Inr ps \<Rightarrow>
          Inr \<lparr>gt_addr = addr, gt_peers = ps, gt_meta = meta, gt_leader = 0, gt_isLeader = False,
            gt_node = None, gt_kubeconfigFetcher = fetcher, gt_serverCredentials = None,
            gt_clientCredentials = None, gt_logger = None\<rparr>)"

definition newGRPCTransport ::
  "('e, 'cert, 'pool, 'cl) transport_api \<Rightarrow> bytes \<Rightarrow> bytes \<Rightarrow> bytes \<Rightarrow> bytes \<Rightarrow> string \<Rightarrow>
   (u64 \<times> string) list \<Rightarrow> 'f option \<Rightarrow>
   'e go_error + ('cl, 'nd, 'f, 'cert, 'pool, 'lg) grpcTransport" where
  "newGRPCTransport api meta certPEM keyPEM caPEM addr peers fetcher =
     (case serverTLSConfig api certPEM keyPEM caPEM of
        Inl err \<Rightarrow> Inl (Wrap ''unable to initialize server credentials'' [] err)
      | Inr serverCredentials \<Rightarrow>
          (case clientTLSConfig api certPEM keyPEM caPEM [] of
             Inl err \<Rightarrow> Inl (Wrap ''unable to initialize client credentials'' [] err)
           | Inr clientCredentials \<Rightarrow>
               (case initialize_peers api (Some clientCredentials) peers of
                  Inl err \<Rightarrow> Inl err
                | Inr ps \<Rightarrow>
                    Inr \<lparr>gt_addr = addr, gt_peers = ps, gt_meta = meta, gt_leader = 0,
                      gt_isLeader = False, gt_node = None, gt_kubeconfigFetcher = fetcher,
                      gt_serverCredentials = Some serverCredentials,
                      gt_clientCredentials = Some clientCredentials, gt_logger = None\<rparr>)))"

definition setNode ::
  "'nd \<Rightarrow> ('cl, 'nd, 'f, 'cert, 'pool, 'lg) grpcTransport \<Rightarrow>
   ('cl, 'nd, 'f, 'cert, 'pool, 'lg) grpcTransport" where
  "setNode node t = t\<lparr>gt_node := Some node\<rparr>"

definition getNode :: "('cl, 'nd, 'f, 'cert, 'pool, 'lg) grpcTransport \<Rightarrow> 'nd option" where
  "getNode t = gt_node t"

lemma initialize_peers_Inr:
  "initialize_peers api creds peers = Inr ps \<Longrightarrow>
     map fst ps = map fst peers \<and>
     list_all2 (\<lambda>(i, addr) (j, p). i = j \<and> newPeer api addr creds = Inr p) peers ps"
  by (induction peers arbitrary: ps) (auto split: sum.splits)

lemma initialize_peers_lookup:
  "initialize_peers api creds peers = Inr ps \<Longrightarrow>
     map_of ps i = (case map_of peers i of None \<Rightarrow> None
                    | Some addr \<Rightarrow> (case newPeer api addr creds of Inl e \<Rightarrow> None | Inr p \<Rightarrow> Some p))"
  by (induction peers arbitrary: ps) (auto split: sum.splits)

section \<open>Messages\<close>

text \<open>The encoding of raft messages and the raft node, both from etcd, and the calls to peers.\<close>

record ('w, 'e, 'nd, 'msg) node_api =
  na_To :: "'msg \<Rightarrow> u64"
  na_Marshal :: "'msg \<Rightarrow> 'e go_error + bytes"
  na_Unmarshal :: "bytes \<Rightarrow> 'e go_error + 'msg"
  na_Step :: "'nd \<Rightarrow> 'msg \<Rightarrow> ('w, 'e) effect"

definition DoSend ::
  "('w, 'e, 'nd, 'msg) node_api \<Rightarrow> ('cl \<Rightarrow> bytes \<Rightarrow> ('w, 'e, bool) action) \<Rightarrow>
   ('cl, 'nd, 'f, 'cert, 'pool, 'lg) grpcTransport \<Rightarrow> 'msg \<Rightarrow> ('w, 'e, bool) action" where
  "DoSend api rpc_Send t msg w =
     (case map_of (gt_peers t) (na_To api msg) of
        None \<Rightarrow> (Inl (New ''unknown peer'' [Num (na_To api msg)]), w)
      | Some p \<Rightarrow>
          (case na_Marshal api msg of
             Inl err \<Rightarrow> (Inl (Wrap ''marshaling message for peer'' [Str (pe_addr p)] err), w)
           | Inr data \<Rightarrow>
               (case rpc_Send (pe_client p) data w of
                  (Inl err, w1) \<Rightarrow> (Inl (Wrap ''sending to peer'' [Str (pe_addr p)] err), w1)
                | (Inr applied, w1) \<Rightarrow> (Inr applied, w1))))"

text \<open>The handler of a received message: the answer says whether the raft node took it, never why not.\<close>

definition Send ::
  "('w, 'e, 'nd, 'msg) node_api \<Rightarrow> ('cl, 'nd, 'f, 'cert, 'pool, 'lg) grpcTransport \<Rightarrow> bytes \<Rightarrow>
   ('w, 'e, bool) action" where
  "Send api t payload w =
     (case getNode t of
        Some node \<Rightarrow>
          (case na_Unmarshal api payload of
             Inl err \<Rightarrow> (Inr False, w)
           | Inr msg \<Rightarrow>
               (case na_Step api node msg w of
                  (None, w1) \<Rightarrow> (Inr True, w1)
                | (Some err, w1) \<Rightarrow> (Inr False, w1)))
      | None \<Rightarrow> (Inr False, w))"

section \<open>Health\<close>

record CheckRequest =
  cq_FromLeader :: bool

record CheckResponse =
  cs_HasLeader :: bool
  cs_UnhealthyNodes :: "u64 list"
  cs_Meta :: bytes

text \<open>
  What a client's \<open>Check\<close> returns when it is called, \<open>None\<close> when it never returns.
\<close>

type_synonym ('e, 'cl) rpc_check = "'cl \<Rightarrow> CheckRequest \<Rightarrow> ('e go_error + CheckResponse) option"

definition answers_healthy :: "'e go_error + CheckResponse \<Rightarrow> bool" where
  "answers_healthy r = (case r of Inl err \<Rightarrow> False | Inr resp \<Rightarrow> cs_HasLeader resp)"

fun check_peers ::
  "('e, 'cl) rpc_check \<Rightarrow> (u64 \<times> 'cl peer) list \<Rightarrow> CheckResponse \<Rightarrow> CheckResponse option" where
  "check_peers rpc_Check [] response = Some response"
| "check_peers rpc_Check ((i, p) # ps) response =
     (case rpc_Check (pe_client p) \<lparr>cq_FromLeader = True\<rparr> of
        None \<Rightarrow> None
      | Some (Inl err) \<Rightarrow>
          check_peers rpc_Check ps
            (response\<lparr>cs_UnhealthyNodes := cs_UnhealthyNodes response @ [i]\<rparr>)
      | Some (Inr followerResp) \<Rightarrow>
          check_peers rpc_Check ps
            (if \<not> cs_HasLeader followerResp
             then response\<lparr>cs_UnhealthyNodes := cs_UnhealthyNodes response @ [i]\<rparr> else response))"

definition Check ::
  "('e, 'cl) rpc_check \<Rightarrow> ('cl, 'nd, 'f, 'cert, 'pool, 'lg) grpcTransport \<Rightarrow> CheckRequest \<Rightarrow>
   ('e go_error + CheckResponse) option" where
  "Check rpc_Check t req =
     (let leader = gt_leader t; isLeader = gt_isLeader t
      in if leader \<noteq> 0 then
           (let response = \<lparr>cs_HasLeader = True, cs_UnhealthyNodes = [], cs_Meta = gt_meta t\<rparr>
            in if \<not> cq_FromLeader req \<and> isLeader then
                 (case check_peers rpc_Check (gt_peers t) response of
                    None \<Rightarrow> None
                  | Some response \<Rightarrow> Some (Inr response))
               else if \<not> cq_FromLeader req then
                 (case map_of (gt_peers t) leader of
                    None \<Rightarrow>
                      Some (Inr \<lparr>cs_HasLeader = False, cs_UnhealthyNodes = [], cs_Meta = gt_meta t\<rparr>)
                  | Some p \<Rightarrow> rpc_Check (pe_client p) \<lparr>cq_FromLeader = False\<rparr>)
               else Some (Inr response))
         else Some (Inr \<lparr>cs_HasLeader = False, cs_UnhealthyNodes = [], cs_Meta = gt_meta t\<rparr>))"

section \<open>Kubeconfig\<close>

text \<open>
  A gRPC status error has a code and a message; \<open>ge_Sprintf\<close> is the formatting of a format string without
  arguments, which the handler applies to the text of the fetcher's error.
\<close>

datatype status_code = FailedPrecondition | Internal

record 'e grpc_errors =
  ge_Status :: "status_code \<Rightarrow> string \<Rightarrow> 'e"
  ge_Sprintf :: "string \<Rightarrow> string"
  ge_Error :: "'e go_error \<Rightarrow> string"

definition Kubeconfig ::
  "'e grpc_errors \<Rightarrow> ('f \<Rightarrow> ('w, 'e, bytes) action) \<Rightarrow>
   ('cl, 'nd, 'f, 'cert, 'pool, 'lg) grpcTransport \<Rightarrow> ('w, 'e, bytes) action" where
  "Kubeconfig ge Fetch t w =
     (case gt_kubeconfigFetcher t of
        None \<Rightarrow>
          (Inl (Ext (ge_Status ge FailedPrecondition
             (ge_Sprintf ge ''no kubeconfig fetcher specified''))), w)
      | Some f \<Rightarrow>
          (case Fetch f w of
             (Inl err, w1) \<Rightarrow>
               (Inl (Ext (ge_Status ge Internal (ge_Sprintf ge (ge_Error ge err)))), w1)
           | (Inr data, w1) \<Rightarrow> (Inr data, w1)))"

section \<open>The life of the server\<close>

text \<open>
  \<open>Run\<close> listens, serves in a goroutine and waits for the end of its context or an error of the server. The
  event that comes first is an input, with what the error channel holds after a graceful stop.
\<close>

datatype 'e transport_event =
    CtxDone "'e go_error option"
  | ServeError "'e go_error"

datatype ('cert, 'pool) server_action =
    Listen string
  | Serve "('cert, 'pool) credentials"
  | GracefulStop
  | Stop
  | CloseListener
  | LogShutdown

definition transport_Run ::
  "('cl, 'nd, 'f, 'cert, 'pool, 'lg) grpcTransport \<Rightarrow> (string \<Rightarrow> 'e go_error option) \<Rightarrow>
   'e transport_event \<Rightarrow> ('e go_error option \<times> ('cert, 'pool) server_action list) outcome" where
  "transport_Run t listen ev =
     (case gt_logger t of
        None \<Rightarrow> Panics ''nil logger''
      | Some logger \<Rightarrow>
          (let creds = (case gt_serverCredentials t of None \<Rightarrow> InsecureCredentials | Some c \<Rightarrow> c)
           in case listen (gt_addr t) of
                Some err \<Rightarrow>
                  Returns (Some (Wrap ''failed to listen on'' [Str (gt_addr t)] err),
                    [Listen (gt_addr t), LogShutdown])
              | None \<Rightarrow>
                  (case ev of
                     CtxDone pending \<Rightarrow>
                       Returns (pending,
                         [Listen (gt_addr t), Serve creds, GracefulStop, CloseListener, LogShutdown])
                   | ServeError err \<Rightarrow>
                       Returns (Some err,
                         [Listen (gt_addr t), Serve creds, Stop, CloseListener, LogShutdown]))))"

section \<open>A network of nodes\<close>

text \<open>
  gRPC connects the handlers: a client for an address calls the handler of the transport that listens
  there, and fails when there is none. The nodes are at rest, so a network is a map from addresses to
  transports, and a client is the address it was made for. The calls of \<open>Check\<close> can follow each other
  from node to node; \<open>net_check\<close> gives up after as many hops as its fuel allows, with the result \<open>None\<close>.
\<close>

type_synonym ('nd, 'f, 'cert, 'pool, 'lg) network =
  "string \<rightharpoonup> (string, 'nd, 'f, 'cert, 'pool, 'lg) grpcTransport"

definition net_send ::
  "('w, 'e, 'nd, 'msg) node_api \<Rightarrow> (string \<Rightarrow> 'e) \<Rightarrow> ('nd, 'f, 'cert, 'pool, 'lg) network \<Rightarrow>
   string \<Rightarrow> bytes \<Rightarrow> ('w, 'e, bool) action" where
  "net_send api unreachable net addr payload w =
     (case net addr of
        None \<Rightarrow> (Inl (Ext (unreachable addr)), w)
      | Some t \<Rightarrow> Send api t payload w)"

fun net_check ::
  "nat \<Rightarrow> (string \<Rightarrow> 'e) \<Rightarrow> ('nd, 'f, 'cert, 'pool, 'lg) network \<Rightarrow> string \<Rightarrow> CheckRequest \<Rightarrow>
   ('e go_error + CheckResponse) option" where
  "net_check 0 unreachable net addr req = None"
| "net_check (Suc n) unreachable net addr req =
     (case net addr of
        None \<Rightarrow> Some (Inl (Ext (unreachable addr)))
      | Some t \<Rightarrow> Check (net_check n unreachable net) t req)"

text \<open>What a leader learns about the node at an address.\<close>

definition healthy :: "('nd, 'f, 'cert, 'pool, 'lg) network \<Rightarrow> string \<Rightarrow> bool" where
  "healthy net addr = (case net addr of None \<Rightarrow> False | Some t \<Rightarrow> gt_leader t \<noteq> 0)"

lemma net_check_from_leader:
  "\<exists>r. net_check (Suc n) unreachable net addr \<lparr>cq_FromLeader = True\<rparr> = Some r \<and>
     answers_healthy r = healthy net addr"
  by (auto simp: Check_def answers_healthy_def healthy_def Let_def split: option.splits)

lemma check_peers_net:
  "check_peers (net_check (Suc n) unreachable net) ps resp =
     Some (resp\<lparr>cs_UnhealthyNodes := cs_UnhealthyNodes resp @
       map fst (filter (\<lambda>(i, p). \<not> healthy net (pe_client p)) ps)\<rparr>)"
proof (induction ps arbitrary: resp)
  case Nil
  then show ?case by simp
next
  case (Cons q ps)
  obtain i p where q: "q = (i, p)" by (cases q)
  obtain r where "net_check (Suc n) unreachable net (pe_client p) \<lparr>cq_FromLeader = True\<rparr> = Some r"
    and "answers_healthy r = healthy net (pe_client p)"
    using net_check_from_leader by blast
  then show ?case
    by (cases r) (auto simp: q Cons.IH answers_healthy_def simp del: net_check.simps)
qed

lemma net_check_leader:
  assumes "net addr = Some t" and "gt_leader t \<noteq> 0" and "gt_isLeader t"
  shows "net_check (Suc (Suc n)) unreachable net addr \<lparr>cq_FromLeader = False\<rparr> =
    Some (Inr \<lparr>cs_HasLeader = True,
      cs_UnhealthyNodes = map fst (filter (\<lambda>(i, p). \<not> healthy net (pe_client p)) (gt_peers t)),
      cs_Meta = gt_meta t\<rparr>)"
  using assms
  by (subst net_check.simps) (simp add: Check_def check_peers_net del: net_check.simps)

text \<open>Where a node sends a check it does not answer itself, and the chain of such steps.\<close>

definition forward_target :: "('nd, 'f, 'cert, 'pool, 'lg) network \<Rightarrow> string \<Rightarrow> string option" where
  "forward_target net addr =
     (case net addr of
        None \<Rightarrow> None
      | Some t \<Rightarrow>
          if gt_leader t \<noteq> 0 \<and> \<not> gt_isLeader t
          then map_option pe_client (map_of (gt_peers t) (gt_leader t)) else None)"

fun forward_chain ::
  "('nd, 'f, 'cert, 'pool, 'lg) network \<Rightarrow> nat \<Rightarrow> string \<Rightarrow> string option" where
  "forward_chain net 0 addr = Some addr"
| "forward_chain net (Suc n) addr =
     (case forward_target net addr of None \<Rightarrow> None | Some a \<Rightarrow> forward_chain net n a)"

lemma net_check_forward:
  "forward_target net addr = Some a \<Longrightarrow>
     net_check (Suc n) unreachable net addr \<lparr>cq_FromLeader = False\<rparr> =
     net_check n unreachable net a \<lparr>cq_FromLeader = False\<rparr>"
  by (auto simp: forward_target_def Check_def Let_def split: option.splits if_splits)

lemma net_check_chain:
  "forward_chain net n addr = Some a \<Longrightarrow>
     net_check (n + m) unreachable net addr \<lparr>cq_FromLeader = False\<rparr> =
     net_check m unreachable net a \<lparr>cq_FromLeader = False\<rparr>"
  by (induction n arbitrary: addr)
    (auto simp: net_check_forward simp del: net_check.simps split: option.splits)

lemma net_check_stops:
  assumes "forward_target net addr = None"
  shows "net_check (Suc (Suc n)) unreachable net addr \<lparr>cq_FromLeader = False\<rparr> \<noteq> None"
proof (cases "net addr")
  case (Some t)
  show ?thesis
  proof (cases "gt_leader t \<noteq> 0 \<and> gt_isLeader t")
    case True
    with Some show ?thesis by (simp add: net_check_leader del: net_check.simps)
  next
    case False
    with Some assms show ?thesis
      by (auto simp: forward_target_def Check_def Let_def split: option.splits if_splits)
  qed
qed simp

lemma forward_chain_ends:
  "forward_chain net n addr = None \<Longrightarrow>
     \<exists>fuel. net_check fuel unreachable net addr \<lparr>cq_FromLeader = False\<rparr> \<noteq> None"
proof (induction n arbitrary: addr)
  case 0
  then show ?case by simp
next
  case (Suc n)
  show ?case
  proof (cases "forward_target net addr")
    case None
    then show ?thesis using net_check_stops by blast
  next
    case (Some a)
    with Suc.prems have "forward_chain net n a = None" by simp
    from Suc.IH [OF this] obtain fuel where
      "net_check fuel unreachable net a \<lparr>cq_FromLeader = False\<rparr> \<noteq> None" by blast
    then show ?thesis using net_check_forward [OF Some] by metis
  qed
qed

lemma forward_chain_endless:
  "(\<And>n. forward_chain net n addr \<noteq> None) \<Longrightarrow>
     net_check fuel unreachable net addr \<lparr>cq_FromLeader = False\<rparr> = None"
proof (induction fuel arbitrary: addr)
  case 0
  then show ?case by simp
next
  case (Suc fuel)
  from Suc.prems [of 1] obtain a where a: "forward_target net addr = Some a"
    by (auto split: option.splits)
  have "forward_chain net n a \<noteq> None" for n
    using Suc.prems [of "Suc n"] a by simp
  with Suc.IH [of a] a show ?case by (simp add: net_check_forward del: net_check.simps)
qed

section \<open>Properties\<close>


definition echo_api :: "(string, string, string, string) transport_api" where
  "echo_api =
     \<lparr>ta_X509KeyPair = (\<lambda>c k. if k = '''' then Inl (Ext ''no key'') else Inr c),
      ta_CertPool = (\<lambda>ca. if ca = '''' then None else Some ca),
      ta_NewClient = (\<lambda>a c. if a = '''' then Inl (Ext ''no address'') else Inr a)\<rparr>"

text \<open>
  C27: sending a message. When the receiver decodes what the sender encodes, one call of \<open>DoSend\<close> steps the
  very message in the receiver's raft node once, and its result is true exactly if the node took it;
  a receiver that listens but has no node yet answers false.
\<close>

theorem dosend_steps_peer:
  assumes "map_of (gt_peers s) (na_To api msg) = Some p" and "net (pe_client p) = Some t"
    and "na_Marshal api msg = Inr data" and "na_Unmarshal api data = Inr msg"
  shows "DoSend api (net_send api unreachable net) s msg w =
    (case gt_node t of
       None \<Rightarrow> (Inr False, w)
     | Some node \<Rightarrow> (case na_Step api node msg w of (err, w1) \<Rightarrow> (Inr (err = None), w1)))"
  using assms
  by (auto simp: DoSend_def net_send_def Send_def getNode_def split: option.splits prod.splits)


text \<open>The network of the witnesses: nodes \<open>n1\<close> to \<open>n3\<close>, each knowing all three.\<close>

definition example_peers :: "(u64 \<times> string peer) list" where
  "example_peers = [(3, \<lparr>pe_addr = ''n3'', pe_client = ''n3''\<rparr>),
     (1, \<lparr>pe_addr = ''n1'', pe_client = ''n1''\<rparr>), (2, \<lparr>pe_addr = ''n2'', pe_client = ''n2''\<rparr>)]"

definition example_node ::
  "u64 \<Rightarrow> bool \<Rightarrow> nat option \<Rightarrow> (string, nat, unit, unit, unit, unit) grpcTransport" where
  "example_node leader isLeader node =
     \<lparr>gt_addr = '''', gt_peers = example_peers, gt_meta = ''M'', gt_leader = leader,
      gt_isLeader = isLeader, gt_node = node, gt_kubeconfigFetcher = None,
      gt_serverCredentials = None, gt_clientCredentials = None, gt_logger = None\<rparr>"

text \<open>Node 2 leads, node 3 has not heard of it.\<close>

definition example_net :: "(nat, unit, unit, unit, unit) network" where
  "example_net =
     [''n1'' \<mapsto> example_node 2 False (Some 1), ''n2'' \<mapsto> example_node 2 True (Some 2),
      ''n3'' \<mapsto> example_node 0 False None]"

definition example_node_api :: "((nat \<times> nat) list, string, nat, nat) node_api" where
  "example_node_api =
     \<lparr>na_To = word_of_nat, na_Marshal = (\<lambda>m. Inr (replicate m CHR ''x'')),
      na_Unmarshal = (\<lambda>d. Inr (length d)), na_Step = (\<lambda>nd m w. (None, w @ [(nd, m)]))\<rparr>"

lemmas example_simps = example_net_def example_node_def example_peers_def example_node_api_def

theorem dosend_steps_peer_witness:
  "DoSend example_node_api (net_send example_node_api (\<lambda>a. a) example_net) (example_node 2 False (Some 1)) 2 [] =
     (Inr True, [(2, 2)]) \<and>
   DoSend example_node_api (net_send example_node_api (\<lambda>a. a) example_net) (example_node 2 False (Some 1)) 3 [] =
     (Inr False, [])"
  using dosend_steps_peer [of "example_node 2 False (Some 1)" example_node_api 2
      "\<lparr>pe_addr = ''n2'', pe_client = ''n2''\<rparr>" example_net "example_node 2 True (Some 2)" "''xx''"
      "\<lambda>a. a" "[]"]
    dosend_steps_peer [of "example_node 2 False (Some 1)" example_node_api 3
      "\<lparr>pe_addr = ''n3'', pe_client = ''n3''\<rparr>" example_net "example_node 0 False None" "''xxx''"
      "\<lambda>a. a" "[]"]
  by (simp add: example_simps numeral_2_eq_2 numeral_3_eq_3)

text \<open>
  A node that listens but whose raft node is not set yet stops the main loop of every node that has a
  message for it: the loop of this round never ends.
\<close>

theorem unstarted_peer_blocks:
  assumes "map_of (gt_peers s) (na_To api msg) = Some p" and "net (pe_client p) = Some t"
    and "gt_node t = None" and "na_Marshal api msg = Inr data"
    and "la_DoSend loop = DoSend api (net_send api unreachable net) s"
  shows "send_retry loop msg w = None"
proof -
  have "fst (la_DoSend loop msg w') = Inr False" for w'
    using assms by (simp add: DoSend_def net_send_def Send_def getNode_def)
  then show ?thesis using send_retry_SomeD [of loop msg w] by (cases "send_retry loop msg w") auto
qed

definition example_loop_api ::
  "((nat \<times> nat) list, string, nat, nat) loop_api" where
  "example_loop_api = (log_api (\<lambda>m. Inr True))
     \<lparr>la_DoSend := DoSend example_node_api (net_send example_node_api (\<lambda>a. a) example_net)
        (example_node 2 False (Some 1))\<rparr>"

theorem unstarted_peer_blocks_witness: "send_retry example_loop_api 3 [] = None"
  by (rule unstarted_peer_blocks [of "example_node 2 False (Some 1)" example_node_api 3
      "\<lparr>pe_addr = ''n3'', pe_client = ''n3''\<rparr>" example_net "example_node 0 False None" "''xxx''"])
    (simp_all add: example_simps example_loop_api_def numeral_3_eq_3)

text \<open>
  C15: the health check of a cluster. A check that is forwarded from node to node until it reaches a leader
  returns that leader's view: it has a leader, its metadata, and as unhealthy exactly the peers of its
  table that are not reachable or know no leader. As many hops of fuel as the chain has, and two more for
  the leader and its peers, are enough.
\<close>

theorem check_reports_leader_view:
  assumes "forward_chain net n addr = Some a" and "net a = Some t"
    and "gt_leader t \<noteq> 0" and "gt_isLeader t"
  shows "net_check (n + 2 + k) unreachable net addr \<lparr>cq_FromLeader = False\<rparr> =
    Some (Inr \<lparr>cs_HasLeader = True,
      cs_UnhealthyNodes = map fst (filter (\<lambda>(i, p). \<not> healthy net (pe_client p)) (gt_peers t)),
      cs_Meta = gt_meta t\<rparr>)"
  using net_check_chain [OF assms(1), of "Suc (Suc k)" unreachable] assms(2-4)
  by (simp add: net_check_leader del: net_check.simps)

theorem check_reports_leader_view_witness:
  "net_check 3 (\<lambda>a. a) example_net ''n1'' \<lparr>cq_FromLeader = False\<rparr> =
     Some (Inr \<lparr>cs_HasLeader = True, cs_UnhealthyNodes = [3], cs_Meta = ''M''\<rparr>)"
  using check_reports_leader_view [of example_net 1 "''n1''" "''n2''" "example_node 2 True (Some 2)" 0 "\<lambda>a. a"]
  by (simp add: example_simps forward_target_def healthy_def numeral_3_eq_3 del: net_check.simps)

text \<open>
  C28: the health check never returns, on any number of hops, exactly when the nodes forward it in a chain
  without an end, as two nodes do that each take the other for the leader.
\<close>

theorem check_diverges_iff:
  "(\<forall>fuel. net_check fuel unreachable net addr \<lparr>cq_FromLeader = False\<rparr> = None) \<longleftrightarrow>
     (\<forall>n. forward_chain net n addr \<noteq> None)"
proof
  assume never: "\<forall>fuel. net_check fuel unreachable net addr \<lparr>cq_FromLeader = False\<rparr> = None"
  show "\<forall>n. forward_chain net n addr \<noteq> None"
  proof (intro allI notI)
    fix n
    assume "forward_chain net n addr = None"
    from forward_chain_ends [OF this, of unreachable] never show False by simp
  qed
next
  assume "\<forall>n. forward_chain net n addr \<noteq> None"
  then show "\<forall>fuel. net_check fuel unreachable net addr \<lparr>cq_FromLeader = False\<rparr> = None"
    by (simp add: forward_chain_endless)
qed

text \<open>Two stale followers, each forwarding to the other.\<close>

lemma stale_leaders_cycle:
  assumes "forward_target net a = Some b" and "forward_target net b = Some a"
  shows "forward_chain net n a \<noteq> None \<and> forward_chain net n b \<noteq> None"
  by (induction n) (simp_all add: assms)

text \<open>A client that skips verification differs from one that does not in nothing else.\<close>

lemma insecure_client_credentials:
  assumes "client_credentials api config [] = Inr (TLS c)"
  shows "client_credentials api config [True] = Inr (TLS (c\<lparr>tls_InsecureSkipVerify := True\<rparr>))"
  using assms
  by (auto simp: client_credentials_def clientTLSConfig_def split: if_splits sum.splits option.splits)

text \<open>Whatever ends the server, the listener is closed and the shutdown is logged last.\<close>

lemma transport_Run_closes:
  assumes "transport_Run t listen ev = Returns (err, acts)" and "listen (gt_addr t) = None"
  shows "CloseListener \<in> set acts \<and> last acts = LogShutdown"
  using assms
  by (auto simp: transport_Run_def split: option.splits transport_event.splits)

end
