(* ===== verification/Steps.thy ===== *)
theory Steps
  imports Prelude
begin

text \<open>
  What the step relations of the development share: invariants of reachable states, and executions that a
  measure bounds. Each relation interprets the two locales.
\<close>

locale step_invariant =
  fixes init :: 's
    and step :: "'s \<Rightarrow> 's \<Rightarrow> bool"
    and inv :: "'s \<Rightarrow> bool"
  assumes inv_init: "inv init"
    and inv_step: "step s s' \<Longrightarrow> inv s \<Longrightarrow> inv s'"
begin

lemma inv_reachable: "step\<^sup>*\<^sup>* init s \<Longrightarrow> inv s"
  by (induction rule: rtranclp_induct) (auto intro: inv_init inv_step)

lemma inv_steps: "(step ^^ n) init s \<Longrightarrow> inv s"
  by (blast intro: inv_reachable relpowp_imp_rtranclp)

end

text \<open>
  \<open>ending\<close> is a condition that stays true once it is, and from which on every step lowers the measure.
\<close>

locale bounded_steps =
  fixes step :: "'s \<Rightarrow> 's \<Rightarrow> bool"
    and ending :: "'s \<Rightarrow> bool"
    and steps_left :: "'s \<Rightarrow> nat"
  assumes ending_step: "step s s' \<Longrightarrow> ending s \<Longrightarrow> ending s'"
    and left_step: "step s s' \<Longrightarrow> ending s \<Longrightarrow> steps_left s' < steps_left s"
begin

lemma bounded: "(step ^^ n) s s' \<Longrightarrow> ending s \<Longrightarrow> ending s' \<and> steps_left s' + n \<le> steps_left s"
proof (induction n arbitrary: s')
  case 0
  then show ?case by simp
next
  case (Suc n)
  then obtain t where "(step ^^ n) s t" and st: "step t s'" by auto
  with Suc.IH Suc.prems(2) have t: "ending t" and "steps_left t + n \<le> steps_left s" by auto
  with ending_step [OF st t] left_step [OF st t] show ?case by simp
qed

text \<open>So there is no infinite execution.\<close>

lemma no_infinite:
  assumes "ending (f 0)"
  shows "\<not> (\<forall>i. step (f i) (f (Suc i)))"
proof
  assume steps: "\<forall>i. step (f i) (f (Suc i))"
  have "(step ^^ n) (f 0) (f n)" for n
    by (induction n) (use steps in auto)
  from bounded [OF this assms, of "Suc (steps_left (f 0))"] show False by simp
qed

end

end
