(* ===== verification/Raft_Run.thy ===== *)
theory Raft_Run
  imports Raft_Transport Steps
begin

text \<open>
  \<open>Run\<close> of \<open>raft/locker.go\<close>: what it prepares, what \<open>runRaft\<close> starts the raft node with, and how \<open>Run\<close> and
  its two goroutines end together.
\<close>

section \<open>Preparation\<close>

text \<open>
  The transport that \<open>Run\<close> builds. \<open>entries\<close> lists a Go map in the order in which \<open>range\<close> yields its
  entries.
\<close>

definition raft_Run_start ::
  "('e, 'cert, 'pool, 'cl) transport_api \<Rightarrow> ((u64 \<rightharpoonup> string) \<Rightarrow> (u64 \<times> string) list) \<Rightarrow>
   ('f, 'lg) RaftLockConfiguration \<Rightarrow>
   'e go_error + ('cl, 'nd, 'f, 'cert, 'pool, 'lg) grpcTransport" where
  "raft_Run_start api entries config =
     (case validate_raft config of
        Some err \<Rightarrow> Inl err
      | None \<Rightarrow>
          (let nodes = peersForNodes (rc_Peers config)
           in case (if rc_Insecure config
                    then newInsecureGRPCTransport api (rc_Meta config) (rc_Address config)
                           (entries nodes) (rc_Fetcher config)
                    else newGRPCTransport api (rc_Meta config) (rc_Certificate config)
                           (rc_PrivateKey config) (rc_CA config) (rc_Address config)
                           (entries nodes) (rc_Fetcher config)) of
                Inl err \<Rightarrow> Inl err
              | Inr transport \<Rightarrow> Inr (transport\<lparr>gt_logger := rc_Logger config\<rparr>)))"

text \<open>What the raft node is started with.\<close>

record 'lg raft_node_Config =
  nc_ID :: u64
  nc_ElectionTick :: int
  nc_HeartbeatTick :: int
  nc_MaxSizePerMsg :: int
  nc_MaxInflightMsgs :: int
  nc_CheckQuorum :: bool
  nc_Logger :: 'lg

text \<open>
  The deferred call of \<open>config.Logger.Info\<close> is evaluated before anything else, so the default logger that is
  filled in later comes too late.
\<close>

definition runRaft_start ::
  "'lg \<Rightarrow> ('f, 'lg) RaftLockConfiguration \<Rightarrow> ('lg raft_node_Config \<times> raft_Peer list) outcome" where
  "runRaft_start discardLogger config =
     (case rc_Logger config of
        None \<Rightarrow> Panics ''nil logger''
      | Some _ \<Rightarrow>
          (let c = with_timeouts config;
               logger = (case rc_Logger c of None \<Rightarrow> discardLogger | Some lg \<Rightarrow> lg)
           in Returns (\<lparr>nc_ID = rc_ID c, nc_ElectionTick = electionTick c,
                nc_HeartbeatTick = heartbeatTick c, nc_MaxSizePerMsg = 1024 * 1024,
                nc_MaxInflightMsgs = 256, nc_CheckQuorum = True, nc_Logger = logger\<rparr>,
                asPeers (rc_Peers c))))"

section \<open>Run and its goroutines\<close>

text \<open>
  A goroutine of \<open>Run\<close> runs, has put its error into the channel, or has called \<open>wg.Done\<close>. \<open>Run\<close> itself
  waits in its \<open>select\<close>, waits for the group with the result it will return, or has returned.
  \<open>rs_sent\<close> is the history of the errors sent, for the statements only.
\<close>

datatype goroutine = Running | Sent | Done

datatype 'e run_pc =
    Selecting
  | Waiting "'e go_error option"
  | Returned "'e go_error option"

record 'e run_state =
  rs_transport :: goroutine
  rs_raft :: goroutine
  rs_errs :: "'e go_error list"
  rs_wg :: nat
  rs_cancelled :: bool
  rs_main :: "'e run_pc"
  rs_sent :: "'e go_error list"

definition run_init :: "'e run_state" where
  "run_init = \<lparr>rs_transport = Running, rs_raft = Running, rs_errs = [], rs_wg = 2,
     rs_cancelled = False, rs_main = Selecting, rs_sent = []\<rparr>"

text \<open>
  One step of any of them, or of the caller that cancels its context. The parameter says whether the main
  loop of \<open>runRaft\<close> gets back to its \<open>select\<close>, which it does not while it retries a message. The transport
  ends with an error at any time, and without one only when the context is cancelled
  (\<open>transport_Run\<close>); \<open>runRaft\<close> ends only then and never with an error. The channel has room for two.
\<close>

inductive run_step :: "bool \<Rightarrow> 'e run_state \<Rightarrow> 'e run_state \<Rightarrow> bool" for loops :: bool where
  caller_cancels:
    "\<not> rs_cancelled s \<Longrightarrow> run_step loops s (s\<lparr>rs_cancelled := True\<rparr>)"
| transport_fails:
    "rs_transport s = Running \<Longrightarrow> length (rs_errs s) < 2 \<Longrightarrow>
     run_step loops s (s\<lparr>rs_transport := Sent, rs_errs := rs_errs s @ [err],
       rs_sent := rs_sent s @ [err]\<rparr>)"
| transport_ends:
    "rs_transport s = Running \<Longrightarrow> rs_cancelled s \<Longrightarrow>
     run_step loops s (s\<lparr>rs_transport := Done, rs_wg := rs_wg s - 1\<rparr>)"
| transport_done:
    "rs_transport s = Sent \<Longrightarrow> run_step loops s (s\<lparr>rs_transport := Done, rs_wg := rs_wg s - 1\<rparr>)"
| raft_ends:
    "rs_raft s = Running \<Longrightarrow> rs_cancelled s \<Longrightarrow> loops \<Longrightarrow>
     run_step loops s (s\<lparr>rs_raft := Done, rs_wg := rs_wg s - 1\<rparr>)"
| select_error:
    "rs_main s = Selecting \<Longrightarrow> rs_errs s = err # errs \<Longrightarrow>
     run_step loops s (s\<lparr>rs_errs := errs, rs_cancelled := True, rs_main := Waiting (Some err)\<rparr>)"
| select_done:
    "rs_main s = Selecting \<Longrightarrow> rs_cancelled s \<Longrightarrow> run_step loops s (s\<lparr>rs_main := Waiting None\<rparr>)"
| wait_returns:
    "rs_main s = Waiting r \<Longrightarrow> rs_wg s = 0 \<Longrightarrow> run_step loops s (s\<lparr>rs_main := Returned r\<rparr>)"

text \<open>The invariant: the group counts the goroutines that are not done, and errors come from the channel.\<close>

definition unfinished :: "goroutine \<Rightarrow> nat" where
  "unfinished g = (if g = Done then 0 else 1)"

definition run_inv :: "'e run_state \<Rightarrow> bool" where
  "run_inv s \<longleftrightarrow>
     rs_wg s = unfinished (rs_transport s) + unfinished (rs_raft s) \<and>
     rs_raft s \<noteq> Sent \<and>
     set (rs_errs s) \<subseteq> set (rs_sent s) \<and>
     length (rs_sent s) \<le> (if rs_transport s = Running then 0 else 1) \<and>
     length (rs_errs s) \<le> length (rs_sent s) \<and>
     (case rs_main s of
        Selecting \<Rightarrow> True
      | Waiting r \<Rightarrow> rs_cancelled s \<and> (case r of None \<Rightarrow> True | Some e \<Rightarrow> e \<in> set (rs_sent s))
      | Returned r \<Rightarrow> rs_cancelled s \<and> rs_wg s = 0 \<and> (case r of None \<Rightarrow> True | Some e \<Rightarrow> e \<in> set (rs_sent s)))"

interpretation raft_run: step_invariant run_init "run_step loops" run_inv for loops
proof unfold_locales
  show "run_inv run_init" by (simp add: run_inv_def run_init_def unfinished_def)
next
  fix s s' :: "'e run_state"
  assume "run_step loops s s'" and "run_inv s"
  then show "run_inv s'"
    by (cases rule: run_step.cases)
      (auto simp: run_inv_def unfinished_def split: run_pc.splits if_splits option.splits)
qed

text \<open>Every step uses up something: no execution is longer than seven steps.\<close>

definition run_measure :: "'e run_state \<Rightarrow> nat" where
  "run_measure s =
     (case rs_transport s of Running \<Rightarrow> 2 | Sent \<Rightarrow> 1 | Done \<Rightarrow> 0) +
     (case rs_raft s of Running \<Rightarrow> 2 | Sent \<Rightarrow> 1 | Done \<Rightarrow> 0) +
     (case rs_main s of Selecting \<Rightarrow> 2 | Waiting r \<Rightarrow> 1 | Returned r \<Rightarrow> 0) +
     (if rs_cancelled s then 0 else 1)"

interpretation raft_run: bounded_steps "run_step loops" "\<lambda>s. True" run_measure for loops
  by unfold_locales (erule run_step.cases; auto simp: run_measure_def)+

lemma run_progress:
  assumes "run_inv s" and "rs_cancelled s \<or> rs_errs s \<noteq> []" and "\<And>r. rs_main s \<noteq> Returned r"
  shows "\<exists>s'. run_step True s s'"
proof (cases "rs_main s")
  case Selecting
  then show ?thesis
    using assms(2) select_done [of s True] select_error [of s _ _ True]
    by (cases "rs_errs s") auto
next
  case (Waiting r)
  with assms(1) have c: "rs_cancelled s"
    and wg: "rs_wg s = unfinished (rs_transport s) + unfinished (rs_raft s)" and "rs_raft s \<noteq> Sent"
    by (auto simp: run_inv_def)
  show ?thesis
  proof (cases "rs_wg s = 0")
    case True
    with Waiting show ?thesis by (blast intro: wait_returns)
  next
    case False
    with wg have "rs_transport s \<noteq> Done \<or> rs_raft s \<noteq> Done" by (auto simp: unfinished_def)
    with c \<open>rs_raft s \<noteq> Sent\<close> show ?thesis
      by (cases "rs_transport s"; cases "rs_raft s")
        (auto intro: transport_ends transport_done raft_ends)
  qed
next
  case (Returned r)
  with assms(3) show ?thesis by blast
qed

lemma run_inv_Returned:
  "run_inv s \<Longrightarrow> rs_main s = Returned r \<Longrightarrow>
     rs_transport s = Done \<and> rs_raft s = Done \<and>
     (case r of None \<Rightarrow> True | Some e \<Rightarrow> e \<in> set (rs_sent s))"
  by (auto simp: run_inv_def unfinished_def split: if_splits)

section \<open>Goroutines only move forward\<close>

text \<open>The states of a goroutine in the order in which it goes through them.\<close>

fun progress :: "goroutine \<Rightarrow> nat" where
  "progress Running = 0"
| "progress Sent = 1"
| "progress Done = 2"

instantiation goroutine :: linorder
begin

definition less_eq_goroutine :: "goroutine \<Rightarrow> goroutine \<Rightarrow> bool" where
  "less_eq_goroutine g h \<longleftrightarrow> progress g \<le> progress h"

definition less_goroutine :: "goroutine \<Rightarrow> goroutine \<Rightarrow> bool" where
  "less_goroutine g h \<longleftrightarrow> progress g < progress h"

instance
proof
  fix g h k :: goroutine
  show "(g < h) = (g \<le> h \<and> \<not> h \<le> g)" by (auto simp: less_eq_goroutine_def less_goroutine_def)
  show "g \<le> g" by (simp add: less_eq_goroutine_def)
  show "g \<le> h \<Longrightarrow> h \<le> k \<Longrightarrow> g \<le> k" by (simp add: less_eq_goroutine_def)
  show "g \<le> h \<Longrightarrow> h \<le> g \<Longrightarrow> g = h" by (cases g; cases h) (simp_all add: less_eq_goroutine_def)
  show "g \<le> h \<or> h \<le> g" by (auto simp: less_eq_goroutine_def)
qed

end

inductive_cases run_stepE: "run_step loops s s'"

lemma run_step_forward:
  "run_step loops s s' \<Longrightarrow> rs_transport s \<le> rs_transport s' \<and> rs_raft s \<le> rs_raft s'"
  by (elim run_stepE) (simp_all add: less_eq_goroutine_def)

lemma run_steps_forward:
  "(run_step loops)\<^sup>*\<^sup>* s s' \<Longrightarrow> rs_transport s \<le> rs_transport s' \<and> rs_raft s \<le> rs_raft s'"
  by (induction rule: rtranclp_induct) (auto dest: run_step_forward)

text \<open>When \<open>Run\<close> has returned, nothing of it moves any more.\<close>

lemma run_returned_final:
  "run_inv s \<Longrightarrow> rs_main s = Returned r \<Longrightarrow> \<not> run_step loops s s'"
  by (rule notI, elim run_stepE) (auto simp: run_inv_def unfinished_def split: if_splits)

lemma run_blocked_raft: "(run_step False)\<^sup>*\<^sup>* run_init s \<Longrightarrow> rs_raft s = Running"
proof (induction rule: rtranclp_induct)
  case base
  then show ?case by (simp add: run_init_def)
next
  case (step s s')
  from step.hyps(2) step.IH show ?case by (cases rule: run_step.cases) auto
qed

section \<open>Properties\<close>

text \<open>
  C35: \<open>Run\<close> never leaves a goroutine behind. When it has returned, the transport and \<open>runRaft\<close> have both
  ended, nothing of it can move any more, and an error it returns is one that the transport reported.
\<close>

theorem run_waits_for_both:
  assumes "(run_step loops)\<^sup>*\<^sup>* run_init s" and "rs_main s = Returned r"
  shows "rs_transport s = Done \<and> rs_raft s = Done \<and> \<not> (\<exists>s'. run_step loops s s') \<and>
    (case r of None \<Rightarrow> True | Some e \<Rightarrow> e \<in> set (rs_sent s))"
  using run_inv_Returned [OF raft_run.inv_reachable [OF assms(1)] assms(2)]
    run_returned_final [OF raft_run.inv_reachable [OF assms(1)] assms(2)] by blast


text \<open>
  While the main loop retries a message, \<open>Run\<close> does not return, whatever is cancelled or fails.
\<close>

theorem run_hangs_with_loop:
  assumes "(run_step False)\<^sup>*\<^sup>* run_init s"
  shows "rs_main s \<noteq> Returned r"
  using run_blocked_raft [OF assms] run_inv_Returned [OF raft_run.inv_reachable [OF assms]] by auto

text \<open>A run in which the transport fails, and one in which the caller cancels.\<close>

definition failed_run :: "string run_state" where
  "failed_run = \<lparr>rs_transport = Done, rs_raft = Done, rs_errs = [], rs_wg = 0, rs_cancelled = True,
     rs_main = Returned (Some (Ext ''listen'')), rs_sent = [Ext ''listen'']\<rparr>"

lemma failed_run_steps: "(run_step True ^^ 5) run_init failed_run"
proof -
  define s1 :: "string run_state" where
    "s1 = run_init\<lparr>rs_transport := Sent, rs_errs := [Ext ''listen''], rs_sent := [Ext ''listen'']\<rparr>"
  define s2 where "s2 = s1\<lparr>rs_errs := [], rs_cancelled := True, rs_main := Waiting (Some (Ext ''listen''))\<rparr>"
  define s3 where "s3 = s2\<lparr>rs_transport := Done, rs_wg := 1\<rparr>"
  define s4 where "s4 = s3\<lparr>rs_raft := Done, rs_wg := 0\<rparr>"
  note defs = s1_def s2_def s3_def s4_def run_init_def failed_run_def
  have "run_step True run_init s1"
    using transport_fails [of run_init True "Ext ''listen''"] by (simp add: defs)
  moreover have "run_step True s1 s2"
    using select_error [of s1 "Ext ''listen''" "[]" True] by (simp add: defs)
  moreover have "run_step True s2 s3" using transport_done [of s2 True] by (simp add: defs)
  moreover have "run_step True s3 s4" using raft_ends [of s3 True] by (simp add: defs)
  moreover have "run_step True s4 failed_run"
    using wait_returns [of s4 "Some (Ext ''listen'')" True] by (simp add: defs)
  ultimately show ?thesis by (simp add: eval_nat_numeral) blast
qed

theorem run_waits_for_both_witness:
  "rs_transport failed_run = Done \<and> rs_raft failed_run = Done \<and> \<not> (\<exists>s'. run_step True failed_run s') \<and>
     Ext ''listen'' \<in> set (rs_sent failed_run)"
  using run_waits_for_both [OF relpowp_imp_rtranclp [OF failed_run_steps], of "Some (Ext ''listen'')"]
  by (simp add: failed_run_def)


theorem run_hangs_with_loop_witness:
  "rs_main (run_init\<lparr>rs_cancelled := True\<rparr> :: string run_state) \<noteq> Returned None"
proof (rule run_hangs_with_loop)
  show "(run_step False)\<^sup>*\<^sup>* run_init (run_init\<lparr>rs_cancelled := True\<rparr> :: string run_state)"
    using caller_cancels [of "run_init :: string run_state" False] by (auto simp: run_init_def)
qed

text \<open>
  A missing logger crashes the process. A configuration without a logger passes validation and gets its
  transport, but both goroutines then panic, before the default logger is filled in.
\<close>

theorem nil_logger_panics:
  assumes "raft_Run_start api entries config = Inr t" and "rc_Logger config = None"
  shows "transport_Run t listen ev = Panics ''nil logger'' \<and>
    runRaft_start discardLogger config = Panics ''nil logger''"
  using assms
  by (auto simp: raft_Run_start_def transport_Run_def runRaft_start_def Let_def
      split: option.splits sum.splits if_splits)

theorem nil_logger_panics_witness:
  "\<exists>t :: (string, unit, unit, string, string, unit) grpcTransport.
     raft_Run_start echo_api (\<lambda>m. []) default_raft_config = Inr t \<and>
     transport_Run t (\<lambda>a. None :: string go_error option) (CtxDone None) = Panics ''nil logger'' \<and>
     runRaft_start () default_raft_config = Panics ''nil logger''"
proof -
  obtain t :: "(string, unit, unit, string, string, unit) grpcTransport" where
    t: "raft_Run_start echo_api (\<lambda>m. []) default_raft_config = Inr t"
    by (simp add: raft_Run_start_def default_raft_config_def validate_raft_def
        newInsecureGRPCTransport_def)
  from nil_logger_panics [OF t, of "\<lambda>a. None :: string go_error option" "CtxDone None" "()"] t
  show ?thesis by (auto simp: default_raft_config_def)
qed

text \<open>
  With a logger, the transport that a secure configuration gets knows the address of every peer, whatever
  the order in which the table is traversed.
\<close>

lemma raft_Run_start_peers:
  assumes "raft_Run_start api entries config = Inr t" and "map_of (entries (peersForNodes (rc_Peers config))) = peersForNodes (rc_Peers config)"
  shows "dom (map_of (gt_peers t)) = ln_ID ` set (rc_Peers config)"
proof -
  have dom: "dom (map_of ps) = dom (map_of (entries (peersForNodes (rc_Peers config))))"
    if "initialize_peers api c (entries (peersForNodes (rc_Peers config))) = Inr ps" for c ps
  proof -
    from initialize_peers_Inr [OF that]
    have "map fst ps = map fst (entries (peersForNodes (rc_Peers config)))" by blast
    then have "set (map fst ps) = set (map fst (entries (peersForNodes (rc_Peers config))))" by (rule arg_cong)
    then show ?thesis by (simp add: dom_map_of_conv_image_fst)
  qed
  have "dom (peersForNodes (rc_Peers config)) = ln_ID ` set (rc_Peers config)"
    by (simp only: peersForNodes_eq dom_assign_all) force
  moreover from assms(1) obtain c where
    "initialize_peers api c (entries (peersForNodes (rc_Peers config))) = Inr (gt_peers t)"
    by (auto simp: raft_Run_start_def newGRPCTransport_def newInsecureGRPCTransport_def Let_def
        split: option.splits sum.splits if_splits)
  ultimately show ?thesis using dom assms(2) by simp
qed

end
