(* ===== verification/Leader_Manager.thy ===== *)
theory Leader_Manager
  imports Kube_Elector Raft_Run
begin

text \<open>
  The \<open>LeaderManager\<close> of \<open>leader.go\<close>: the leader routines and the flag \<open>IsLeader\<close> on top of either lock, its
  three constructors, and the loop around each leader routine.
\<close>

section \<open>The manager\<close>

text \<open>
  The runner is the closure that the constructor stores: which lock it runs, with which configuration and
  callbacks. Both callbacks are methods of the manager. \<open>lm_logger\<close> is the logger, \<open>None\<close> for the
  zero value, which drops what it is given.
\<close>

datatype ('kc, 'rc) runner =
    RunKube 'kc KubeLeaderCallbacks
  | RunRaft 'rc RaftLeaderCallbacks

record ('fn, 'kc, 'rc, 'lg) LeaderManager =
  lm_leaderRoutines :: "'fn list"
  lm_logger :: "'lg option"
  lm_isLeader :: bool
  lm_runner :: "('kc, 'rc) runner"

definition new_manager :: "('kc, 'rc) runner \<Rightarrow> ('fn, 'kc, 'rc, 'lg) LeaderManager" where
  "new_manager r = \<lparr>lm_leaderRoutines = [], lm_logger = None, lm_isLeader = False, lm_runner = r\<rparr>"

definition NewKubernetesLockManager :: "'kc \<Rightarrow> ('fn, 'kc, 'rc, 'lg) LeaderManager" where
  "NewKubernetesLockManager configuration =
     new_manager (RunKube configuration
       \<lparr>has_OnStartedLeading = True, has_OnStoppedLeading = True\<rparr>)"

definition NewRaftLockManager :: "'rc \<Rightarrow> ('fn, 'kc, 'rc, 'lg) LeaderManager" where
  "NewRaftLockManager configuration =
     new_manager (RunRaft configuration
       \<lparr>raft_SetLeader = False, raft_OnStartedLeading = True, raft_OnStoppedLeading = True\<rparr>)"

definition NewLeaderTrackingRaftLockManager ::
  "'rc \<Rightarrow> 'set option \<Rightarrow> ('fn, 'kc, 'rc, 'lg) LeaderManager" where
  "NewLeaderTrackingRaftLockManager configuration setLeader =
     new_manager (RunRaft configuration
       \<lparr>raft_SetLeader = (setLeader \<noteq> None), raft_OnStartedLeading = True,
        raft_OnStoppedLeading = True\<rparr>)"

definition RegisterRoutine ::
  "('fn, 'kc, 'rc, 'lg) LeaderManager \<Rightarrow> 'fn \<Rightarrow> ('fn, 'kc, 'rc, 'lg) LeaderManager" where
  "RegisterRoutine lm fn = lm\<lparr>lm_leaderRoutines := lm_leaderRoutines lm @ [fn]\<rparr>"

definition IsLeader :: "('fn, 'kc, 'rc, 'lg) LeaderManager \<Rightarrow> bool" where
  "IsLeader lm = lm_isLeader lm"

text \<open>The goroutines that \<open>runLeaderRoutines\<close> starts: each routine with the context it was given.\<close>

definition runLeaderRoutines ::
  "'ctx \<Rightarrow> ('fn, 'kc, 'rc, 'lg) LeaderManager \<Rightarrow>
   ('fn, 'kc, 'rc, 'lg) LeaderManager \<times> ('fn \<times> 'ctx) list" where
  "runLeaderRoutines ctx lm =
     (let lm1 = lm\<lparr>lm_isLeader := True\<rparr>
      in (lm1, map (\<lambda>fn. (fn, ctx)) (lm_leaderRoutines lm1)))"

definition stopped_callback ::
  "('fn, 'kc, 'rc, 'lg) LeaderManager \<Rightarrow> ('fn, 'kc, 'rc, 'lg) LeaderManager" where
  "stopped_callback lm = lm\<lparr>lm_isLeader := False\<rparr>"

definition manager_Run ::
  "('kc \<Rightarrow> KubeLeaderCallbacks \<Rightarrow> 'r) \<Rightarrow> ('rc \<Rightarrow> RaftLeaderCallbacks \<Rightarrow> 'r) \<Rightarrow>
   ('fn, 'kc, 'rc, 'lg) LeaderManager \<Rightarrow> 'r" where
  "manager_Run run_kube run_raft lm =
     (case lm_runner lm of
        RunKube c cb \<Rightarrow> run_kube c cb
      | RunRaft c cb \<Rightarrow> run_raft c cb)"

section \<open>Events\<close>

text \<open>
  What happens to a manager: somebody registers a routine, or its lock calls back. The callbacks run one
  after the other here, in the order in which the lock makes them; \<open>spawned\<close> collects the goroutines.
\<close>

datatype ('fn, 'ctx) manager_event =
    Register 'fn
  | LeadershipStarted 'ctx
  | LeadershipStopped

fun manager_step ::
  "('fn, 'kc, 'rc, 'lg) LeaderManager \<Rightarrow> ('fn, 'ctx) manager_event \<Rightarrow>
   ('fn, 'kc, 'rc, 'lg) LeaderManager \<times> ('fn \<times> 'ctx) list" where
  "manager_step lm (Register fn) = (RegisterRoutine lm fn, [])"
| "manager_step lm (LeadershipStarted ctx) = runLeaderRoutines ctx lm"
| "manager_step lm LeadershipStopped = (stopped_callback lm, [])"

fun manager_steps ::
  "('fn, 'kc, 'rc, 'lg) LeaderManager \<Rightarrow> ('fn, 'ctx) manager_event list \<Rightarrow>
   ('fn, 'kc, 'rc, 'lg) LeaderManager \<times> ('fn \<times> 'ctx) list" where
  "manager_steps lm [] = (lm, [])"
| "manager_steps lm (e # es) =
     (let (lm1, sp) = manager_step lm e; (lm2, sps) = manager_steps lm1 es in (lm2, sp @ sps))"

lemmas manager_defs [step_simps] =
  RegisterRoutine_def runLeaderRoutines_def stopped_callback_def IsLeader_def

lemma manager_steps_append:
  "manager_steps lm (es @ fs) =
     (let (lm1, sp) = manager_steps lm es; (lm2, sps) = manager_steps lm1 fs in (lm2, sp @ sps))"
  by (induction es arbitrary: lm) (auto simp: Let_def split: prod.splits)

text \<open>The flag follows the callbacks, whatever is registered in between.\<close>

fun leadership_events :: "('fn, 'ctx) manager_event list \<Rightarrow> callback list" where
  "leadership_events [] = []"
| "leadership_events (Register fn # es) = leadership_events es"
| "leadership_events (LeadershipStarted ctx # es) = OnStartedLeading # leadership_events es"
| "leadership_events (LeadershipStopped # es) = OnStoppedLeading # leadership_events es"

lemma manager_flag:
  "IsLeader (fst (manager_steps lm es)) = deliver (IsLeader lm) (leadership_events es)"
  by (induction es arbitrary: lm rule: leadership_events.induct)
    (auto simp: step_simps Let_def split_def)

lemma manager_logger: "lm_logger (fst (manager_steps lm es)) = lm_logger lm"
  by (induction es arbitrary: lm rule: leadership_events.induct)
    (auto simp: step_simps Let_def split_def)

lemma manager_routines:
  "lm_leaderRoutines (fst (manager_steps lm es)) =
     lm_leaderRoutines lm @ [fn. Register fn \<leftarrow> es]"
  by (induction es arbitrary: lm rule: leadership_events.induct)
    (auto simp: step_simps Let_def split_def)

lemma manager_spawned_contexts:
  "(fn, ctx) \<in> set (snd (manager_steps lm es)) \<Longrightarrow> LeadershipStarted ctx \<in> set es"
  by (induction es arbitrary: lm rule: leadership_events.induct)
    (auto simp: step_simps Let_def split_def)

section \<open>The loop around a leader routine\<close>

text \<open>
  The goroutine of one routine: it calls the routine, looks at the context when the call returns, and waits
  for ten seconds or the end of the context before it calls again. \<open>rt_logged\<close> are the errors handed to the
  logger. Two counters are there for the statements only: the calls, and those begun when the
  context had already been cancelled.
\<close>

datatype 'e routine_pc =
    Calling
  | Checking "'e go_error option"
  | Backoff
  | Exited

record 'e routine =
  rt_pc :: "'e routine_pc"
  rt_cancelled :: bool
  rt_logged :: "'e go_error list"
  rt_calls :: nat
  rt_late_calls :: nat

definition routine_init :: "'e routine" where
  "routine_init = \<lparr>rt_pc = Calling, rt_cancelled = False, rt_logged = [], rt_calls = 1,
     rt_late_calls = 0\<rparr>"

inductive routine_step :: "'e routine \<Rightarrow> 'e routine \<Rightarrow> bool" where
  ctx_cancelled:
    "\<not> rt_cancelled s \<Longrightarrow> routine_step s (s\<lparr>rt_cancelled := True\<rparr>)"
| fn_returns:
    "rt_pc s = Calling \<Longrightarrow> routine_step s (s\<lparr>rt_pc := Checking err\<rparr>)"
| done_after_call:
    "rt_pc s = Checking err \<Longrightarrow> rt_cancelled s \<Longrightarrow> routine_step s (s\<lparr>rt_pc := Exited\<rparr>)"
| restart_later:
    "rt_pc s = Checking err \<Longrightarrow> \<not> rt_cancelled s \<Longrightarrow>
     routine_step s (s\<lparr>rt_pc := Backoff,
       rt_logged := rt_logged s @ (case err of None \<Rightarrow> [] | Some e \<Rightarrow> [e])\<rparr>)"
| done_in_backoff:
    "rt_pc s = Backoff \<Longrightarrow> rt_cancelled s \<Longrightarrow> routine_step s (s\<lparr>rt_pc := Exited\<rparr>)"
| timer_fires:
    "rt_pc s = Backoff \<Longrightarrow>
     routine_step s (s\<lparr>rt_pc := Calling, rt_calls := Suc (rt_calls s),
       rt_late_calls := rt_late_calls s + (if rt_cancelled s then 1 else 0)\<rparr>)"

text \<open>
  In the backoff no late call has been made yet; after a late call the routine can only return and leave.
\<close>

definition routine_inv :: "'e routine \<Rightarrow> bool" where
  "routine_inv s \<longleftrightarrow>
     rt_late_calls s \<le> 1 \<and>
     (rt_pc s = Backoff \<or> \<not> rt_cancelled s \<longrightarrow> rt_late_calls s = 0) \<and>
     (rt_pc s = Exited \<longrightarrow> rt_cancelled s)"

interpretation leader_routine: step_invariant routine_init routine_step routine_inv
proof unfold_locales
  show "routine_inv routine_init" by (simp add: routine_inv_def routine_init_def)
next
  fix s s' :: "'e routine"
  assume "routine_step s s'" and "routine_inv s"
  then show "routine_inv s'" by (cases rule: routine_step.cases) (auto simp: routine_inv_def)
qed

text \<open>After the cancellation only a few steps are left.\<close>

definition routine_measure :: "'e routine \<Rightarrow> nat" where
  "routine_measure s =
     (case rt_pc s of Backoff \<Rightarrow> 3 | Calling \<Rightarrow> 2 | Checking err \<Rightarrow> 1 | Exited \<Rightarrow> 0)"

interpretation leader_routine: bounded_steps routine_step rt_cancelled routine_measure
  by unfold_locales (erule routine_step.cases; auto simp: routine_measure_def)+

section \<open>The manager on its locks\<close>

text \<open>The events that the effects of the raft loop are for the manager.\<close>

fun effect_events :: "loop_effect \<Rightarrow> ('fn, nat) manager_event list" where
  "effect_events (Started k) = [LeadershipStarted k]"
| "effect_events Stopped = [LeadershipStopped]"
| "effect_events (SetLeader _) = []"
| "effect_events (CancelCtx _) = []"

lemma effect_events_started: "LeadershipStarted k \<in> set (effect_events e) \<longleftrightarrow> e = Started k"
  by (cases e) auto

fun is_register :: "('fn, 'ctx) manager_event \<Rightarrow> bool" where
  "is_register (Register fn) = True"
| "is_register (LeadershipStarted ctx) = False"
| "is_register LeadershipStopped = False"

lemma leadership_events_effects:
  "filter (\<lambda>e. \<not> is_register e) es = concat (map effect_events effs) \<Longrightarrow>
     leadership_events es = concat (map client_callback effs)"
proof -
  have "leadership_events es = leadership_events (filter (\<lambda>e. \<not> is_register e) es)"
    by (induction es rule: leadership_events.induct) auto
  moreover have app: "leadership_events (xs @ ys) = leadership_events xs @ leadership_events ys"
    for xs ys :: "('a, nat) manager_event list"
    by (induction xs rule: leadership_events.induct) auto
  have one: "leadership_events (effect_events e :: ('a, nat) manager_event list) = client_callback e" for e
    by (cases e) auto
  have "leadership_events (concat (map effect_events effs) :: ('a, nat) manager_event list) =
      concat (map client_callback effs)"
    by (induction effs) (auto simp: app one)
  ultimately show "filter (\<lambda>e. \<not> is_register e) es = concat (map effect_events effs) \<Longrightarrow>
     leadership_events es = concat (map client_callback effs)" by simp
qed

lemma leadership_events_append [simp]:
  "leadership_events (xs @ ys) = leadership_events xs @ leadership_events ys"
  by (induction xs rule: leadership_events.induct) auto

lemma run_loop_callbacks:
  assumes "raft_OnStartedLeading cb" and "raft_OnStoppedLeading cb"
  shows "run_loop cid (Some cb) rds s = Returns (s', effs) \<Longrightarrow>
    run_lock (loop_step cid) s rds = (s', concat (map client_callback effs))"
proof (induction rds arbitrary: s effs)
  case Nil
  then show ?case by simp
next
  case (Cons rd rds)
  from Cons.prems obtain s1 e1 e2 where hd: "handle_leadership cid (Some cb) rd s = Returns (s1, e1)"
    and tl: "run_loop cid (Some cb) rds s1 = Returns (s', e2)" and effs: "effs = e1 @ e2"
    by (auto split: outcome.splits)
  from hd assms have "loop_step cid s rd = (s1, concat (map client_callback e1))"
    by (auto simp: loop_step_def step_simps Let_def split: prod.splits if_splits)
  with Cons.IH [OF tl] effs show ?case by simp
qed

lemma no_start_no_spawn:
  "OnStartedLeading \<notin> set (leadership_events es) \<Longrightarrow> snd (manager_steps lm es) = []"
  by (induction es arbitrary: lm rule: leadership_events.induct)
    (auto simp: step_simps Let_def split_def)

lemma raft_starts_once:
  "count_list (snd (run_lock (loop_step cid) loop_init is)) OnStartedLeading \<le> 1"
proof -
  have "count_list (replicate n OnStoppedLeading) OnStartedLeading = 0" for n
    by (induction n) auto
  then show ?thesis
    unfolding run_from_init by (auto split: list.splits if_splits)
qed

section \<open>Properties\<close>



text \<open>
  On the raft lock, a node that has lost the leadership has also stopped its work: after a round that
  does not promote, \<open>IsLeader\<close> is false, and the context of every leader routine that was ever started has
  been cancelled.
\<close>

theorem raft_manager_demoted:
  assumes "lm_runner (NewRaftLockManager c :: ('fn, 'kc, 'rc, 'lg) LeaderManager) = RunRaft c cb"
    and "run_loop cid (Some cb) rds loop_init = Returns (s, effs)"
    and "filter (\<lambda>e. \<not> is_register e) es = concat (map effect_events effs)"
    and "rds \<noteq> []" and "\<not> raft_promotes cid (last rds)"
  shows "case manager_steps (NewRaftLockManager c :: ('fn, 'kc, 'rc, 'lg) LeaderManager) es of
    (lm, spawned) \<Rightarrow> \<not> IsLeader lm \<and> list_all (\<lambda>(fn, k). CancelCtx k \<in> set effs) spawned"
proof -
  let ?lm = "NewRaftLockManager c :: ('fn, 'kc, 'rc, 'lg) LeaderManager"
  from assms(1) have cb: "raft_OnStartedLeading cb" "raft_OnStoppedLeading cb"
    by (auto simp: NewRaftLockManager_def new_manager_def)
  have events: "leadership_events es = concat (map client_callback effs)"
    by (rule leadership_events_effects [OF assms(3)])
  have "\<not> deliver False (concat (map client_callback effs))"
    using raft_lock.flag_safe [OF run_loop_callbacks [OF cb assms(2)]] assms(5) by blast
  then have flag: "\<not> IsLeader (fst (manager_steps ?lm es))"
    by (simp add: manager_flag [unfolded IsLeader_def] events NewRaftLockManager_def new_manager_def IsLeader_def)
  have "CancelCtx k \<in> set effs" if "(fn, k) \<in> set (snd (manager_steps ?lm es))" for fn k
  proof -
    from manager_spawned_contexts [OF that] have "LeadershipStarted k \<in> set (filter (\<lambda>e. \<not> is_register e) es)"
      by simp
    then have "LeadershipStarted k \<in> set (concat (map effect_events effs) :: ('fn, nat) manager_event list)"
      by (simp only: assms(3))
    then have "Started k \<in> set effs" by (auto simp: effect_events_started)
    with run_loop_contexts [OF assms(2) contexts_inv_init] assms(4,5) show ?thesis
      by (auto simp: contexts_inv_def)
  qed
  with flag show ?thesis by (auto simp: list_all_iff split: prod.splits)
qed

theorem raft_manager_demoted_witness:
  "case manager_steps (NewRaftLockManager () :: (string, unit, unit, unit) LeaderManager)
      [Register ''a'', LeadershipStarted 0, LeadershipStopped] of
    (lm, spawned) \<Rightarrow> \<not> IsLeader lm \<and> list_all (\<lambda>(fn, k). CancelCtx k \<in> set [Started 0, CancelCtx 0, Stopped]) spawned"
proof (rule raft_manager_demoted [of "()" _ 1 "[ready_of 1, ready_of 2]"])
  show "lm_runner (NewRaftLockManager () :: (string, unit, unit, unit) LeaderManager) =
      RunRaft () \<lparr>raft_SetLeader = False, raft_OnStartedLeading = True, raft_OnStoppedLeading = True\<rparr>"
    by (simp add: NewRaftLockManager_def new_manager_def)
  show "run_loop 1 (Some \<lparr>raft_SetLeader = False, raft_OnStartedLeading = True, raft_OnStoppedLeading = True\<rparr>)
      [ready_of 1, ready_of 2] loop_init =
    Returns (\<lparr>lp_isLeader = True, lp_initialized = True, lp_ctx = 1, lp_leader = 2,
       lp_transport_isLeader = False\<rparr>, [Started 0, CancelCtx 0, Stopped])"
    by (simp add: step_simps loop_init_def)
qed (simp_all add: raft_promotes_def)

text \<open>
  C37: on the raft lock, the routines that ever run are those registered before the first election: each is
  started once, and one that is registered later is never started, not even in a later term.
\<close>

theorem raft_routines_run_once:
  assumes "leadership_events (es @ LeadershipStarted ctx # fs) =
      snd (run_lock (loop_step cid) loop_init is)"
  shows "snd (manager_steps lm (es @ LeadershipStarted ctx # fs)) =
    map (\<lambda>fn. (fn, ctx)) (lm_leaderRoutines lm @ [fn. Register fn \<leftarrow> es])"
proof -
  have "count_list (leadership_events (es @ LeadershipStarted ctx # fs)) OnStartedLeading \<le> 1"
    unfolding assms by (rule raft_starts_once)
  then have "OnStartedLeading \<notin> set (leadership_events es)" "OnStartedLeading \<notin> set (leadership_events fs)"
    by (simp_all add: count_list_0_iff [symmetric])
  then show ?thesis
    using manager_routines [of lm es]
    by (simp add: manager_steps_append no_start_no_spawn runLeaderRoutines_def Let_def split_def)
qed

theorem raft_routines_run_once_witness:
  "snd (manager_steps (NewRaftLockManager () :: (string, unit, unit, unit) LeaderManager)
      ([Register ''a''] @ LeadershipStarted 0 # [Register ''b'', LeadershipStopped])) = [(''a'', 0::nat)]"
  using raft_routines_run_once [of "[Register ''a'']" "0::nat" "[Register ''b'', LeadershipStopped]" 1
      "[ready_of 1, ready_of 2]" "NewRaftLockManager () :: (string, unit, unit, unit) LeaderManager"]
  by (simp add: loop_step_eq loop_init_def raft_promotes_def NewRaftLockManager_def new_manager_def)

text \<open>
  C19: a leader routine is kept running: its goroutine ends only when the context is cancelled, whatever the
  routine returns. From then on it makes at most three more steps, and over its whole life it calls the
  routine at most once after the cancellation (when the timer of the backoff wins the race).
\<close>

theorem routine_supervised:
  assumes "routine_step\<^sup>*\<^sup>* routine_init s" and "(routine_step ^^ n) s s'" and "rt_cancelled s"
  shows "n \<le> 3 \<and> rt_late_calls s' \<le> 1 \<and> (rt_pc s' = Exited \<or> (\<exists>s''. routine_step s' s''))"
proof (intro conjI)
  from leader_routine.bounded [OF assms(2,3)] show "n \<le> 3"
    by (simp add: routine_measure_def split: routine_pc.splits)
  have "routine_step\<^sup>*\<^sup>* routine_init s'"
    using assms(1) relpowp_imp_rtranclp [OF assms(2)] by simp
  from leader_routine.inv_reachable [OF this] show "rt_late_calls s' \<le> 1" by (simp add: routine_inv_def)
  from leader_routine.bounded [OF assms(2,3)] have "rt_cancelled s'" by blast
  then show "rt_pc s' = Exited \<or> (\<exists>s''. routine_step s' s'')"
    by (cases "rt_pc s'") (auto intro: routine_step.intros)
qed

text \<open>
  While its context is alive the goroutine of a routine has not ended and can always go on, back to the
  next call, whatever the routine returned; no call has been made too late.
\<close>

theorem routine_restarts:
  assumes "routine_step\<^sup>*\<^sup>* routine_init s" and "\<not> rt_cancelled s"
  shows "rt_pc s \<noteq> Exited \<and> rt_late_calls s = 0 \<and> (\<exists>s'. routine_step s s' \<and> \<not> rt_cancelled s')"
proof -
  from leader_routine.inv_reachable [OF assms(1)] assms(2) have "rt_pc s \<noteq> Exited" "rt_late_calls s = 0"
    by (auto simp: routine_inv_def)
  moreover from this(1) assms(2) have "\<exists>s'. routine_step s s' \<and> \<not> rt_cancelled s'"
    using fn_returns [of s None] restart_later [of s] timer_fires [of s]
    by (cases "rt_pc s") fastforce+
  ultimately show ?thesis by blast
qed

text \<open>A routine that fails once, is cancelled in the backoff, and is called once more.\<close>

definition late_routine :: "string routine" where
  "late_routine = \<lparr>rt_pc = Exited, rt_cancelled = True, rt_logged = [Ext ''boom''], rt_calls = 2,
     rt_late_calls = 1\<rparr>"

definition waiting_routine :: "string routine" where
  "waiting_routine = \<lparr>rt_pc = Backoff, rt_cancelled = False, rt_logged = [Ext ''boom''], rt_calls = 1,
     rt_late_calls = 0\<rparr>"

lemma waiting_routine_reachable: "routine_step\<^sup>*\<^sup>* routine_init waiting_routine"
proof -
  have "routine_step routine_init (routine_init\<lparr>rt_pc := Checking (Some (Ext ''boom''))\<rparr>)"
    by (rule fn_returns) (simp add: routine_init_def)
  moreover have "routine_step (routine_init\<lparr>rt_pc := Checking (Some (Ext ''boom''))\<rparr>) waiting_routine"
    using restart_later [of "routine_init\<lparr>rt_pc := Checking (Some (Ext ''boom''))\<rparr>" "Some (Ext ''boom'')"]
    by (simp add: routine_init_def waiting_routine_def)
  ultimately show ?thesis by (meson converse_rtranclp_into_rtranclp rtranclp.rtrancl_refl)
qed

lemma late_routine_steps: "(routine_step ^^ 3) (waiting_routine\<lparr>rt_cancelled := True\<rparr>) late_routine"
proof -
  define s0 where "s0 = waiting_routine\<lparr>rt_cancelled := True\<rparr>"
  define s1 where "s1 = s0\<lparr>rt_pc := Calling, rt_calls := 2, rt_late_calls := 1\<rparr>"
  define s2 where "s2 = s1\<lparr>rt_pc := Checking None\<rparr>"
  note defs = s0_def s1_def s2_def waiting_routine_def late_routine_def
  have "routine_step s0 s1" using timer_fires [of s0] by (simp add: defs numeral_2_eq_2)
  moreover have "routine_step s1 s2" using fn_returns [of s1 None] by (simp add: defs)
  moreover have "routine_step s2 late_routine" using done_after_call [of s2 None] by (simp add: defs)
  ultimately show ?thesis unfolding s0_def [symmetric] by (auto simp: eval_nat_numeral)
qed

theorem routine_supervised_witness:
  "(3::nat) \<le> 3 \<and> rt_late_calls late_routine \<le> 1 \<and>
     (rt_pc late_routine = Exited \<or> (\<exists>s''. routine_step late_routine s''))"
proof (rule routine_supervised [OF _ late_routine_steps])
  have "routine_step waiting_routine (waiting_routine\<lparr>rt_cancelled := True\<rparr>)"
    by (rule ctx_cancelled) (simp add: waiting_routine_def)
  with waiting_routine_reachable
  show "routine_step\<^sup>*\<^sup>* routine_init (waiting_routine\<lparr>rt_cancelled := True\<rparr>)" by simp
qed simp

theorem routine_restarts_witness:
  "rt_pc waiting_routine \<noteq> Exited \<and> rt_late_calls waiting_routine = 0 \<and>
     (\<exists>s'. routine_step waiting_routine s' \<and> \<not> rt_cancelled s')"
  by (rule routine_restarts [OF waiting_routine_reachable]) (simp add: waiting_routine_def)

end
