(* ===== verification/Multicluster_Manager.thy ===== *)
theory Multicluster_Manager
  imports Leader_Manager "HOL-Library.List_Lexorder" "HOL-Library.Char_ord"
begin

text \<open>
  The manager of \<open>multicluster/manager.go\<close>: the runnables that only the leader runs, how they are started and
  engaged with the known clusters, and the queries for the leader and the cluster names. The embedded
  manager, the runnables and the clusters belong to the multicluster runtime and are parameters.
\<close>

section \<open>Leader routines\<close>

text \<open>
  What the package registers with the \<open>LeaderManager\<close>: the routine that logs the leadership, a runnable's
  \<open>Warmup\<close> or \<open>Start\<close> wrapped by \<open>wrapStart\<close>, and, in bootstrap mode, the routine that fetches the
  kubeconfig of the peer with an index.
\<close>

datatype 'r leader_fn =
    LogLeader
  | WrapWarmup 'r
  | WrapStart 'r
  | FetchKubeconfig nat

record ('w, 'e, 'c, 'r) runnable_api =
  rn_is_reconciler :: "'r \<Rightarrow> bool"
  rn_is_leader_election :: "'r \<Rightarrow> bool"
  rn_has_warmup :: "'r \<Rightarrow> bool"
  rn_Engage :: "'r \<Rightarrow> string \<Rightarrow> 'c \<Rightarrow> ('w, 'e) effect"

record ('r, 'kc, 'rc, 'lg) leaderRunnable =
  lr_runnables :: "'r list"
  lr_manager :: "('r leader_fn, 'kc, 'rc, 'lg) LeaderManager"

definition leaderRunnable_Add ::
  "('w, 'e, 'c, 'r) runnable_api \<Rightarrow> 'r \<Rightarrow> ('r, 'kc, 'rc, 'lg) leaderRunnable \<Rightarrow>
   ('r, 'kc, 'rc, 'lg) leaderRunnable" where
  "leaderRunnable_Add api r l =
     (let l1 = l\<lparr>lr_runnables := lr_runnables l @ [r]\<rparr>;
          l2 = (if rn_has_warmup api r
                then l1\<lparr>lr_manager := RegisterRoutine (lr_manager l1) (WrapWarmup r)\<rparr> else l1)
      in l2\<lparr>lr_manager := RegisterRoutine (lr_manager l2) (WrapStart r)\<rparr>)"

fun engage_runnables ::
  "('w, 'e, 'c, 'r) runnable_api \<Rightarrow> string \<Rightarrow> 'c \<Rightarrow> 'r list \<Rightarrow> ('w, 'e) effect" where
  "engage_runnables api s c [] w = (None, w)"
| "engage_runnables api s c (r # rs) w =
     (case rn_Engage api r s c w of
        (Some err, w1) \<Rightarrow> (Some err, w1)
      | (None, w1) \<Rightarrow> engage_runnables api s c rs w1)"

definition leaderRunnable_Engage ::
  "('w, 'e, 'c, 'r) runnable_api \<Rightarrow> ('r, 'kc, 'rc, 'lg) leaderRunnable \<Rightarrow> string \<Rightarrow> 'c \<Rightarrow>
   ('w, 'e) effect" where
  "leaderRunnable_Engage api l s c = engage_runnables api s c (lr_runnables l)"

text \<open>
  \<open>doEngage\<close> engages one runnable with every known cluster and drops the errors; \<open>wrapStart\<close> does so before
  it calls the wrapped function, whose result it returns.
\<close>

fun doEngage ::
  "('w, 'e, 'c, 'r) runnable_api \<Rightarrow> 'r \<Rightarrow> (string \<times> 'c) list \<Rightarrow> 'w \<Rightarrow> 'w" where
  "doEngage api r [] w = w"
| "doEngage api r ((name, cluster) # cs) w = doEngage api r cs (snd (rn_Engage api r name cluster w))"

definition wrapStart ::
  "('w, 'e, 'c, 'r) runnable_api \<Rightarrow> ('w \<Rightarrow> (string \<times> 'c) list) \<Rightarrow> 'r \<Rightarrow> ('w, 'e) effect \<Rightarrow>
   ('w, 'e) effect" where
  "wrapStart api getClusters r fn w = fn (doEngage api r (getClusters w) w)"

section \<open>The manager\<close>

record ('w, 'e, 'c, 'r, 'mgr, 'kc, 'rc, 'lg) managerI =
  mi_Manager :: 'mgr
  mi_runnable :: "('r, 'kc, 'rc, 'lg) leaderRunnable"
  mi_getLeader :: "('w \<Rightarrow> string) option"
  mi_getClusters :: "('w \<Rightarrow> (string \<times> 'c) list) option"
  mi_addOrReplaceCluster :: "string \<Rightarrow> 'c \<Rightarrow> ('w, 'e) effect"

definition AddOrReplaceCluster ::
  "('w, 'e, 'c, 'r, 'mgr, 'kc, 'rc, 'lg) managerI \<Rightarrow> string \<Rightarrow> 'c \<Rightarrow> ('w, 'e) effect" where
  "AddOrReplaceCluster m clusterName cl w = mi_addOrReplaceCluster m clusterName cl w"

definition GetClusterNames ::
  "string \<Rightarrow> ('w, 'e, 'c, 'r, 'mgr, 'kc, 'rc, 'lg) managerI \<Rightarrow> 'w \<Rightarrow> string list" where
  "GetClusterNames LocalCluster m w =
     (let clusters = [LocalCluster]
      in case mi_getClusters m of
           None \<Rightarrow> clusters
         | Some getClusters \<Rightarrow>
             sort (foldl (\<lambda>acc (cluster, _). acc @ [cluster]) clusters (getClusters w)))"

definition GetLeader :: "('w, 'e, 'c, 'r, 'mgr, 'kc, 'rc, 'lg) managerI \<Rightarrow> 'w \<Rightarrow> string" where
  "GetLeader m w = (case mi_getLeader m of None \<Rightarrow> '''' | Some getLeader \<Rightarrow> getLeader w)"

text \<open>
  The embedded manager: \<open>mg_New\<close> makes one and \<open>mg_Add\<close> gives it something to run, a runnable of the user or
  the leader runnable.
\<close>

datatype 'r added = AddedRunnable 'r | AddedLeaderRunnable

record ('e, 'r, 'mgr) embedded_api =
  mg_New :: "'e go_error + 'mgr"
  mg_Add :: "'r added \<Rightarrow> 'mgr \<Rightarrow> 'e go_error option \<times> 'mgr"

definition newManager ::
  "('e, 'r, 'mgr) embedded_api \<Rightarrow> ('w \<Rightarrow> string) option \<Rightarrow> ('w \<Rightarrow> (string \<times> 'c) list) option \<Rightarrow>
   (string \<Rightarrow> 'c \<Rightarrow> ('w, 'e) effect) \<Rightarrow> ('r leader_fn, 'kc, 'rc, 'lg) LeaderManager \<Rightarrow>
   'e go_error + ('w, 'e, 'c, 'r, 'mgr, 'kc, 'rc, 'lg) managerI" where
  "newManager mg getLeader getClusters addOrReplaceCluster manager =
     (case mg_New mg of
        Inl err \<Rightarrow> Inl err
      | Inr mgr \<Rightarrow>
          (let manager1 = RegisterRoutine manager LogLeader;
               runnable = \<lparr>lr_runnables = [], lr_manager = manager1\<rparr>
           in case mg_Add mg AddedLeaderRunnable mgr of
                (Some err, _) \<Rightarrow> Inl err
              | (None, mgr1) \<Rightarrow>
                  Inr \<lparr>mi_Manager = mgr1, mi_runnable = runnable, mi_getLeader = getLeader,
                    mi_getClusters = getClusters, mi_addOrReplaceCluster = addOrReplaceCluster\<rparr>))"

text \<open>Reconcilers and runnables that ask for leader election go to the leader runnable, all others do not.\<close>

definition manager_Add ::
  "('w, 'e, 'c, 'r) runnable_api \<Rightarrow> ('e, 'r, 'mgr) embedded_api \<Rightarrow> 'r \<Rightarrow>
   ('w, 'e, 'c, 'r, 'mgr, 'kc, 'rc, 'lg) managerI \<Rightarrow>
   'e go_error option \<times> ('w, 'e, 'c, 'r, 'mgr, 'kc, 'rc, 'lg) managerI" where
  "manager_Add api mg r m =
     (if rn_is_reconciler api r
      then (None, m\<lparr>mi_runnable := leaderRunnable_Add api r (mi_runnable m)\<rparr>)
      else if rn_is_leader_election api r
      then (None, m\<lparr>mi_runnable := leaderRunnable_Add api r (mi_runnable m)\<rparr>)
      else (case mg_Add mg (AddedRunnable r) (mi_Manager m) of
              (err, mgr) \<Rightarrow> (err, m\<lparr>mi_Manager := mgr\<rparr>)))"

section \<open>The restart channel\<close>

text \<open>
  Every wrapped routine has a goroutine that waits on the one restart channel and engages its runnable again
  with the clusters it then finds. The channel holds one signal; a sender that finds it full drops its own.
  \<open>rc_busy\<close> are the goroutines that have taken a signal and are about to read the clusters, and
  \<open>rc_engaged i\<close> are the clusters that goroutine \<open>i\<close> engaged last.
\<close>

record restart_state =
  rc_signal :: bool
  rc_clusters :: "string list"
  rc_busy :: "nat set"
  rc_engaged :: "nat \<Rightarrow> string list"
  rc_adds :: nat

inductive restart_step :: "nat \<Rightarrow> restart_state \<Rightarrow> restart_state \<Rightarrow> bool" for n :: nat where
  add_cluster:
    "restart_step n s (s\<lparr>rc_clusters := rc_clusters s @ [name], rc_signal := True,
       rc_adds := Suc (rc_adds s)\<rparr>)"
| receive_signal:
    "i < n \<Longrightarrow> i \<notin> rc_busy s \<Longrightarrow> rc_signal s \<Longrightarrow>
     restart_step n s (s\<lparr>rc_signal := False, rc_busy := insert i (rc_busy s)\<rparr>)"
| re_engage:
    "i \<in> rc_busy s \<Longrightarrow>
     restart_step n s (s\<lparr>rc_busy := rc_busy s - {i}, rc_engaged := (rc_engaged s)(i := rc_clusters s)\<rparr>)"

text \<open>The goroutines that have engaged anything since a state, or are about to.\<close>

definition changed :: "restart_state \<Rightarrow> restart_state \<Rightarrow> nat set" where
  "changed s0 s = {i. rc_engaged s i \<noteq> rc_engaged s0 i} \<union> rc_busy s"

lemma restart_count:
  assumes "(restart_step n)\<^sup>*\<^sup>* s0 s" and "\<not> rc_signal s0" and "rc_busy s0 = {}"
  shows "finite (changed s0 s) \<and>
    card (changed s0 s) + (if rc_signal s then 1 else 0) + rc_adds s0 \<le> rc_adds s"
  using assms(1)
proof (induction rule: rtranclp_induct)
  case base
  from assms(2,3) show ?case by (simp add: changed_def)
next
  case (step s s')
  from step.hyps(2) show ?case
  proof (cases rule: restart_step.cases)
    case (add_cluster name)
    then have "changed s0 s' = changed s0 s" by (simp add: changed_def)
    with step.IH add_cluster show ?thesis by (simp split: if_splits)
  next
    case (receive_signal i)
    then have "changed s0 s' = insert i (changed s0 s)" by (auto simp: changed_def)
    with step.IH receive_signal show ?thesis
      using card_insert_le_m1 [of "Suc (card (changed s0 s))" "changed s0 s" i]
      by (simp add: card_insert_if split: if_splits)
  next
    case (re_engage i)
    then have sub: "changed s0 s' \<subseteq> changed s0 s" by (auto simp: changed_def)
    with step.IH have "card (changed s0 s') \<le> card (changed s0 s)" "finite (changed s0 s')"
      by (auto intro: card_mono finite_subset)
    with step.IH re_engage show ?thesis by (simp split: if_splits)
  qed
qed

section \<open>Lemmas\<close>

lemma foldl_names: "foldl (\<lambda>acc (k, _). acc @ [k]) acc kvs = acc @ map fst kvs"
  by (induction kvs arbitrary: acc) auto

lemma engage_runnables_ok:
  "(\<And>r w. r \<in> set rs \<Longrightarrow> fst (rn_Engage api r s c w) = None) \<Longrightarrow>
     engage_runnables api s c rs w = (None, foldl (\<lambda>w r. snd (rn_Engage api r s c w)) w rs)"
proof (induction rs arbitrary: w)
  case (Cons r rs)
  from Cons.prems [of r w] obtain w1 where "rn_Engage api r s c w = (None, w1)"
    by (cases "rn_Engage api r s c w") auto
  with Cons show ?case by simp
qed simp

definition wrapped :: "('w, 'e, 'c, 'r) runnable_api \<Rightarrow> 'r \<Rightarrow> 'r leader_fn list" where
  "wrapped api r = (if rn_has_warmup api r then [WrapWarmup r] else []) @ [WrapStart r]"

lemma leaderRunnable_Add_eq:
  "lr_runnables (leaderRunnable_Add api r l) = lr_runnables l @ [r]"
  "lm_leaderRoutines (lr_manager (leaderRunnable_Add api r l)) =
     lm_leaderRoutines (lr_manager l) @ wrapped api r"
  by (simp_all add: leaderRunnable_Add_def wrapped_def RegisterRoutine_def Let_def)

definition leader_only :: "('w, 'e, 'c, 'r) runnable_api \<Rightarrow> 'r \<Rightarrow> bool" where
  "leader_only api r \<longleftrightarrow> rn_is_reconciler api r \<or> rn_is_leader_election api r"

lemma manager_Add_leader_only:
  "leader_only api r \<Longrightarrow>
     manager_Add api mg r m = (None, m\<lparr>mi_runnable := leaderRunnable_Add api r (mi_runnable m)\<rparr>)"
  by (auto simp: manager_Add_def leader_only_def)

lemma manager_Add_other:
  "\<not> leader_only api r \<Longrightarrow> mi_runnable (snd (manager_Add api mg r m)) = mi_runnable m"
  by (auto simp: manager_Add_def leader_only_def split: prod.splits)

section \<open>Properties\<close>

text \<open>
  What the leader alone runs. After any sequence of \<open>Add\<close> calls, the leader routines are those from
  before, followed, for the added reconcilers and leader-election runnables and in the order of the calls,
  by their warm-up, if they have one, and their start; the runnables to engage are the same ones. Nothing
  else is registered.
\<close>

theorem added_leader_routines:
  "case mi_runnable (foldl (\<lambda>m r. snd (manager_Add api mg r m)) m rs) of l \<Rightarrow>
     lm_leaderRoutines (lr_manager l) = lm_leaderRoutines (lr_manager (mi_runnable m)) @
       concat (map (wrapped api) (filter (leader_only api) rs)) \<and>
     lr_runnables l = lr_runnables (mi_runnable m) @ filter (leader_only api) rs"
proof (induction rs arbitrary: m)
  case Nil
  then show ?case by simp
next
  case (Cons r rs)
  show ?case
  proof (cases "leader_only api r")
    case True
    with Cons.IH show ?thesis by (simp add: manager_Add_leader_only leaderRunnable_Add_eq)
  next
    case False
    with Cons.IH [of "snd (manager_Add api mg r m)"] show ?thesis by (simp add: manager_Add_other)
  qed
qed

text \<open>
  The cluster names are the local cluster and those of the provider, each as often as the provider has
  it, in ascending order.
\<close>

theorem cluster_names_sorted:
  "sorted (GetClusterNames LocalCluster m w) \<and>
   mset (GetClusterNames LocalCluster m w) =
     add_mset LocalCluster (case mi_getClusters m of None \<Rightarrow> {#} | Some getClusters \<Rightarrow> mset (map fst (getClusters w)))"
  by (simp add: GetClusterNames_def foldl_names sorted_insort split: option.split)

text \<open>
  C38: a restart signal reaches one runnable. From a state in which no signal is pending, and however the
  goroutines are scheduled, the goroutines that engage their runnable again are at most as many as
  clusters were added: with two reconcilers and one new cluster, one of them never learns of it.
\<close>

theorem restart_reaches_few:
  assumes "(restart_step n)\<^sup>*\<^sup>* s0 s" and "\<not> rc_signal s0" and "rc_busy s0 = {}"
  shows "card {i. rc_engaged s i \<noteq> rc_engaged s0 i} + rc_adds s0 \<le> rc_adds s"
proof -
  from restart_count [OF assms] have fin: "finite (changed s0 s)"
    and le: "card (changed s0 s) + rc_adds s0 \<le> rc_adds s" by auto
  have "card {i. rc_engaged s i \<noteq> rc_engaged s0 i} \<le> card (changed s0 s)"
    by (rule card_mono [OF fin]) (auto simp: changed_def)
  with le show ?thesis by simp
qed

definition quiet :: restart_state where
  "quiet = \<lparr>rc_signal = False, rc_clusters = [], rc_busy = {}, rc_engaged = (\<lambda>i. []), rc_adds = 0\<rparr>"

definition engaged_one :: restart_state where
  "engaged_one = \<lparr>rc_signal = False, rc_clusters = [''c''], rc_busy = {},
     rc_engaged = (\<lambda>i. [])(1 := [''c'']), rc_adds = 1\<rparr>"

theorem restart_reaches_few_witness:
  "card {i. rc_engaged engaged_one i \<noteq> rc_engaged quiet i} + rc_adds quiet \<le> rc_adds engaged_one"
proof (rule restart_reaches_few [of 2])
  let ?s1 = "quiet\<lparr>rc_clusters := [''c''], rc_signal := True, rc_adds := 1\<rparr>"
  let ?s2 = "?s1\<lparr>rc_signal := False, rc_busy := {1}\<rparr>"
  have "restart_step 2 quiet ?s1" using add_cluster [of 2 quiet "''c''"] by (simp add: quiet_def)
  moreover have "restart_step 2 ?s1 ?s2" using receive_signal [of 1 2 ?s1] by (simp add: quiet_def)
  moreover have "restart_step 2 ?s2 engaged_one"
    using re_engage [of 1 ?s2 2] by (simp add: quiet_def engaged_one_def)
  ultimately show "(restart_step 2)\<^sup>*\<^sup>* quiet engaged_one"
    by (meson converse_rtranclp_into_rtranclp rtranclp.rtrancl_refl)
qed (simp_all add: quiet_def)

end
