(* ===== verification/Bootstrap_Kubeconfig.thy ===== *)
theory Bootstrap_Kubeconfig
  imports Prelude
begin

text \<open>
  Kubeconfigs for remote clusters (\<open>multicluster/bootstrap/kubeconfig.go\<close>): the completion of a remote
  configuration, the objects that are created, the wait for the token of the service account, and the text of
  the kubeconfig. The Kubernetes client is a parameter (\<open>kube_api\<close>).
\<close>

section \<open>Remote configurations\<close>

definition defaultServiceAccountNamespace :: string where "defaultServiceAccountNamespace = ''default''"
definition defaultServiceAccountName :: string where "defaultServiceAccountName = ''multicluster-operator''"

record 'rest RemoteKubernetesConfiguration =
  rk_ContextName :: string
  rk_Namespace :: string
  rk_Name :: string
  rk_APIServer :: string
  rk_RESTConfig :: "'rest option"
  rk_EnsureNamespace :: bool

definition zero_remote :: "'rest RemoteKubernetesConfiguration" where
  "zero_remote = \<lparr>rk_ContextName = '''', rk_Namespace = '''', rk_Name = '''', rk_APIServer = '''',
     rk_RESTConfig = None, rk_EnsureNamespace = False\<rparr>"

text \<open>The objects of the cluster that the package creates, with the data it sets.\<close>

type_synonym secret_data = "(string \<times> bytes) list"

datatype k8s_object =
    Namespace string
  | ServiceAccount string string
  | TokenSecret string string string
  | Secret string string secret_data

text \<open>
  \<open>ka_CreateOrUpdate\<close> is given the object and the function that mutates what it finds. \<open>ka_Wait\<close> waits for the
  next poll or the end of the context and says whether it was the end of the context.
\<close>

record ('w, 'e, 'rest, 'cl) kube_api =
  ka_configFromContext :: "string \<Rightarrow> 'e go_error + 'rest"
  ka_Host :: "'rest \<Rightarrow> string"
  ka_NewClient :: "'rest \<Rightarrow> 'e go_error + 'cl"
  ka_CreateOrUpdate :: "'cl \<Rightarrow> k8s_object \<Rightarrow> (k8s_object \<Rightarrow> k8s_object) \<Rightarrow> ('w, 'e) effect"
  ka_GetSecret :: "'cl \<Rightarrow> string \<Rightarrow> string \<Rightarrow> ('w, 'e, secret_data option) action"
  ka_Wait :: "'w \<Rightarrow> bool \<times> 'w"

text \<open>The part that the three functions of the package share: defaults and the REST configuration.\<close>

definition complete_remote ::
  "('w, 'e, 'rest, 'cl) kube_api \<Rightarrow> 'rest RemoteKubernetesConfiguration option \<Rightarrow>
   'e go_error + 'rest RemoteKubernetesConfiguration \<times> 'rest" where
  "complete_remote api configuration =
     (let c0 = (case configuration of None \<Rightarrow> zero_remote | Some c \<Rightarrow> c);
          c1 = (if rk_Namespace c0 = '''' then c0\<lparr>rk_Namespace := defaultServiceAccountNamespace\<rparr> else c0);
          c2 = (if rk_Name c1 = '''' then c1\<lparr>rk_Name := defaultServiceAccountName\<rparr> else c1)
      in case rk_RESTConfig c2 of
           Some rest \<Rightarrow> Inr (c2, rest)
         | None \<Rightarrow>
             if rk_ContextName c2 = '''' then
               Inl (New ''either the name of a kubernetes context of a rest Config must be specified'' [])
             else (case ka_configFromContext api (rk_ContextName c2) of
                     Inl err \<Rightarrow> Inl (Fmt ''getting REST configuration'' err)
                   | Inr rest \<Rightarrow> Inr (c2\<lparr>rk_RESTConfig := Some rest\<rparr>, rest)))"

definition EnsureNamespace :: "('w, 'e, 'rest, 'cl) kube_api \<Rightarrow> string \<Rightarrow> 'cl \<Rightarrow> ('w, 'e) effect" where
  "EnsureNamespace api namespace cl w = ka_CreateOrUpdate api cl (Namespace namespace) (\<lambda>obj. obj) w"

text \<open>Client and namespace, also shared.\<close>

definition client_for_remote ::
  "('w, 'e, 'rest, 'cl) kube_api \<Rightarrow> 'rest RemoteKubernetesConfiguration \<Rightarrow> 'rest \<Rightarrow>
   ('w, 'e, 'cl) action" where
  "client_for_remote api c rest w =
     (case ka_NewClient api rest of
        Inl err \<Rightarrow> (Inl (Fmt ''initializing client'' err), w)
      | Inr cl \<Rightarrow>
          if rk_EnsureNamespace c then
            (case EnsureNamespace api (rk_Namespace c) cl w of
               (Some err, w1) \<Rightarrow> (Inl (Fmt ''ensuring namespace exists'' err), w1)
             | (None, w1) \<Rightarrow> (Inr cl, w1))
          else (Inr cl, w))"

text \<open>A mutation that replaces the data of a secret.\<close>

fun set_data :: "secret_data \<Rightarrow> k8s_object \<Rightarrow> k8s_object" where
  "set_data d (Secret ns name _) = Secret ns name d"
| "set_data d (Namespace name) = Namespace name"
| "set_data d (ServiceAccount ns name) = ServiceAccount ns name"
| "set_data d (TokenSecret ns name acc) = TokenSecret ns name acc"

definition CreateKubeconfigSecret ::
  "('w, 'e, 'rest, 'cl) kube_api \<Rightarrow> bytes \<Rightarrow> 'rest RemoteKubernetesConfiguration option \<Rightarrow>
   ('w, 'e) effect" where
  "CreateKubeconfigSecret api data configuration w =
     (case complete_remote api configuration of
        Inl err \<Rightarrow> (Some err, w)
      | Inr (c, rest) \<Rightarrow>
          (case client_for_remote api c rest w of
             (Inl err, w1) \<Rightarrow> (Some err, w1)
           | (Inr cl, w1) \<Rightarrow>
               (let secret = Secret (rk_Namespace c) (rk_Name c @ ''-kubeconfig'') [(''kubeconfig.yaml'', data)]
                in case ka_CreateOrUpdate api cl secret (set_data [(''kubeconfig.yaml'', data)]) w1 of
                     (Some err, w2) \<Rightarrow> (Some (Fmt ''creating kubeconfig file'' err), w2)
                   | (None, w2) \<Rightarrow> (None, w2))))"

section \<open>Base 64\<close>

text \<open>\<open>base64.StdEncoding\<close>: three bytes become four characters, with padding at the end.\<close>

definition b64_char :: "nat \<Rightarrow> char" where
  "b64_char n = ''ABCDEFGHIJKLMNOPQRSTUVWXYZabcdefghijklmnopqrstuvwxyz0123456789+/'' ! n"

fun base64 :: "bytes \<Rightarrow> string" where
  "base64 [] = []"
| "base64 [a] =
     [b64_char (of_char a div 4), b64_char (of_char a mod 4 * 16), CHR ''='', CHR ''='']"
| "base64 [a, b] =
     [b64_char (of_char a div 4), b64_char (of_char a mod 4 * 16 + of_char b div 16),
      b64_char (of_char b mod 16 * 4), CHR ''='']"
| "base64 (a # b # c # s) =
     b64_char (of_char a div 4) # b64_char (of_char a mod 4 * 16 + of_char b div 16) #
     b64_char (of_char b mod 16 * 4 + of_char c div 64) # b64_char (of_char c mod 64) # base64 s"

section \<open>The kubeconfig\<close>

definition unlines :: "string list \<Rightarrow> string" where
  "unlines ls = concat (map (\<lambda>l. l @ [CHR 0x0A]) ls)"

text \<open>The template starts with an empty line; a field is inserted as it is.\<close>

record template_fields =
  tf_CA :: string
  tf_APIServer :: string
  tf_Cluster :: string
  tf_User :: string
  tf_Token :: string

definition kubeconfigTemplate :: "template_fields \<Rightarrow> string" where
  "kubeconfigTemplate f = unlines
     ['''',
      ''apiVersion: v1'',
      ''clusters:'',
      ''- cluster:'',
      ''    certificate-authority-data: '' @ tf_CA f,
      ''    server: '' @ tf_APIServer f,
      ''  name: '' @ tf_Cluster f,
      ''contexts:'',
      ''- context:'',
      ''    cluster: '' @ tf_Cluster f,
      ''    user: '' @ tf_User f,
      ''  name: '' @ tf_Cluster f,
      ''current-context: '' @ tf_Cluster f,
      ''kind: Config'',
      ''preferences: {}'',
      ''users:'',
      ''- name: '' @ tf_User f,
      ''  user:'',
      ''    token: '' @ tf_Token f]"

section \<open>Waiting for the token\<close>

text \<open>The data of a token that is populated: both keys are there.\<close>

definition populated :: "secret_data option \<Rightarrow> (bytes \<times> bytes) option" where
  "populated d =
     (case d of
        None \<Rightarrow> None
      | Some data \<Rightarrow>
          (case (map_of data ''token'', map_of data ''ca.crt'') of
             (Some token, Some certificate) \<Rightarrow> Some (token, certificate)
           | _ \<Rightarrow> None))"

text \<open>
  The loop polls every second, the first time at once, until the secret is populated, cannot be read, or the
  context ends. \<open>None\<close> means that it never ends.
\<close>

partial_function (option) poll_token ::
  "('w, 'e, 'rest, 'cl) kube_api \<Rightarrow> 'cl \<Rightarrow> string \<Rightarrow> string \<Rightarrow> 'w \<Rightarrow>
   (('e go_error + bytes \<times> bytes) \<times> 'w) option" where
  "poll_token api cl ns name w =
     (case ka_Wait api w of
        (ended, w1) \<Rightarrow>
          if ended then Some (Inl (New ''unable to get populated token'' []), w1)
          else (case ka_GetSecret api cl ns name w1 of
                  (Inl err, w2) \<Rightarrow> Some (Inl err, w2)
                | (Inr d, w2) \<Rightarrow>
                    (case populated d of
                       Some p \<Rightarrow> Some (Inr p, w2)
                     | None \<Rightarrow> poll_token api cl ns name w2)))"

definition CreateRemoteKubeconfig ::
  "('w, 'e, 'rest, 'cl) kube_api \<Rightarrow> 'rest RemoteKubernetesConfiguration option \<Rightarrow> 'w \<Rightarrow>
   (('e go_error + bytes) \<times> 'w) option" where
  "CreateRemoteKubeconfig api configuration w =
     (case complete_remote api configuration of
        Inl err \<Rightarrow> Some (Inl err, w)
      | Inr (c0, rest) \<Rightarrow>
        (let c = (if rk_APIServer c0 = '''' then c0\<lparr>rk_APIServer := ka_Host api rest\<rparr> else c0)
         in case client_for_remote api c rest w of
           (Inl err, w1) \<Rightarrow> Some (Inl err, w1)
         | (Inr cl, w1) \<Rightarrow>
           (case ka_CreateOrUpdate api cl (ServiceAccount (rk_Namespace c) (rk_Name c)) (\<lambda>obj. obj) w1 of
              (Some err, w2) \<Rightarrow> Some (Inl (Fmt ''creating service account'' err), w2)
            | (None, w2) \<Rightarrow>
              (case ka_CreateOrUpdate api cl
                  (TokenSecret (rk_Namespace c) (rk_Name c @ ''-token'') (rk_Name c)) (\<lambda>obj. obj) w2 of
                 (Some err, w3) \<Rightarrow> Some (Inl (Fmt ''creating service account token'' err), w3)
               | (None, w3) \<Rightarrow>
                 (case poll_token api cl (rk_Namespace c) (rk_Name c @ ''-token'') w3 of
                    None \<Rightarrow> None
                  | Some (Inl err, w4) \<Rightarrow> Some (Inl err, w4)
                  | Some (Inr (token, certificate), w4) \<Rightarrow>
                      Some (Inr (kubeconfigTemplate
                        \<lparr>tf_CA = base64 certificate, tf_APIServer = rk_APIServer c,
                         tf_Cluster = rk_ContextName c, tf_User = rk_Name c, tf_Token = token\<rparr>), w4))))))"

section \<open>Facts about base 64\<close>

text \<open>A decoder, for the statement that nothing is lost.\<close>

definition b64_val :: "char \<Rightarrow> nat" where
  "b64_val c = length (takeWhile (\<lambda>d. d \<noteq> c)
     ''ABCDEFGHIJKLMNOPQRSTUVWXYZabcdefghijklmnopqrstuvwxyz0123456789+/'')"

fun unbase64 :: "string \<Rightarrow> bytes" where
  "unbase64 (w # x # y # z # s) =
     char_of (b64_val w * 4 + b64_val x div 16) #
     (if y = CHR ''='' then []
      else char_of (b64_val x mod 16 * 16 + b64_val y div 4) #
        (if z = CHR ''='' then [] else char_of (b64_val y mod 4 * 64 + b64_val z) # unbase64 s))"
| "unbase64 _ = []"

lemma b64_table: "list_all (\<lambda>n. b64_val (b64_char n) = n \<and> b64_char n \<noteq> CHR ''='') [0..<64]"
  by code_simp

lemma b64_val_char [simp]: "n < 64 \<Longrightarrow> b64_val (b64_char n) = n"
  and b64_char_pad [simp]: "n < 64 \<Longrightarrow> b64_char n \<noteq> CHR ''=''"
  using b64_table by (auto simp: list_all_iff)

lemma sextets:
  fixes a b c :: nat
  assumes "a < 256" and "b < 256" and "c < 256"
  shows "a div 4 < 64" and "a mod 4 * 16 < 64" and "a mod 4 * 16 + b div 16 < 64"
    and "b mod 16 * 4 < 64" and "b mod 16 * 4 + c div 64 < 64" and "c mod 64 < 64"
    and "a div 4 * 4 + (a mod 4 * 16 + b div 16) div 16 = a"
    and "a div 4 * 4 + a mod 4 * 16 div 16 = a"
    and "(a mod 4 * 16 + b div 16) mod 16 * 16 + (b mod 16 * 4 + c div 64) div 4 = b"
    and "(a mod 4 * 16 + b div 16) mod 16 * 16 + b mod 16 * 4 div 4 = b"
    and "(b mod 16 * 4 + c div 64) mod 4 * 64 + c mod 64 = c"
proof -
  from assms show "a div 4 < 64" "a mod 4 * 16 < 64" "b mod 16 * 4 < 64" "c mod 64 < 64"
    by (simp_all add: less_mult_imp_div_less)
  have b16: "b div 16 < 16" and c64: "c div 64 < 4" using assms by (simp_all add: less_mult_imp_div_less)
  have a4: "a mod 4 \<le> 3" and b4: "b mod 16 \<le> 15" by (simp_all add: less_Suc_eq_le [symmetric])
  from a4 b16 show "a mod 4 * 16 + b div 16 < 64" by linarith
  from b4 c64 show "b mod 16 * 4 + c div 64 < 64" by linarith
  show "a div 4 * 4 + (a mod 4 * 16 + b div 16) div 16 = a" "a div 4 * 4 + a mod 4 * 16 div 16 = a"
    using b16 by simp_all
  show "(a mod 4 * 16 + b div 16) mod 16 * 16 + (b mod 16 * 4 + c div 64) div 4 = b"
    "(a mod 4 * 16 + b div 16) mod 16 * 16 + b mod 16 * 4 div 4 = b"
    using b16 c64 by simp_all
  show "(b mod 16 * 4 + c div 64) mod 4 * 64 + c mod 64 = c" using c64 by simp
qed

lemma unbase64_base64: "unbase64 (base64 s) = s"
proof (induction s rule: base64.induct)
  case 1
  show ?case by simp
next
  case (2 a)
  from sextets [OF nat_of_char_less_256 [of a] nat_of_char_less_256 [of a] nat_of_char_less_256 [of a]]
  show ?case by simp
next
  case (3 a b)
  from sextets [OF nat_of_char_less_256 [of a] nat_of_char_less_256 [of b] nat_of_char_less_256 [of b]]
  show ?case by simp
next
  case (4 a b c s)
  from sextets [OF nat_of_char_less_256 [of a] nat_of_char_less_256 [of b] nat_of_char_less_256 [of c]]
  show ?case by (simp add: 4)
qed

section \<open>Facts about polling\<close>

definition still_waiting :: "('w, 'e, 'rest, 'cl) kube_api \<Rightarrow> 'cl \<Rightarrow> string \<Rightarrow> string \<Rightarrow> 'w \<Rightarrow> bool" where
  "still_waiting api cl ns name w =
     (case ka_Wait api w of
        (ended, w1) \<Rightarrow> \<not> ended \<and>
          (case ka_GetSecret api cl ns name w1 of
             (Inl err, w2) \<Rightarrow> False
           | (Inr d, w2) \<Rightarrow> populated d = None))"

fun after_polls ::
  "('w, 'e, 'rest, 'cl) kube_api \<Rightarrow> 'cl \<Rightarrow> string \<Rightarrow> string \<Rightarrow> nat \<Rightarrow> 'w \<Rightarrow> 'w" where
  "after_polls api cl ns name 0 w = w"
| "after_polls api cl ns name (Suc n) w =
     after_polls api cl ns name n (snd (ka_GetSecret api cl ns name (snd (ka_Wait api w))))"

lemma poll_token_unfold:
  "poll_token api cl ns name w =
     (if still_waiting api cl ns name w then poll_token api cl ns name (after_polls api cl ns name 1 w)
      else (case ka_Wait api w of
        (ended, w1) \<Rightarrow>
          if ended then Some (Inl (New ''unable to get populated token'' []), w1)
          else (case ka_GetSecret api cl ns name w1 of
                  (Inl err, w2) \<Rightarrow> Some (Inl err, w2)
                | (Inr d, w2) \<Rightarrow> Some (Inr (the (populated d)), w2))))"
  by (subst poll_token.simps) (auto simp: still_waiting_def split: prod.splits sum.splits option.splits)

lemma poll_token_ends:
  "\<not> still_waiting api cl ns name (after_polls api cl ns name n w) \<Longrightarrow> \<exists>r. poll_token api cl ns name w = Some r"
proof (induction n arbitrary: w)
  case 0
  then show ?case by (subst poll_token_unfold) (auto split: prod.splits sum.splits)
next
  case (Suc n)
  from Suc.IH [of "after_polls api cl ns name 1 w"] Suc.prems show ?case
    by (subst poll_token_unfold) (auto split: prod.splits sum.splits)
qed

lemma poll_token_SomeD:
  "poll_token api cl ns name w = Some r \<Longrightarrow>
     \<exists>n. \<not> still_waiting api cl ns name (after_polls api cl ns name n w) \<and>
       (case fst r of Inl err \<Rightarrow> True
        | Inr p \<Rightarrow> \<exists>d w1. fst (ka_GetSecret api cl ns name w1) = Inr d \<and> populated d = Some p)"
proof (induction rule: poll_token.raw_induct [rotated 1, consumes 1, case_names step])
  case (step f api cl ns name w r)
  show ?case
  proof (cases "still_waiting api cl ns name w")
    case True
    with step(2) have "f api cl ns name (after_polls api cl ns name 1 w) = Some r"
      by (auto simp: still_waiting_def split: prod.splits sum.splits option.splits)
    from step(1) [OF this] obtain n where
      "\<not> still_waiting api cl ns name (after_polls api cl ns name (Suc n) w)"
      and "case fst r of Inl err \<Rightarrow> True
        | Inr p \<Rightarrow> \<exists>d w1. fst (ka_GetSecret api cl ns name w1) = Inr d \<and> populated d = Some p"
      by auto
    then show ?thesis by blast
  next
    case False
    then have "\<not> still_waiting api cl ns name (after_polls api cl ns name 0 w)" by simp
    moreover have "case fst r of Inl err \<Rightarrow> True
        | Inr p \<Rightarrow> \<exists>d w1. fst (ka_GetSecret api cl ns name w1) = Inr d \<and> populated d = Some p"
      using step(2) False
      by (auto simp: still_waiting_def split: prod.splits sum.splits option.splits if_splits)
         (metis fst_conv)+
    ultimately show ?thesis by blast
  qed
qed

section \<open>Properties\<close>

text \<open>
  Waiting for the token never ends exactly when every poll finds the secret without its token and the
  context never ends; an error, the end of the context or a populated secret ends it.
\<close>

theorem poll_token_stuck:
  "poll_token api cl ns name w = None \<longleftrightarrow>
     (\<forall>n. still_waiting api cl ns name (after_polls api cl ns name n w))"
proof
  assume none: "poll_token api cl ns name w = None"
  show "\<forall>n. still_waiting api cl ns name (after_polls api cl ns name n w)"
  proof
    fix n show "still_waiting api cl ns name (after_polls api cl ns name n w)"
      using poll_token_ends [of api cl ns name n w] none by auto
  qed
next
  assume "\<forall>n. still_waiting api cl ns name (after_polls api cl ns name n w)"
  with poll_token_SomeD [of api cl ns name w] show "poll_token api cl ns name w = None"
    by (cases "poll_token api cl ns name w") blast+
qed


definition demo_kube_api :: "(nat, string, string, string) kube_api" where
  "demo_kube_api =
     \<lparr>ka_configFromContext = (\<lambda>n. Inr n), ka_Host = (\<lambda>r. ''https://'' @ r), ka_NewClient = (\<lambda>r. Inr r),
      ka_CreateOrUpdate = (\<lambda>cl obj f w. (None, w)),
      ka_GetSecret = (\<lambda>cl ns name w.
        (Inr (if w < 2 then None else Some [(''token'', ''T''), (''ca.crt'', ''CA'')]), w)),
      ka_Wait = (\<lambda>w. (False, Suc w))\<rparr>"

definition demo_remote :: "string RemoteKubernetesConfiguration" where
  "demo_remote = zero_remote\<lparr>rk_ContextName := ''k1''\<rparr>"

lemma demo_kubeconfig:
  "CreateRemoteKubeconfig demo_kube_api (Some demo_remote) 0 =
     Some (Inr (kubeconfigTemplate \<lparr>tf_CA = base64 ''CA'', tf_APIServer = ''https://k1'', tf_Cluster = ''k1'',
       tf_User = ''multicluster-operator'', tf_Token = ''T''\<rparr>), 2)"
  by (simp add: CreateRemoteKubeconfig_def demo_kube_api_def demo_remote_def zero_remote_def
      complete_remote_def client_for_remote_def poll_token.simps populated_def
      defaultServiceAccountNamespace_def defaultServiceAccountName_def Let_def)


end
