(* ===== verification/Multicluster_Raft.thy ===== *)
theory Multicluster_Raft
  imports Multicluster_Config Multicluster_Manager Bootstrap_Kubeconfig "HOL-Library.AList"
begin

text \<open>
  The raft-based multicluster manager (\<open>NewRaftRuntimeManager\<close> of \<open>multicluster/raft.go\<close>, and
  \<open>multicluster/load.go\<close>): the raft configuration it derives, the clusters it knows from the start, the leader
  routines that fetch the kubeconfigs of the others, and the closures it hands to the manager.
\<close>

section \<open>The outside\<close>

text \<open>
  Files, client-go and the cluster provider. A provider is a value that the two adding operations update.
\<close>

record ('e, 'kc, 'rest, 'c, 'prov) mc_env =
  me_GetConfig :: "'e go_error + 'rest"
  me_ReadFile :: "string \<Rightarrow> 'e go_error + bytes"
  me_Load :: "bytes \<Rightarrow> 'e go_error + 'kc"
  me_ClientConfig :: "'kc \<Rightarrow> 'e go_error + 'rest"
  me_ClusterNew :: "'rest \<Rightarrow> 'e go_error + 'c"
  me_NewProvider :: 'prov
  me_ProviderAdd :: "string \<Rightarrow> 'c \<Rightarrow> 'prov \<Rightarrow> 'e go_error option \<times> 'prov"
  me_AddOrReplace :: "string \<Rightarrow> 'c \<Rightarrow> 'prov \<Rightarrow> 'e go_error option \<times> 'prov"
  me_ClusterNames :: "'prov \<Rightarrow> string list"
  me_Get :: "'prov \<Rightarrow> string \<Rightarrow> 'e go_error + 'c"

definition loadKubeconfigFromBytes ::
  "('e, 'kc, 'rest, 'c, 'prov) mc_env \<Rightarrow> bytes \<Rightarrow> 'e go_error + 'rest" where
  "loadKubeconfigFromBytes env kubeconfigYAML =
     (case me_Load env kubeconfigYAML of
        Inl err \<Rightarrow> Inl err
      | Inr kubeconfig \<Rightarrow> me_ClientConfig env kubeconfig)"

definition loadKubeconfig ::
  "('e, 'kc, 'rest, 'c, 'prov) mc_env \<Rightarrow> string \<Rightarrow> 'e go_error + 'rest" where
  "loadKubeconfig env file =
     (case me_ReadFile env file of
        Inl err \<Rightarrow> Inl err
      | Inr kubeconfigYAML \<Rightarrow> loadKubeconfigFromBytes env kubeconfigYAML)"

section \<open>Registering the peers\<close>

text \<open>
  The loop over the peers: every peer becomes a raft node and an entry of the table of names; the others that
  have a kubeconfig file are added to the provider.
\<close>

fun register_peers ::
  "('e, 'kc, 'rest, 'c, 'prov) mc_env \<Rightarrow> string \<Rightarrow> RaftCluster list \<Rightarrow>
   LockerNode list \<Rightarrow> (u64 \<rightharpoonup> string) \<Rightarrow> 'prov \<Rightarrow>
   'e go_error + LockerNode list \<times> (u64 \<rightharpoonup> string) \<times> 'prov" where
  "register_peers env own [] raftPeers idsToNames prov = Inr (raftPeers, idsToNames, prov)"
| "register_peers env own (peer # peers) raftPeers idsToNames prov =
     (let ident = stringToHash (rcl_Name peer);
          raftPeers1 = raftPeers @ [\<lparr>ln_ID = ident, ln_Address = rcl_Address peer\<rparr>];
          idsToNames1 = idsToNames(ident \<mapsto> rcl_Name peer)
      in if rcl_Name peer = own then register_peers env own peers raftPeers1 idsToNames1 prov
         else if rcl_KubeconfigFile peer \<noteq> '''' then
           (case loadKubeconfig env (rcl_KubeconfigFile peer) of
              Inl err \<Rightarrow> Inl err
            | Inr kubeConfig \<Rightarrow>
                (case me_ClusterNew env kubeConfig of
                   Inl err \<Rightarrow> Inl err
                 | Inr c \<Rightarrow>
                     (case me_ProviderAdd env (rcl_Name peer) c prov of
                        (Some err, _) \<Rightarrow> Inl err
                      | (None, prov1) \<Rightarrow>
                          register_peers env own peers raftPeers1 idsToNames1 prov1)))
         else register_peers env own peers raftPeers1 idsToNames1 prov)"

section \<open>The raft configuration\<close>

text \<open>The fetcher of a bootstrapping node is the request it makes of \<open>CreateRemoteKubeconfig\<close>.\<close>

definition fetcher_for ::
  "('sch, 'lg, 'rest) RaftConfiguration \<Rightarrow> 'rest \<Rightarrow> 'rest RemoteKubernetesConfiguration" where
  "fetcher_for config restConfig =
     zero_remote\<lparr>rk_RESTConfig := Some restConfig, rk_APIServer := mc_KubernetesAPIServer config,
       rk_Namespace := mc_KubeconfigNamespace config, rk_Name := mc_KubeconfigName config\<rparr>"

type_synonym ('rest, 'lg) runtime_lock =
  "('rest RemoteKubernetesConfiguration, 'lg) RaftLockConfiguration"

definition raft_config_for ::
  "('e, 'kc, 'rest, 'c, 'prov) mc_env \<Rightarrow> ('sch, 'lg, 'rest) RaftConfiguration \<Rightarrow> 'rest \<Rightarrow>
   LockerNode list \<Rightarrow> 'e go_error + ('rest, 'lg) runtime_lock" where
  "raft_config_for env config restConfig raftPeers =
     (let c0 = \<lparr>rc_ID = stringToHash (mc_Name config), rc_Address = mc_Address config,
               rc_CA = [], rc_PrivateKey = [], rc_Certificate = [], rc_Meta = mc_Meta config,
               rc_Peers = raftPeers, rc_Insecure = mc_Insecure config, rc_Fetcher = None,
               rc_ElectionTimeout = mc_ElectionTimeout config,
               rc_HeartbeatInterval = mc_HeartbeatInterval config,
               rc_Logger = Some (mc_Logger config)\<rparr>;
          c1 = (if mc_Bootstrap config
                then c0\<lparr>rc_Fetcher := Some (fetcher_for config restConfig)\<rparr> else c0)
      in if \<not> mc_Insecure config then
           (case me_ReadFile env (mc_CAFile config) of
              Inl err \<Rightarrow> Inl err
            | Inr ca \<Rightarrow>
                (case me_ReadFile env (mc_CertificateFile config) of
                   Inl err \<Rightarrow> Inl err
                 | Inr cert \<Rightarrow>
                     (case me_ReadFile env (mc_PrivateKeyFile config) of
                        Inl err \<Rightarrow> Inl err
                      | Inr privateKey \<Rightarrow>
                          Inr (c1\<lparr>rc_CA := ca, rc_Certificate := cert, rc_PrivateKey := privateKey\<rparr>))))
         else Inr c1)"

section \<open>The running manager\<close>

text \<open>
  What the closures share: the id of the current leader, the provider, and the restart channel, of which
  only matters whether it holds its one signal.
\<close>

record 'prov mc_world =
  mw_currentLeader :: u64
  mw_provider :: 'prov
  mw_restart :: bool

definition store_leader :: "u64 \<Rightarrow> 'prov mc_world \<Rightarrow> 'prov mc_world" where
  "store_leader leader w = w\<lparr>mw_currentLeader := leader\<rparr>"

definition leader_name :: "(u64 \<rightharpoonup> string) \<Rightarrow> 'prov mc_world \<Rightarrow> string" where
  "leader_name idsToNames w =
     (case idsToNames (mw_currentLeader w) of None \<Rightarrow> '''' | Some name \<Rightarrow> name)"

definition current_clusters ::
  "('e, 'kc, 'rest, 'c, 'prov) mc_env \<Rightarrow> 'prov mc_world \<Rightarrow> (string \<times> 'c) list" where
  "current_clusters env w =
     concat (map (\<lambda>name. case me_Get env (mw_provider w) name of Inl err \<Rightarrow> [] | Inr c \<Rightarrow> [(name, c)])
       (me_ClusterNames env (mw_provider w)))"

definition add_or_replace ::
  "('e, 'kc, 'rest, 'c, 'prov) mc_env \<Rightarrow> string \<Rightarrow> 'c \<Rightarrow>
   (('prov, 'x) mc_world_scheme, 'e) effect" where
  "add_or_replace env clusterName cl w =
     (case me_AddOrReplace env clusterName cl (mw_provider w) of
        (Some err, prov) \<Rightarrow> (Some err, w\<lparr>mw_provider := prov\<rparr>)
      | (None, prov) \<Rightarrow> (None, w\<lparr>mw_provider := prov, mw_restart := True\<rparr>))"

text \<open>
  The routine that fetches the kubeconfig of the peer with index \<open>i\<close>. When all went well it waits for the end
  of its context and returns no error.
\<close>

definition fetch_peer ::
  "('e, 'kc, 'rest, 'c, 'prov) mc_env \<Rightarrow> ('e, 'cert, 'pool, 'cl) transport_api \<Rightarrow>
   ('cl \<Rightarrow> (('prov, 'x) mc_world_scheme, 'e, bytes) action) \<Rightarrow> RaftCluster list \<Rightarrow>
   ('rest, 'lg) runtime_lock \<Rightarrow> nat \<Rightarrow> (('prov, 'x) mc_world_scheme, 'e) effect" where
  "fetch_peer env ta rpc_Kubeconfig peers raftConfig i w =
     (case ClientFor ta raftConfig (rc_Peers raftConfig ! i) of
        Inl err \<Rightarrow> (Some err, w)
      | Inr client \<Rightarrow>
          (case rpc_Kubeconfig client w of
             (Inl err, w1) \<Rightarrow> (Some err, w1)
           | (Inr payload, w1) \<Rightarrow>
               (case loadKubeconfigFromBytes env payload of
                  Inl err \<Rightarrow> (Some err, w1)
                | Inr kubeConfig \<Rightarrow>
                    (case me_ClusterNew env kubeConfig of
                       Inl err \<Rightarrow> (Some err, w1)
                     | Inr c \<Rightarrow> add_or_replace env (rcl_Name (peers ! i)) c w1))))"

section \<open>The constructor\<close>

text \<open>The indices of the peers for which a fetching routine is registered.\<close>

definition peers_to_fetch :: "('sch, 'lg, 'rest) RaftConfiguration \<Rightarrow> nat list" where
  "peers_to_fetch config =
     (if mc_Bootstrap config then
        map fst (filter (\<lambda>(i, peer). rcl_Name peer \<noteq> mc_Name config \<and> rcl_KubeconfigFile peer = '''')
          (enumerate 0 (mc_Peers config)))
      else [])"

record ('e, 'c, 'r, 'mgr, 'prov, 'rest, 'lg, 'kcfg, 'mlg) raft_runtime =
  rr_raftConfig :: "('rest, 'lg) runtime_lock"
  rr_idsToNames :: "u64 \<rightharpoonup> string"
  rr_provider :: 'prov
  rr_metricsBindAddress :: "string option"
  rr_manager :: "('prov mc_world, 'e, 'c, 'r, 'mgr, 'kcfg, ('rest, 'lg) runtime_lock, 'mlg) managerI"

definition NewRaftRuntimeManager ::
  "('e, 'kc, 'rest, 'c, 'prov) mc_env \<Rightarrow> ('e, 'r, 'mgr) embedded_api \<Rightarrow>
   ('sch, 'lg, 'rest) RaftConfiguration \<Rightarrow>
   'e go_error + ('e, 'c, 'r, 'mgr, 'prov, 'rest, 'lg, 'kcfg, 'mlg) raft_runtime" where
  "NewRaftRuntimeManager env mg config =
     (case validate_mc config of
        Some err \<Rightarrow> Inl err
      | None \<Rightarrow>
       (case (case mc_RestConfig config of Some r \<Rightarrow> Inr r | None \<Rightarrow> me_GetConfig env) of
          Inl err \<Rightarrow> Inl err
        | Inr restConfig \<Rightarrow>
         (case register_peers env (mc_Name config) (mc_Peers config) [] Map.empty (me_NewProvider env) of
            Inl err \<Rightarrow> Inl err
          | Inr (raftPeers, idsToNames, prov) \<Rightarrow>
           (case raft_config_for env config restConfig raftPeers of
              Inl err \<Rightarrow> Inl err
            | Inr raftConfig \<Rightarrow>
             (let lockManager = foldl (\<lambda>lm i. RegisterRoutine lm (FetchKubeconfig i))
                    (NewLeaderTrackingRaftLockManager raftConfig (Some ())) (peers_to_fetch config)
              in case newManager mg (Some (leader_name idsToNames)) (Some (current_clusters env))
                     (add_or_replace env) lockManager of
                   Inl err \<Rightarrow> Inl err
                 | Inr manager \<Rightarrow>
                     Inr \<lparr>rr_raftConfig = raftConfig, rr_idsToNames = idsToNames, rr_provider = prov,
                       rr_metricsBindAddress = (if \<not> mc_Metrics config then Some ''0'' else None),
                       rr_manager = manager\<rparr>)))))"

section \<open>Lemmas\<close>

definition node_of :: "RaftCluster \<Rightarrow> LockerNode" where
  "node_of peer = \<lparr>ln_ID = stringToHash (rcl_Name peer), ln_Address = rcl_Address peer\<rparr>"

lemma register_peers_Inr:
  "register_peers env own peers raftPeers ids prov = Inr (ps, ids', prov') \<Longrightarrow>
     ps = raftPeers @ map node_of peers \<and>
     ids' = foldl (\<lambda>m p. m(stringToHash (rcl_Name p) \<mapsto> rcl_Name p)) ids peers"
proof (induction peers arbitrary: raftPeers ids prov)
  case Nil
  then show ?case by simp
next
  case (Cons p peers)
  from Cons.prems obtain prov1 where
    "register_peers env own peers (raftPeers @ [node_of p])
       (ids(stringToHash (rcl_Name p) \<mapsto> rcl_Name p)) prov1 = Inr (ps, ids', prov')"
    by (auto simp: node_of_def Let_def split: if_splits sum.splits prod.splits option.splits)
  from Cons.IH [OF this] show ?case by simp
qed

lemma names_table:
  "foldl (\<lambda>m p. m(stringToHash (rcl_Name p) \<mapsto> rcl_Name p)) Map.empty peers =
     assign_all (map (\<lambda>p. (stringToHash (rcl_Name p), rcl_Name p)) peers)"
  by (simp add: assign_all_def foldl_map)

lemma foldl_register:
  "lm_leaderRoutines (foldl (\<lambda>lm i. RegisterRoutine lm (f i)) lm is) = lm_leaderRoutines lm @ map f is"
  by (induction "is" arbitrary: lm) (auto simp: RegisterRoutine_def)

lemma newManager_Inr:
  "newManager mg gl gc ar lm = Inr m \<Longrightarrow>
     mi_getLeader m = gl \<and> mi_getClusters m = gc \<and> mi_addOrReplaceCluster m = ar \<and>
     lr_manager (mi_runnable m) = RegisterRoutine lm LogLeader"
  by (auto simp: newManager_def Let_def split: sum.splits prod.splits option.splits)

lemma runtime_Inr:
  fixes env :: "('e, 'kc, 'rest, 'c, 'prov) mc_env"
  assumes "NewRaftRuntimeManager env mg config = Inr rt"
  obtains restConfig raftPeers prov where
    "validate_mc config = (None :: 'e go_error option)"
    "register_peers env (mc_Name config) (mc_Peers config) [] Map.empty (me_NewProvider env) =
       Inr (raftPeers, rr_idsToNames rt, prov)"
    "raft_config_for env config restConfig raftPeers = Inr (rr_raftConfig rt)"
    "newManager mg (Some (leader_name (rr_idsToNames rt))) (Some (current_clusters env)) (add_or_replace env)
       (foldl (\<lambda>lm i. RegisterRoutine lm (FetchKubeconfig i))
          (NewLeaderTrackingRaftLockManager (rr_raftConfig rt) (Some ())) (peers_to_fetch config)) =
       Inr (rr_manager rt)"
  using assms unfolding NewRaftRuntimeManager_def Let_def
  by (auto split: option.splits sum.splits prod.splits)

lemma raft_config_for_Inr:
  assumes "raft_config_for env config restConfig raftPeers = Inr rc"
  shows "rc_ID rc = stringToHash (mc_Name config) \<and> rc_Address rc = mc_Address config \<and>
    rc_Peers rc = raftPeers \<and> rc_Insecure rc = mc_Insecure config \<and>
    rc_Logger rc = Some (mc_Logger config) \<and>
    (rc_Fetcher rc = None) = (\<not> mc_Bootstrap config)"
  using assms
  by (auto simp: raft_config_for_def Let_def split: if_splits sum.splits)

lemma peers_to_fetch_props:
  "i \<in> set (peers_to_fetch config) \<Longrightarrow>
     mc_Bootstrap config \<and> i < length (mc_Peers config) \<and>
     rcl_Name (mc_Peers config ! i) \<noteq> mc_Name config \<and>
     rcl_KubeconfigFile (mc_Peers config ! i) = ''''"
  by (auto simp: peers_to_fetch_def in_set_enumerate_eq split: if_splits)

section \<open>Properties\<close>

text \<open>
  C24: the parts of a runtime fit together. The raft node and its peers have the hashes of their names as
  ids, in the order of the configuration; the leader routines are one per peer to fetch, followed by
  the one that logs the leadership; and the peer that such a routine dials by its index is the node of the
  peer it fetches for, never this node itself and never one that has a kubeconfig already.
\<close>

theorem runtime_consistent:
  fixes env :: "('e, 'kc, 'rest, 'c, 'prov) mc_env"
  assumes "NewRaftRuntimeManager env mg config = Inr rt"
  shows "rc_ID (rr_raftConfig rt) = stringToHash (mc_Name config) \<and>
    rc_Peers (rr_raftConfig rt) = map node_of (mc_Peers config) \<and>
    lm_leaderRoutines (lr_manager (mi_runnable (rr_manager rt))) =
      map FetchKubeconfig (peers_to_fetch config) @ [LogLeader] \<and>
    list_all (\<lambda>i. i < length (mc_Peers config) \<and>
      rc_Peers (rr_raftConfig rt) ! i = node_of (mc_Peers config ! i) \<and>
      rcl_Name (mc_Peers config ! i) \<noteq> mc_Name config \<and>
      rcl_KubeconfigFile (mc_Peers config ! i) = '''') (peers_to_fetch config)"
proof (rule runtime_Inr [OF assms])
  fix restConfig raftPeers prov
  assume reg: "register_peers env (mc_Name config) (mc_Peers config) [] Map.empty (me_NewProvider env) =
       Inr (raftPeers, rr_idsToNames rt, prov)"
    and rc: "raft_config_for env config restConfig raftPeers = Inr (rr_raftConfig rt)"
    and mgr: "newManager mg (Some (leader_name (rr_idsToNames rt))) (Some (current_clusters env)) (add_or_replace env)
       (foldl (\<lambda>lm i. RegisterRoutine lm (FetchKubeconfig i))
          (NewLeaderTrackingRaftLockManager (rr_raftConfig rt) (Some ())) (peers_to_fetch config)) =
       Inr (rr_manager rt)"
  have peers: "rc_Peers (rr_raftConfig rt) = map node_of (mc_Peers config)"
    using register_peers_Inr [OF reg] raft_config_for_Inr [OF rc] by simp
  moreover have "lm_leaderRoutines (lr_manager (mi_runnable (rr_manager rt))) =
      map FetchKubeconfig (peers_to_fetch config) @ [LogLeader]"
    using newManager_Inr [OF mgr]
    by (simp add: RegisterRoutine_def foldl_register [unfolded RegisterRoutine_def]
        NewLeaderTrackingRaftLockManager_def new_manager_def)
  ultimately show ?thesis
    using raft_config_for_Inr [OF rc] peers_to_fetch_props [of _ config] by (simp add: list_all_iff)
qed

text \<open>
  The name of the leader. When the ids of the peers do not collide, \<open>GetLeader\<close> answers with the name of
  the peer whose id the raft loop reported last.
\<close>

theorem leader_name_resolves:
  fixes env :: "('e, 'kc, 'rest, 'c, 'prov) mc_env"
  assumes "NewRaftRuntimeManager env mg config = Inr rt" and "p \<in> set (mc_Peers config)"
    and "\<And>q. q \<in> set (mc_Peers config) \<Longrightarrow> stringToHash (rcl_Name q) = stringToHash (rcl_Name p) \<Longrightarrow>
      rcl_Name q = rcl_Name p"
  shows "GetLeader (rr_manager rt) (store_leader (stringToHash (rcl_Name p)) w) = rcl_Name p"
proof (rule runtime_Inr [OF assms(1)])
  fix restConfig raftPeers prov
  assume reg: "register_peers env (mc_Name config) (mc_Peers config) [] Map.empty (me_NewProvider env) =
       Inr (raftPeers, rr_idsToNames rt, prov)"
    and mgr: "newManager mg (Some (leader_name (rr_idsToNames rt))) (Some (current_clusters env)) (add_or_replace env)
       (foldl (\<lambda>lm i. RegisterRoutine lm (FetchKubeconfig i))
          (NewLeaderTrackingRaftLockManager (rr_raftConfig rt) (Some ())) (peers_to_fetch config)) =
       Inr (rr_manager rt)"
  let ?kvs = "map (\<lambda>p. (stringToHash (rcl_Name p), rcl_Name p)) (mc_Peers config)"
  have "rr_idsToNames rt = assign_all ?kvs"
    using register_peers_Inr [OF reg] by (simp add: names_table)
  moreover have "assign_all ?kvs (stringToHash (rcl_Name p)) = Some (rcl_Name p)"
  proof (rule assign_all_consistent)
    show "(stringToHash (rcl_Name p), rcl_Name p) \<in> set ?kvs" using assms(2) by auto
  next
    fix v' assume "(stringToHash (rcl_Name p), v') \<in> set ?kvs"
    then obtain q where "q \<in> set (mc_Peers config)" "stringToHash (rcl_Name q) = stringToHash (rcl_Name p)"
      "v' = rcl_Name q" by auto
    with assms(3) show "v' = rcl_Name p" by simp
  qed
  ultimately show ?thesis
    using newManager_Inr [OF mgr] by (simp add: GetLeader_def leader_name_def store_leader_def)
qed

text \<open>
  A runtime that was built is one that the raft lock accepts exactly when the id of the node is not zero
  and none of the files it read was empty: the checks before do not ask for either.
\<close>

theorem runtime_accepted:
  fixes env :: "('e, 'kc, 'rest, 'c, 'prov) mc_env"
  assumes "NewRaftRuntimeManager env mg config = Inr rt"
  shows "validate_raft (rr_raftConfig rt) = (None :: 'e go_error option) \<longleftrightarrow>
    stringToHash (mc_Name config) \<noteq> 0 \<and>
    (mc_Insecure config \<or> rc_CA (rr_raftConfig rt) \<noteq> [] \<and> rc_PrivateKey (rr_raftConfig rt) \<noteq> [] \<and>
       rc_Certificate (rr_raftConfig rt) \<noteq> [])"
proof (rule runtime_Inr [OF assms])
  fix restConfig raftPeers prov
  assume valid: "validate_mc config = (None :: 'e go_error option)"
    and reg: "register_peers env (mc_Name config) (mc_Peers config) [] Map.empty (me_NewProvider env) =
       Inr (raftPeers, rr_idsToNames rt, prov)"
    and rc: "raft_config_for env config restConfig raftPeers = Inr (rr_raftConfig rt)"
  have "rc_Peers (rr_raftConfig rt) \<noteq> [] \<and> rc_Address (rr_raftConfig rt) \<noteq> ''''"
    using register_peers_Inr [OF reg] raft_config_for_Inr [OF rc] valid by (simp add: validate_mc_None)
  with raft_config_for_Inr [OF rc] show ?thesis by (auto simp: validate_raft_def)
qed

text \<open>A name that hashes to zero, which no earlier check refuses.\<close>

lemma zero_hash_name: "stringToHash ''!0IC=VloaY'' = 0"
  by code_simp

definition mc_example_env :: "(string, unit, string, string, (string \<times> string) list) mc_env" where
  "mc_example_env =
     \<lparr>me_GetConfig = Inr ''local'', me_ReadFile = (\<lambda>f. Inr f), me_Load = (\<lambda>y. Inr ()),
      me_ClientConfig = (\<lambda>k. Inr ''remote''), me_ClusterNew = (\<lambda>r. Inr r), me_NewProvider = [],
      me_ProviderAdd = (\<lambda>n c p. (None, p @ [(n, c)])), me_AddOrReplace = (\<lambda>n c p. (None, AList.update n c p)),
      me_ClusterNames = map fst,
      me_Get = (\<lambda>p n. case map_of p n of None \<Rightarrow> Inl (New ''not found'' []) | Some c \<Rightarrow> Inr c)\<rparr>"

definition mc_example_mg :: "(string, unit, unit) embedded_api" where
  "mc_example_mg = \<lparr>mg_New = Inr (), mg_Add = (\<lambda>a m. (None, m))\<rparr>"

definition mc_example_config :: "(unit, unit, string) RaftConfiguration" where
  "mc_example_config = \<lparr>mc_Name = ''a'', mc_Address = ''h:1'',
      mc_Peers = [\<lparr>rcl_Name = ''a'', rcl_Address = ''h:1'', rcl_KubeconfigFile = ''''\<rparr>,
        \<lparr>rcl_Name = ''b'', rcl_Address = ''h:2'', rcl_KubeconfigFile = ''''\<rparr>,
        \<lparr>rcl_Name = ''c'', rcl_Address = ''h:3'', rcl_KubeconfigFile = ''/kc''\<rparr>],
      mc_ElectionTimeout = 0, mc_HeartbeatInterval = 0, mc_Meta = [], mc_Scheme = None, mc_Logger = (),
      mc_Metrics = False, mc_RestConfig = None, mc_Insecure = True, mc_CAFile = [],
      mc_PrivateKeyFile = [], mc_CertificateFile = [], mc_Bootstrap = True,
      mc_KubernetesAPIServer = [], mc_KubeconfigNamespace = [], mc_KubeconfigName = []\<rparr>"

lemma mc_example_runtime:
  "\<exists>rt :: (string, string, unit, unit, (string \<times> string) list, string, unit, unit, unit) raft_runtime.
     NewRaftRuntimeManager mc_example_env mc_example_mg mc_example_config = Inr rt"
  by (simp add: NewRaftRuntimeManager_def mc_example_env_def mc_example_mg_def mc_example_config_def
      validate_mc_def loadKubeconfig_def loadKubeconfigFromBytes_def raft_config_for_def newManager_def Let_def)

lemma mc_example_fetches: "peers_to_fetch mc_example_config = [1]"
  by (simp add: peers_to_fetch_def mc_example_config_def)

theorem runtime_consistent_witness:
  "\<exists>rt :: (string, string, unit, unit, (string \<times> string) list, string, unit, unit, unit) raft_runtime.
     NewRaftRuntimeManager mc_example_env mc_example_mg mc_example_config = Inr rt \<and>
     lm_leaderRoutines (lr_manager (mi_runnable (rr_manager rt))) = [FetchKubeconfig 1, LogLeader]"
proof -
  obtain rt :: "(string, string, unit, unit, (string \<times> string) list, string, unit, unit, unit) raft_runtime"
    where rt: "NewRaftRuntimeManager mc_example_env mc_example_mg mc_example_config = Inr rt"
    using mc_example_runtime by blast
  from runtime_consistent [OF rt] rt show ?thesis by (auto simp: mc_example_fetches)
qed

theorem leader_name_resolves_witness:
  "\<exists>rt :: (string, string, unit, unit, (string \<times> string) list, string, unit, unit, unit) raft_runtime.
     NewRaftRuntimeManager mc_example_env mc_example_mg mc_example_config = Inr rt \<and>
     GetLeader (rr_manager rt) (store_leader (stringToHash ''b'')
       \<lparr>mw_currentLeader = 0, mw_provider = [], mw_restart = False\<rparr>) = ''b''"
proof -
  obtain rt :: "(string, string, unit, unit, (string \<times> string) list, string, unit, unit, unit) raft_runtime"
    where rt: "NewRaftRuntimeManager mc_example_env mc_example_mg mc_example_config = Inr rt"
    using mc_example_runtime by blast
  have one: "stringToHash [c] = stringToHash [d] \<longleftrightarrow> c = d" for c d
    by (simp add: stringToHash_def fnv_step_char)
  let ?b = "\<lparr>rcl_Name = ''b'', rcl_Address = ''h:2'', rcl_KubeconfigFile = ''''\<rparr>"
  have "GetLeader (rr_manager rt) (store_leader (stringToHash (rcl_Name ?b))
      \<lparr>mw_currentLeader = 0, mw_provider = [], mw_restart = False\<rparr>) = rcl_Name ?b"
    by (rule leader_name_resolves [OF rt]) (auto simp: mc_example_config_def one)
  with rt show ?thesis by auto
qed

theorem runtime_accepted_witness:
  "\<exists>rt :: (string, string, unit, unit, (string \<times> string) list, string, unit, unit, unit) raft_runtime.
     NewRaftRuntimeManager mc_example_env mc_example_mg (mc_example_config\<lparr>mc_Name := ''!0IC=VloaY''\<rparr>) = Inr rt \<and>
     validate_raft (rr_raftConfig rt) \<noteq> (None :: string go_error option)"
proof -
  obtain rt :: "(string, string, unit, unit, (string \<times> string) list, string, unit, unit, unit) raft_runtime"
    where rt: "NewRaftRuntimeManager mc_example_env mc_example_mg (mc_example_config\<lparr>mc_Name := ''!0IC=VloaY''\<rparr>) = Inr rt"
    by (simp add: NewRaftRuntimeManager_def mc_example_env_def mc_example_mg_def mc_example_config_def
      validate_mc_def loadKubeconfig_def loadKubeconfigFromBytes_def raft_config_for_def newManager_def Let_def)
  from runtime_accepted [OF rt] rt zero_hash_name show ?thesis by auto
qed

end
