(* ===== verification/Raft_Async.thy ===== *)
theory Raft_Async
  imports Leader_Manager
begin

text \<open>
  The raft lock and its manager with the goroutines that the code really starts: \<open>runRaft\<close> calls both
  leadership callbacks by \<open>go\<close>, so that they run at any later time and in any order. The theory says what
  survives every schedule, what a first-in-first-out schedule gives, and what goes wrong without one.
\<close>

section \<open>The callbacks as goroutines\<close>

text \<open>
  A goroutine that has not finished: the call of \<open>OnStartedLeading\<close> with its context, the rest of that call
  after the flag has been stored (\<open>runLeaderRoutines\<close> waits there for its lock), or the call of
  \<open>OnStoppedLeading\<close>.
\<close>

datatype callback_call =
    StartedCall nat
  | StartedRest nat
  | StoppedCall

fun spawned_calls :: "loop_effect \<Rightarrow> callback_call list" where
  "spawned_calls (Started k) = [StartedCall k]"
| "spawned_calls Stopped = [StoppedCall]"
| "spawned_calls (SetLeader _) = []"
| "spawned_calls (CancelCtx _) = []"

text \<open>The two halves of \<open>runLeaderRoutines\<close>.\<close>

definition started_flag ::
  "('fn, 'kc, 'rc, 'lg) LeaderManager \<Rightarrow> ('fn, 'kc, 'rc, 'lg) LeaderManager" where
  "started_flag lm = lm\<lparr>lm_isLeader := True\<rparr>"

definition started_spawn :: "'ctx \<Rightarrow> ('fn, 'kc, 'rc, 'lg) LeaderManager \<Rightarrow> ('fn \<times> 'ctx) list" where
  "started_spawn ctx lm = map (\<lambda>fn. (fn, ctx)) (lm_leaderRoutines lm)"

lemma runLeaderRoutines_halves:
  "runLeaderRoutines ctx lm = (started_flag lm, started_spawn ctx (started_flag lm))"
  by (simp add: runLeaderRoutines_def started_flag_def started_spawn_def)

section \<open>Steps\<close>

text \<open>
  \<open>ac_effs\<close> is everything the loop has done so far, in order, and \<open>ac_rounds\<close> the \<open>Ready\<close> values it has
  handled; \<open>ac_calls\<close> are the goroutines that have not finished, oldest first, and \<open>ac_spawned\<close> the leader
  routines that were started.
\<close>

record ('ent, 'msg, 'fn, 'kc, 'rc, 'lg) async_client =
  ac_loop :: raft_loop
  ac_done :: bool
  ac_effs :: "loop_effect list"
  ac_rounds :: "('ent, 'msg) ready list"
  ac_calls :: "callback_call list"
  ac_manager :: "('fn, 'kc, 'rc, 'lg) LeaderManager"
  ac_spawned :: "('fn \<times> nat) list"

definition async_init ::
  "('fn, 'kc, 'rc, 'lg) LeaderManager \<Rightarrow> ('ent, 'msg, 'fn, 'kc, 'rc, 'lg) async_client" where
  "async_init lm = \<lparr>ac_loop = loop_init, ac_done = False, ac_effs = [], ac_rounds = [], ac_calls = [],
     ac_manager = lm, ac_spawned = []\<rparr>"

text \<open>
  The parameter \<open>fifo\<close> says whether only the oldest goroutine may run; the code gives no such promise. A round
  and the end of the loop are one step each: they start at most one goroutine, as their last action.
\<close>

inductive async_step ::
  "bool \<Rightarrow> u64 \<Rightarrow> RaftLeaderCallbacks \<Rightarrow> ('ent, 'msg, 'fn, 'kc, 'rc, 'lg) async_client \<Rightarrow>
   ('ent, 'msg, 'fn, 'kc, 'rc, 'lg) async_client \<Rightarrow> bool"
  for fifo :: bool and cid :: u64 and cb :: RaftLeaderCallbacks where
  round:
    "\<not> ac_done s \<Longrightarrow> handle_leadership cid (Some cb) rd (ac_loop s) = Returns (l, effs) \<Longrightarrow>
     async_step fifo cid cb s (s\<lparr>ac_loop := l, ac_effs := ac_effs s @ effs, ac_rounds := ac_rounds s @ [rd],
       ac_calls := ac_calls s @ concat (map spawned_calls effs)\<rparr>)"
| finish:
    "\<not> ac_done s \<Longrightarrow> handle_done (Some cb) (ac_loop s) = Returns effs \<Longrightarrow>
     async_step fifo cid cb s (s\<lparr>ac_done := True, ac_effs := ac_effs s @ effs,
       ac_calls := ac_calls s @ concat (map spawned_calls effs)\<rparr>)"
| call_started:
    "ac_calls s = xs @ StartedCall k # ys \<Longrightarrow> fifo \<longrightarrow> xs = [] \<Longrightarrow>
     async_step fifo cid cb s (s\<lparr>ac_calls := xs @ StartedRest k # ys,
       ac_manager := started_flag (ac_manager s)\<rparr>)"
| call_rest:
    "ac_calls s = xs @ StartedRest k # ys \<Longrightarrow> fifo \<longrightarrow> xs = [] \<Longrightarrow>
     async_step fifo cid cb s (s\<lparr>ac_calls := xs @ ys,
       ac_spawned := ac_spawned s @ started_spawn k (ac_manager s)\<rparr>)"
| call_stopped:
    "ac_calls s = xs @ StoppedCall # ys \<Longrightarrow> fifo \<longrightarrow> xs = [] \<Longrightarrow>
     async_step fifo cid cb s (s\<lparr>ac_calls := xs @ ys, ac_manager := stopped_callback (ac_manager s)\<rparr>)"
| register:
    "async_step fifo cid cb s (s\<lparr>ac_manager := RegisterRoutine (ac_manager s) fn\<rparr>)"

section \<open>What every schedule keeps\<close>

lemma run_loop_snoc:
  "run_loop cid callbacks (rds @ [rd]) s =
     (case run_loop cid callbacks rds s of
        Panics p \<Rightarrow> Panics p
      | Returns (s1, effs) \<Rightarrow>
          (case handle_leadership cid callbacks rd s1 of
             Panics p \<Rightarrow> Panics p
           | Returns (s2, effs2) \<Rightarrow> Returns (s2, effs @ effs2)))"
  by (induction rds arbitrary: s) (auto split: outcome.splits prod.splits)

lemma handle_leadership_transport:
  "handle_leadership cid callbacks rd s = Returns (s', effs) \<Longrightarrow>
     lp_transport_isLeader s' = raft_promotes cid rd"
  by (auto simp: step_simps Let_def raft_promotes_def split: prod.splits if_splits option.splits)

text \<open>
  What the loop has done is what its rounds and, once it has ended, \<open>handle_done\<close> say, whatever the goroutines
  do.
\<close>

definition loop_history ::
  "u64 \<Rightarrow> RaftLeaderCallbacks \<Rightarrow> ('ent, 'msg) ready list \<Rightarrow> bool \<Rightarrow> raft_loop \<Rightarrow> loop_effect list \<Rightarrow> bool"
  where
  "loop_history cid cb rds dn l effs \<longleftrightarrow>
     (\<exists>effs1. run_loop cid (Some cb) rds loop_init = Returns (l, effs1) \<and>
        (if dn then \<exists>effs2. handle_done (Some cb) l = Returns effs2 \<and> effs = effs1 @ effs2
         else effs = effs1))"

text \<open>Every goroutine and every leader routine carries a context that was given to \<open>OnStartedLeading\<close>.\<close>

fun call_context :: "callback_call \<Rightarrow> nat option" where
  "call_context (StartedCall k) = Some k"
| "call_context (StartedRest k) = Some k"
| "call_context StoppedCall = None"

definition async_inv ::
  "u64 \<Rightarrow> RaftLeaderCallbacks \<Rightarrow> ('ent, 'msg, 'fn, 'kc, 'rc, 'lg) async_client \<Rightarrow> bool" where
  "async_inv cid cb s \<longleftrightarrow>
     loop_history cid cb (ac_rounds s) (ac_done s) (ac_loop s) (ac_effs s) \<and>
     (\<forall>c k. c \<in> set (ac_calls s) \<longrightarrow> call_context c = Some k \<longrightarrow> Started k \<in> set (ac_effs s)) \<and>
     (\<forall>fn k. (fn, k) \<in> set (ac_spawned s) \<longrightarrow> Started k \<in> set (ac_effs s))"

lemma spawned_calls_context:
  "c \<in> set (spawned_calls e) \<Longrightarrow> call_context c = Some k \<Longrightarrow> e = Started k"
  by (cases e) auto

lemma loop_history_init: "loop_history cid cb [] False loop_init []"
  by (simp add: loop_history_def)

lemma loop_history_round:
  "loop_history cid cb rds False l effs \<Longrightarrow> handle_leadership cid (Some cb) rd l = Returns (l', effs') \<Longrightarrow>
     loop_history cid cb (rds @ [rd]) False l' (effs @ effs')"
  by (auto simp: loop_history_def run_loop_snoc)

lemma loop_history_done:
  "loop_history cid cb rds False l effs \<Longrightarrow> handle_done (Some cb) l = Returns effs' \<Longrightarrow>
     loop_history cid cb rds True l (effs @ effs')"
  by (auto simp: loop_history_def)

lemma async_inv_step:
  assumes "async_step fifo cid cb s s'" and "async_inv cid cb s"
  shows "async_inv cid cb s'"
  using assms(1)
proof (cases rule: async_step.cases)
  case (round rd l effs)
  with assms(2) show ?thesis
    by (auto simp: async_inv_def dest: loop_history_round spawned_calls_context)
next
  case (finish effs)
  with assms(2) show ?thesis
    by (auto simp: async_inv_def dest: loop_history_done spawned_calls_context)
next
  case (call_started xs k ys)
  have "Started k \<in> set (ac_effs s)"
    using assms(2) call_started(2) unfolding async_inv_def by (metis call_context.simps(1) in_set_conv_decomp)
  with assms(2) call_started show ?thesis by (auto simp: async_inv_def)
next
  case (call_rest xs k ys)
  have "Started k \<in> set (ac_effs s)"
    using assms(2) call_rest(2) unfolding async_inv_def by (metis call_context.simps(2) in_set_conv_decomp)
  with assms(2) call_rest show ?thesis by (auto simp: async_inv_def started_spawn_def)
next
  case (call_stopped xs ys)
  with assms(2) show ?thesis by (auto simp: async_inv_def)
next
  case (register fn)
  with assms(2) show ?thesis by (simp add: async_inv_def)
qed

interpretation raft_async: step_invariant "async_init lm" "async_step fifo cid cb" "async_inv cid cb"
  for lm fifo cid cb
proof unfold_locales
  show "async_inv cid cb (async_init lm)"
    by (simp add: async_inv_def async_init_def loop_history_init)
qed (rule async_inv_step)

lemma handle_done_effects:
  "handle_done callbacks s = Returns effs \<Longrightarrow> CancelCtx (lp_ctx s) \<in> set effs \<and> Started k \<notin> set effs"
  by (auto simp: handle_done_def split: if_splits option.splits)

lemma handle_leadership_leads:
  assumes "handle_leadership cid callbacks rd s = Returns (s', effs')" and "contexts_inv s effs"
    and "Started k \<in> set (effs @ effs')" and "\<not> lp_transport_isLeader s'"
  shows "CancelCtx k \<in> set (effs @ effs')"
  using handle_leadership_contexts [OF assms(1,2)] handle_leadership_transport [OF assms(1)] assms(3,4)
  by (auto simp: contexts_inv_def)

lemma loop_history_contexts:
  assumes "loop_history cid cb rds dn l effs" and "Started k \<in> set effs"
    and "dn \<or> \<not> lp_transport_isLeader l"
  shows "CancelCtx k \<in> set effs"
proof -
  from assms(1) obtain e1 where run: "run_loop cid (Some cb) rds loop_init = Returns (l, e1)"
    and fin: "if dn then \<exists>e2. handle_done (Some cb) l = Returns e2 \<and> effs = e1 @ e2 else effs = e1"
    by (auto simp: loop_history_def)
  have inv: "contexts_inv l e1" using run_loop_contexts [OF run contexts_inv_init] by simp
  show ?thesis
  proof (cases dn)
    case True
    with fin obtain e2 where e2: "handle_done (Some cb) l = Returns e2" "effs = e1 @ e2" by auto
    with inv handle_done_effects [OF e2(1)] assms(2) show ?thesis
      by (auto simp: contexts_inv_def le_less)
  next
    case False
    with fin have "effs = e1" by simp
    have "CancelCtx k \<in> set e1" if "rds = js @ [rd]" for js rd
    proof -
      from run that obtain l0 e0 e' where pre: "run_loop cid (Some cb) js loop_init = Returns (l0, e0)"
        and hd: "handle_leadership cid (Some cb) rd l0 = Returns (l, e')" and "e1 = e0 @ e'"
        by (auto simp: run_loop_snoc split: outcome.splits)
      with run_loop_contexts [OF pre contexts_inv_init] handle_leadership_leads [OF hd, of e0 k]
        assms(2,3) False \<open>effs = e1\<close> show ?thesis by simp
    qed
    with run assms(2) \<open>effs = e1\<close> show ?thesis by (cases rds rule: rev_cases) auto
  qed
qed

section \<open>A first-in-first-out schedule\<close>

text \<open>
  If the goroutines run in the order in which they are started, the client behaves as if the loop called it
  directly: the calls that have not finished are what the manager is behind.
\<close>

fun call_event :: "callback_call \<Rightarrow> ('fn, nat) manager_event" where
  "call_event (StartedCall k) = LeadershipStarted k"
| "call_event (StartedRest k) = LeadershipStarted k"
| "call_event StoppedCall = LeadershipStopped"

fun half_started :: "callback_call list \<Rightarrow> bool" where
  "half_started (StartedRest k # cs) = True"
| "half_started cs = False"

definition fifo_inv ::
  "('fn, 'kc, 'rc, 'lg) LeaderManager \<Rightarrow> ('ent, 'msg, 'fn, 'kc, 'rc, 'lg) async_client \<Rightarrow> bool" where
  "fifo_inv lm s \<longleftrightarrow>
     (\<forall>k. StartedRest k \<notin> set (tl (ac_calls s))) \<and>
     (\<exists>es m. filter (\<lambda>e. \<not> is_register e) es @ map call_event (ac_calls s) =
               concat (map effect_events (ac_effs s)) \<and>
        manager_steps lm es = (m, ac_spawned s) \<and>
        ac_manager s = (if half_started (ac_calls s) then started_flag m else m))"

lemma call_events_spawned:
  "map call_event (concat (map spawned_calls effs)) = concat (map effect_events effs)"
proof -
  have one: "map call_event (spawned_calls e) = effect_events e" for e by (cases e) auto
  show ?thesis by (induction effs) (simp_all add: one)
qed

lemma half_started_append: "half_started (xs @ ys) \<longleftrightarrow> (if xs = [] then half_started ys else half_started xs)"
  by (cases xs rule: half_started.cases) auto

lemma StartedRest_spawned [simp]: "StartedRest k \<notin> set (spawned_calls e)"
  by (cases e) auto

lemma half_started_spawned [simp]: "\<not> half_started (concat (map spawned_calls effs))"
proof (induction effs)
  case (Cons e effs)
  then show ?case by (cases e) auto
qed simp

lemma started_flag_Register:
  "RegisterRoutine (started_flag lm) fn = started_flag (RegisterRoutine lm fn)"
  by (simp add: RegisterRoutine_def started_flag_def)

lemma manager_steps_snoc:
  "manager_steps lm es = (m, sp) \<Longrightarrow> manager_step m e = (m', sp') \<Longrightarrow>
     manager_steps lm (es @ [e]) = (m', sp @ sp')"
  by (simp add: manager_steps_append)

lemma fifo_invI:
  "\<forall>k. StartedRest k \<notin> set (tl (ac_calls s)) \<Longrightarrow>
   filter (\<lambda>e. \<not> is_register e) es @ map call_event (ac_calls s) = concat (map effect_events (ac_effs s)) \<Longrightarrow>
   manager_steps lm es = (m, ac_spawned s) \<Longrightarrow>
   ac_manager s = (if half_started (ac_calls s) then started_flag m else m) \<Longrightarrow> fifo_inv lm s"
  unfolding fifo_inv_def by blast

lemma no_half_calls: "StartedRest k \<notin> set (concat (map spawned_calls effs))"
  by (induction effs) auto

lemma in_set_tl: "x \<in> set (tl xs) \<Longrightarrow> x \<in> set xs"
  by (cases xs) auto

lemma set_tl_append: "x \<in> set (tl (xs @ ys)) \<Longrightarrow> x \<in> set (tl xs) \<or> x \<in> set ys"
  by (cases xs; cases ys) auto

lemma fifo_inv_spawn:
  assumes "fifo_inv lm s" and "ac_calls s' = ac_calls s @ concat (map spawned_calls effs)"
    and "ac_effs s' = ac_effs s @ effs" and "ac_manager s' = ac_manager s" and "ac_spawned s' = ac_spawned s"
  shows "fifo_inv lm s'"
proof -
  from assms(1) obtain es m where es: "\<forall>k. StartedRest k \<notin> set (tl (ac_calls s))"
    "filter (\<lambda>e. \<not> is_register e) es @ map call_event (ac_calls s) = concat (map effect_events (ac_effs s))"
    "manager_steps lm es = (m, ac_spawned s)"
    "ac_manager s = (if half_started (ac_calls s) then started_flag m else m)"
    by (auto simp: fifo_inv_def)
  show ?thesis
  proof (rule fifo_invI [of _ es _ m])
    show "\<forall>k. StartedRest k \<notin> set (tl (ac_calls s'))"
      unfolding assms(2) using es(1) no_half_calls set_tl_append by metis
    show "filter (\<lambda>e. \<not> is_register e) es @ map call_event (ac_calls s') =
        concat (map effect_events (ac_effs s'))"
      unfolding assms(2,3) map_append call_events_spawned append_assoc [symmetric] es(2) by simp
  qed (simp_all add: assms(2,4,5) es(3,4) half_started_append del: map_concat)
qed

lemma fifo_inv_call:
  assumes "fifo_inv lm s" and "ac_calls s = c # ys"
  obtains es m where
    "filter (\<lambda>e. \<not> is_register e) es @ call_event c # map call_event ys = concat (map effect_events (ac_effs s))"
    and "manager_steps lm es = (m, ac_spawned s)"
    and "ac_manager s = (if half_started [c] then started_flag m else m)"
    and "\<And>k. StartedRest k \<notin> set ys"
    and "\<not> half_started ys"
proof -
  from assms have ys: "\<And>k. StartedRest k \<notin> set ys" by (auto simp: fifo_inv_def)
  then have "\<not> half_started ys" by (cases ys rule: half_started.cases) auto
  moreover have "half_started (c # ys) = half_started [c]" by (cases c) auto
  ultimately show ?thesis using assms ys that by (fastforce simp: fifo_inv_def)
qed

lemma fifo_inv_step:
  assumes "async_step True cid cb s s'" and inv: "fifo_inv lm s"
  shows "fifo_inv lm s'"
  using assms(1)
proof (cases rule: async_step.cases)
  case (round rd l effs)
  show ?thesis by (rule fifo_inv_spawn [OF inv, of _ effs]) (simp_all add: round)
next
  case (finish effs)
  show ?thesis by (rule fifo_inv_spawn [OF inv, of _ effs]) (simp_all add: finish)
next
  case (call_started xs k ys)
  then have "ac_calls s = StartedCall k # ys" by simp
  from fifo_inv_call [OF inv this] obtain es m where
    es: "filter (\<lambda>e. \<not> is_register e) es @ LeadershipStarted k # map call_event ys =
      concat (map effect_events (ac_effs s))"
    and m: "manager_steps lm es = (m, ac_spawned s)" "ac_manager s = m"
    and ys: "\<And>k. StartedRest k \<notin> set ys" "\<not> half_started ys" by auto
  with call_started show ?thesis by (intro fifo_invI [of _ es _ m]) auto
next
  case (call_rest xs k ys)
  then have "ac_calls s = StartedRest k # ys" by simp
  from fifo_inv_call [OF inv this] obtain es m where
    es: "filter (\<lambda>e. \<not> is_register e) es @ LeadershipStarted k # map call_event ys =
      concat (map effect_events (ac_effs s))"
    and m: "manager_steps lm es = (m, ac_spawned s)" "ac_manager s = started_flag m"
    and ys: "\<And>k. StartedRest k \<notin> set ys" "\<not> half_started ys" by auto
  have "manager_steps lm (es @ [LeadershipStarted k]) =
      (started_flag m, ac_spawned s @ started_spawn k (started_flag m))"
    using m(1) by (rule manager_steps_snoc) (simp add: runLeaderRoutines_halves)
  with es ys m call_rest show ?thesis
    by (intro fifo_invI [of _ "es @ [LeadershipStarted k]"]) (auto dest!: in_set_tl)
next
  case (call_stopped xs ys)
  then have "ac_calls s = StoppedCall # ys" by simp
  from fifo_inv_call [OF inv this] obtain es m where
    es: "filter (\<lambda>e. \<not> is_register e) es @ LeadershipStopped # map call_event ys =
      concat (map effect_events (ac_effs s))"
    and m: "manager_steps lm es = (m, ac_spawned s)" "ac_manager s = m"
    and ys: "\<And>k. StartedRest k \<notin> set ys" "\<not> half_started ys" by auto
  have "manager_steps lm (es @ [LeadershipStopped]) = (stopped_callback m, ac_spawned s @ [])"
    using m(1) by (rule manager_steps_snoc) simp
  with es ys m call_stopped show ?thesis
    by (intro fifo_invI [of _ "es @ [LeadershipStopped]"]) (auto dest!: in_set_tl)
next
  case (register fn)
  from inv obtain es m where
    es: "filter (\<lambda>e. \<not> is_register e) es @ map call_event (ac_calls s) = concat (map effect_events (ac_effs s))"
    and m: "manager_steps lm es = (m, ac_spawned s)"
    "ac_manager s = (if half_started (ac_calls s) then started_flag m else m)"
    and tl: "\<forall>k. StartedRest k \<notin> set (tl (ac_calls s))"
    by (auto simp: fifo_inv_def)
  have "manager_steps lm (es @ [Register fn]) = (RegisterRoutine m fn, ac_spawned s @ [])"
    using m(1) by (rule manager_steps_snoc) simp
  with es m tl register show ?thesis
    by (intro fifo_invI [of _ "es @ [Register fn]"]) (auto simp: started_flag_Register)
qed

interpretation raft_fifo: step_invariant "async_init lm" "async_step True cid cb" "fifo_inv lm"
  for lm cid cb
proof unfold_locales
  show "fifo_inv lm (async_init lm)"
    by (auto simp: fifo_inv_def async_init_def intro!: exI [of _ "[]"])
qed (rule fifo_inv_step)

section \<open>Properties\<close>

text \<open>
  C3: whatever order the goroutines of the callbacks run in, a node that does not lead does no leader's work:
  once the last round did not promote or the loop has ended, the context of every leader routine that was
  started, and of every callback that is still to run, has been cancelled. A callback that runs too late
  starts its routines on a dead context.
\<close>

theorem async_routines_cancelled:
  assumes "(async_step fifo cid cb)\<^sup>*\<^sup>* (async_init lm) s"
    and "ac_done s \<or> \<not> lp_transport_isLeader (ac_loop s)"
    and "(fn, k) \<in> set (ac_spawned s) \<or> StartedCall k \<in> set (ac_calls s) \<or> StartedRest k \<in> set (ac_calls s)"
  shows "CancelCtx k \<in> set (ac_effs s)"
proof -
  from raft_async.inv_reachable [OF assms(1)] have inv: "async_inv cid cb s" .
  with assms(3) have "Started k \<in> set (ac_effs s)" unfolding async_inv_def by fastforce
  with inv assms(2) show ?thesis
    unfolding async_inv_def by (blast intro: loop_history_contexts)
qed


lemma handle_done_flag:
  assumes "raft_OnStoppedLeading cb" and "handle_done (Some cb) l = Returns effs" and "raft_rel l f"
  shows "\<not> deliver f (concat (map client_callback effs))"
  using assms by (auto simp: handle_done_def raft_rel_def split: if_splits)

lemma loop_history_flag:
  assumes cb: "raft_OnStartedLeading cb" "raft_OnStoppedLeading cb"
    and "loop_history cid cb rds dn l effs" and "dn \<or> \<not> lp_transport_isLeader l"
  shows "\<not> deliver False (concat (map client_callback effs))"
proof -
  from assms(3) obtain e1 where run: "run_loop cid (Some cb) rds loop_init = Returns (l, e1)"
    and fin: "if dn then \<exists>e2. handle_done (Some cb) l = Returns e2 \<and> effs = e1 @ e2 else effs = e1"
    by (auto simp: loop_history_def)
  note lock = run_loop_callbacks [OF cb run]
  show ?thesis
  proof (cases dn)
    case True
    with fin obtain e2 where "handle_done (Some cb) l = Returns e2" "effs = e1 @ e2" by auto
    with handle_done_flag [OF cb(2) _ raft_lock.run_rel [OF lock]] show ?thesis by simp
  next
    case False
    have "lp_transport_isLeader l" if "rds = js @ [rd]" "raft_promotes cid rd" for js rd
      using run that
      by (auto simp: run_loop_snoc split: outcome.splits dest: handle_leadership_transport)
    with raft_lock.flag_safe [OF lock] False fin assms(4) show ?thesis
      by (cases rds rule: rev_cases) auto
  qed
qed

text \<open>
  Under that schedule the flag is safe, also across a shutdown: when every callback has run and the last
  round did not promote or the loop has ended, \<open>IsLeader\<close> is false.
\<close>

lemma fifo_flag_safe:
  assumes "(async_step True cid cb)\<^sup>*\<^sup>* (async_init lm) s" and "ac_calls s = []"
    and "lm = NewRaftLockManager c \<or> lm = NewLeaderTrackingRaftLockManager c setLeader"
    and "lm_runner lm = RunRaft c cb"
    and "ac_done s \<or> \<not> lp_transport_isLeader (ac_loop s)"
  shows "\<not> IsLeader (ac_manager s)"
proof -
  from raft_fifo.inv_reachable [OF assms(1)] assms(2) obtain es where
    es: "filter (\<lambda>e. \<not> is_register e) es = concat (map effect_events (ac_effs s))"
    and m: "manager_steps lm es = (ac_manager s, ac_spawned s)"
    by (auto simp: fifo_inv_def)
  from assms(3,4) have cb: "raft_OnStartedLeading cb" "raft_OnStoppedLeading cb"
    and start: "\<not> IsLeader lm"
    by (auto simp: NewRaftLockManager_def NewLeaderTrackingRaftLockManager_def new_manager_def IsLeader_def)
  from raft_async.inv_reachable [OF assms(1)]
  have "\<not> deliver False (concat (map client_callback (ac_effs s)))"
    unfolding async_inv_def using loop_history_flag [OF cb] assms(5) by blast
  with manager_flag [of lm es] leadership_events_effects [OF es] m start show ?thesis by simp
qed

section \<open>The callbacks run out\<close>

text \<open>
  The steps of the goroutines alone, while the loop waits and nothing is registered. A callback takes at most
  two of them.
\<close>

definition quiet_step ::
  "bool \<Rightarrow> u64 \<Rightarrow> RaftLeaderCallbacks \<Rightarrow> ('ent, 'msg, 'fn, 'kc, 'rc, 'lg) async_client \<Rightarrow>
   ('ent, 'msg, 'fn, 'kc, 'rc, 'lg) async_client \<Rightarrow> bool" where
  "quiet_step fifo cid cb s s' \<longleftrightarrow>
     async_step fifo cid cb s s' \<and> ac_rounds s' = ac_rounds s \<and> ac_done s' = ac_done s \<and>
     lm_leaderRoutines (ac_manager s') = lm_leaderRoutines (ac_manager s)"

fun call_work :: "callback_call \<Rightarrow> nat" where
  "call_work (StartedCall k) = 2"
| "call_work (StartedRest k) = 1"
| "call_work StoppedCall = 1"

lemma call_work_pos: "0 < call_work c"
  by (cases c) auto

lemma call_work_bound: "sum_list (map call_work cs) \<le> 2 * length cs"
proof (induction cs)
  case (Cons c cs)
  then show ?case by (cases c) auto
qed simp

interpretation raft_calls: bounded_steps "quiet_step fifo cid cb" "\<lambda>s. True"
    "\<lambda>s. sum_list (map call_work (ac_calls s))" for fifo cid cb
  by unfold_locales
    (auto simp: quiet_step_def RegisterRoutine_def elim!: async_step.cases)

lemma quiet_step_keeps:
  "quiet_step fifo cid cb s s' \<Longrightarrow>
     ac_loop s' = ac_loop s \<and> ac_effs s' = ac_effs s \<and> ac_done s' = ac_done s"
  by (auto simp: quiet_step_def elim!: async_step.cases)

lemma quiet_steps_keep:
  "(quiet_step fifo cid cb ^^ n) s s' \<Longrightarrow>
     (async_step fifo cid cb)\<^sup>*\<^sup>* s s' \<and> ac_loop s' = ac_loop s \<and> ac_effs s' = ac_effs s \<and> ac_done s' = ac_done s"
proof (induction n arbitrary: s')
  case 0
  then show ?case by simp
next
  case (Suc n)
  from Suc.prems obtain t where t: "(quiet_step fifo cid cb ^^ n) s t" and st: "quiet_step fifo cid cb t s'"
    by (rule relpowp_Suc_E)
  from st have "async_step fifo cid cb t s'" by (simp add: quiet_step_def)
  with Suc.IH [OF t] quiet_step_keeps [OF st] show ?case
    by (metis rtranclp.rtrancl_into_rtrancl)
qed

lemma quiet_step_exists:
  assumes "ac_calls s \<noteq> []"
  shows "\<exists>s'. quiet_step fifo cid cb s s'"
proof -
  from assms obtain c ys where s: "ac_calls s = [] @ c # ys" by (cases "ac_calls s") auto
  have quiet: "quiet_step fifo cid cb s t"
    if "async_step fifo cid cb s t" "ac_rounds t = ac_rounds s" "ac_done t = ac_done s"
      "lm_leaderRoutines (ac_manager t) = lm_leaderRoutines (ac_manager s)" for t
    using that by (simp add: quiet_step_def)
  show ?thesis
  proof (cases c)
    case (StartedCall k)
    show ?thesis
      by (rule exI, rule quiet, rule call_started [OF s [unfolded StartedCall]]) (simp_all add: started_flag_def)
  next
    case (StartedRest k)
    show ?thesis
      by (rule exI, rule quiet, rule call_rest [OF s [unfolded StartedRest]]) simp_all
  next
    case StoppedCall
    show ?thesis
      by (rule exI, rule quiet, rule call_stopped [OF s [unfolded StoppedCall]]) (simp_all add: stopped_callback_def)
  qed
qed

text \<open>
  C13: a demotion reaches the client. Once the last round did not promote, or the loop has ended, and as long as
  nothing else happens, the goroutines make at most two steps for each callback that is left, they can go on
  until none is left, and then, if they ran in order, \<open>IsLeader\<close> is false.
\<close>

theorem demotion_reaches_client:
  assumes "(async_step True cid cb)\<^sup>*\<^sup>* (async_init lm) s"
    and "lm = NewRaftLockManager c \<or> lm = NewLeaderTrackingRaftLockManager c setLeader"
    and "lm_runner lm = RunRaft c cb"
    and "ac_done s \<or> \<not> lp_transport_isLeader (ac_loop s)"
    and "(quiet_step True cid cb ^^ n) s s'"
  shows "n \<le> 2 * length (ac_calls s) \<and>
    (if ac_calls s' = [] then \<not> IsLeader (ac_manager s') else \<exists>s''. quiet_step True cid cb s' s'')"
proof
  from raft_calls.bounded [OF assms(5) TrueI] call_work_bound [of "ac_calls s"]
  show "n \<le> 2 * length (ac_calls s)" by linarith
  from quiet_steps_keep [OF assms(5)] assms(1,4)
  have "(async_step True cid cb)\<^sup>*\<^sup>* (async_init lm) s'" and "ac_done s' \<or> \<not> lp_transport_isLeader (ac_loop s')"
    by auto
  with fifo_flag_safe [OF this(1) _ assms(2,3)] quiet_step_exists [of s' True cid cb]
  show "if ac_calls s' = [] then \<not> IsLeader (ac_manager s') else \<exists>s''. quiet_step True cid cb s' s''"
    by simp
qed

section \<open>Two schedules of one election\<close>

text \<open>
  The node wins the first round and loses the second. A manager with one routine, after both rounds and
  with the given calls left.
\<close>

definition manager_callbacks :: RaftLeaderCallbacks where
  "manager_callbacks =
     \<lparr>raft_SetLeader = False, raft_OnStartedLeading = True, raft_OnStoppedLeading = True\<rparr>"

definition demoted_client ::
  "callback_call list \<Rightarrow> bool \<Rightarrow> (string \<times> nat) list \<Rightarrow>
   (nat, nat, string, unit, unit, unit) async_client" where
  "demoted_client calls flag sp =
     \<lparr>ac_loop = \<lparr>lp_isLeader = True, lp_initialized = True, lp_ctx = 1, lp_leader = 2,
        lp_transport_isLeader = False\<rparr>,
      ac_done = False, ac_effs = [Started 0, CancelCtx 0, Stopped],
      ac_rounds = [ready_of 1, ready_of 2], ac_calls = calls,
      ac_manager = (RegisterRoutine (NewRaftLockManager ()) ''a'')\<lparr>lm_isLeader := flag\<rparr>,
      ac_spawned = sp\<rparr>"

lemma demoted_client_reachable:
  "(async_step fifo 1 manager_callbacks)\<^sup>*\<^sup>* (async_init (NewRaftLockManager ()))
     (demoted_client [StartedCall 0, StoppedCall] False [])"
proof -
  let ?s0 = "async_init (NewRaftLockManager ()) :: (nat, nat, string, unit, unit, unit) async_client"
  let ?s1 = "?s0\<lparr>ac_manager := RegisterRoutine (ac_manager ?s0) ''a''\<rparr>"
  let ?l = "\<lparr>lp_isLeader = True, lp_initialized = True, lp_ctx = 0, lp_leader = 1,
        lp_transport_isLeader = True\<rparr>"
  let ?s2 = "?s1\<lparr>ac_loop := ?l, ac_effs := [Started 0], ac_rounds := [ready_of 1],
        ac_calls := [StartedCall 0]\<rparr>"
  have "async_step fifo 1 manager_callbacks ?s0 ?s1" by (rule register)
  moreover have "async_step fifo 1 manager_callbacks ?s1 ?s2"
    using round [of ?s1 1 manager_callbacks "ready_of 1" ?l "[Started 0]" fifo]
    by (simp add: async_init_def step_simps loop_init_def manager_callbacks_def)
  moreover have "async_step fifo 1 manager_callbacks ?s2 (demoted_client [StartedCall 0, StoppedCall] False [])"
    using round [of ?s2 1 manager_callbacks "ready_of 2"
        "\<lparr>lp_isLeader = True, lp_initialized = True, lp_ctx = 1, lp_leader = 2,
          lp_transport_isLeader = False\<rparr>" "[CancelCtx 0, Stopped]" fifo]
    by (simp add: async_init_def step_simps loop_init_def manager_callbacks_def demoted_client_def
        NewRaftLockManager_def new_manager_def)
  ultimately show ?thesis by (meson converse_rtranclp_into_rtranclp rtranclp.rtrancl_refl)
qed

lemma demoted_client_steps:
  assumes "fifo \<longrightarrow> xs = []"
  shows "async_step fifo 1 manager_callbacks (demoted_client (xs @ StartedCall k # ys) f sp)
      (demoted_client (xs @ StartedRest k # ys) True sp)"
    and "async_step fifo 1 manager_callbacks (demoted_client (xs @ StartedRest k # ys) f sp)
      (demoted_client (xs @ ys) f (sp @ [(''a'', k)]))"
    and "async_step fifo 1 manager_callbacks (demoted_client (xs @ StoppedCall # ys) f sp)
      (demoted_client (xs @ ys) False sp)"
proof -
  note defs = demoted_client_def started_flag_def started_spawn_def stopped_callback_def
    RegisterRoutine_def NewRaftLockManager_def new_manager_def
  show "async_step fifo 1 manager_callbacks (demoted_client (xs @ StartedCall k # ys) f sp)
      (demoted_client (xs @ StartedRest k # ys) True sp)"
    using call_started [of "demoted_client (xs @ StartedCall k # ys) f sp" xs k ys fifo] assms
    by (simp add: defs)
  show "async_step fifo 1 manager_callbacks (demoted_client (xs @ StartedRest k # ys) f sp)
      (demoted_client (xs @ ys) f (sp @ [(''a'', k)]))"
    using call_rest [of "demoted_client (xs @ StartedRest k # ys) f sp" xs k ys fifo] assms
    by (simp add: defs)
  show "async_step fifo 1 manager_callbacks (demoted_client (xs @ StoppedCall # ys) f sp)
      (demoted_client (xs @ ys) False sp)"
    using call_stopped [of "demoted_client (xs @ StoppedCall # ys) f sp" xs ys fifo] assms
    by (simp add: defs)
qed

lemma fifo_schedule:
  "(async_step True 1 manager_callbacks)\<^sup>*\<^sup>* (async_init (NewRaftLockManager ()))
     (demoted_client [] False [(''a'', 0)])"
proof -
  have "async_step True 1 manager_callbacks (demoted_client [StartedCall 0, StoppedCall] False [])
      (demoted_client [StartedRest 0, StoppedCall] True [])"
    using demoted_client_steps(1) [of True "[]"] by simp
  moreover have "async_step True 1 manager_callbacks (demoted_client [StartedRest 0, StoppedCall] True [])
      (demoted_client [StoppedCall] True [(''a'', 0)])"
    using demoted_client_steps(2) [of True "[]" 0 _ True "[]"] by simp
  moreover have "async_step True 1 manager_callbacks (demoted_client [StoppedCall] True [(''a'', 0)])
      (demoted_client [] False [(''a'', 0)])"
    using demoted_client_steps(3) [of True "[]"] by fastforce
  ultimately show ?thesis
    using demoted_client_reachable [of True] by (meson rtranclp.rtrancl_into_rtrancl)
qed

lemma late_schedule:
  "(async_step False 1 manager_callbacks)\<^sup>*\<^sup>* (async_init (NewRaftLockManager ()))
     (demoted_client [] True [(''a'', 0)])"
proof -
  have "async_step False 1 manager_callbacks (demoted_client [StartedCall 0, StoppedCall] False [])
      (demoted_client [StartedCall 0] False [])"
    using demoted_client_steps(3) [of False "[StartedCall 0]" "[]"] by simp
  moreover have "async_step False 1 manager_callbacks (demoted_client [StartedCall 0] False [])
      (demoted_client [StartedRest 0] True [])"
    using demoted_client_steps(1) [of False "[]"] by fastforce
  moreover have "async_step False 1 manager_callbacks (demoted_client [StartedRest 0] True [])
      (demoted_client [] True [(''a'', 0)])"
    using demoted_client_steps(2) [of False "[]" 0 "[]" True "[]"] by simp
  ultimately show ?thesis
    using demoted_client_reachable [of False] by (meson rtranclp.rtrancl_into_rtrancl)
qed

text \<open>
  C30: the code gives no such order, and without one the flag is not safe: when \<open>OnStoppedLeading\<close> overtakes
  \<open>OnStartedLeading\<close>, a manager says that it leads although its last round says otherwise and no callback is
  left that would correct it; its routines have been started on a cancelled context.
\<close>

theorem overtaken_callback_leaves_flag:
  "\<exists>s :: (nat, nat, string, unit, unit, unit) async_client.
     (async_step False 1 manager_callbacks)\<^sup>*\<^sup>* (async_init (NewRaftLockManager ())) s \<and>
     ac_calls s = [] \<and> IsLeader (ac_manager s) \<and> \<not> lp_transport_isLeader (ac_loop s) \<and>
     ac_spawned s = [(''a'', 0)] \<and> CancelCtx 0 \<in> set (ac_effs s)"
  using late_schedule
  by (intro exI [of _ "demoted_client [] True [(''a'', 0)]"])
    (simp add: demoted_client_def IsLeader_def)

theorem async_routines_cancelled_witness:
  "CancelCtx 0 \<in> set (ac_effs (demoted_client [] True [(''a'', 0)]))"
  by (rule async_routines_cancelled [OF late_schedule, where fn = "''a''"]) (simp_all add: demoted_client_def)


theorem demotion_reaches_client_witness:
  "(3::nat) \<le> 2 * length [StartedCall 0, StoppedCall] \<and>
     \<not> IsLeader (ac_manager (demoted_client [] False [(''a'', 0)]))"
proof -
  have q: "quiet_step True 1 manager_callbacks (demoted_client cs f sp) (demoted_client cs' f' sp')"
    if "async_step True 1 manager_callbacks (demoted_client cs f sp) (demoted_client cs' f' sp')" for cs f sp cs' f' sp'
    using that by (simp add: quiet_step_def demoted_client_def)
  have "quiet_step True 1 manager_callbacks (demoted_client [StartedCall 0, StoppedCall] False [])
      (demoted_client [StartedRest 0, StoppedCall] True [])"
    by (rule q) (use demoted_client_steps(1) [of True "[]"] in simp)
  moreover have "quiet_step True 1 manager_callbacks (demoted_client [StartedRest 0, StoppedCall] True [])
      (demoted_client [StoppedCall] True [(''a'', 0)])"
    by (rule q) (use demoted_client_steps(2) [of True "[]" 0 _ True "[]"] in simp)
  moreover have "quiet_step True 1 manager_callbacks (demoted_client [StoppedCall] True [(''a'', 0)])
      (demoted_client [] False [(''a'', 0)])"
    by (rule q) (use demoted_client_steps(3) [of True "[]" "[]" True "[(''a'', 0)]"] in simp)
  ultimately have run: "(quiet_step True 1 manager_callbacks ^^ 3) (demoted_client [StartedCall 0, StoppedCall] False [])
      (demoted_client [] False [(''a'', 0)])"
    by (auto simp: eval_nat_numeral)
  have "(3::nat) \<le> 2 * length (ac_calls (demoted_client [StartedCall 0, StoppedCall] False [])) \<and>
     (if ac_calls (demoted_client [] False [(''a'', 0)]) = []
      then \<not> IsLeader (ac_manager (demoted_client [] False [(''a'', 0)]))
      else \<exists>s''. quiet_step True 1 manager_callbacks (demoted_client [] False [(''a'', 0)]) s'')"
    by (rule demotion_reaches_client [OF demoted_client_reachable, of "()" None, OF _ _ _ run])
      (simp_all add: demoted_client_def NewRaftLockManager_def new_manager_def manager_callbacks_def)
  then show ?thesis by (simp add: demoted_client_def)
qed

end
