(* ===== verification/Raft_Main.thy ===== *)
theory Raft_Main
  imports Raft_Async
begin

text \<open>
  \<open>runRaft\<close> of \<open>raft/locker.go\<close> from its start to its end: it starts the node, gives it to the transport, and
  handles what its \<open>select\<close> receives until the context is done. Loop, transport and manager are put
  together here.
\<close>

section \<open>The node\<close>

text \<open>What \<open>runRaft\<close> calls of etcd's raft, its storage and the clock, besides \<open>node_api\<close>.\<close>

record ('w, 'nd, 'ent, 'lg) raft_api =
  ra_StartNode :: "'lg raft_node_Config \<Rightarrow> raft_Peer list \<Rightarrow> 'w \<Rightarrow> 'nd \<times> 'w"
  ra_Append :: "'ent list \<Rightarrow> 'w \<Rightarrow> 'w"
  ra_ReportUnreachable :: "'nd \<Rightarrow> u64 \<Rightarrow> 'w \<Rightarrow> 'w"
  ra_Advance :: "'nd \<Rightarrow> 'w \<Rightarrow> 'w"
  ra_Stop :: "'nd \<Rightarrow> 'w \<Rightarrow> 'w"
  ra_Sleep :: "'w \<Rightarrow> 'w"

text \<open>The operations of the loop, on the started node and the transport.\<close>

definition loop_api_for ::
  "('w, 'nd, 'ent, 'lg) raft_api \<Rightarrow> ('w, 'e, 'nd, 'msg) node_api \<Rightarrow>
   ('cl \<Rightarrow> bytes \<Rightarrow> ('w, 'e, bool) action) \<Rightarrow> 'nd \<Rightarrow>
   ('cl, 'nd, 'f, 'cert, 'pool, 'lg) grpcTransport \<Rightarrow> ('w, 'e, 'ent, 'msg) loop_api" where
  "loop_api_for ra na rpc_Send node t =
     \<lparr>la_Append = ra_Append ra, la_To = na_To na, la_Step = (\<lambda>msg w. snd (na_Step na node msg w)),
      la_DoSend = DoSend na rpc_Send t, la_ReportUnreachable = ra_ReportUnreachable ra node,
      la_Sleep = ra_Sleep ra, la_Advance = ra_Advance ra node\<rparr>"

section \<open>The select\<close>

datatype ('ent, 'msg) loop_input =
    NodeReady "('ent, 'msg) ready"
  | ContextDone

datatype loop_status = AtSelect | LoopReturned

text \<open>The two stores of a round into the transport.\<close>

definition store_leadership ::
  "raft_loop \<Rightarrow> ('cl, 'nd, 'f, 'cert, 'pool, 'lg) grpcTransport \<Rightarrow>
   ('cl, 'nd, 'f, 'cert, 'pool, 'lg) grpcTransport" where
  "store_leadership l t = t\<lparr>gt_leader := lp_leader l, gt_isLeader := lp_transport_isLeader l\<rparr>"

text \<open>
  The loop on a sequence of inputs. \<open>None\<close> is a round that never ends; with no input left it waits in its
  \<open>select\<close>.
\<close>

fun main_loop ::
  "('w, 'nd, 'ent, 'lg) raft_api \<Rightarrow> ('w, 'e, 'nd, 'msg) node_api \<Rightarrow>
   ('cl \<Rightarrow> bytes \<Rightarrow> ('w, 'e, bool) action) \<Rightarrow> 'nd \<Rightarrow> u64 \<Rightarrow> RaftLeaderCallbacks option \<Rightarrow>
   ('ent, 'msg) loop_input list \<Rightarrow> raft_loop \<Rightarrow> ('cl, 'nd, 'f, 'cert, 'pool, 'lg) grpcTransport \<Rightarrow> 'w \<Rightarrow>
   (loop_status \<times> raft_loop \<times> loop_effect list \<times> ('cl, 'nd, 'f, 'cert, 'pool, 'lg) grpcTransport \<times> 'w)
     outcome option" where
  "main_loop ra na rpc node cid callbacks [] l t w = Some (Returns (AtSelect, l, [], t, w))"
| "main_loop ra na rpc node cid callbacks (ContextDone # ins) l t w =
     (case handle_done callbacks l of
        Panics p \<Rightarrow> Some (Panics p)
      | Returns effs \<Rightarrow> Some (Returns (LoopReturned, l, effs, t, ra_Stop ra node w)))"
| "main_loop ra na rpc node cid callbacks (NodeReady rd # ins) l t w =
     (case handle_ready (loop_api_for ra na rpc node t) cid callbacks rd l w of
        None \<Rightarrow> None
      | Some (Panics p) \<Rightarrow> Some (Panics p)
      | Some (Returns (l1, effs, w1)) \<Rightarrow>
          (case main_loop ra na rpc node cid callbacks ins l1 (store_leadership l1 t) w1 of
             None \<Rightarrow> None
           | Some (Panics p) \<Rightarrow> Some (Panics p)
           | Some (Returns (st, l2, effs2, t2, w2)) \<Rightarrow> Some (Returns (st, l2, effs @ effs2, t2, w2))))"

definition runRaft ::
  "'lg \<Rightarrow> ('w, 'nd, 'ent, 'lg) raft_api \<Rightarrow> ('w, 'e, 'nd, 'msg) node_api \<Rightarrow>
   ('cl \<Rightarrow> bytes \<Rightarrow> ('w, 'e, bool) action) \<Rightarrow> ('cl, 'nd, 'f, 'cert, 'pool, 'lg) grpcTransport \<Rightarrow>
   ('f, 'lg) RaftLockConfiguration \<Rightarrow> RaftLeaderCallbacks option \<Rightarrow> ('ent, 'msg) loop_input list \<Rightarrow> 'w \<Rightarrow>
   (loop_status \<times> raft_loop \<times> loop_effect list \<times> ('cl, 'nd, 'f, 'cert, 'pool, 'lg) grpcTransport \<times> 'w)
     outcome option" where
  "runRaft discardLogger ra na rpc_Send t config callbacks ins w =
     (case runRaft_start discardLogger config of
        Panics p \<Rightarrow> Some (Panics p)
      | Returns (c, peers) \<Rightarrow>
          (let (node, w1) = ra_StartNode ra c peers w
           in main_loop ra na rpc_Send node (rc_ID config) callbacks ins loop_init (setNode node t) w1))"

section \<open>Lemmas\<close>

lemma DoSend_store [simp]:
  "DoSend na rpc (store_leadership l t) = DoSend na rpc t"
  "DoSend na rpc (setNode node t) = DoSend na rpc t"
  by (intro ext; simp add: DoSend_def store_leadership_def setNode_def)+

lemma loop_api_for_store [simp]:
  "loop_api_for ra na rpc node (store_leadership l t) = loop_api_for ra na rpc node t"
  "loop_api_for ra na rpc node (setNode nd t) = loop_api_for ra na rpc node t"
  by (simp_all add: loop_api_for_def)

lemma store_leadership_again [simp]: "store_leadership l (store_leadership l' t) = store_leadership l t"
  by (simp add: store_leadership_def)

text \<open>
  The transport and the effects of a sequence of rounds do not depend on the messages: they are those of
  \<open>run_loop\<close>.
\<close>

lemma handle_ready_SomeD:
  "handle_ready api cid callbacks rd l w = Some (Returns (l1, effs, w1)) \<Longrightarrow>
     handle_leadership cid callbacks rd l = Returns (l1, effs)"
  by (auto simp: handle_ready_def split: outcome.splits option.splits)

lemma main_loop_Ready:
  assumes "main_loop ra na rpc node cid callbacks (NodeReady rd # ins) l t w = Some (Returns (st, l', effs, t', w'))"
  obtains l1 e1 w1 e2 where
    "handle_ready (loop_api_for ra na rpc node t) cid callbacks rd l w = Some (Returns (l1, e1, w1))"
    "main_loop ra na rpc node cid callbacks ins l1 (store_leadership l1 t) w1 = Some (Returns (st, l', e2, t', w'))"
    "effs = e1 @ e2"
  using assms by (auto split: option.splits outcome.splits)

fun readies :: "('ent, 'msg) loop_input list \<Rightarrow> ('ent, 'msg) ready list" where
  "readies [] = []"
| "readies (ContextDone # ins) = []"
| "readies (NodeReady rd # ins) = rd # readies ins"

lemma main_loop_history:
  "main_loop ra na rpc node cid callbacks ins l t w = Some (Returns (st, l', effs, t', w')) \<Longrightarrow>
     \<exists>e1 e2. run_loop cid callbacks (readies ins) l = Returns (l', e1) \<and> effs = e1 @ e2 \<and>
       (if st = LoopReturned then handle_done callbacks l' = Returns e2 else e2 = []) \<and>
       t' = (if readies ins = [] then t else store_leadership l' t)"
proof (induction ins arbitrary: l t w effs)
  case Nil
  then show ?case by simp
next
  case (Cons i ins)
  show ?case
  proof (cases i)
    case ContextDone
    with Cons.prems show ?thesis by (auto split: outcome.splits)
  next
    case (NodeReady rd)
    with Cons.prems obtain l1 e1 w1 e2 where
      r: "handle_ready (loop_api_for ra na rpc node t) cid callbacks rd l w = Some (Returns (l1, e1, w1))"
      and tl: "main_loop ra na rpc node cid callbacks ins l1 (store_leadership l1 t) w1 =
        Some (Returns (st, l', e2, t', w'))"
      and effs: "effs = e1 @ e2"
      by (blast elim: main_loop_Ready)
    from Cons.IH [OF tl] obtain d1 d2 where
      run: "run_loop cid callbacks (readies ins) l1 = Returns (l', d1)" and e2: "e2 = d1 @ d2"
      and fin: "if st = LoopReturned then handle_done callbacks l' = Returns d2 else d2 = []"
      and t': "t' = (if readies ins = [] then store_leadership l1 t else store_leadership l' (store_leadership l1 t))"
      by blast
    have "l' = l1" if "readies ins = []" using run that by simp
    with run e2 fin t' effs NodeReady handle_ready_SomeD [OF r] show ?thesis by auto
  qed
qed

text \<open>With callbacks a round never panics; it ends if the peers answer, and not if one keeps refusing.\<close>

lemma handle_leadership_returns: "\<exists>l effs. handle_leadership cid (Some cb) rd s = Returns (l, effs)"
  by (auto simp: handle_leadership_def leadership_change_def Let_def split: prod.splits)

lemma send_messages_ends:
  assumes "\<And>msg w. msg \<in> set msgs \<Longrightarrow> la_To api msg \<noteq> cid \<Longrightarrow> fst (la_DoSend api msg w) \<noteq> Inr False"
  shows "\<exists>w'. send_messages api cid msgs w = Some w'"
  using assms by (induction msgs arbitrary: w) (auto simp: send_retry_once)

lemma send_messages_refused:
  assumes "\<And>w. fst (la_DoSend api msg w) = Inr False" and "la_To api msg \<noteq> cid" and "msg \<in> set msgs"
  shows "send_messages api cid msgs w = None"
  using assms(3)
proof (induction msgs arbitrary: w)
  case Nil
  then show ?case by simp
next
  case (Cons m msgs)
  have "send_retry api msg v = None" for v
    using send_retry_SomeD [of api msg v] assms(1) by (cases "send_retry api msg v") auto
  with Cons assms(2) show ?case by (auto split: option.split)
qed

lemma main_loop_shuts_down:
  assumes "\<And>rd msg w. rd \<in> set rds \<Longrightarrow> msg \<in> set (rd_Messages rd) \<Longrightarrow> na_To na msg \<noteq> cid \<Longrightarrow>
      fst (DoSend na rpc t msg w) \<noteq> Inr False"
  shows "\<exists>l' effs t' w1. gt_node t' = gt_node t \<and>
    main_loop ra na rpc node cid (Some cb) (map NodeReady rds @ ContextDone # rest) l t w =
      Some (Returns (LoopReturned, l', effs, t', ra_Stop ra node w1))"
  using assms
proof (induction rds arbitrary: l t w)
  case Nil
  then show ?case by (auto simp: handle_done_def)
next
  case (Cons rd rds)
  let ?api = "loop_api_for ra na rpc node t"
  obtain l1 e1 where hd: "handle_leadership cid (Some cb) rd l = Returns (l1, e1)"
    using handle_leadership_returns by blast
  have "\<exists>v. send_messages ?api cid (rd_Messages rd) (la_Append ?api (rd_Entries rd) w) = Some v"
    using Cons.prems [of rd] by (intro send_messages_ends) (auto simp: loop_api_for_def)
  with hd obtain v where r: "handle_ready ?api cid (Some cb) rd l w = Some (Returns (l1, e1, v))"
    by (auto simp: handle_ready_def)
  have "\<exists>l' effs t' w1. gt_node t' = gt_node (store_leadership l1 t) \<and>
    main_loop ra na rpc node cid (Some cb) (map NodeReady rds @ ContextDone # rest) l1 (store_leadership l1 t) v =
      Some (Returns (LoopReturned, l', effs, t', ra_Stop ra node w1))"
    using Cons.prems by (intro Cons.IH) auto
  with r show ?case by (auto simp: store_leadership_def)
qed

lemma main_loop_refused:
  assumes "\<And>w. fst (DoSend na rpc t msg w) = Inr False" and "na_To na msg \<noteq> cid"
    and "rd \<in> set (readies ins)" and "msg \<in> set (rd_Messages rd)"
  shows "main_loop ra na rpc node cid (Some cb) ins l t w = None"
  using assms(1,3)
proof (induction ins arbitrary: l t w rule: readies.induct)
  case (3 r ins)
  let ?api = "loop_api_for ra na rpc node t"
  obtain l1 e1 where hd: "handle_leadership cid (Some cb) r l = Returns (l1, e1)"
    using handle_leadership_returns by blast
  show ?case
  proof (cases "rd \<in> set (readies ins)")
    case True
    have "main_loop ra na rpc node cid (Some cb) ins l1 (store_leadership l1 t) v = None" for v
      by (rule "3.IH") (simp_all add: "3.prems" True)
    with hd show ?thesis by (auto simp: handle_ready_def split: option.split)
  next
    case False
    with "3.prems" have "rd = r" by simp
    moreover have "send_messages ?api cid (rd_Messages rd) v = None" for v
      by (rule send_messages_refused [OF _ _ assms(4)])
        (simp_all add: loop_api_for_def "3.prems" assms(2))
    ultimately show ?thesis using hd by (simp add: handle_ready_def)
  qed
qed simp_all

lemma runRaft_main_loop:
  assumes "rc_Logger config = Some lg"
  shows "\<exists>node w1. runRaft disc ra na rpc t config callbacks ins w =
    main_loop ra na rpc node (rc_ID config) callbacks ins loop_init (setNode node t) w1"
proof -
  from assms obtain c peers where "runRaft_start disc config = Returns (c, peers)"
    by (auto simp: runRaft_start_def Let_def)
  then show ?thesis by (auto simp: runRaft_def Let_def split_def)
qed

lemma run_loop_last:
  assumes "run_loop cid callbacks rds s = Returns (l, effs)" and "rds \<noteq> []"
  shows "lp_leader l = fst (observe cid (last rds)) \<and> lp_transport_isLeader l = raft_promotes cid (last rds)"
proof -
  from assms(2) obtain js rd where rds: "rds = js @ [rd]" by (cases rds rule: rev_cases) auto
  with assms(1) obtain s1 e2 where "handle_leadership cid callbacks rd s1 = Returns (l, e2)"
    by (auto simp: run_loop_snoc split: outcome.splits)
  then show ?thesis
    by (auto simp: rds step_simps Let_def raft_promotes_def split: prod.splits if_splits option.splits)
qed

section \<open>Properties\<close>



text \<open>
  C25: what the rest of the cluster sees of a node. After its rounds the transport answers from the last
  \<open>Ready\<close>: it knows a leader exactly if that \<open>Ready\<close> named one, it counts itself as the leader exactly if
  that \<open>Ready\<close> promotes, and it takes messages.
\<close>

theorem runRaft_transport_view:
  assumes "rc_Logger config = Some lg"
    and "runRaft disc ra na rpc t config callbacks ins w = Some (Returns (st, l, effs, t', w'))"
    and "readies ins \<noteq> []"
  shows "gt_isLeader t' = raft_promotes (rc_ID config) (last (readies ins)) \<and>
    gt_node t' \<noteq> None \<and> gt_peers t' = gt_peers t \<and>
    Check rpc_Check t' \<lparr>cq_FromLeader = True\<rparr> =
      Some (Inr \<lparr>cs_HasLeader = (fst (observe (rc_ID config) (last (readies ins))) \<noteq> 0),
        cs_UnhealthyNodes = [], cs_Meta = gt_meta t\<rparr>)"
proof -
  obtain node w0 where start: "runRaft disc ra na rpc t config callbacks ins w =
      main_loop ra na rpc node (rc_ID config) callbacks ins loop_init (setNode node t) w0"
    using runRaft_main_loop [OF assms(1), of disc ra na rpc t callbacks ins w] by blast
  from main_loop_history [OF assms(2) [unfolded start]] assms(3) obtain e1 where
    run: "run_loop (rc_ID config) callbacks (readies ins) loop_init = Returns (l, e1)"
    and t': "t' = store_leadership l (setNode node t)" by auto
  from run_loop_last [OF run assms(3)] show ?thesis
    by (simp add: t' store_leadership_def setNode_def Check_def Let_def)
qed

section \<open>An example node\<close>

text \<open>
  Node 1 of \<open>example_net\<close>, whose third peer has no node yet. The world is a log.
\<close>

definition example_raft_api :: "((nat \<times> nat) list, nat, nat, unit) raft_api" where
  "example_raft_api =
     \<lparr>ra_StartNode = (\<lambda>c ps w. (1, w)), ra_Append = (\<lambda>es w. w),
      ra_ReportUnreachable = (\<lambda>nd i w. w @ [(8, unat i)]), ra_Advance = (\<lambda>nd w. w),
      ra_Stop = (\<lambda>nd w. w @ [(9, nd)]), ra_Sleep = (\<lambda>w. w)\<rparr>"

definition example_lock :: "(unit, unit) RaftLockConfiguration" where
  "example_lock = \<lparr>rc_ID = 1, rc_Address = ''n1'', rc_CA = [], rc_PrivateKey = [], rc_Certificate = [],
     rc_Meta = [], rc_Peers = [], rc_Insecure = True, rc_Fetcher = None, rc_ElectionTimeout = 0,
     rc_HeartbeatInterval = 0, rc_Logger = Some ()\<rparr>"

abbreviation example_send :: "string \<Rightarrow> bytes \<Rightarrow> ((nat \<times> nat) list, string, bool) action" where
  "example_send \<equiv> net_send example_node_api (\<lambda>a. a) example_net"

definition won_and_lost :: "(nat, nat) loop_input list" where
  "won_and_lost = map NodeReady [(ready_of 1)\<lparr>rd_Messages := [2, 1]\<rparr>, (ready_of 2)\<lparr>rd_Messages := [2]\<rparr>]"

lemma example_answers:
  "m \<in> {1, 2} \<Longrightarrow> fst (DoSend example_node_api example_send (example_node 0 False None) m w) \<noteq> Inr False"
  by (auto simp: DoSend_def net_send_def Send_def getNode_def example_simps)



lemma example_DoSend:
  "m \<in> {1, 2} \<Longrightarrow> DoSend example_node_api example_send (example_node 0 False None) m w = (Inr True, w @ [(m, m)])"
  by (auto simp: DoSend_def net_send_def Send_def getNode_def example_simps)

lemma example_retry:
  "m \<in> {1, 2} \<Longrightarrow>
     send_retry (loop_api_for example_raft_api example_node_api example_send nd (example_node 0 False None)) m w =
       Some (w @ [(m, m)])"
  by (simp add: send_retry_once loop_api_for_def example_DoSend)

lemma example_selectors:
  "la_Append (loop_api_for example_raft_api na rpc nd t) es w = w"
  "la_To (loop_api_for ra example_node_api rpc nd t) m = word_of_nat m"
  "la_Step (loop_api_for ra example_node_api rpc nd t) m w = w @ [(nd, m)]"
  "la_Advance (loop_api_for example_raft_api na rpc nd t) w = w"
  by (simp_all add: loop_api_for_def example_raft_api_def example_node_api_def)

lemma example_ready:
  "handle_ready (loop_api_for example_raft_api example_node_api example_send 1 (example_node 0 False None)) 1
     (Some manager_callbacks) ((ready_of 1)\<lparr>rd_Messages := [2, 1]\<rparr>) loop_init [] =
   Some (Returns (\<lparr>lp_isLeader = True, lp_initialized = True, lp_ctx = 0, lp_leader = 1,
       lp_transport_isLeader = True\<rparr>, [Started 0], [(2, 2), (1, 1)]))"
  "handle_ready (loop_api_for example_raft_api example_node_api example_send 1 (example_node 0 False None)) 1
     (Some manager_callbacks) ((ready_of 2)\<lparr>rd_Messages := [2]\<rparr>)
     \<lparr>lp_isLeader = True, lp_initialized = True, lp_ctx = 0, lp_leader = 1, lp_transport_isLeader = True\<rparr>
     [(2, 2), (1, 1)] =
   Some (Returns (\<lparr>lp_isLeader = True, lp_initialized = True, lp_ctx = 1, lp_leader = 2,
       lp_transport_isLeader = False\<rparr>, [CancelCtx 0, Stopped], [(2, 2), (1, 1), (2, 2)]))"
  by (simp_all add: handle_ready_def example_selectors example_retry step_simps loop_init_def
      manager_callbacks_def observe_def ready_of_def)

lemma won_and_lost_run:
  "runRaft () example_raft_api example_node_api example_send (example_node 0 False None) example_lock
     (Some manager_callbacks) won_and_lost [] =
   Some (Returns (AtSelect, \<lparr>lp_isLeader = True, lp_initialized = True, lp_ctx = 1, lp_leader = 2,
       lp_transport_isLeader = False\<rparr>, [Started 0, CancelCtx 0, Stopped],
     example_node 2 False (Some 1), [(2, 2), (1, 1), (2, 2)]))"
proof -
  have "runRaft_start () example_lock = Returns (\<lparr>nc_ID = 1,
      nc_ElectionTick = electionTick (with_timeouts example_lock),
      nc_HeartbeatTick = heartbeatTick (with_timeouts example_lock), nc_MaxSizePerMsg = 1024 * 1024,
      nc_MaxInflightMsgs = 256, nc_CheckQuorum = True, nc_Logger = ()\<rparr>, [])"
    by (simp add: runRaft_start_def with_timeouts_def example_lock_def asPeers_def Let_def)
  moreover have "fst (ra_StartNode example_raft_api c ps w) = 1" "snd (ra_StartNode example_raft_api c ps w) = w" for c ps w
    by (simp_all add: example_raft_api_def)
  moreover have "rc_ID example_lock = 1" by (simp add: example_lock_def)
  moreover have "example_node 2 False (Some 1) =
      store_leadership \<lparr>lp_isLeader = True, lp_initialized = True, lp_ctx = 1, lp_leader = 2,
        lp_transport_isLeader = False\<rparr> (setNode 1 (example_node 0 False None))"
    by (simp add: store_leadership_def setNode_def example_node_def)
  ultimately show ?thesis
    by (simp add: runRaft_def split_def Let_def won_and_lost_def example_ready del: One_nat_def)
qed

theorem runRaft_transport_view_witness:
  "gt_isLeader (example_node 2 False (Some 1)) = raft_promotes 1 ((ready_of 2)\<lparr>rd_Messages := [2]\<rparr>) \<and>
   gt_node (example_node 2 False (Some 1)) \<noteq> None \<and> gt_peers (example_node 2 False (Some 1)) = example_peers \<and>
   Check (net_check 0 (\<lambda>a. a) example_net) (example_node 2 False (Some 1)) \<lparr>cq_FromLeader = True\<rparr> =
     Some (Inr \<lparr>cs_HasLeader = True, cs_UnhealthyNodes = [], cs_Meta = ''M''\<rparr>)"
  using runRaft_transport_view [OF _ won_and_lost_run, of "()" "net_check 0 (\<lambda>a. a) example_net"]
  by (simp add: won_and_lost_def example_lock_def example_node_def observe_def ready_of_def)

end
