(* ===== verification/Raft_Wellformed.thy ===== *)
theory Raft_Wellformed
  imports Raft_Main
begin

text \<open>
  Well-formed transports: what holds of every \<open>grpcTransport\<close> that \<open>Run\<close> builds, whatever \<open>runRaft\<close> does with
  it, and what the handlers and \<open>DoSend\<close> can therefore rely on.
\<close>

section \<open>Well-formedness\<close>

text \<open>
  The two sides of the credentials fit: none on both, or a server that verifies its clients against the
  authority that the clients verify servers against, with the same certificate on both sides.
\<close>

fun sides_match ::
  "('cert, 'pool) credentials option \<Rightarrow> ('cert, 'pool) credentials option \<Rightarrow> bool" where
  "sides_match None None = True"
| "sides_match (Some (TLS s)) (Some (TLS c)) =
     (tls_RequireAndVerifyClientCert s \<and> tls_ClientCAs s \<noteq> None \<and> tls_RootCAs c = tls_ClientCAs s \<and>
      tls_Certificates c = tls_Certificates s \<and> \<not> tls_InsecureSkipVerify c)"
| "sides_match _ _ = False"

text \<open>Every peer of the table was dialled at its address with the credentials of the transport.\<close>

definition wf_peers ::
  "('e, 'cert, 'pool, 'cl) transport_api \<Rightarrow> ('cl, 'nd, 'f, 'cert, 'pool, 'lg) grpcTransport \<Rightarrow> bool" where
  "wf_peers api t \<longleftrightarrow>
     distinct (map fst (gt_peers t)) \<and>
     list_all (\<lambda>(i, p). newPeer api (pe_addr p) (gt_clientCredentials t) = Inr p) (gt_peers t)"

text \<open>A transport that answers with a leader has its node.\<close>

definition wf_leadership :: "('cl, 'nd, 'f, 'cert, 'pool, 'lg) grpcTransport \<Rightarrow> bool" where
  "wf_leadership t \<longleftrightarrow> (gt_leader t \<noteq> 0 \<or> gt_isLeader t \<longrightarrow> gt_node t \<noteq> None)"

definition wf_transport ::
  "('e, 'cert, 'pool, 'cl) transport_api \<Rightarrow> ('cl, 'nd, 'f, 'cert, 'pool, 'lg) grpcTransport \<Rightarrow> bool" where
  "wf_transport api t \<longleftrightarrow>
     sides_match (gt_serverCredentials t) (gt_clientCredentials t) \<and> wf_peers api t \<and> wf_leadership t"

text \<open>How a Go map is iterated: every entry once.\<close>

definition lists_map :: "('k \<rightharpoonup> 'v) \<Rightarrow> ('k \<times> 'v) list \<Rightarrow> bool" where
  "lists_map m kvs \<longleftrightarrow> distinct (map fst kvs) \<and> map_of kvs = m"

section \<open>Constructors and stores\<close>

lemma initialize_peers_wf:
  "initialize_peers api creds peers = Inr ps \<Longrightarrow>
     list_all (\<lambda>(i, p). newPeer api (pe_addr p) creds = Inr p) ps"
  by (induction peers arbitrary: ps) (auto simp: newPeer_def Let_def split: sum.splits)

lemma wf_new_insecure:
  assumes "newInsecureGRPCTransport api meta addr peers fetcher = Inr t" and "distinct (map fst peers)"
  shows "wf_transport api t"
  using assms initialize_peers_wf [of api None peers] initialize_peers_Inr [of api None peers]
  by (auto simp: newInsecureGRPCTransport_def wf_transport_def wf_peers_def wf_leadership_def split: sum.splits)

lemma wf_new_secure:
  assumes "newGRPCTransport api meta certPEM keyPEM caPEM addr peers fetcher = Inr t"
    and "distinct (map fst peers)"
  shows "wf_transport api t"
proof -
  from assms(1) obtain sc cc ps where sc: "serverTLSConfig api certPEM keyPEM caPEM = Inr sc"
    and cc: "clientTLSConfig api certPEM keyPEM caPEM [] = Inr cc"
    and ps: "initialize_peers api (Some cc) peers = Inr ps"
    and t: "gt_peers t = ps" "gt_serverCredentials t = Some sc" "gt_clientCredentials t = Some cc"
      "gt_leader t = 0" "\<not> gt_isLeader t"
    by (auto simp: newGRPCTransport_def split: sum.splits)
  have "sides_match (Some sc) (Some cc)"
    using sc cc by (auto simp: serverTLSConfig_def clientTLSConfig_def split: sum.splits option.splits)
  with t initialize_peers_wf [OF ps] initialize_peers_Inr [OF ps] assms(2) show ?thesis
    by (simp add: wf_transport_def wf_peers_def wf_leadership_def)
qed

lemma wf_logger: "wf_transport api (t\<lparr>gt_logger := lg\<rparr>) = wf_transport api t"
  by (simp add: wf_transport_def wf_peers_def wf_leadership_def)

lemma wf_setNode: "wf_transport api t \<Longrightarrow> wf_transport api (setNode node t)"
  by (simp add: wf_transport_def wf_peers_def wf_leadership_def setNode_def)

lemma wf_store: "wf_transport api t \<Longrightarrow> gt_node t \<noteq> None \<Longrightarrow> wf_transport api (store_leadership l t)"
  by (simp add: wf_transport_def wf_peers_def wf_leadership_def store_leadership_def)

lemma wf_main_loop:
  assumes "main_loop ra na rpc node cid callbacks ins l t w = Some (Returns (st, l', effs, t', w'))"
    and "wf_transport api t" and "gt_node t \<noteq> None"
  shows "wf_transport api t' \<and> gt_peers t' = gt_peers t"
  using main_loop_history [OF assms(1)] wf_store [OF assms(2,3), of l'] assms(2)
  by (auto simp: store_leadership_def split: if_splits)

lemma initialized_lookup:
  assumes "initialize_peers api creds peers = Inr ps"
  shows "map_option pe_addr (map_of ps i) = map_of peers i"
  using assms by (induction peers arbitrary: ps) (auto simp: newPeer_def Let_def split: sum.splits)

lemma raft_Run_start_wf:
  assumes "raft_Run_start api entries config = Inr t"
    and "lists_map (peersForNodes (rc_Peers config)) (entries (peersForNodes (rc_Peers config)))"
  shows "wf_transport api t \<and> map_option pe_addr (map_of (gt_peers t) i) = peersForNodes (rc_Peers config) i"
proof -
  let ?kvs = "entries (peersForNodes (rc_Peers config))"
  from assms(2) have kvs: "distinct (map fst ?kvs)" "map_of ?kvs = peersForNodes (rc_Peers config)"
    by (simp_all add: lists_map_def)
  from assms(1) obtain t0 where t: "t = t0\<lparr>gt_logger := rc_Logger config\<rparr>" and
    "newInsecureGRPCTransport api (rc_Meta config) (rc_Address config) ?kvs (rc_Fetcher config) = Inr t0 \<or>
     newGRPCTransport api (rc_Meta config) (rc_Certificate config) (rc_PrivateKey config) (rc_CA config)
       (rc_Address config) ?kvs (rc_Fetcher config) = Inr t0"
    by (auto simp: raft_Run_start_def Let_def split: option.splits sum.splits if_splits)
  from this(2) have "wf_transport api t0 \<and> (\<exists>creds. initialize_peers api creds ?kvs = Inr (gt_peers t0))"
  proof
    assume new: "newInsecureGRPCTransport api (rc_Meta config) (rc_Address config) ?kvs (rc_Fetcher config) = Inr t0"
    then have "initialize_peers api None ?kvs = Inr (gt_peers t0)"
      by (auto simp: newInsecureGRPCTransport_def split: sum.splits)
    with wf_new_insecure [OF new kvs(1)] show ?thesis by blast
  next
    assume new: "newGRPCTransport api (rc_Meta config) (rc_Certificate config) (rc_PrivateKey config)
       (rc_CA config) (rc_Address config) ?kvs (rc_Fetcher config) = Inr t0"
    then have "\<exists>creds. initialize_peers api creds ?kvs = Inr (gt_peers t0)"
      by (auto simp: newGRPCTransport_def split: sum.splits)
    with wf_new_secure [OF new kvs(1)] show ?thesis by blast
  qed
  then obtain creds where wf: "wf_transport api t0" and ps: "initialize_peers api creds ?kvs = Inr (gt_peers t0)"
    by blast
  from initialized_lookup [OF ps, of i] wf kvs(2) t show ?thesis by (simp add: wf_logger)
qed

section \<open>Properties\<close>

text \<open>
  C10: the transport of a node is well-formed from its construction through all rounds of its main loop: the
  credentials of both sides match, its table holds each peer once, dialled with those credentials at the
  configured address, for exactly the configured peers, and it only names a leader once it has its node.
\<close>

theorem transport_well_formed:
  assumes "raft_Run_start api entries config = Inr t"
    and "lists_map (peersForNodes (rc_Peers config)) (entries (peersForNodes (rc_Peers config)))"
    and "runRaft disc ra na rpc t config callbacks ins w = Some (Returns (st, l, effs, t', w'))"
  shows "wf_transport api t' \<and>
    map_option pe_addr (map_of (gt_peers t') i) = peersForNodes (rc_Peers config) i"
proof -
  note start = raft_Run_start_wf [OF assms(1,2)]
  from assms(3) obtain node w1 where
    "main_loop ra na rpc node (rc_ID config) callbacks ins loop_init (setNode node t) w1 =
      Some (Returns (st, l, effs, t', w'))"
    by (auto simp: runRaft_def Let_def split_def split: outcome.splits)
  from wf_main_loop [OF this, of api] start [of i] wf_setNode [of api t node] show ?thesis
    by (simp add: setNode_def)
qed

text \<open>A secure node with two peers, after a round in which it wins.\<close>

definition secure_lock :: "(unit, unit) RaftLockConfiguration" where
  "secure_lock = \<lparr>rc_ID = 1, rc_Address = ''n1'', rc_CA = ''A'', rc_PrivateKey = ''K'', rc_Certificate = ''C'',
     rc_Meta = [], rc_Peers = [\<lparr>ln_ID = 1, ln_Address = ''n1''\<rparr>, \<lparr>ln_ID = 2, ln_Address = ''n2''\<rparr>],
     rc_Insecure = False, rc_Fetcher = None, rc_ElectionTimeout = 0, rc_HeartbeatInterval = 0,
     rc_Logger = Some ()\<rparr>"

definition secure_transport :: "(string, nat, unit, string, string, unit) grpcTransport" where
  "secure_transport =
     \<lparr>gt_addr = ''n1'', gt_peers = [(2, \<lparr>pe_addr = ''n2'', pe_client = ''n2''\<rparr>), (1, \<lparr>pe_addr = ''n1'', pe_client = ''n1''\<rparr>)],
      gt_meta = [], gt_leader = 0, gt_isLeader = False, gt_node = None, gt_kubeconfigFetcher = None,
      gt_serverCredentials = Some (TLS \<lparr>tls_Certificates = [''C''], tls_RequireAndVerifyClientCert = True,
        tls_ClientCAs = Some ''A'', tls_RootCAs = None, tls_InsecureSkipVerify = False\<rparr>),
      gt_clientCredentials = Some (TLS \<lparr>tls_Certificates = [''C''], tls_RequireAndVerifyClientCert = False,
        tls_ClientCAs = None, tls_RootCAs = Some ''A'', tls_InsecureSkipVerify = False\<rparr>), gt_logger = Some ()\<rparr>"

lemma secure_start: "raft_Run_start echo_api (\<lambda>m. [(2, ''n2''), (1, ''n1'')]) secure_lock = Inr secure_transport"
  by (simp add: raft_Run_start_def validate_raft_def secure_lock_def newGRPCTransport_def serverTLSConfig_def
      clientTLSConfig_def newPeer_def echo_api_def secure_transport_def Let_def)

lemma secure_round:
  "\<exists>l effs w'. runRaft () example_raft_api example_node_api example_send secure_transport secure_lock
     (Some manager_callbacks) [NodeReady (ready_of 1)] [] =
   Some (Returns (AtSelect, l, effs, secure_transport\<lparr>gt_leader := 1, gt_isLeader := True, gt_node := Some 1\<rparr>, w'))"
proof -
  have "fst (ra_StartNode example_raft_api c ps w) = 1" for c ps w by (simp add: example_raft_api_def)
  then show ?thesis
    by (simp add: runRaft_def runRaft_start_def secure_lock_def with_timeouts_def Let_def split_def
        handle_ready_def step_simps loop_init_def manager_callbacks_def ready_of_def observe_def
        store_leadership_def setNode_def)
qed

theorem transport_well_formed_witness:
  "wf_transport echo_api (secure_transport\<lparr>gt_leader := 1, gt_isLeader := True, gt_node := Some 1\<rparr>) \<and>
    map_option pe_addr (map_of (gt_peers secure_transport) 2) = Some ''n2''"
proof -
  have "lists_map (peersForNodes (rc_Peers secure_lock)) [(2, ''n2''), (1, ''n1'')]"
    by (auto simp: lists_map_def peersForNodes_def secure_lock_def fun_eq_iff)
  moreover obtain l effs w' where
    "runRaft () example_raft_api example_node_api example_send secure_transport secure_lock
       (Some manager_callbacks) [NodeReady (ready_of 1)] [] =
     Some (Returns (AtSelect, l, effs, secure_transport\<lparr>gt_leader := 1, gt_isLeader := True, gt_node := Some 1\<rparr>, w'))"
    using secure_round by blast
  ultimately show ?thesis
    using transport_well_formed [OF secure_start, of "()" example_raft_api example_node_api example_send
        "Some manager_callbacks" "[NodeReady (ready_of 1)]" "[]" AtSelect l effs _ w' 2]
    by (simp add: peersForNodes_def secure_lock_def)
qed

end
