(* ===== verification/Multicluster_Fetch.thy ===== *)
theory Multicluster_Fetch
  imports Multicluster_Raft Raft_Wellformed
begin

text \<open>
  How the leader of a multicluster runtime gets at the clusters of its peers, end to end: the leader routine
  dials the peer, the transport of the peer answers with its fetcher, the fetcher creates a kubeconfig in the
  peer's cluster, and the leader adds the cluster to its provider and asks the runnables to engage again.
\<close>

section \<open>The peers behind the network\<close>

text \<open>
  The leader's state, and for every address the cluster of the node that listens there.
\<close>

record ('prov, 'v) net_world = "'prov mc_world" +
  nw_cluster :: "string \<Rightarrow> 'v"

text \<open>
  What a client for an address gets from \<open>Kubeconfig\<close>: the handler of the transport that listens there, with
  effects on that node's cluster only. \<open>fetch\<close> is the fetcher as the handler calls it.
\<close>

definition net_kubeconfig ::
  "'e grpc_errors \<Rightarrow> ('f \<Rightarrow> ('v, 'e, bytes) action) \<Rightarrow> (string \<Rightarrow> 'e) \<Rightarrow>
   ('nd, 'f, 'cert, 'pool, 'lg) network \<Rightarrow> string \<Rightarrow> (('prov, 'v) net_world, 'e, bytes) action" where
  "net_kubeconfig ge fetch unreachable net addr w =
     (case net addr of
        None \<Rightarrow> (Inl (Ext (unreachable addr)), w)
      | Some t \<Rightarrow>
          (case Kubeconfig ge fetch t (nw_cluster w addr) of
             (r, v) \<Rightarrow> (r, w\<lparr>nw_cluster := (nw_cluster w)(addr := v)\<rparr>)))"

text \<open>
  A fetcher runs \<open>CreateRemoteKubeconfig\<close>: whenever that returns, the handler gets its result. When it does not,
  the call of the client ends with an error of gRPC.
\<close>

definition runs_fetcher ::
  "('v, 'e, 'rest, 'kcl) kube_api \<Rightarrow>
   ('rest RemoteKubernetesConfiguration \<Rightarrow> ('v, 'e, bytes) action) \<Rightarrow> bool" where
  "runs_fetcher api fetch \<longleftrightarrow>
     (\<forall>f v r. CreateRemoteKubeconfig api (Some f) v = Some r \<longrightarrow> fetch f v = r)"

section \<open>Lemmas\<close>

text \<open>What a routine that fails leaves behind.\<close>

lemma fetch_peer_error:
  assumes "fetch_peer env ta rpc peers rc i w = (Some err, w')"
    and "\<And>cl v r v'. rpc cl v = (r, v') \<Longrightarrow> mw_restart v' = mw_restart v"
  shows "mw_restart w' = mw_restart w"
  using assms(1)
  by (auto simp: fetch_peer_def add_or_replace_def split: sum.splits prod.splits option.splits dest!: assms(2))

lemma net_kubeconfig_frame:
  "net_kubeconfig ge fetch unreachable net addr w = (r, w') \<Longrightarrow>
     mw_restart w' = mw_restart w \<and> mw_provider w' = mw_provider w \<and> mw_currentLeader w' = mw_currentLeader w"
  by (auto simp: net_kubeconfig_def split: option.splits prod.splits)

lemma runtime_peer_node:
  fixes env :: "('e, 'kc, 'rest, 'c, 'prov) mc_env"
  assumes "NewRaftRuntimeManager env mg config = Inr rt" and "i < length (mc_Peers config)"
  shows "rc_Peers (rr_raftConfig rt) ! i = node_of (mc_Peers config ! i)"
proof (rule runtime_Inr [OF assms(1)])
  fix restConfig raftPeers prov
  assume "register_peers env (mc_Name config) (mc_Peers config) [] Map.empty (me_NewProvider env) =
       Inr (raftPeers, rr_idsToNames rt, prov)"
    and "raft_config_for env config restConfig raftPeers = Inr (rr_raftConfig rt)"
  from register_peers_Inr [OF this(1)] raft_config_for_Inr [OF this(2)] assms(2) show ?thesis by simp
qed

lemma runtime_fetcher:
  fixes env :: "('e, 'kc, 'rest, 'c, 'prov) mc_env"
  assumes "NewRaftRuntimeManager env mg config = Inr rt"
  shows "rc_Fetcher (rr_raftConfig rt) = None \<longleftrightarrow> \<not> mc_Bootstrap config"
  by (rule runtime_Inr [OF assms]) (simp add: raft_config_for_Inr)

lemma raft_Run_start_fetcher:
  "raft_Run_start ta entries rc = Inr t \<Longrightarrow> gt_kubeconfigFetcher t = rc_Fetcher rc"
  by (auto simp: raft_Run_start_def newInsecureGRPCTransport_def newGRPCTransport_def Let_def
      split: option.splits sum.splits if_splits)

section \<open>Properties\<close>

text \<open>
  C9: fetching a cluster, end to end. Let the leader's routine for peer \<open>i\<close> run while that peer, a runtime of
  its own that bootstraps, listens at its configured address. If \<open>CreateRemoteKubeconfig\<close> in the peer's
  cluster returns a kubeconfig, if it loads, and if the provider takes the cluster, then the routine
  succeeds: the leader's provider has the cluster of exactly this peer, under its name, the restart is
  signalled, and only the peer's own cluster has changed.
\<close>

theorem leader_fetches_cluster:
  fixes env env' :: "('e, 'kc, 'rest, 'c, 'prov) mc_env"
  assumes "NewRaftRuntimeManager env mg config = Inr rt" and "i < length (mc_Peers config)"
    and "NewRaftRuntimeManager env' mg' config' = Inr rt'" and "rc_Fetcher (rr_raftConfig rt') = Some f"
    and "raft_Run_start ta' entries (rr_raftConfig rt') = Inr t"
    and "net (rcl_Address (mc_Peers config ! i)) = Some t"
    and "ClientFor ta (rr_raftConfig rt) (node_of (mc_Peers config ! i)) = Inr (rcl_Address (mc_Peers config ! i))"
    and "runs_fetcher api fetch"
    and "CreateRemoteKubeconfig api (Some f) (nw_cluster w (rcl_Address (mc_Peers config ! i))) = Some (Inr kc, v)"
    and "loadKubeconfigFromBytes env kc = Inr r" and "me_ClusterNew env r = Inr c"
    and "me_AddOrReplace env (rcl_Name (mc_Peers config ! i)) c (mw_provider w) = (None, prov)"
  shows "fetch_peer env ta (net_kubeconfig ge fetch unreachable net) (mc_Peers config) (rr_raftConfig rt) i w =
    (None, w\<lparr>nw_cluster := (nw_cluster w)(rcl_Address (mc_Peers config ! i) := v), mw_provider := prov,
       mw_restart := True\<rparr>)"
proof -
  from assms(8,9) have "fetch f (nw_cluster w (rcl_Address (mc_Peers config ! i))) = (Inr kc, v)"
    by (simp add: runs_fetcher_def)
  with assms(4,6) raft_Run_start_fetcher [OF assms(5)]
  have "net_kubeconfig ge fetch unreachable net (rcl_Address (mc_Peers config ! i)) w =
      (Inr kc, w\<lparr>nw_cluster := (nw_cluster w)(rcl_Address (mc_Peers config ! i) := v)\<rparr>)"
    by (simp add: net_kubeconfig_def Kubeconfig_def)
  with assms(7,10-12) runtime_peer_node [OF assms(1,2)] show ?thesis
    by (simp add: fetch_peer_def add_or_replace_def)
qed

text \<open>The transport of a runtime that does not bootstrap has no fetcher.\<close>

lemma no_bootstrap_no_fetcher:
  fixes env :: "('e, 'kc, 'rest, 'c, 'prov) mc_env"
  assumes "NewRaftRuntimeManager env mg config = Inr rt" and "\<not> mc_Bootstrap config"
    and "raft_Run_start ta entries (rr_raftConfig rt) = Inr t"
  shows "gt_kubeconfigFetcher t = None"
  using runtime_fetcher [OF assms(1)] raft_Run_start_fetcher [OF assms(3)] assms(2) by simp

text \<open>
  C36: what can go wrong. A peer that nobody listens for, and one whose transport has no fetcher because it does
  not bootstrap, make the routine end with an error and leave the provider as it is; and no restart is
  signalled, so the supervising loop calls the routine again.
\<close>

theorem failed_fetch_changes_nothing:
  fixes env :: "('e, 'kc, 'rest, 'c, 'prov) mc_env"
  assumes "NewRaftRuntimeManager env mg config = Inr rt" and "i < length (mc_Peers config)"
    and "ClientFor ta (rr_raftConfig rt) (node_of (mc_Peers config ! i)) = Inr (rcl_Address (mc_Peers config ! i))"
    and "case net (rcl_Address (mc_Peers config ! i)) of
        None \<Rightarrow> True | Some t \<Rightarrow> gt_kubeconfigFetcher t = None"
  shows "\<exists>err w'. fetch_peer env ta (net_kubeconfig ge fetch unreachable net) (mc_Peers config)
      (rr_raftConfig rt) i w = (Some err, w') \<and>
    mw_provider w' = mw_provider w \<and> mw_restart w' = mw_restart w"
proof -
  let ?a = "rcl_Address (mc_Peers config ! i)"
  have "\<exists>err w'. net_kubeconfig ge fetch unreachable net ?a w = (Inl err, w')"
    using assms(4) by (cases "net ?a") (auto simp: net_kubeconfig_def Kubeconfig_def)
  then obtain err w' where r: "net_kubeconfig ge fetch unreachable net ?a w = (Inl err, w')" by blast
  with net_kubeconfig_frame [OF r] assms(3) runtime_peer_node [OF assms(1,2)] show ?thesis
    by (simp add: fetch_peer_def)
qed

section \<open>An example\<close>

text \<open>
  Node \<open>a\<close> of \<open>mc_example_config\<close> leads and fetches the cluster of node \<open>b\<close>, whose token needs two polls.
\<close>

definition peer_b_config :: "(unit, unit, string) RaftConfiguration" where
  "peer_b_config = mc_example_config\<lparr>mc_Name := ''b'', mc_Address := ''h:2'', mc_RestConfig := Some ''k1''\<rparr>"

definition fetcher_b :: "string RemoteKubernetesConfiguration" where
  "fetcher_b = zero_remote\<lparr>rk_RESTConfig := Some ''k1''\<rparr>"

definition demo_fetch :: "string RemoteKubernetesConfiguration \<Rightarrow> (nat, string, bytes) action" where
  "demo_fetch f v = (case CreateRemoteKubeconfig demo_kube_api (Some f) v of
     None \<Rightarrow> (Inl (Ext ''deadline''), v) | Some r \<Rightarrow> r)"

definition demo_grpc :: "string grpc_errors" where
  "demo_grpc = \<lparr>ge_Status = (\<lambda>c s. s), ge_Sprintf = (\<lambda>s. s), ge_Error = (\<lambda>e. ''error'')\<rparr>"

lemma peer_b_runtime:
  "\<exists>rt :: (string, string, unit, unit, (string \<times> string) list, string, unit, unit, unit) raft_runtime.
     NewRaftRuntimeManager mc_example_env mc_example_mg peer_b_config = Inr rt \<and>
     rc_Fetcher (rr_raftConfig rt) = Some fetcher_b \<and>
     (\<exists>t :: (string, nat, string RemoteKubernetesConfiguration, string, string, unit) grpcTransport.
        raft_Run_start echo_api (\<lambda>m. []) (rr_raftConfig rt) = Inr t)"
proof -
  have "stringToHash ''b'' \<noteq> 0" by code_simp
  then show ?thesis
    by (simp add: NewRaftRuntimeManager_def mc_example_env_def mc_example_mg_def mc_example_config_def
        peer_b_config_def fetcher_b_def validate_mc_def loadKubeconfig_def loadKubeconfigFromBytes_def
        raft_config_for_def fetcher_for_def zero_remote_def newManager_def raft_Run_start_def
        validate_raft_def newInsecureGRPCTransport_def Let_def)
qed

lemma demo_fetch_b:
  "CreateRemoteKubeconfig demo_kube_api (Some fetcher_b) 0 =
     Some (Inr (kubeconfigTemplate \<lparr>tf_CA = base64 ''CA'', tf_APIServer = ''https://k1'', tf_Cluster = '''',
       tf_User = ''multicluster-operator'', tf_Token = ''T''\<rparr>), 2)"
  by (simp add: CreateRemoteKubeconfig_def demo_kube_api_def fetcher_b_def zero_remote_def
      complete_remote_def client_for_remote_def poll_token.simps populated_def
      defaultServiceAccountNamespace_def defaultServiceAccountName_def Let_def)

lemma demo_runs: "runs_fetcher demo_kube_api demo_fetch"
  by (simp add: runs_fetcher_def demo_fetch_def)

definition idle_world :: "((string \<times> string) list, nat) net_world" where
  "idle_world = \<lparr>mw_currentLeader = 0, mw_provider = [], mw_restart = False, nw_cluster = (\<lambda>a. 0)\<rparr>"

lemma runtime_a:
  obtains rt :: "(string, string, unit, unit, (string \<times> string) list, string, unit, unit, unit) raft_runtime"
  where "NewRaftRuntimeManager mc_example_env mc_example_mg mc_example_config = Inr rt"
    and "ClientFor echo_api (rr_raftConfig rt) (node_of (mc_Peers mc_example_config ! 1)) = Inr ''h:2''"
proof -
  obtain rt :: "(string, string, unit, unit, (string \<times> string) list, string, unit, unit, unit) raft_runtime"
    where rt: "NewRaftRuntimeManager mc_example_env mc_example_mg mc_example_config = Inr rt"
    using mc_example_runtime by blast
  then have "rc_Insecure (rr_raftConfig rt)"
    by (rule runtime_Inr) (simp add: raft_config_for_Inr mc_example_config_def)
  then show ?thesis
    using that rt
    by (simp add: ClientFor_def client_with_def client_credentials_def echo_api_def node_of_def
        mc_example_config_def)
qed

theorem leader_fetches_cluster_witness:
  "\<exists>(rt :: (string, string, unit, unit, (string \<times> string) list, string, unit, unit, unit) raft_runtime)
     (net :: (nat, string RemoteKubernetesConfiguration, string, string, unit) network) w'.
     NewRaftRuntimeManager mc_example_env mc_example_mg mc_example_config = Inr rt \<and>
     fetch_peer mc_example_env echo_api (net_kubeconfig demo_grpc demo_fetch (\<lambda>a. a) net)
       (mc_Peers mc_example_config) (rr_raftConfig rt) 1 idle_world = (None, w') \<and>
     mw_provider w' = [(''b'', ''remote'')] \<and> mw_restart w' \<and> nw_cluster w' ''h:2'' = 2"
proof -
  obtain rt :: "(string, string, unit, unit, (string \<times> string) list, string, unit, unit, unit) raft_runtime"
    where rt: "NewRaftRuntimeManager mc_example_env mc_example_mg mc_example_config = Inr rt"
    and client: "ClientFor echo_api (rr_raftConfig rt) (node_of (mc_Peers mc_example_config ! 1)) = Inr ''h:2''"
    by (rule runtime_a)
  obtain rt' :: "(string, string, unit, unit, (string \<times> string) list, string, unit, unit, unit) raft_runtime"
    and t :: "(string, nat, string RemoteKubernetesConfiguration, string, string, unit) grpcTransport"
    where rt': "NewRaftRuntimeManager mc_example_env mc_example_mg peer_b_config = Inr rt'"
    and f: "rc_Fetcher (rr_raftConfig rt') = Some fetcher_b"
    and t: "raft_Run_start echo_api (\<lambda>m. []) (rr_raftConfig rt') = Inr t"
    using peer_b_runtime by blast
  have i: "1 < length (mc_Peers mc_example_config)" and a: "rcl_Address (mc_Peers mc_example_config ! 1) = ''h:2''"
    and b: "rcl_Name (mc_Peers mc_example_config ! 1) = ''b''"
    by (simp_all add: mc_example_config_def)
  have "fetch_peer mc_example_env echo_api (net_kubeconfig demo_grpc demo_fetch (\<lambda>a. a) [''h:2'' \<mapsto> t])
      (mc_Peers mc_example_config) (rr_raftConfig rt) 1 idle_world =
    (None, idle_world\<lparr>nw_cluster := (nw_cluster idle_world)(''h:2'' := 2),
       mw_provider := [(''b'', ''remote'')], mw_restart := True\<rparr>)"
    using leader_fetches_cluster [OF rt i rt' f t, of "[''h:2'' \<mapsto> t]" echo_api demo_kube_api demo_fetch
        idle_world _ 2 "''remote''" "''remote''" "[(''b'', ''remote'')]" demo_grpc "\<lambda>a. a",
        unfolded a b, OF _ client demo_runs]
    by (simp add: demo_fetch_b idle_world_def loadKubeconfigFromBytes_def mc_example_env_def)
  with rt show ?thesis by (intro exI [of _ rt] exI [of _ "[''h:2'' \<mapsto> t]"]) (simp add: idle_world_def)
qed

theorem failed_fetch_changes_nothing_witness:
  "\<exists>(rt :: (string, string, unit, unit, (string \<times> string) list, string, unit, unit, unit) raft_runtime) err w'.
     NewRaftRuntimeManager mc_example_env mc_example_mg mc_example_config = Inr rt \<and>
     fetch_peer mc_example_env echo_api (net_kubeconfig demo_grpc demo_fetch (\<lambda>a. a)
         (Map.empty :: (nat, string RemoteKubernetesConfiguration, string, string, unit) network))
       (mc_Peers mc_example_config) (rr_raftConfig rt) 1 idle_world = (Some err, w') \<and>
     mw_provider w' = [] \<and> \<not> mw_restart w'"
proof -
  obtain rt :: "(string, string, unit, unit, (string \<times> string) list, string, unit, unit, unit) raft_runtime"
    where rt: "NewRaftRuntimeManager mc_example_env mc_example_mg mc_example_config = Inr rt"
    and client: "ClientFor echo_api (rr_raftConfig rt) (node_of (mc_Peers mc_example_config ! 1)) = Inr ''h:2''"
    by (rule runtime_a)
  have i: "1 < length (mc_Peers mc_example_config)" and a: "rcl_Address (mc_Peers mc_example_config ! 1) = ''h:2''"
    by (simp_all add: mc_example_config_def)
  from failed_fetch_changes_nothing [OF rt i, of echo_api
      "Map.empty :: (nat, string RemoteKubernetesConfiguration, string, string, unit) network"
      demo_grpc demo_fetch "\<lambda>a. a" idle_world, unfolded a, OF client]
  obtain err w' where
    "fetch_peer mc_example_env echo_api (net_kubeconfig demo_grpc demo_fetch (\<lambda>a. a)
         (Map.empty :: (nat, string RemoteKubernetesConfiguration, string, string, unit) network))
       (mc_Peers mc_example_config) (rr_raftConfig rt) 1 idle_world = (Some err, w')"
    "mw_provider w' = mw_provider idle_world" "mw_restart w' = mw_restart idle_world" by auto
  with rt show ?thesis by (intro exI [of _ rt]) (simp add: idle_world_def)
qed

end
