(* ===== verification/Multicluster_Runtime.thy ===== *)
theory Multicluster_Runtime
  imports Multicluster_Fetch
begin

text \<open>
  The multicluster runtime at work: starting its leader runnable runs the raft lock, and the raft lock tells the
  runtime who leads.
\<close>

section \<open>Starting the runtime\<close>

text \<open>\<open>leaderRunnable.Start\<close> runs the lock of its manager.\<close>

definition leaderRunnable_Start ::
  "('kc \<Rightarrow> KubeLeaderCallbacks \<Rightarrow> 'x) \<Rightarrow> ('rc \<Rightarrow> RaftLeaderCallbacks \<Rightarrow> 'x) \<Rightarrow>
   ('r, 'kc, 'rc, 'lg) leaderRunnable \<Rightarrow> 'x" where
  "leaderRunnable_Start run_kube run_raft l = manager_Run run_kube run_raft (lr_manager l)"

text \<open>The closure that the runtime passes as \<open>SetLeader\<close>, on the effects of the raft loop.\<close>

fun tell_leader :: "loop_effect \<Rightarrow> 'prov mc_world \<Rightarrow> 'prov mc_world" where
  "tell_leader (SetLeader leader) w = store_leader leader w"
| "tell_leader (Started k) w = w"
| "tell_leader Stopped w = w"
| "tell_leader (CancelCtx k) w = w"

definition tracking_callbacks :: RaftLeaderCallbacks where
  "tracking_callbacks =
     \<lparr>raft_SetLeader = True, raft_OnStartedLeading = True, raft_OnStoppedLeading = True\<rparr>"

section \<open>Lemmas\<close>

lemma RegisterRoutine_runner: "lm_runner (RegisterRoutine lm fn) = lm_runner lm"
  by (simp add: RegisterRoutine_def)

lemma foldl_register_runner:
  "lm_runner (foldl (\<lambda>lm i. RegisterRoutine lm (f i)) lm is) = lm_runner lm"
  by (induction "is" arbitrary: lm) (simp_all add: RegisterRoutine_runner)

lemma runtime_runs_raft:
  fixes env :: "('e, 'kc, 'rest, 'c, 'prov) mc_env"
  assumes "NewRaftRuntimeManager env mg config = Inr rt"
  shows "leaderRunnable_Start run_kube run_raft (mi_runnable (rr_manager rt)) =
    run_raft (rr_raftConfig rt) tracking_callbacks"
proof (rule runtime_Inr [OF assms])
  fix restConfig raftPeers prov
  assume "newManager mg (Some (leader_name (rr_idsToNames rt))) (Some (current_clusters env)) (add_or_replace env)
       (foldl (\<lambda>lm i. RegisterRoutine lm (FetchKubeconfig i))
          (NewLeaderTrackingRaftLockManager (rr_raftConfig rt) (Some ())) (peers_to_fetch config)) =
       Inr (rr_manager rt)"
  from newManager_Inr [OF this] show ?thesis
    by (simp add: leaderRunnable_Start_def manager_Run_def RegisterRoutine_runner foldl_register_runner
        NewLeaderTrackingRaftLockManager_def new_manager_def tracking_callbacks_def)
qed

text \<open>Every round reports its leader first, and nothing else changes the runtime's view.\<close>

lemma handle_leadership_tells:
  assumes "handle_leadership cid (Some tracking_callbacks) rd s = Returns (s', effs)"
  shows "mw_currentLeader (fold tell_leader effs w) = fst (observe cid rd)"
  using assms
  by (auto simp: handle_leadership_def leadership_change_def set_leader_def tracking_callbacks_def
      store_leader_def Let_def split: prod.splits if_splits)

lemma run_loop_tells:
  assumes "run_loop cid (Some tracking_callbacks) rds s = Returns (l, effs)" and "rds \<noteq> []"
  shows "mw_currentLeader (fold tell_leader effs w) = fst (observe cid (last rds))"
proof -
  from assms(2) obtain js rd where rds: "rds = js @ [rd]" by (cases rds rule: rev_cases) auto
  with assms(1) obtain s1 e1 e2 where "handle_leadership cid (Some tracking_callbacks) rd s1 = Returns (l, e2)"
    and "effs = e1 @ e2"
    by (auto simp: run_loop_snoc split: outcome.splits)
  with handle_leadership_tells rds show ?thesis by fastforce
qed

lemma names_by_hash:
  assumes "inj_on stringToHash (rcl_Name ` set peers)"
  shows "assign_all (map (\<lambda>p. (stringToHash (rcl_Name p), rcl_Name p)) peers) h =
    map_option rcl_Name (find (\<lambda>p. stringToHash (rcl_Name p) = h) peers)"
proof (cases "find (\<lambda>p. stringToHash (rcl_Name p) = h) peers")
  case None
  then have "h \<notin> dom (assign_all (map (\<lambda>p. (stringToHash (rcl_Name p), rcl_Name p)) peers))"
    unfolding dom_assign_all by (auto simp: find_None_iff image_image)
  then have "assign_all (map (\<lambda>p. (stringToHash (rcl_Name p), rcl_Name p)) peers) h = None"
    unfolding domIff by simp
  with None show ?thesis by simp
next
  case (Some p)
  then have p: "p \<in> set peers" "stringToHash (rcl_Name p) = h"
    by (auto simp: find_Some_iff)
  have "assign_all (map (\<lambda>p. (stringToHash (rcl_Name p), rcl_Name p)) peers) h = Some (rcl_Name p)"
  proof (rule assign_all_consistent)
    show "(h, rcl_Name p) \<in> set (map (\<lambda>p. (stringToHash (rcl_Name p), rcl_Name p)) peers)"
      using p by force
  next
    fix v assume "(h, v) \<in> set (map (\<lambda>p. (stringToHash (rcl_Name p), rcl_Name p)) peers)"
    then obtain q where q: "q \<in> set peers" "stringToHash (rcl_Name q) = h" "v = rcl_Name q" by auto
    have "rcl_Name q = rcl_Name p"
      by (rule inj_onD [OF assms]) (use p q in auto)
    with q show "v = rcl_Name p" by simp
  qed
  with Some show ?thesis by simp
qed

lemma runtime_leader_name:
  fixes env :: "('e, 'kc, 'rest, 'c, 'prov) mc_env"
  assumes "NewRaftRuntimeManager env mg config = Inr rt"
    and "inj_on stringToHash (rcl_Name ` set (mc_Peers config))"
  shows "GetLeader (rr_manager rt) w =
    (case find (\<lambda>p. stringToHash (rcl_Name p) = mw_currentLeader w) (mc_Peers config) of
       None \<Rightarrow> '''' | Some p \<Rightarrow> rcl_Name p)"
proof (rule runtime_Inr [OF assms(1)])
  fix restConfig raftPeers prov
  assume reg: "register_peers env (mc_Name config) (mc_Peers config) [] Map.empty (me_NewProvider env) =
       Inr (raftPeers, rr_idsToNames rt, prov)"
    and mgr: "newManager mg (Some (leader_name (rr_idsToNames rt))) (Some (current_clusters env)) (add_or_replace env)
       (foldl (\<lambda>lm i. RegisterRoutine lm (FetchKubeconfig i))
          (NewLeaderTrackingRaftLockManager (rr_raftConfig rt) (Some ())) (peers_to_fetch config)) =
       Inr (rr_manager rt)"
  have "rr_idsToNames rt = assign_all (map (\<lambda>p. (stringToHash (rcl_Name p), rcl_Name p)) (mc_Peers config))"
    using register_peers_Inr [OF reg] by (simp add: names_table)
  with newManager_Inr [OF mgr] names_by_hash [OF assms(2)] show ?thesis
    by (simp add: GetLeader_def leader_name_def split: option.split)
qed

section \<open>Properties\<close>

text \<open>
  C23: the runtime knows its leader. Starting the runtime runs the raft lock with the derived configuration; and
  after any rounds of that lock \<open>GetLeader\<close> answers with the name of the peer that the last \<open>Ready\<close> named as
  the leader, and with the empty name when it named none of the peers, as long as the ids of the peers do
  not collide.
\<close>

theorem runtime_leader_follows_raft:
  fixes env :: "('e, 'kc, 'rest, 'c, 'prov) mc_env"
  assumes "NewRaftRuntimeManager env mg config = Inr rt"
    and "inj_on stringToHash (rcl_Name ` set (mc_Peers config))"
    and "leaderRunnable_Start run_kube (\<lambda>rc cb. run_loop (rc_ID rc) (Some cb) rds loop_init)
      (mi_runnable (rr_manager rt)) = Returns (l, effs)"
    and "rds \<noteq> []"
  shows "GetLeader (rr_manager rt) (fold tell_leader effs w) =
    (case find (\<lambda>p. stringToHash (rcl_Name p) = fst (observe (stringToHash (mc_Name config)) (last rds)))
        (mc_Peers config) of
       None \<Rightarrow> '''' | Some p \<Rightarrow> rcl_Name p)"
proof -
  have "rc_ID (rr_raftConfig rt) = stringToHash (mc_Name config)"
    by (rule runtime_Inr [OF assms(1)]) (simp add: raft_config_for_Inr)
  with assms(3) have "run_loop (stringToHash (mc_Name config)) (Some tracking_callbacks) rds loop_init = Returns (l, effs)"
    by (simp add: runtime_runs_raft [OF assms(1)])
  from run_loop_tells [OF this assms(4), of w] show ?thesis
    by (simp add: runtime_leader_name [OF assms(1,2)])
qed

theorem runtime_leader_follows_raft_witness:
  "\<exists>(rt :: (string, string, unit, unit, (string \<times> string) list, string, unit, unit, unit) raft_runtime) l effs.
     NewRaftRuntimeManager mc_example_env mc_example_mg mc_example_config = Inr rt \<and>
     leaderRunnable_Start (\<lambda>c cb. Panics [])
       (\<lambda>rc cb. run_loop (rc_ID rc) (Some cb) [ready_of (stringToHash ''c''), ready_of (stringToHash ''b'')] loop_init)
       (mi_runnable (rr_manager rt)) = Returns (l, effs) \<and>
     GetLeader (rr_manager rt) (fold tell_leader effs \<lparr>mw_currentLeader = 0, mw_provider = [], mw_restart = False\<rparr>) = ''b''"
proof -
  obtain rt :: "(string, string, unit, unit, (string \<times> string) list, string, unit, unit, unit) raft_runtime"
    where rt: "NewRaftRuntimeManager mc_example_env mc_example_mg mc_example_config = Inr rt"
    using mc_example_runtime by blast
  have one: "stringToHash [c] = stringToHash [d] \<longleftrightarrow> c = d" for c d
    by (simp add: stringToHash_def fnv_step_char)
  have inj: "inj_on stringToHash (rcl_Name ` set (mc_Peers mc_example_config))"
    by (auto simp: inj_on_def mc_example_config_def one)
  let ?rds = "[ready_of (stringToHash ''c''), ready_of (stringToHash ''b'')]"
  have "\<exists>l effs. run_loop cid (Some cb) rds s = Returns (l, effs)" for cid cb s and rds :: "(nat, nat) ready list"
  proof (induction rds arbitrary: s)
    case (Cons rd rds)
    obtain s1 e1 where "handle_leadership cid (Some cb) rd s = Returns (s1, e1)"
      using handle_leadership_returns by blast
    with Cons.IH [of s1] show ?case by auto
  qed simp
  then obtain l effs where run: "leaderRunnable_Start (\<lambda>c cb. Panics [])
      (\<lambda>rc cb. run_loop (rc_ID rc) (Some cb) ?rds loop_init) (mi_runnable (rr_manager rt)) = Returns (l, effs)"
    using runtime_runs_raft [OF rt] by metis
  from runtime_leader_follows_raft [OF rt inj run, of "\<lparr>mw_currentLeader = 0, mw_provider = [], mw_restart = False\<rparr>"]
  have "GetLeader (rr_manager rt)
      (fold tell_leader effs \<lparr>mw_currentLeader = 0, mw_provider = [], mw_restart = False\<rparr>) = ''b''"
    by (simp add: mc_example_config_def one)
  with rt run show ?thesis by blast
qed

end
