(* ===== verification/Raft_Cluster.thy ===== *)
theory Raft_Cluster
  imports Raft_Main
begin

text \<open>
  Several nodes of a raft lock together: each has its loop, its transport and its manager, and handles its own
  \<open>Ready\<close> values, in any interleaving. What raft says about the nodes carries over to who works and to what the
  health check answers.
\<close>

section \<open>Nodes and their rounds\<close>

record ('nd, 'f, 'cert, 'pool, 'lg, 'fn, 'kc, 'rc, 'mlg) cluster_node =
  cn_loop :: raft_loop
  cn_transport :: "(string, 'nd, 'f, 'cert, 'pool, 'lg) grpcTransport"
  cn_manager :: "('fn, 'kc, 'rc, 'mlg) LeaderManager"

text \<open>
  A round of the node with id \<open>i\<close>, its callbacks run as they are made; the messages of the round do not matter
  here.
\<close>

definition node_round ::
  "RaftLeaderCallbacks \<Rightarrow> u64 \<Rightarrow> ('ent, 'msg) ready \<Rightarrow>
   ('nd, 'f, 'cert, 'pool, 'lg, 'fn, 'kc, 'rc, 'mlg) cluster_node \<Rightarrow>
   ('nd, 'f, 'cert, 'pool, 'lg, 'fn, 'kc, 'rc, 'mlg) cluster_node" where
  "node_round cb i rd n =
     (case handle_leadership i (Some cb) rd (cn_loop n) of
        Panics p \<Rightarrow> n
      | Returns (l, effs) \<Rightarrow>
          n\<lparr>cn_loop := l, cn_transport := store_leadership l (cn_transport n),
            cn_manager := fst (manager_steps (cn_manager n) (concat (map effect_events effs)))\<rparr>)"

text \<open>An execution of the cluster: which node handles which \<open>Ready\<close>, in order.\<close>

fun cluster_run ::
  "RaftLeaderCallbacks \<Rightarrow> (u64 \<times> ('ent, 'msg) ready) list \<Rightarrow>
   (u64 \<Rightarrow> ('nd, 'f, 'cert, 'pool, 'lg, 'fn, 'kc, 'rc, 'mlg) cluster_node) \<Rightarrow>
   u64 \<Rightarrow> ('nd, 'f, 'cert, 'pool, 'lg, 'fn, 'kc, 'rc, 'mlg) cluster_node" where
  "cluster_run cb [] c = c"
| "cluster_run cb ((i, rd) # es) c = cluster_run cb es (c(i := node_round cb i rd (c i)))"

definition readies_of :: "u64 \<Rightarrow> (u64 \<times> ('ent, 'msg) ready) list \<Rightarrow> ('ent, 'msg) ready list" where
  "readies_of i es = [rd. (j, rd) \<leftarrow> es, j = i]"

text \<open>A node before its first round: a fresh manager over a transport that has its node.\<close>

definition fresh_node ::
  "'rc \<Rightarrow> (string, 'nd, 'f, 'cert, 'pool, 'lg) grpcTransport \<Rightarrow>
   ('nd, 'f, 'cert, 'pool, 'lg, 'fn, 'kc, 'rc, 'mlg) cluster_node" where
  "fresh_node config t =
     \<lparr>cn_loop = loop_init, cn_transport = t, cn_manager = NewRaftLockManager config\<rparr>"

section \<open>One node of a cluster\<close>

lemma readies_of_simps [simp]:
  "readies_of i [] = []"
  "readies_of i ((j, rd) # es) = (if j = i then rd # readies_of i es else readies_of i es)"
  by (simp_all add: readies_of_def)

text \<open>A node sees its own rounds only.\<close>

lemma cluster_run_local: "cluster_run cb es c i = fold (node_round cb i) (readies_of i es) (c i)"
proof (induction es arbitrary: c)
  case Nil
  then show ?case by simp
next
  case (Cons e es)
  obtain j rd where "e = (j, rd)" by (cases e)
  moreover have "cluster_run cb es (c(j := n)) i = fold (node_round cb i) (readies_of i es) ((c(j := n)) i)" for n
    by (rule Cons.IH)
  ultimately show ?case by (cases "j = i") simp_all
qed

definition node_inv ::
  "u64 \<Rightarrow> ('ent, 'msg) ready list \<Rightarrow> (string, 'nd, 'f, 'cert, 'pool, 'lg) grpcTransport \<Rightarrow>
   ('nd, 'f, 'cert, 'pool, 'lg, 'fn, 'kc, 'rc, 'mlg) cluster_node \<Rightarrow> bool" where
  "node_inv i rds t n \<longleftrightarrow>
     (\<exists>effs. run_loop i (Some manager_callbacks) rds loop_init = Returns (cn_loop n, effs) \<and>
        IsLeader (cn_manager n) = deliver False (concat (map client_callback effs))) \<and>
     cn_transport n = (if rds = [] then t else store_leadership (cn_loop n) t)"

lemma node_inv_fresh: "node_inv i [] t (fresh_node config t)"
  by (simp add: node_inv_def fresh_node_def NewRaftLockManager_def new_manager_def IsLeader_def)

lemma IsLeader_effects:
  fixes m :: "('fn, 'kc, 'rc, 'mlg) LeaderManager"
  shows "IsLeader (fst (manager_steps m (concat (map effect_events effs)))) =
    deliver (IsLeader m) (concat (map client_callback effs))"
proof -
  let ?es = "concat (map effect_events effs) :: ('fn, nat) manager_event list"
  have one: "filter (\<lambda>e. \<not> is_register e) (effect_events e :: ('fn, nat) manager_event list) = effect_events e" for e
    by (cases e) auto
  have "filter (\<lambda>e. \<not> is_register e) ?es = concat (map effect_events effs)"
    by (induction effs) (simp_all add: one)
  from manager_flag [of m ?es] leadership_events_effects [OF this] show ?thesis by simp
qed

lemma node_inv_round:
  assumes "node_inv i rds t n"
  shows "node_inv i (rds @ [rd]) t (node_round manager_callbacks i rd n)"
proof -
  obtain l effs where hd: "handle_leadership i (Some manager_callbacks) rd (cn_loop n) = Returns (l, effs)"
    using handle_leadership_returns by blast
  with assms show ?thesis
    by (auto simp: node_inv_def node_round_def run_loop_snoc IsLeader_effects)
qed

lemma node_inv_fold: "node_inv i rds t n \<Longrightarrow> node_inv i (rds @ js) t (fold (node_round manager_callbacks i) js n)"
proof (induction js arbitrary: rds n)
  case Nil
  then show ?case by simp
next
  case (Cons rd js)
  from Cons.IH [OF node_inv_round [OF Cons.prems, of rd]] show ?case by simp
qed

lemma node_inv_cluster:
  assumes "c i = fresh_node config t"
  shows "node_inv i (readies_of i es) t (cluster_run manager_callbacks es c i)"
  using node_inv_fold [OF node_inv_fresh, where js = "readies_of i es"] assms
  by (simp add: cluster_run_local)

lemma node_inv_promoted:
  assumes "node_inv i rds t n" and "IsLeader (cn_manager n)"
  shows "rds \<noteq> [] \<and> raft_promotes i (last rds)"
proof -
  from assms obtain effs where run: "run_loop i (Some manager_callbacks) rds loop_init = Returns (cn_loop n, effs)"
    and flag: "deliver False (concat (map client_callback effs))" by (auto simp: node_inv_def)
  have cb: "raft_OnStartedLeading manager_callbacks" "raft_OnStoppedLeading manager_callbacks"
    by (simp_all add: manager_callbacks_def)
  from raft_lock.flag_safe [OF run_loop_callbacks [OF cb run] flag] show ?thesis .
qed

lemma node_inv_transport:
  assumes "node_inv i rds t n" and "rds \<noteq> []"
  shows "gt_leader (cn_transport n) = fst (observe i (last rds)) \<and>
    gt_isLeader (cn_transport n) = raft_promotes i (last rds) \<and>
    gt_peers (cn_transport n) = gt_peers t \<and> gt_meta (cn_transport n) = gt_meta t"
proof -
  from assms obtain effs where "run_loop i (Some manager_callbacks) rds loop_init = Returns (cn_loop n, effs)"
    and "cn_transport n = store_leadership (cn_loop n) t" by (auto simp: node_inv_def)
  with run_loop_last assms(2) show ?thesis by (fastforce simp: store_leadership_def)
qed

section \<open>Properties\<close>


text \<open>The network of a cluster: the nodes listen at their addresses.\<close>

definition cluster_net ::
  "(u64 \<times> string) list \<Rightarrow> (u64 \<Rightarrow> ('nd, 'f, 'cert, 'pool, 'lg, 'fn, 'kc, 'rc, 'mlg) cluster_node) \<Rightarrow>
   ('nd, 'f, 'cert, 'pool, 'lg) network" where
  "cluster_net members c = map_of (map (\<lambda>(i, a). (a, cn_transport (c i))) members)"

lemma cluster_net_member:
  assumes "distinct (map snd members)" and "(i, a) \<in> set members"
  shows "cluster_net members c a = Some (cn_transport (c i))"
proof -
  have "distinct (map fst (map (\<lambda>(i, a). (a, cn_transport (c i))) members))"
    using assms(1) by (simp add: comp_def split_def)
  moreover have "(a, cn_transport (c i)) \<in> set (map (\<lambda>(i, a). (a, cn_transport (c i))) members)"
    using assms(2) by force
  ultimately show ?thesis unfolding cluster_net_def by (rule map_of_is_SomeI)
qed


section \<open>A cluster of three\<close>

text \<open>Node 1 wins, then node 2 takes over, and node 3 hears of it.\<close>

definition three_members :: "(u64 \<times> string) list" where
  "three_members = [(3, ''n3''), (1, ''n1''), (2, ''n2'')]"

definition three_nodes ::
  "u64 \<Rightarrow> (nat, unit, unit, unit, unit, string, unit, unit, unit) cluster_node" where
  "three_nodes i = fresh_node () (example_node 0 False (Some (unat i)))"

definition takeover :: "(u64 \<times> (nat, nat) ready) list" where
  "takeover = [(1, ready_of 1), (2, ready_of 0), (1, ready_of 2), (2, ready_of 2), (3, ready_of 2)]"

lemma takeover_leader: "IsLeader (cn_manager (cluster_run manager_callbacks takeover three_nodes 2))"
  by (simp add: cluster_run_local takeover_def three_nodes_def fresh_node_def node_round_def step_simps
      loop_init_def manager_callbacks_def NewRaftLockManager_def new_manager_def)

lemma three_nodes_fresh: "three_nodes i = fresh_node ((\<lambda>i. ()) i) (example_node 0 False (Some (unat i)))"
  by (simp add: three_nodes_def)

lemma takeover_promoted:
  "readies_of i takeover \<noteq> [] \<Longrightarrow> raft_promotes i (last (readies_of i takeover)) \<Longrightarrow> i = 2"
  by (cases "i = 1"; cases "i = 2"; cases "i = 3") (simp_all add: takeover_def raft_promotes_def)



end
