(* ===== verification/Lease_Refine.thy ===== *)
theory Lease_Refine
  imports Lease_Store
begin

text \<open>
  What the multi lock of \<open>kube/multi.go\<close> is for: to its client it is one lock. The specification is a
  single election record; the multi lock refines it as long as its clusters agree, for clients that create
  only a lock they have not found and update only one they have.
\<close>

section \<open>The specification\<close>

datatype 'm lock_op =
    GetOp
  | CreateOp "'m LeaderElectionRecord_scheme"
  | UpdateOp "'m LeaderElectionRecord_scheme"

datatype lock_answer =
    Holder string
  | Missing
  | Success
  | Failure

text \<open>One record, which is missing or there.\<close>

fun spec_step ::
  "'m LeaderElectionRecord_scheme option \<Rightarrow> 'm lock_op \<Rightarrow>
   lock_answer \<times> 'm LeaderElectionRecord_scheme option" where
  "spec_step None GetOp = (Missing, None)"
| "spec_step (Some r) GetOp = (Holder (HolderIdentity r), Some r)"
| "spec_step None (CreateOp ler) = (Success, Some ler)"
| "spec_step (Some r) (CreateOp ler) = (Failure, Some r)"
| "spec_step None (UpdateOp ler) = (Failure, None)"
| "spec_step (Some r) (UpdateOp ler) = (Success, Some ler)"

text \<open>The order of calls that client-go's elector keeps to.\<close>

fun well_used :: "'m LeaderElectionRecord_scheme option \<Rightarrow> 'm lock_op list \<Rightarrow> bool" where
  "well_used a [] = True"
| "well_used a (GetOp # ops) = well_used a ops"
| "well_used a (CreateOp ler # ops) = (a = None \<and> well_used (Some ler) ops)"
| "well_used a (UpdateOp ler # ops) = (a \<noteq> None \<and> well_used (Some ler) ops)"

fun spec_run ::
  "'m LeaderElectionRecord_scheme option \<Rightarrow> 'm lock_op list \<Rightarrow>
   lock_answer list \<times> 'm LeaderElectionRecord_scheme option" where
  "spec_run a [] = ([], a)"
| "spec_run a (op # ops) =
     (let (x, a1) = spec_step a op; (xs, a2) = spec_run a1 ops in (x # xs, a2))"

section \<open>Running a lock\<close>

text \<open>The same operations on a lock of the program, with the answers as its client sees them.\<close>

definition effect_answer :: "'e go_error option \<Rightarrow> lock_answer" where
  "effect_answer x = (case x of None \<Rightarrow> Success | Some e \<Rightarrow> Failure)"

fun lock_step ::
  "('e, 'm) lock_env \<Rightarrow> ('w, 'e, 'm) resource_lock \<Rightarrow> 'm lock_op \<Rightarrow> 'w \<Rightarrow> lock_answer \<times> 'w" where
  "lock_step env l GetOp w =
     (case rl_Get l w of
        (Inl err, w1) \<Rightarrow> (if IsNotFound env err then Missing else Failure, w1)
      | (Inr (r, b), w1) \<Rightarrow> (Holder (HolderIdentity r), w1))"
| "lock_step env l (CreateOp ler) w =
     (case rl_Create l ler w of (x, w1) \<Rightarrow> (effect_answer x, w1))"
| "lock_step env l (UpdateOp ler) w =
     (case rl_Update l ler w of (x, w1) \<Rightarrow> (effect_answer x, w1))"

fun lock_run ::
  "('e, 'm) lock_env \<Rightarrow> ('w, 'e, 'm) resource_lock \<Rightarrow> 'm lock_op list \<Rightarrow> 'w \<Rightarrow> lock_answer list \<times> 'w" where
  "lock_run env l [] w = ([], w)"
| "lock_run env l (op # ops) w =
     (let (x, w1) = lock_step env l op w; (xs, w2) = lock_run env l ops w1 in (x # xs, w2))"

section \<open>The simulation\<close>

text \<open>The abstraction: all clusters store the same.\<close>

definition agree ::
  "('i \<Rightarrow> 'w \<Rightarrow> 'm LeaderElectionRecord_scheme option) \<Rightarrow> 'i list \<Rightarrow> 'w \<Rightarrow>
   'm LeaderElectionRecord_scheme option \<Rightarrow> bool" where
  "agree lease is w a \<longleftrightarrow> (\<forall>i \<in> set is. lease i w = a)"

lemma agree_Cons [simp]: "agree lease (i # is) w a \<longleftrightarrow> lease i w = a \<and> agree lease is w a"
  by (simp add: agree_def)

context reliable_leases
begin

lemma create_secondaries_free:
  "distinct ss \<Longrightarrow> agree lease ss w None \<Longrightarrow>
     \<exists>w'. create_secondaries env ler (map L ss) w = (None, w') \<and> agree lease ss w' (Some ler) \<and>
       (\<forall>j. j \<notin> set ss \<longrightarrow> lease j w' = lease j w)"
proof (induction ss arbitrary: w)
  case Nil
  then show ?case by (simp add: agree_def)
next
  case (Cons s ss)
  then have "lease s w = None" by simp
  from create_free [OF this] obtain w1 where made: "rl_Create (L s) ler w = (None, w1)" by blast
  have s: "s \<notin> set ss" and "distinct ss" using Cons.prems(1) by auto
  have "\<forall>i \<in> set ss. lease i w1 = lease i w" using s create_frame [OF made] by metis
  with Cons.prems(2) have "agree lease ss w1 None" by (simp add: agree_def)
  from Cons.IH [OF \<open>distinct ss\<close> this] obtain w' where
    w': "create_secondaries env ler (map L ss) w1 = (None, w')" "agree lease ss w' (Some ler)"
    and frame: "\<And>j. j \<notin> set ss \<Longrightarrow> lease j w' = lease j w1" by blast
  have "lease s w' = Some ler" using create_ok [OF made] frame [OF s] by simp
  moreover have "lease j w' = lease j w" if "j \<notin> set (s # ss)" for j
    using that frame [of j] create_frame [OF made, of j] by simp
  ultimately show ?case using made w' by (intro exI [of _ w']) simp
qed

lemma agreeD: "agree lease is w a \<Longrightarrow> i \<in> set is \<Longrightarrow> lease i w = a"
  by (simp add: agree_def)

lemma multi_Get_agreed:
  assumes "agree lease (p # ss) w (Some r)"
  shows "\<exists>q b. multi_Get env \<lparr>ml_primary = L p, ml_secondaries = map L ss\<rparr> w = (Inr (q, b), w) \<and>
    HolderIdentity q = HolderIdentity r"
proof -
  have p: "lease p w = Some r" and ss: "\<forall>i \<in> set ss. lease i w = Some r"
    using agreeD [OF assms] by simp_all
  then have "\<forall>i \<in> set ss. lease i w \<noteq> None" by simp
  from multi_Get_all_found [OF p this] ss show ?thesis by simp
qed

lemma multi_Create_free:
  assumes "distinct (p # ss)" and "agree lease (p # ss) w None"
  shows "\<exists>w'. multi_Create env \<lparr>ml_primary = L p, ml_secondaries = map L ss\<rparr> ler w = (None, w') \<and>
    agree lease (p # ss) w' (Some ler)"
  unfolding multi_Create_eq using create_secondaries_free [OF assms] by blast

lemma multi_Update_agreed:
  assumes "distinct (p # ss)" and "agree lease (p # ss) w (Some r)"
  shows "\<exists>w'. multi_Update env \<lparr>ml_primary = L p, ml_secondaries = map L ss\<rparr> ler w = (None, w') \<and>
    agree lease (p # ss) w' (Some ler)"
proof -
  have present: "\<forall>i \<in> set (p # ss). lease i w \<noteq> None"
    using agreeD [OF assms(2)] by simp
  from multi_Update_all_found [OF assms(1) this] obtain w' where
    up: "multi_Update env \<lparr>ml_primary = L p, ml_secondaries = map L ss\<rparr> ler w = (None, w')" by blast
  from present have "\<forall>i \<in> set ss. lease i w \<noteq> None" by simp
  from multi_Update_all [OF up assms(1) this] up show ?thesis unfolding agree_def by blast
qed

lemma multi_step_simulates:
  assumes "distinct (p # ss)" and "agree lease (p # ss) w a" and "well_used a [op]"
  shows "\<exists>w'. lock_step env (as_lock env \<lparr>ml_primary = L p, ml_secondaries = map L ss\<rparr>) op w =
      (fst (spec_step a op), w') \<and> agree lease (p # ss) w' (snd (spec_step a op))"
proof (cases op)
  case GetOp
  show ?thesis
  proof (cases a)
    case None
    with assms(2) have "lease p w = None" by simp
    from get_none [OF this] obtain e where e: "rl_Get (L p) w = (Inl e, w)" "IsNotFound env e" by blast
    have "rl_Get (as_lock env \<lparr>ml_primary = L p, ml_secondaries = map L ss\<rparr>) w = (Inl e, w)"
      by (simp add: as_lock_def multi_Get_def e)
    with None GetOp assms(2) e(2) show ?thesis by simp
  next
    case (Some r)
    from multi_Get_agreed [OF assms(2) [unfolded Some]] obtain q b where
      g: "rl_Get (as_lock env \<lparr>ml_primary = L p, ml_secondaries = map L ss\<rparr>) w = (Inr (q, b), w)"
      and "HolderIdentity q = HolderIdentity r" by (auto simp: as_lock_def)
    with Some GetOp assms(2) show ?thesis by simp
  qed
next
  case (CreateOp ler)
  with assms(3) have a: "a = None" by simp
  from multi_Create_free [OF assms(1) assms(2) [unfolded a], of ler] obtain w' where
    "rl_Create (as_lock env \<lparr>ml_primary = L p, ml_secondaries = map L ss\<rparr>) ler w = (None, w')"
    "agree lease (p # ss) w' (Some ler)" by (auto simp: as_lock_def)
  with CreateOp a show ?thesis by (simp add: effect_answer_def)
next
  case (UpdateOp ler)
  with assms(3) obtain r where a: "a = Some r" by auto
  from multi_Update_agreed [OF assms(1) assms(2) [unfolded a], of ler] obtain w' where
    "rl_Update (as_lock env \<lparr>ml_primary = L p, ml_secondaries = map L ss\<rparr>) ler w = (None, w')"
    "agree lease (p # ss) w' (Some ler)" by (auto simp: as_lock_def)
  with UpdateOp a show ?thesis by (simp add: effect_answer_def)
qed

lemma well_used_Cons:
  "well_used a (op # ops) \<longleftrightarrow> well_used a [op] \<and> well_used (snd (spec_step a op)) ops"
  by (cases op; cases a) auto

lemma multi_run_simulates:
  "distinct (p # ss) \<Longrightarrow> agree lease (p # ss) w a \<Longrightarrow> well_used a ops \<Longrightarrow>
     \<exists>w'. lock_run env (as_lock env \<lparr>ml_primary = L p, ml_secondaries = map L ss\<rparr>) ops w =
        (fst (spec_run a ops), w') \<and> agree lease (p # ss) w' (snd (spec_run a ops))"
proof (induction ops arbitrary: w a)
  case Nil
  then show ?case by simp
next
  case (Cons op ops)
  from Cons.prems(3) have use: "well_used a [op]" "well_used (snd (spec_step a op)) ops"
    using well_used_Cons by blast+
  from multi_step_simulates [OF Cons.prems(1,2) use(1)] obtain w1 where
    st: "lock_step env (as_lock env \<lparr>ml_primary = L p, ml_secondaries = map L ss\<rparr>) op w =
      (fst (spec_step a op), w1)" and ag: "agree lease (p # ss) w1 (snd (spec_step a op))" by blast
  from Cons.IH [OF Cons.prems(1) ag use(2)] st show ?case by (auto simp: Let_def split_def)
qed

end

section \<open>Properties\<close>



text \<open>The single lock is the multi lock without secondaries.\<close>

lemma as_lock_single:
  "rl_Get (as_lock env \<lparr>ml_primary = l, ml_secondaries = []\<rparr>) = rl_Get l"
  "rl_Update (as_lock env \<lparr>ml_primary = l, ml_secondaries = []\<rparr>) = rl_Update l"
  by (auto simp: as_lock_def multi_Get_def multi_Update_def fun_eq_iff split: prod.splits sum.splits option.splits)

end
