(* ===== verification/Bootstrap_Certificates.thy ===== *)
theory Bootstrap_Certificates
  imports Bootstrap_Kubeconfig Go_Url
begin

text \<open>
  Certificate authorities (\<open>multicluster/bootstrap/certificates.go\<close>): generating and loading a CA, signing node
  certificates, intermediate CAs, and the secret that carries them.

  What the code uses of \<open>crypto/x509\<close> and \<open>encoding/pem\<close> is symbolic. A key is a number, with the same number
  as its public half; a DER text is the certificate or key it encodes; and a PEM text is a block or something
  that is none. The validity of a certificate has a resolution of one second (\<open>trunc_second\<close>).
  Clock readings, fresh keys and serial numbers are arguments of the operations.
\<close>

section \<open>Certificates\<close>

datatype key_usage = DigitalSignature | KeyEncipherment | CertSign | CRLSign
datatype ext_key_usage = ServerAuth | ClientAuth

record x509_Certificate =
  xc_SerialNumber :: int
  xc_CommonName :: string
  xc_Organization :: "string list"
  xc_IssuerCommonName :: string
  xc_IssuerOrganization :: "string list"
  xc_NotBefore :: time
  xc_NotAfter :: time
  xc_KeyUsage :: "key_usage list"
  xc_ExtKeyUsage :: "ext_key_usage list"
  xc_BasicConstraintsValid :: bool
  xc_IsCA :: bool
  xc_MaxPathLen :: int
  xc_DNSNames :: "string list"
  xc_IPAddresses :: "string list"
  xc_PublicKey :: "nat option"
  xc_Signer :: "nat option"

text \<open>A template has the zero values of all fields it does not mention.\<close>

definition zero_template :: x509_Certificate where
  "zero_template = \<lparr>xc_SerialNumber = 0, xc_CommonName = '''', xc_Organization = [],
     xc_IssuerCommonName = '''', xc_IssuerOrganization = [], xc_NotBefore = 0, xc_NotAfter = 0,
     xc_KeyUsage = [], xc_ExtKeyUsage = [], xc_BasicConstraintsValid = False, xc_IsCA = False,
     xc_MaxPathLen = 0, xc_DNSNames = [], xc_IPAddresses = [], xc_PublicKey = None, xc_Signer = None\<rparr>"

datatype der = CertDER x509_Certificate | KeyDER nat

datatype pem = PEM string der | NoPEM string

fun pem_Decode :: "pem \<Rightarrow> (string \<times> der) option" where
  "pem_Decode (PEM typ d) = Some (typ, d)"
| "pem_Decode (NoPEM txt) = None"

definition trunc_second :: "time \<Rightarrow> time" where
  "trunc_second t = t - t mod second"

text \<open>
  \<open>x509.CreateCertificate\<close>: the checks that apply here, and the certificate that parsing its result gives. The
  zero path length of a template means that there is no limit, which a parsed certificate shows as \<open>-1\<close>.
  Common names and organizations are taken to be UTF-8; a host name has to be ASCII.
\<close>

definition isIA5String :: "string \<Rightarrow> bool" where
  "isIA5String s \<longleftrightarrow> list_all (\<lambda>c. of_char c < (128 :: nat)) s"

definition CreateCertificate ::
  "x509_Certificate \<Rightarrow> x509_Certificate \<Rightarrow> nat \<Rightarrow> nat \<Rightarrow> 'e go_error + der" where
  "CreateCertificate template parent pub priv =
     (if xc_SerialNumber template < 0 then Inl (New ''x509: serial number must be positive'' [])
      else if xc_BasicConstraintsValid template \<and> \<not> xc_IsCA template \<and>
              xc_MaxPathLen template \<noteq> -1 \<and> xc_MaxPathLen template \<noteq> 0
      then Inl (New ''x509: only CAs are allowed to specify MaxPathLen'' [])
      else if xc_PublicKey parent \<noteq> None \<and> xc_PublicKey parent \<noteq> Some priv
      then Inl (New ''x509: provided PrivateKey doesn't match parent's PublicKey'' [])
      else if \<not> list_all isIA5String (xc_DNSNames template)
      then Inl (New ''x509: a name cannot be encoded as an IA5String'' [])
      else Inr (CertDER (template
        \<lparr>xc_IssuerCommonName := xc_CommonName parent, xc_IssuerOrganization := xc_Organization parent,
         xc_NotBefore := trunc_second (xc_NotBefore template),
         xc_NotAfter := trunc_second (xc_NotAfter template),
         xc_MaxPathLen := (if xc_MaxPathLen template = 0 then -1 else xc_MaxPathLen template),
         xc_PublicKey := Some pub, xc_Signer := Some priv\<rparr>)))"

fun ParseCertificate :: "der \<Rightarrow> 'e go_error + x509_Certificate" where
  "ParseCertificate (CertDER c) = Inr c"
| "ParseCertificate (KeyDER k) = Inl (New ''x509: malformed certificate'' [])"

fun ParseECPrivateKey :: "der \<Rightarrow> 'e go_error + nat" where
  "ParseECPrivateKey (KeyDER k) = Inr k"
| "ParseECPrivateKey (CertDER c) = Inl (New ''x509: failed to parse EC private key'' [])"

definition MarshalECPrivateKey :: "nat \<Rightarrow> 'e go_error + der" where
  "MarshalECPrivateKey k = Inr (KeyDER k)"

section \<open>IP addresses\<close>

text \<open>\<open>net.ParseIP\<close>, of which the code only asks whether it succeeds.\<close>

fun split_on :: "char \<Rightarrow> string \<Rightarrow> string list" where
  "split_on sep [] = [[]]"
| "split_on sep (c # cs) =
     (if c = sep then [] # split_on sep cs
      else (case split_on sep cs of [] \<Rightarrow> [[c]] | f # fs \<Rightarrow> (c # f) # fs))"

definition decimal :: "string \<Rightarrow> nat" where
  "decimal s = foldl (\<lambda>n c. n * 10 + (of_char c - 48)) 0 s"

definition ipv4_field :: "string \<Rightarrow> bool" where
  "ipv4_field f \<longleftrightarrow> f \<noteq> [] \<and> length f \<le> 3 \<and> list_all is_digit f \<and>
     (length f = 1 \<or> hd f \<noteq> CHR ''0'') \<and> decimal f \<le> 255"

definition is_IPv4 :: "string \<Rightarrow> bool" where
  "is_IPv4 s \<longleftrightarrow> (let fs = split_on CHR ''.'' s in length fs = 4 \<and> list_all ipv4_field fs)"

definition ipv6_group :: "string \<Rightarrow> bool" where
  "ipv6_group g \<longleftrightarrow> g \<noteq> [] \<and> length g \<le> 4 \<and> list_all is_hex g"

fun cut_ellipsis :: "string \<Rightarrow> (string \<times> string) option" where
  "cut_ellipsis (a # b # s) =
     (if a = CHR '':'' \<and> b = CHR '':'' then Some ([], s)
      else map_option (\<lambda>(l, r). (a # l, r)) (cut_ellipsis (b # s)))"
| "cut_ellipsis _ = None"

text \<open>How many groups a list of fields is; the last one may be an IPv4 address, which counts for two.\<close>

fun ipv6_width :: "string list \<Rightarrow> nat option" where
  "ipv6_width [] = Some 0"
| "ipv6_width [g] = (if ipv6_group g then Some 1 else if is_IPv4 g then Some 2 else None)"
| "ipv6_width (g # gs) = (if ipv6_group g then map_option Suc (ipv6_width gs) else None)"

definition is_IPv6 :: "string \<Rightarrow> bool" where
  "is_IPv6 s \<longleftrightarrow>
     (case cut_ellipsis s of
        None \<Rightarrow> ipv6_width (split_on CHR '':'' s) = Some 8
      | Some (l, r) \<Rightarrow>
          (l = [] \<or> list_all ipv6_group (split_on CHR '':'' l)) \<and>
          (case (if r = [] then Some 0 else ipv6_width (split_on CHR '':'' r)) of
             None \<Rightarrow> False
           | Some n \<Rightarrow> (if l = [] then 0 else length (split_on CHR '':'' l)) + n \<le> 7))"

definition ParseIP :: "string \<Rightarrow> bool" where
  "ParseIP s \<longleftrightarrow> is_IPv4 s \<or> is_IPv6 s"

section \<open>Authorities\<close>

definition notBeforeGracePeriod :: duration where "notBeforeGracePeriod = 1 * hour"
definition defaultCAExpiration :: duration where "defaultCAExpiration = 10 * 365 * 24 * hour"
definition defaultIntermediateCAExpiration :: duration where
  "defaultIntermediateCAExpiration = 5 * 365 * 24 * hour"
definition defaultCertificateExpiration :: duration where "defaultCertificateExpiration = 365 * 24 * hour"

lemmas ca_default_defs =
  notBeforeGracePeriod_def defaultCAExpiration_def defaultIntermediateCAExpiration_def
  defaultCertificateExpiration_def

record CACertificate =
  ca_organization :: string
  ca_gracePeriod :: duration
  ca_certificateExpiration :: duration
  ca_intermediateCAExpiration :: duration
  ca_cert :: x509_Certificate
  ca_pk :: nat
  ca_pem :: pem
  ca_privateKeyPEM :: pem

record Certificate =
  ct_privateKey :: pem
  ct_certificate :: pem

record CAConfiguration =
  cc_NotBeforeGracePeriod :: duration
  cc_CALifetime :: duration
  cc_IntermediateCALifetime :: duration
  cc_CertificateLifetime :: duration

definition ca_Bytes :: "CACertificate \<Rightarrow> pem" where "ca_Bytes c = ca_pem c"
definition ca_PrivateKeyBytes :: "CACertificate \<Rightarrow> pem" where "ca_PrivateKeyBytes c = ca_privateKeyPEM c"
definition certificate_Bytes :: "Certificate \<Rightarrow> pem" where "certificate_Bytes c = ct_certificate c"
definition certificate_PrivateKeyBytes :: "Certificate \<Rightarrow> pem" where
  "certificate_PrivateKeyBytes c = ct_privateKey c"

definition ca_defaults :: "CAConfiguration option \<Rightarrow> CAConfiguration" where
  "ca_defaults configuration =
     (let c0 = (case configuration of
                  None \<Rightarrow> \<lparr>cc_NotBeforeGracePeriod = 0, cc_CALifetime = 0,
                     cc_IntermediateCALifetime = 0, cc_CertificateLifetime = 0\<rparr>
                | Some c \<Rightarrow> c);
          c1 = (if cc_CALifetime c0 = 0 then c0\<lparr>cc_CALifetime := defaultCAExpiration\<rparr> else c0);
          c2 = (if cc_IntermediateCALifetime c1 = 0
                then c1\<lparr>cc_IntermediateCALifetime := defaultIntermediateCAExpiration\<rparr> else c1);
          c3 = (if cc_CertificateLifetime c2 = 0
                then c2\<lparr>cc_CertificateLifetime := defaultCertificateExpiration\<rparr> else c2)
      in if cc_NotBeforeGracePeriod c3 = 0
         then c3\<lparr>cc_NotBeforeGracePeriod := notBeforeGracePeriod\<rparr> else c3)"

text \<open>The two checks that \<open>Sign\<close> and \<open>Intermediate\<close> begin with.\<close>

definition validity_error :: "CACertificate \<Rightarrow> time \<Rightarrow> time \<Rightarrow> 'e go_error option" where
  "validity_error c notBefore notAfter =
     (if xc_NotBefore (ca_cert c) > notBefore then
        Some (New ''CA is not valid prior to the certificate not before time, cannot issue a new certificate'' [])
      else if xc_NotAfter (ca_cert c) < notAfter then
        Some (New ''CA expires before certificate expiration time, cannot issue a new certificate'' [])
      else None)"

definition Sign ::
  "CACertificate \<Rightarrow> time \<Rightarrow> 'e go_error + nat \<Rightarrow> 'e go_error + int \<Rightarrow> string list \<Rightarrow>
   'e go_error + Certificate" where
  "Sign c now genKey genSerial names =
     (if length names = 0 then Inl (New ''must specify at least one name'' [])
      else
        (let notBefore = now - ca_gracePeriod c; notAfter = now + ca_certificateExpiration c
         in case validity_error c notBefore notAfter of
              Some err \<Rightarrow> Inl err
            | None \<Rightarrow>
              (case genKey of
                 Inl err \<Rightarrow> Inl (Wrap ''generating key'' [] err)
               | Inr priv \<Rightarrow>
                 (let ips = filter ParseIP names; dns = filter (\<lambda>name. \<not> ParseIP name) names
                  in case genSerial of
                    Inl err \<Rightarrow> Inl (Wrap ''generating serial number'' [] err)
                  | Inr serialNumber \<Rightarrow>
                    (let tmpl = zero_template
                          \<lparr>xc_SerialNumber := serialNumber, xc_CommonName := names ! 0,
                           xc_Organization := [ca_organization c],
                           xc_NotBefore := notBefore, xc_NotAfter := notAfter,
                           xc_KeyUsage := [DigitalSignature, KeyEncipherment],
                           xc_ExtKeyUsage := [ServerAuth, ClientAuth],
                           xc_BasicConstraintsValid := True, xc_DNSNames := dns, xc_IPAddresses := ips\<rparr>
                     in case CreateCertificate tmpl (ca_cert c) priv (ca_pk c) of
                       Inl err \<Rightarrow> Inl (Wrap ''creating certificate:'' [] err)
                     | Inr derBytes \<Rightarrow>
                       (case MarshalECPrivateKey priv of
                          Inl err \<Rightarrow> Inl (Wrap ''marshaling certificate:'' [] err)
                        | Inr keyBytes \<Rightarrow>
                            Inr \<lparr>ct_privateKey = PEM ''EC PRIVATE KEY'' keyBytes,
                              ct_certificate = PEM ''CERTIFICATE'' derBytes\<rparr>))))))"

text \<open>
  \<open>Intermediate\<close> reads the clock three times: for the checks, and twice for the certificate itself, which is
  valid for a year whatever was checked. The grace period of the result is not set.
\<close>

definition Intermediate ::
  "CACertificate \<Rightarrow> string \<Rightarrow> time \<Rightarrow> time \<Rightarrow> time \<Rightarrow> 'e go_error + nat \<Rightarrow> 'e go_error + int \<Rightarrow>
   'e go_error + CACertificate" where
  "Intermediate c name now now2 now3 genKey genSerial =
     (let notBefore = now - ca_gracePeriod c; notAfter = now + ca_intermediateCAExpiration c
      in case validity_error c notBefore notAfter of
           Some err \<Rightarrow> Inl err
         | None \<Rightarrow>
           (case genKey of
              Inl err \<Rightarrow> Inl (Wrap ''generating key'' [] err)
            | Inr priv \<Rightarrow>
              (case genSerial of
                 Inl err \<Rightarrow> Inl (Wrap ''generating serial number'' [] err)
               | Inr serialNumber \<Rightarrow>
                 (let tmpl = zero_template
                       \<lparr>xc_SerialNumber := serialNumber, xc_CommonName := name,
                        xc_Organization := [ca_organization c],
                        xc_NotBefore := now2, xc_NotAfter := now3 + 365 * 24 * hour,
                        xc_KeyUsage := [CertSign, CRLSign],
                        xc_BasicConstraintsValid := True, xc_IsCA := True\<rparr>
                  in case CreateCertificate tmpl (ca_cert c) priv (ca_pk c) of
                    Inl err \<Rightarrow> Inl (Wrap ''creating certificate:'' [] err)
                  | Inr derBytes \<Rightarrow>
                    (case MarshalECPrivateKey priv of
                       Inl err \<Rightarrow> Inl (Wrap ''marshaling certificate:'' [] err)
                     | Inr keyBytes \<Rightarrow>
                       (case ParseCertificate derBytes of
                          Inl err \<Rightarrow> Inl (Wrap ''parsing certificate:'' [] err)
                        | Inr cert \<Rightarrow>
                            Inr \<lparr>ca_organization = ca_organization c, ca_gracePeriod = 0,
                              ca_certificateExpiration = ca_certificateExpiration c,
                              ca_intermediateCAExpiration = ca_intermediateCAExpiration c,
                              ca_cert = cert, ca_pk = priv,
                              ca_pem = PEM ''CERTIFICATE'' derBytes,
                              ca_privateKeyPEM = PEM ''EC PRIVATE KEY'' keyBytes\<rparr>))))))"

definition GenerateCA ::
  "string \<Rightarrow> string \<Rightarrow> CAConfiguration option \<Rightarrow> time \<Rightarrow> 'e go_error + nat \<Rightarrow> 'e go_error + int \<Rightarrow>
   'e go_error + CACertificate" where
  "GenerateCA organization name configuration now genKey genSerial =
     (let cfg = ca_defaults configuration
      in case genKey of
           Inl err \<Rightarrow> Inl (Wrap ''generating key'' [] err)
         | Inr caKey \<Rightarrow>
           (let notBefore = now - cc_NotBeforeGracePeriod cfg; notAfter = now + cc_CALifetime cfg
            in case genSerial of
                 Inl err \<Rightarrow> Inl (Wrap ''generating serial number'' [] err)
               | Inr serialNumber \<Rightarrow>
                 (let caTemplate = zero_template
                       \<lparr>xc_SerialNumber := serialNumber, xc_CommonName := name,
                        xc_Organization := [organization],
                        xc_NotBefore := notBefore, xc_NotAfter := notAfter,
                        xc_KeyUsage := [CertSign, CRLSign],
                        xc_BasicConstraintsValid := True, xc_IsCA := True, xc_MaxPathLen := 1\<rparr>
                  in case CreateCertificate caTemplate caTemplate caKey caKey of
                    Inl err \<Rightarrow> Inl (Wrap ''creating certificate:'' [] err)
                  | Inr derBytes \<Rightarrow>
                    (case MarshalECPrivateKey caKey of
                       Inl err \<Rightarrow> Inl (Wrap ''marshaling certificate:'' [] err)
                     | Inr keyBytes \<Rightarrow>
                       (case ParseCertificate derBytes of
                          Inl err \<Rightarrow> Inl (Wrap ''parsing certificate:'' [] err)
                        | Inr cert \<Rightarrow>
                            Inr \<lparr>ca_organization = organization,
                              ca_gracePeriod = cc_NotBeforeGracePeriod cfg,
                              ca_certificateExpiration = cc_CertificateLifetime cfg,
                              ca_intermediateCAExpiration = cc_IntermediateCALifetime cfg,
                              ca_cert = cert, ca_pk = caKey,
                              ca_pem = PEM ''CERTIFICATE'' derBytes,
                              ca_privateKeyPEM = PEM ''EC PRIVATE KEY'' keyBytes\<rparr>)))))"

definition LoadCA ::
  "pem \<Rightarrow> pem \<Rightarrow> CAConfiguration option \<Rightarrow> 'e go_error + CACertificate" where
  "LoadCA certPEM keyPEM configuration =
     (let cfg = ca_defaults configuration
      in case pem_Decode certPEM of
           None \<Rightarrow> Inl (New ''invalid cert PEM block'' [])
         | Some (_, certBytes) \<Rightarrow>
           (case pem_Decode keyPEM of
              None \<Rightarrow> Inl (New ''invalid key PEM block'' [])
            | Some (_, keyBytes) \<Rightarrow>
              (case ParseCertificate certBytes of
                 Inl err \<Rightarrow> Inl (Wrap ''parsing certificate'' [] err)
               | Inr cert \<Rightarrow>
                 (case ParseECPrivateKey keyBytes of
                    Inl err \<Rightarrow> Inl (Wrap ''parsing private key'' [] err)
                  | Inr pk \<Rightarrow>
                    (if length (xc_IssuerOrganization cert) = 0
                     then Inl (New ''no organzation found in certificate'' [])
                     else Inr \<lparr>ca_organization = xc_IssuerOrganization cert ! 0,
                            ca_gracePeriod = cc_NotBeforeGracePeriod cfg,
                            ca_certificateExpiration = cc_CertificateLifetime cfg,
                            ca_intermediateCAExpiration = cc_IntermediateCALifetime cfg,
                            ca_cert = cert, ca_pk = pk, ca_pem = certPEM, ca_privateKeyPEM = keyPEM\<rparr>)))))"

section \<open>The secret\<close>

text \<open>\<open>render\<close> is the text of a PEM block.\<close>

definition tls_data :: "(pem \<Rightarrow> bytes) \<Rightarrow> CACertificate \<Rightarrow> Certificate \<Rightarrow> secret_data" where
  "tls_data render ca certificate =
     [(''ca.crt'', render (ca_Bytes ca)), (''tls.crt'', render (certificate_Bytes certificate)),
      (''tls.key'', render (certificate_PrivateKeyBytes certificate))]"

definition CreateTLSSecret ::
  "('w, 'e, 'rest, 'cl) kube_api \<Rightarrow> (pem \<Rightarrow> bytes) \<Rightarrow> CACertificate \<Rightarrow> Certificate \<Rightarrow>
   'rest RemoteKubernetesConfiguration option \<Rightarrow> ('w, 'e) effect" where
  "CreateTLSSecret api render ca certificate configuration w =
     (case complete_remote api configuration of
        Inl err \<Rightarrow> (Some err, w)
      | Inr (c, rest) \<Rightarrow>
          (case client_for_remote api c rest w of
             (Inl err, w1) \<Rightarrow> (Some err, w1)
           | (Inr cl, w1) \<Rightarrow>
               (let secret = Secret (rk_Namespace c) (rk_Name c @ ''-certificates'')
                      (tls_data render ca certificate)
                in case ka_CreateOrUpdate api cl secret (set_data (tls_data render ca certificate)) w1 of
                     (Some err, w2) \<Rightarrow> (Some (Fmt ''creating tls file'' err), w2)
                   | (None, w2) \<Rightarrow> (None, w2))))"

section \<open>Lemmas\<close>

lemma trunc_second_le: "trunc_second t \<le> t"
  by (simp add: trunc_second_def)

lemma trunc_second_mono: "s \<le> t \<Longrightarrow> trunc_second s \<le> trunc_second t"
proof -
  assume "s \<le> t"
  then have "s div second * second \<le> t div second * second"
    by (intro mult_right_mono zdiv_mono1) simp_all
  then show ?thesis by (simp add: trunc_second_def minus_mod_eq_div_mult)
qed

lemma trunc_second_idem [simp]: "trunc_second (trunc_second t) = trunc_second t"
  by (simp add: trunc_second_def minus_mod_eq_div_mult)

lemma GenerateCA_Inr:
  assumes "GenerateCA organization name configuration now (Inr k) (Inr s) = Inr c"
  shows "ca_pk c = k \<and> xc_PublicKey (ca_cert c) = Some k \<and>
    xc_NotBefore (ca_cert c) = trunc_second (now - cc_NotBeforeGracePeriod (ca_defaults configuration)) \<and>
    xc_NotAfter (ca_cert c) = trunc_second (now + cc_CALifetime (ca_defaults configuration)) \<and>
    ca_gracePeriod c = cc_NotBeforeGracePeriod (ca_defaults configuration) \<and>
    ca_certificateExpiration c = cc_CertificateLifetime (ca_defaults configuration)"
  using assms
  by (auto simp: GenerateCA_def CreateCertificate_def MarshalECPrivateKey_def Let_def zero_template_def
      split: if_splits)

text \<open>With its own key and working entropy, signing depends on the two checks only.\<close>

lemma Sign_iff:
  assumes "xc_PublicKey (ca_cert c) = Some (ca_pk c)" and "names \<noteq> []" and "0 \<le> s"
    and "list_all isIA5String names"
  shows "(\<exists>cert. (Sign c now (Inr k) (Inr s) names :: 'e go_error + Certificate) = Inr cert) \<longleftrightarrow>
    xc_NotBefore (ca_cert c) \<le> now - ca_gracePeriod c \<and>
    now + ca_certificateExpiration c \<le> xc_NotAfter (ca_cert c)"
  using assms
  by (auto simp: Sign_def validity_error_def CreateCertificate_def MarshalECPrivateKey_def Let_def
      zero_template_def list_all_iff)

section \<open>Properties\<close>

text \<open>
  C31: how long a generated CA can sign. From its creation on, \<open>Sign\<close> succeeds (for names in ASCII) exactly as long as the new
  certificate would expire within the lifetime of the CA (rounded down to a second): with the defaults, for
  nine years.
\<close>

theorem ca_signs_until:
  assumes "GenerateCA organization name configuration now (Inr k) (Inr s) = Inr c"
    and "now \<le> now'" and "names \<noteq> []" and "0 \<le> s'" and "list_all isIA5String names"
  shows "(\<exists>cert. (Sign c now' (Inr k') (Inr s') names :: 'e go_error + Certificate) = Inr cert) \<longleftrightarrow>
    now' + cc_CertificateLifetime (ca_defaults configuration) \<le>
      trunc_second (now + cc_CALifetime (ca_defaults configuration))"
proof -
  from GenerateCA_Inr [OF assms(1)] have ca: "xc_PublicKey (ca_cert c) = Some (ca_pk c)"
    "xc_NotBefore (ca_cert c) = trunc_second (now - ca_gracePeriod c)"
    "xc_NotAfter (ca_cert c) = trunc_second (now + cc_CALifetime (ca_defaults configuration))"
    "ca_certificateExpiration c = cc_CertificateLifetime (ca_defaults configuration)" by simp_all
  have "xc_NotBefore (ca_cert c) \<le> now' - ca_gracePeriod c"
    using trunc_second_le [of "now - ca_gracePeriod c"] ca(2) assms(2) by simp
  with Sign_iff [OF ca(1) assms(3-5), where 'e = 'e and now = now' and k = k'] ca(3,4) show ?thesis by simp
qed

text \<open>
  C18: a signed certificate fits its CA. It certifies the key it is returned with, is signed with the key of the
  CA, is no CA itself, serves both sides of a connection, is valid only while the CA is, and contains every
  requested name, as an address if it is one and as a host name otherwise.
\<close>

theorem signed_within_ca:
  assumes "Sign c now (Inr k) (Inr s) names = Inr cert"
    and "trunc_second (xc_NotBefore (ca_cert c)) = xc_NotBefore (ca_cert c)"
  shows "\<exists>x. ct_certificate cert = PEM ''CERTIFICATE'' (CertDER x) \<and>
    ct_privateKey cert = PEM ''EC PRIVATE KEY'' (KeyDER k) \<and>
    xc_PublicKey x = Some k \<and> xc_Signer x = Some (ca_pk c) \<and> \<not> xc_IsCA x \<and>
    xc_ExtKeyUsage x = [ServerAuth, ClientAuth] \<and>
    xc_NotBefore (ca_cert c) \<le> xc_NotBefore x \<and> xc_NotAfter x \<le> xc_NotAfter (ca_cert c) \<and>
    xc_IPAddresses x = filter ParseIP names \<and> mset (xc_IPAddresses x) + mset (xc_DNSNames x) = mset names"
proof -
  from assms(1) have nb: "xc_NotBefore (ca_cert c) \<le> now - ca_gracePeriod c"
    and na: "now + ca_certificateExpiration c \<le> xc_NotAfter (ca_cert c)"
    by (auto simp: Sign_def validity_error_def Let_def split: if_splits)
  from trunc_second_mono [OF nb] assms(2)
  have "xc_NotBefore (ca_cert c) \<le> trunc_second (now - ca_gracePeriod c)" by simp
  moreover have "trunc_second (now + ca_certificateExpiration c) \<le> xc_NotAfter (ca_cert c)"
    using trunc_second_le na by (rule order_trans)
  moreover have "mset (filter ParseIP names) + mset (filter (\<lambda>name. \<not> ParseIP name) names) = mset names"
    by (induction names) auto
  ultimately show ?thesis
    using assms(1)
    by (auto simp: Sign_def CreateCertificate_def MarshalECPrivateKey_def Let_def zero_template_def
        split: if_splits option.splits)
qed

text \<open>
  An intermediate CA cannot sign. When its certificates are to be valid for a year or more, as they are by
  default, every attempt later than its creation fails: its own certificate is valid for a year from
  its creation, whatever the configured lifetime of intermediates.
\<close>

theorem intermediate_never_signs:
  assumes "Intermediate c name now now2 now3 (Inr k) (Inr s) = Inr i"
    and "365 * 24 * hour \<le> ca_certificateExpiration c" and "now3 < now'"
  shows "\<exists>err. (Sign i now' genKey genSerial names :: 'e go_error + Certificate) = Inl err"
proof -
  from assms(1) have "ca_certificateExpiration i = ca_certificateExpiration c"
    and "xc_NotAfter (ca_cert i) = trunc_second (now3 + 365 * 24 * hour)"
    by (auto simp: Intermediate_def CreateCertificate_def MarshalECPrivateKey_def Let_def zero_template_def
        split: if_splits option.splits)
  with trunc_second_le [of "now3 + 365 * 24 * hour"] assms(2,3)
  have "xc_NotAfter (ca_cert i) < now' + ca_certificateExpiration i" by linarith
  then show ?thesis
    by (auto simp: Sign_def validity_error_def Let_def)
qed

text \<open>
  C34: round trip. Loading the two PEM texts of a generated CA with the same configuration gives the CA back.
\<close>

theorem load_generated_ca:
  assumes "GenerateCA organization name configuration now (Inr k) (Inr s) = Inr c"
  shows "LoadCA (ca_Bytes c) (ca_PrivateKeyBytes c) configuration = Inr c"
  using assms
  by (auto simp: GenerateCA_def LoadCA_def ca_Bytes_def ca_PrivateKeyBytes_def CreateCertificate_def
      MarshalECPrivateKey_def Let_def zero_template_def split: if_splits)

text \<open>
  \<open>LoadCA\<close> does not compare the key with the certificate. A CA loaded with a key that is not its own loads
  without an error, and then fails every time it is asked to sign.
\<close>

theorem loaded_with_wrong_key:
  assumes "LoadCA (PEM t1 (CertDER x)) (PEM t2 (KeyDER k)) configuration = Inr c"
    and "xc_PublicKey x = Some k0" and "k0 \<noteq> k"
  shows "\<exists>err. (Sign c now genKey genSerial names :: 'e go_error + Certificate) = Inl err"
proof -
  from assms have "xc_PublicKey (ca_cert c) = Some k0 \<and> ca_pk c = k"
    by (auto simp: LoadCA_def Let_def split: if_splits)
  with assms(3) show ?thesis
    by (auto simp: Sign_def CreateCertificate_def Let_def split: option.splits sum.splits)
qed

text \<open>A CA with the default lifetimes and an intermediate of it, made at time zero of the clock.\<close>

definition example_ca :: CACertificate where
  "example_ca = (case GenerateCA ''org'' ''Root CA'' None 0 (Inr 1) (Inr 7 :: string go_error + int) of Inr c \<Rightarrow> c)"

lemma example_ca: "GenerateCA ''org'' ''Root CA'' None 0 (Inr 1) (Inr 7 :: string go_error + int) = Inr example_ca"
  by (simp add: example_ca_def GenerateCA_def CreateCertificate_def MarshalECPrivateKey_def Let_def
      zero_template_def)

theorem ca_signs_until_witness:
  "(\<exists>cert. (Sign example_ca (9 * 365 * 24 * hour) (Inr 2) (Inr 8) [''n''] :: string go_error + Certificate) = Inr cert) \<and>
   \<not> (\<exists>cert. (Sign example_ca (9 * 365 * 24 * hour + 1) (Inr 2) (Inr 8) [''n''] :: string go_error + Certificate) = Inr cert)"
  using ca_signs_until [OF example_ca, of "9 * 365 * 24 * hour" "[''n'']" 8 2, where 'e = string]
    ca_signs_until [OF example_ca, of "9 * 365 * 24 * hour + 1" "[''n'']" 8 2, where 'e = string]
  by (simp add: ca_defaults_def ca_default_defs trunc_second_def isIA5String_def)

lemma example_sign:
  "\<exists>cert. (Sign example_ca 0 (Inr 2) (Inr 8) [''n1'', ''10.0.0.1''] :: string go_error + Certificate) = Inr cert"
  using GenerateCA_Inr [OF example_ca] Sign_iff [of example_ca "[''n1'', ''10.0.0.1'']" 8 0 2, where 'e = string]
  by (simp add: ca_defaults_def ca_default_defs trunc_second_def isIA5String_def)

theorem signed_within_ca_witness:
  "\<exists>cert x. (Sign example_ca 0 (Inr 2) (Inr 8) [''n1'', ''10.0.0.1''] :: string go_error + Certificate) = Inr cert \<and>
     ct_certificate cert = PEM ''CERTIFICATE'' (CertDER x) \<and> xc_PublicKey x = Some 2 \<and>
     xc_IPAddresses x = filter ParseIP [''n1'', ''10.0.0.1'']"
proof -
  obtain cert where cert: "(Sign example_ca 0 (Inr 2) (Inr 8) [''n1'', ''10.0.0.1''] :: string go_error + Certificate) = Inr cert"
    using example_sign by blast
  have "trunc_second (xc_NotBefore (ca_cert example_ca)) = xc_NotBefore (ca_cert example_ca)"
    using GenerateCA_Inr [OF example_ca] by simp
  from signed_within_ca [OF cert this] cert show ?thesis by blast
qed

theorem intermediate_never_signs_witness:
  "\<exists>i err. (Intermediate example_ca ''sub'' 0 1 2 (Inr 3) (Inr 9) :: string go_error + CACertificate) = Inr i \<and>
     (Sign i 3 (Inr 4) (Inr 5) [''n''] :: string go_error + Certificate) = Inl err"
proof -
  obtain i where i: "(Intermediate example_ca ''sub'' 0 1 2 (Inr 3) (Inr 9) :: string go_error + CACertificate) = Inr i"
    by (simp add: example_ca_def GenerateCA_def Intermediate_def CreateCertificate_def MarshalECPrivateKey_def
        Let_def zero_template_def validity_error_def ca_defaults_def ca_default_defs trunc_second_def)
  have "365 * 24 * hour \<le> ca_certificateExpiration example_ca"
    using GenerateCA_Inr [OF example_ca] by (simp add: ca_defaults_def ca_default_defs)
  from intermediate_never_signs [OF i this, of 3 "Inr 4 :: string go_error + nat" "Inr 5" "[''n'']"] i
  show ?thesis by auto
qed

theorem load_generated_ca_witness:
  "(LoadCA (ca_Bytes example_ca) (ca_PrivateKeyBytes example_ca) None :: string go_error + CACertificate) = Inr example_ca"
  by (rule load_generated_ca [OF example_ca])

theorem loaded_with_wrong_key_witness:
  "\<exists>c err. (LoadCA (PEM ''CERTIFICATE'' (CertDER (ca_cert example_ca))) (PEM ''EC PRIVATE KEY'' (KeyDER 5)) None
       :: string go_error + CACertificate) = Inr c \<and>
     (Sign c 0 (Inr 2) (Inr 8) [''n''] :: string go_error + Certificate) = Inl err"
proof -
  have "xc_PublicKey (ca_cert example_ca) = Some 1" using GenerateCA_Inr [OF example_ca] by simp
  moreover obtain c where c: "(LoadCA (PEM ''CERTIFICATE'' (CertDER (ca_cert example_ca)))
      (PEM ''EC PRIVATE KEY'' (KeyDER 5)) None :: string go_error + CACertificate) = Inr c"
    by (simp add: LoadCA_def Let_def example_ca_def GenerateCA_def CreateCertificate_def
        MarshalECPrivateKey_def zero_template_def)
  ultimately show ?thesis
    using loaded_with_wrong_key [OF c, of 1 0 "Inr 2 :: string go_error + nat" "Inr 8" "[''n'']"] c by auto
qed

end
