(* ===== verification/Bootstrap_Cluster.thy ===== *)
theory Bootstrap_Cluster
  imports Bootstrap_Certificates
begin

text \<open>
  Bootstrapping a set of clusters (\<open>multicluster/bootstrap/bootstraper.go\<close>) and the flags that describe them
  (\<open>multicluster/bootstrap/flags.go\<close>).
\<close>

section \<open>Remote clusters\<close>

record RemoteConfiguration =
  rm_ContextName :: string
  rm_APIServer :: string
  rm_ServiceAddress :: string

record BootstrapClusterConfiguration =
  bc_BootstrapTLS :: bool
  bc_BootstrapKubeconfigs :: bool
  bc_EnsureNamespace :: bool
  bc_OperatorNamespace :: string
  bc_ServiceName :: string
  bc_RemoteClusters :: "RemoteConfiguration list"

definition remote_Config :: "('w, 'e, 'rest, 'cl) kube_api \<Rightarrow> RemoteConfiguration \<Rightarrow> 'e go_error + 'rest" where
  "remote_Config api r = ka_configFromContext api (rm_ContextName r)"

definition remote_Client :: "('w, 'e, 'rest, 'cl) kube_api \<Rightarrow> RemoteConfiguration \<Rightarrow> 'e go_error + 'cl" where
  "remote_Client api r =
     (case ka_configFromContext api (rm_ContextName r) of
        Inl err \<Rightarrow> Inl err
      | Inr config \<Rightarrow> ka_NewClient api config)"

definition Address :: "('w, 'e, 'rest, 'cl) kube_api \<Rightarrow> RemoteConfiguration \<Rightarrow> 'e go_error + string" where
  "Address api r =
     (if rm_APIServer r \<noteq> '''' then Inr (rm_APIServer r)
      else (case remote_Config api r of
              Inl err \<Rightarrow> Inl err
            | Inr config \<Rightarrow> Inr (ka_Host api config)))"

text \<open>The name in a cluster's certificate: the service address up to its first colon, or a made-up name.\<close>

definition FQDN :: "RemoteConfiguration \<Rightarrow> BootstrapClusterConfiguration \<Rightarrow> 'e go_error + string" where
  "FQDN r c =
     (if rm_ServiceAddress r \<noteq> '''' then Inr (split_on CHR '':'' (rm_ServiceAddress r) ! 0)
      else Inr (bc_ServiceName c @ ''-'' @ rm_ContextName r))"

section \<open>Bootstrapping\<close>

text \<open>The clock and the entropy that the certificates need, read from the world.\<close>

record ('w, 'e) ca_env =
  ce_Now :: "'w \<Rightarrow> time \<times> 'w"
  ce_GenerateKey :: "('w, 'e, nat) action"
  ce_Serial :: "('w, 'e, int) action"

definition sign_now ::
  "('w, 'e) ca_env \<Rightarrow> CACertificate \<Rightarrow> string list \<Rightarrow> ('w, 'e, Certificate) action" where
  "sign_now ce c names w =
     (let (now, w1) = ce_Now ce w; (k, w2) = ce_GenerateKey ce w1; (s, w3) = ce_Serial ce w2
      in (Sign c now k s names, w3))"

definition generate_now ::
  "('w, 'e) ca_env \<Rightarrow> string \<Rightarrow> string \<Rightarrow> ('w, 'e, CACertificate) action" where
  "generate_now ce organization name w =
     (let (k, w1) = ce_GenerateKey ce w; (now, w2) = ce_Now ce w1; (s, w3) = ce_Serial ce w2
      in (GenerateCA organization name None now k s, w3))"

text \<open>
  The first loop collects a kubeconfig and a certificate for every cluster, as far as they are asked for.
  \<open>None\<close> means that it waits for a token for ever.
\<close>

fun collect ::
  "('w, 'e, 'rest, 'cl) kube_api \<Rightarrow> ('w, 'e) ca_env \<Rightarrow> BootstrapClusterConfiguration \<Rightarrow> CACertificate \<Rightarrow>
   RemoteConfiguration list \<Rightarrow> bytes list \<Rightarrow> Certificate list \<Rightarrow> 'w \<Rightarrow>
   (('e go_error + bytes list \<times> Certificate list) \<times> 'w) option" where
  "collect api ce configuration ca [] kubeconfigs certificates w = Some (Inr (kubeconfigs, certificates), w)"
| "collect api ce configuration ca (cluster # clusters) kubeconfigs certificates w =
     (case (if bc_BootstrapKubeconfigs configuration then
              (case Address api cluster of
                 Inl err \<Rightarrow> Some (Inl err, w)
               | Inr address \<Rightarrow>
                   (case CreateRemoteKubeconfig api (Some (zero_remote
                        \<lparr>rk_ContextName := rm_ContextName cluster,
                         rk_EnsureNamespace := bc_EnsureNamespace configuration,
                         rk_Namespace := bc_OperatorNamespace configuration,
                         rk_Name := bc_ServiceName configuration,
                         rk_APIServer := address\<rparr>)) w of
                      None \<Rightarrow> None
                    | Some (Inl err, w1) \<Rightarrow> Some (Inl err, w1)
                    | Some (Inr config, w1) \<Rightarrow> Some (Inr (kubeconfigs @ [config]), w1)))
            else Some (Inr kubeconfigs, w)) of
        None \<Rightarrow> None
      | Some (Inl err, w1) \<Rightarrow> Some (Inl err, w1)
      | Some (Inr kubeconfigs1, w1) \<Rightarrow>
          (if bc_BootstrapTLS configuration then
             (case FQDN cluster configuration of
                Inl err \<Rightarrow> Some (Inl err, w1)
              | Inr serviceFQDN \<Rightarrow>
                  (case sign_now ce ca [serviceFQDN] w1 of
                     (Inl err, w2) \<Rightarrow> Some (Inl err, w2)
                   | (Inr certificate, w2) \<Rightarrow>
                       collect api ce configuration ca clusters kubeconfigs1 (certificates @ [certificate]) w2))
           else collect api ce configuration ca clusters kubeconfigs1 certificates w1))"

definition kubeconfig_target ::
  "BootstrapClusterConfiguration \<Rightarrow> RemoteConfiguration \<Rightarrow> RemoteConfiguration \<Rightarrow>
   'rest RemoteKubernetesConfiguration" where
  "kubeconfig_target configuration cluster other = zero_remote
     \<lparr>rk_ContextName := rm_ContextName cluster, rk_Namespace := bc_OperatorNamespace configuration,
      rk_Name := bc_ServiceName configuration @ ''-'' @ rm_ContextName other,
      rk_EnsureNamespace := bc_EnsureNamespace configuration\<rparr>"

definition tls_target ::
  "BootstrapClusterConfiguration \<Rightarrow> RemoteConfiguration \<Rightarrow> 'rest RemoteKubernetesConfiguration" where
  "tls_target configuration cluster = zero_remote
     \<lparr>rk_ContextName := rm_ContextName cluster, rk_Namespace := bc_OperatorNamespace configuration,
      rk_Name := bc_ServiceName configuration, rk_EnsureNamespace := bc_EnsureNamespace configuration\<rparr>"

text \<open>
  The second loop, with its inner loop over the indices of the kubeconfigs. An index out of range panics.
\<close>

fun store_kubeconfigs ::
  "('w, 'e, 'rest, 'cl) kube_api \<Rightarrow> BootstrapClusterConfiguration \<Rightarrow> RemoteConfiguration \<Rightarrow>
   bytes list \<Rightarrow> nat list \<Rightarrow> 'w \<Rightarrow> 'e go_error option outcome \<times> 'w" where
  "store_kubeconfigs api configuration cluster kubeconfigs [] w = (Returns None, w)"
| "store_kubeconfigs api configuration cluster kubeconfigs (i # is) w =
     (if length kubeconfigs \<le> i \<or> length (bc_RemoteClusters configuration) \<le> i
      then (Panics ''index out of range'', w)
      else (case CreateKubeconfigSecret api (kubeconfigs ! i)
               (Some (kubeconfig_target configuration cluster (bc_RemoteClusters configuration ! i))) w of
              (Some err, w1) \<Rightarrow> (Returns (Some err), w1)
            | (None, w1) \<Rightarrow> store_kubeconfigs api configuration cluster kubeconfigs is w1))"

fun distribute ::
  "('w, 'e, 'rest, 'cl) kube_api \<Rightarrow> (pem \<Rightarrow> bytes) \<Rightarrow> BootstrapClusterConfiguration \<Rightarrow> CACertificate \<Rightarrow>
   bytes list \<Rightarrow> Certificate list \<Rightarrow> (nat \<times> RemoteConfiguration) list \<Rightarrow> 'w \<Rightarrow>
   'e go_error option outcome \<times> 'w" where
  "distribute api render configuration ca kubeconfigs certificates [] w = (Returns None, w)"
| "distribute api render configuration ca kubeconfigs certificates ((i, cluster) # clusters) w =
     (case (if bc_BootstrapKubeconfigs configuration
            then store_kubeconfigs api configuration cluster kubeconfigs [0..<length kubeconfigs] w
            else (Returns None, w)) of
        (Panics p, w1) \<Rightarrow> (Panics p, w1)
      | (Returns (Some err), w1) \<Rightarrow> (Returns (Some err), w1)
      | (Returns None, w1) \<Rightarrow>
          (if bc_BootstrapTLS configuration then
             (if length certificates \<le> i then (Panics ''index out of range'', w1)
              else (case CreateTLSSecret api render ca (certificates ! i) (Some (tls_target configuration cluster)) w1 of
                      (Some err, w2) \<Rightarrow> (Returns (Some err), w2)
                    | (None, w2) \<Rightarrow>
                        distribute api render configuration ca kubeconfigs certificates clusters w2))
           else distribute api render configuration ca kubeconfigs certificates clusters w1))"

definition BootstrapKubernetesClusters ::
  "('w, 'e, 'rest, 'cl) kube_api \<Rightarrow> ('w, 'e) ca_env \<Rightarrow> (pem \<Rightarrow> bytes) \<Rightarrow> string \<Rightarrow>
   BootstrapClusterConfiguration \<Rightarrow> 'w \<Rightarrow> ('e go_error option outcome \<times> 'w) option" where
  "BootstrapKubernetesClusters api ce render organization configuration w =
     (case generate_now ce organization ''Root CA'' w of
        (Inl err, w1) \<Rightarrow> Some (Returns (Some err), w1)
      | (Inr caCertificate, w1) \<Rightarrow>
          (case collect api ce configuration caCertificate (bc_RemoteClusters configuration) [] [] w1 of
             None \<Rightarrow> None
           | Some (Inl err, w2) \<Rightarrow> Some (Returns (Some err), w2)
           | Some (Inr (kubeconfigs, certificates), w2) \<Rightarrow>
               Some (distribute api render configuration caCertificate kubeconfigs certificates
                 (enumerate 0 (bc_RemoteClusters configuration)) w2)))"

section \<open>Flags\<close>

record override =
  ov_serviceAddress :: string
  ov_apiServerAddress :: string

record bootstrap_flags =
  cliBootstrapClusterConfiguration :: BootstrapClusterConfiguration
  cliContexts :: "string list"
  cliServiceAddressOverrides :: "string list"
  cliAPIServerOverrides :: "string list"

definition AddBootstrapConfigurationFlags :: "bootstrap_flags \<Rightarrow> bootstrap_flags" where
  "AddBootstrapConfigurationFlags g =
     \<lparr>cliBootstrapClusterConfiguration = (cliBootstrapClusterConfiguration g)
        \<lparr>bc_OperatorNamespace := ''default'', bc_ServiceName := ''operator'',
         bc_BootstrapKubeconfigs := False, bc_BootstrapTLS := False\<rparr>,
      cliContexts = [], cliServiceAddressOverrides = [], cliAPIServerOverrides = []\<rparr>"

fun api_server_overrides ::
  "string list \<Rightarrow> (string \<rightharpoonup> override) \<Rightarrow> 'e go_error + (string \<rightharpoonup> override)" where
  "api_server_overrides [] contexts = Inr contexts"
| "api_server_overrides (addr # addrs) contexts =
     (case url_Parse addr of
        None \<Rightarrow> Inl (New ''invalid override flag, must be of the form context-name+scheme://address'' [])
      | Some parsed \<Rightarrow>
          (let tokens = split_on CHR ''+'' (url_Scheme parsed)
           in if length tokens \<noteq> 2
              then Inl (New ''invalid override flag, must be of the form context-name+scheme://address'' [])
              else (let ctx = tokens ! 0; scheme = tokens ! 1
                    in case contexts ctx of
                         None \<Rightarrow> Inl (New ''context not found'' [Str ctx])
                       | Some ov \<Rightarrow>
                           api_server_overrides addrs
                             (contexts(ctx \<mapsto> ov\<lparr>ov_apiServerAddress := scheme @ ''://'' @ url_Host parsed\<rparr>)))))"

fun service_overrides ::
  "string list \<Rightarrow> (string \<rightharpoonup> override) \<Rightarrow> 'e go_error + (string \<rightharpoonup> override)" where
  "service_overrides [] contexts = Inr contexts"
| "service_overrides (addr # addrs) contexts =
     (case url_Parse addr of
        None \<Rightarrow> Inl (New ''invalid override flag, must be of the form context-name://address'' [])
      | Some parsed \<Rightarrow>
          (case contexts (url_Scheme parsed) of
             None \<Rightarrow> Inl (New ''context not found'' [Str (url_Scheme parsed)])
           | Some ov \<Rightarrow>
               service_overrides addrs
                 (contexts(url_Scheme parsed \<mapsto> ov\<lparr>ov_serviceAddress := url_Host parsed\<rparr>))))"

text \<open>Like the flags of the raft manager, the result is appended to the package variable itself.\<close>

definition ConfigurationFromFlags ::
  "bootstrap_flags \<Rightarrow> ('e go_error + BootstrapClusterConfiguration) \<times> bootstrap_flags" where
  "ConfigurationFromFlags g =
     (if length (cliContexts g) < 3 then (Inl (New ''must specify at least 3 contexts'' []), g)
      else
        (let contexts = foldl (\<lambda>m ctx. m(ctx \<mapsto> \<lparr>ov_serviceAddress = '''', ov_apiServerAddress = ''''\<rparr>))
               Map.empty (cliContexts g)
         in case api_server_overrides (cliAPIServerOverrides g) contexts of
              Inl err \<Rightarrow> (Inl err, g)
            | Inr contexts1 \<Rightarrow>
                (case service_overrides (cliServiceAddressOverrides g) contexts1 of
                   Inl err \<Rightarrow> (Inl err, g)
                 | Inr contexts2 \<Rightarrow>
                     (let remotes = map (\<lambda>ctx.
                            (case contexts2 ctx of
                               None \<Rightarrow> \<lparr>rm_ContextName = ctx, rm_APIServer = '''', rm_ServiceAddress = ''''\<rparr>
                             | Some ov \<Rightarrow> \<lparr>rm_ContextName = ctx, rm_APIServer = ov_apiServerAddress ov,
                                 rm_ServiceAddress = ov_serviceAddress ov\<rparr>)) (cliContexts g);
                          config = (cliBootstrapClusterConfiguration g)
                            \<lparr>bc_RemoteClusters :=
                               bc_RemoteClusters (cliBootstrapClusterConfiguration g) @ remotes\<rparr>
                      in (Inr config, g\<lparr>cliBootstrapClusterConfiguration := config\<rparr>)))))"

section \<open>What the second loop does\<close>

text \<open>A sequence of effects, up to the first error.\<close>

fun run_effects :: "('w, 'e) effect list \<Rightarrow> ('w, 'e) effect" where
  "run_effects [] w = (None, w)"
| "run_effects (f # fs) w =
     (case f w of
        (Some err, w1) \<Rightarrow> (Some err, w1)
      | (None, w1) \<Rightarrow> run_effects fs w1)"

lemma run_effects_append:
  "run_effects (fs @ gs) w =
     (case run_effects fs w of
        (Some err, w1) \<Rightarrow> (Some err, w1)
      | (None, w1) \<Rightarrow> run_effects gs w1)"
  by (induction fs arbitrary: w) (auto split: prod.splits option.splits)

definition cluster_effects ::
  "('w, 'e, 'rest, 'cl) kube_api \<Rightarrow> (pem \<Rightarrow> bytes) \<Rightarrow> BootstrapClusterConfiguration \<Rightarrow> CACertificate \<Rightarrow>
   bytes list \<Rightarrow> Certificate list \<Rightarrow> nat \<times> RemoteConfiguration \<Rightarrow> ('w, 'e) effect list" where
  "cluster_effects api render configuration ca kubeconfigs certificates ic =
     (case ic of (i, cluster) \<Rightarrow>
        (if bc_BootstrapKubeconfigs configuration then
           map (\<lambda>j. CreateKubeconfigSecret api (kubeconfigs ! j)
               (Some (kubeconfig_target configuration cluster (bc_RemoteClusters configuration ! j))))
             [0..<length kubeconfigs]
         else []) @
        (if bc_BootstrapTLS configuration
         then [CreateTLSSecret api render ca (certificates ! i) (Some (tls_target configuration cluster))]
         else []))"

lemma store_kubeconfigs_eq:
  "list_all (\<lambda>i. i < length kubeconfigs \<and> i < length (bc_RemoteClusters configuration)) is \<Longrightarrow>
     store_kubeconfigs api configuration cluster kubeconfigs is w =
       (case run_effects (map (\<lambda>j. CreateKubeconfigSecret api (kubeconfigs ! j)
           (Some (kubeconfig_target configuration cluster (bc_RemoteClusters configuration ! j)))) is) w of
          (err, w1) \<Rightarrow> (Returns err, w1))"
  by (induction "is" arbitrary: w) (auto split: prod.splits option.splits)

lemma distribute_eq:
  assumes "bc_BootstrapKubeconfigs configuration \<Longrightarrow>
      length kubeconfigs \<le> length (bc_RemoteClusters configuration)"
    and "bc_BootstrapTLS configuration \<Longrightarrow> list_all (\<lambda>ic. fst ic < length certificates) clusters"
  shows "distribute api render configuration ca kubeconfigs certificates clusters w =
    (case run_effects (concat (map (cluster_effects api render configuration ca kubeconfigs certificates) clusters)) w of
       (err, w1) \<Rightarrow> (Returns err, w1))"
  using assms(2)
proof (induction clusters arbitrary: w)
  case Nil
  then show ?case by simp
next
  case (Cons ic clusters)
  obtain i cluster where ic: "ic = (i, cluster)" by (cases ic)
  have store: "store_kubeconfigs api configuration cluster kubeconfigs [0..<length kubeconfigs] w =
      (case run_effects (map (\<lambda>j. CreateKubeconfigSecret api (kubeconfigs ! j)
           (Some (kubeconfig_target configuration cluster (bc_RemoteClusters configuration ! j))))
           [0..<length kubeconfigs]) w of (err, w1) \<Rightarrow> (Returns err, w1))"
    if "bc_BootstrapKubeconfigs configuration"
    using assms(1) [OF that] by (intro store_kubeconfigs_eq) (auto simp: list_all_iff)
  have "cluster_effects api render configuration ca kubeconfigs certificates (i, cluster) =
      (if bc_BootstrapKubeconfigs configuration then
         map (\<lambda>j. CreateKubeconfigSecret api (kubeconfigs ! j)
             (Some (kubeconfig_target configuration cluster (bc_RemoteClusters configuration ! j))))
           [0..<length kubeconfigs]
       else []) @
      (if bc_BootstrapTLS configuration
       then [CreateTLSSecret api render ca (certificates ! i) (Some (tls_target configuration cluster))]
       else [])"
    by (simp add: cluster_effects_def)
  with Cons show ?case
    by (cases "bc_BootstrapKubeconfigs configuration"; cases "bc_BootstrapTLS configuration")
      (simp_all add: ic store run_effects_append split: prod.splits option.splits)
qed

lemma collect_lengths:
  "collect api ce configuration ca clusters kubeconfigs certificates w = Some (Inr (ks, cs), w') \<Longrightarrow>
     length ks = length kubeconfigs + (if bc_BootstrapKubeconfigs configuration then length clusters else 0) \<and>
     length cs = length certificates + (if bc_BootstrapTLS configuration then length clusters else 0)"
proof (induction clusters arbitrary: kubeconfigs certificates w)
  case Nil
  then show ?case by simp
next
  case (Cons cluster clusters)
  from Cons.prems obtain ks1 cs1 w1 where
    "collect api ce configuration ca clusters ks1 cs1 w1 = Some (Inr (ks, cs), w')"
    "length ks1 = length kubeconfigs + (if bc_BootstrapKubeconfigs configuration then 1 else 0)"
    "length cs1 = length certificates + (if bc_BootstrapTLS configuration then 1 else 0)"
    by (auto split: if_splits sum.splits option.splits prod.splits)
  with Cons.IH show ?case by fastforce
qed

lemma bootstrap_eq:
  assumes "generate_now ce organization ''Root CA'' w = (Inr ca, w1)"
    and "collect api ce configuration ca (bc_RemoteClusters configuration) [] [] w1 =
      Some (Inr (kubeconfigs, certificates), w2)"
  shows "BootstrapKubernetesClusters api ce render organization configuration w =
    Some (case run_effects (concat (map (cluster_effects api render configuration ca kubeconfigs certificates)
        (enumerate 0 (bc_RemoteClusters configuration)))) w2 of (err, w3) \<Rightarrow> (Returns err, w3))"
proof -
  note len = collect_lengths [OF assms(2)]
  have "distribute api render configuration ca kubeconfigs certificates
      (enumerate 0 (bc_RemoteClusters configuration)) w2 =
    (case run_effects (concat (map (cluster_effects api render configuration ca kubeconfigs certificates)
        (enumerate 0 (bc_RemoteClusters configuration)))) w2 of (err, w3) \<Rightarrow> (Returns err, w3))"
    using len by (intro distribute_eq) (auto simp: list_all_iff in_set_enumerate_eq)
  with assms show ?thesis by (simp add: BootstrapKubernetesClusters_def)
qed

lemma contexts_of_remotes:
  "(ConfigurationFromFlags g :: ('e go_error + BootstrapClusterConfiguration) \<times> bootstrap_flags) = (Inr c, g') \<Longrightarrow>
     3 \<le> length (cliContexts g) \<and>
     (\<exists>remotes. map rm_ContextName remotes = cliContexts g \<and>
        c = (cliBootstrapClusterConfiguration g)\<lparr>bc_RemoteClusters :=
          bc_RemoteClusters (cliBootstrapClusterConfiguration g) @ remotes\<rparr> \<and>
        g' = g\<lparr>cliBootstrapClusterConfiguration := c\<rparr> \<and>
        (\<forall>g2. cliContexts g2 = cliContexts g \<longrightarrow> cliAPIServerOverrides g2 = cliAPIServerOverrides g \<longrightarrow>
           cliServiceAddressOverrides g2 = cliServiceAddressOverrides g \<longrightarrow>
           fst (ConfigurationFromFlags g2 :: ('e go_error + BootstrapClusterConfiguration) \<times> bootstrap_flags) =
             Inr ((cliBootstrapClusterConfiguration g2)\<lparr>bc_RemoteClusters :=
               bc_RemoteClusters (cliBootstrapClusterConfiguration g2) @ remotes\<rparr>)))"
proof -
  assume ok: "(ConfigurationFromFlags g :: ('e go_error + BootstrapClusterConfiguration) \<times> bootstrap_flags) = (Inr c, g')"
  let ?m = "foldl (\<lambda>m ctx. m(ctx \<mapsto> \<lparr>ov_serviceAddress = '''', ov_apiServerAddress = ''''\<rparr>)) Map.empty (cliContexts g)"
  from ok obtain m1 m2 where len: "3 \<le> length (cliContexts g)"
    and m1: "(api_server_overrides (cliAPIServerOverrides g) ?m :: 'e go_error + _) = Inr m1"
    and m2: "(service_overrides (cliServiceAddressOverrides g) m1 :: 'e go_error + _) = Inr m2"
    by (auto simp: ConfigurationFromFlags_def Let_def split: if_splits sum.splits)
  define remotes where "remotes = map (\<lambda>ctx. (case m2 ctx of
       None \<Rightarrow> \<lparr>rm_ContextName = ctx, rm_APIServer = '''', rm_ServiceAddress = ''''\<rparr>
     | Some ov \<Rightarrow> \<lparr>rm_ContextName = ctx, rm_APIServer = ov_apiServerAddress ov,
         rm_ServiceAddress = ov_serviceAddress ov\<rparr>)) (cliContexts g)"
  have "map rm_ContextName remotes = cliContexts g"
    by (auto simp: remotes_def map_idI split: option.splits)
  with ok len m1 m2 show ?thesis
    by (intro conjI exI [of _ remotes])
      (auto simp: ConfigurationFromFlags_def Let_def remotes_def split: if_splits)
qed

section \<open>Properties\<close>

text \<open>
  Bootstrapping never indexes out of range: for every configuration and whatever the clusters answer, it
  waits, fails with an error or succeeds.
\<close>

theorem bootstrap_never_panics:
  "case BootstrapKubernetesClusters api ce render organization configuration w of
     None \<Rightarrow> True
   | Some (Panics p, w') \<Rightarrow> False
   | Some (Returns r, w') \<Rightarrow> True"
proof (cases "generate_now ce organization ''Root CA'' w")
  case (Pair r w1)
  show ?thesis
  proof (cases r)
    case (Inl err)
    with Pair show ?thesis by (simp add: BootstrapKubernetesClusters_def)
  next
    case (Inr ca)
    with Pair bootstrap_eq [of ce organization w ca w1 api configuration]
    show ?thesis
      by (cases "collect api ce configuration ca (bc_RemoteClusters configuration) [] [] w1")
        (auto simp: BootstrapKubernetesClusters_def split: sum.splits prod.splits)
  qed
qed


definition log_kube_api :: "((string \<times> k8s_object) list, string, string, string) kube_api" where
  "log_kube_api =
     \<lparr>ka_configFromContext = (\<lambda>n. Inr n), ka_Host = (\<lambda>r. r), ka_NewClient = (\<lambda>r. Inr r),
      ka_CreateOrUpdate = (\<lambda>cl obj f w. (None, w @ [(cl, obj)])),
      ka_GetSecret = (\<lambda>cl ns name w. (Inr (Some [(''token'', cl), (''ca.crt'', cl)]), w)),
      ka_Wait = (\<lambda>w. (False, w))\<rparr>"

definition log_ca_env :: "((string \<times> k8s_object) list, string) ca_env" where
  "log_ca_env = \<lparr>ce_Now = (\<lambda>w. (0, w)), ce_GenerateKey = (\<lambda>w. (Inr 1, w)), ce_Serial = (\<lambda>w. (Inr 7, w))\<rparr>"

definition two_clusters :: BootstrapClusterConfiguration where
  "two_clusters = \<lparr>bc_BootstrapTLS = False, bc_BootstrapKubeconfigs = True, bc_EnsureNamespace = False,
     bc_OperatorNamespace = ''ns'', bc_ServiceName = ''op'', bc_RemoteClusters =
       [\<lparr>rm_ContextName = ''k1'', rm_APIServer = '''', rm_ServiceAddress = ''''\<rparr>,
        \<lparr>rm_ContextName = ''k2'', rm_APIServer = '''', rm_ServiceAddress = ''''\<rparr>]\<rparr>"

lemma log_ca: "generate_now log_ca_env ''org'' ''Root CA'' w = (Inr example_ca, w)"
  using example_ca
  by (simp add: generate_now_def log_ca_env_def example_ca_def GenerateCA_def CreateCertificate_def
      MarshalECPrivateKey_def Let_def zero_template_def)

lemma two_clusters_collect:
  "\<exists>k1 k2. collect log_kube_api log_ca_env two_clusters ca (bc_RemoteClusters two_clusters) [] [] [] =
     Some (Inr ([k1, k2], []),
       [(''k1'', ServiceAccount ''ns'' ''op''), (''k1'', TokenSecret ''ns'' ''op-token'' ''op''),
        (''k2'', ServiceAccount ''ns'' ''op''), (''k2'', TokenSecret ''ns'' ''op-token'' ''op'')])"
  by (simp add: two_clusters_def log_kube_api_def Address_def remote_Config_def CreateRemoteKubeconfig_def
      complete_remote_def client_for_remote_def zero_remote_def poll_token.simps populated_def Let_def)


text \<open>
  The flags of the bootstrapper give one remote cluster per context, in their order, and need three of
  them; but they are appended to the package variable, so that a second call returns every cluster twice.
\<close>

theorem bootstrap_flags_twice:
  assumes "(ConfigurationFromFlags g :: ('e go_error + BootstrapClusterConfiguration) \<times> bootstrap_flags) = (Inr c, g')"
  shows "3 \<le> length (cliContexts g) \<and>
    map rm_ContextName (bc_RemoteClusters c) =
      map rm_ContextName (bc_RemoteClusters (cliBootstrapClusterConfiguration g)) @ cliContexts g \<and>
    (case fst (ConfigurationFromFlags g' :: ('e go_error + BootstrapClusterConfiguration) \<times> bootstrap_flags) of
       Inl err \<Rightarrow> False
     | Inr c2 \<Rightarrow> map rm_ContextName (bc_RemoteClusters c2) =
         map rm_ContextName (bc_RemoteClusters (cliBootstrapClusterConfiguration g)) @ cliContexts g @ cliContexts g)"
  using contexts_of_remotes [OF assms] by auto

definition three_contexts :: bootstrap_flags where
  "three_contexts =
     \<lparr>cliBootstrapClusterConfiguration = two_clusters\<lparr>bc_RemoteClusters := []\<rparr>,
      cliContexts = [''k1'', ''k2'', ''k3''], cliServiceAddressOverrides = [], cliAPIServerOverrides = []\<rparr>"

theorem bootstrap_flags_twice_witness:
  "\<exists>c g' c2. (ConfigurationFromFlags three_contexts :: (string go_error + _) \<times> _) = (Inr c, g') \<and>
     fst (ConfigurationFromFlags g' :: (string go_error + _) \<times> _) = Inr c2 \<and>
     map rm_ContextName (bc_RemoteClusters c2) = [''k1'', ''k2'', ''k3'', ''k1'', ''k2'', ''k3'']"
proof -
  obtain c g' where ok: "(ConfigurationFromFlags three_contexts :: (string go_error + _) \<times> _) = (Inr c, g')"
    by (simp add: ConfigurationFromFlags_def three_contexts_def Let_def)
  from bootstrap_flags_twice [OF ok] ok show ?thesis
    by (auto simp: three_contexts_def split: sum.splits)
qed

end
