(* ===== verification/Bootstrap_TLS.thy ===== *)
theory Bootstrap_TLS
  imports Bootstrap_Cluster Raft_Transport "HOL-Library.Countable"
begin

text \<open>
  From the bootstrapper to the transport: the certificates that \<open>BootstrapKubernetesClusters\<close> stores are what the
  raft lock of each cluster loads as its credentials. This theory instantiates the \<open>transport_api\<close> of the raft
  transport with the symbolic certificates of the bootstrapper, adds the part of \<open>crypto/x509\<close> and \<open>crypto/tls\<close>
  that decides whether two nodes accept each other, and shows that every two bootstrapped nodes do.

  Of the standard library: a chain has one certificate below its root, since a node presents only its own; there
  are no name constraints, which no certificate here has; addresses are compared by their text.
\<close>

section \<open>Loading credentials\<close>

text \<open>\<open>parse\<close> reads the text of a file; \<open>tls.X509KeyPair\<close> skips what it does not look for.\<close>

definition is_key_block :: "string \<Rightarrow> bool" where
  "is_key_block typ \<longleftrightarrow> typ = ''PRIVATE KEY'' \<or>
     (12 \<le> length typ \<and> drop (length typ - 12) typ = '' PRIVATE KEY'')"

definition X509KeyPair ::
  "(bytes \<Rightarrow> pem) \<Rightarrow> bytes \<Rightarrow> bytes \<Rightarrow> 'e go_error + x509_Certificate \<times> nat" where
  "X509KeyPair parse certPEM keyPEM =
     (case pem_Decode (parse certPEM) of
        None \<Rightarrow> Inl (New ''tls: failed to find any PEM data in certificate input'' [])
      | Some (certType, certBytes) \<Rightarrow>
          if certType \<noteq> ''CERTIFICATE''
          then Inl (New ''tls: failed to find certificate PEM data in certificate input'' [])
          else (case pem_Decode (parse keyPEM) of
            None \<Rightarrow> Inl (New ''tls: failed to find any PEM data in key input'' [])
          | Some (keyType, keyBytes) \<Rightarrow>
              if \<not> is_key_block keyType
              then Inl (New ''tls: failed to find PEM block with type ending in PRIVATE KEY in key input'' [])
              else (case ParseCertificate certBytes of
                Inl (err :: 'e go_error) \<Rightarrow> Inl err
              | Inr x \<Rightarrow>
                  (case ParseECPrivateKey keyBytes of
                     Inl (err :: 'e go_error) \<Rightarrow> Inl (New ''tls: failed to parse private key'' [])
                   | Inr k \<Rightarrow>
                       if xc_PublicKey x \<noteq> Some k
                       then Inl (New ''tls: private key does not match public key'' [])
                       else Inr (x, k)))))"

definition AppendCertsFromPEM :: "(bytes \<Rightarrow> pem) \<Rightarrow> bytes \<Rightarrow> x509_Certificate list option" where
  "AppendCertsFromPEM parse caPEM =
     (case pem_Decode (parse caPEM) of
        Some (typ, CertDER x) \<Rightarrow> if typ = ''CERTIFICATE'' then Some [x] else None
      | _ \<Rightarrow> None)"

definition x509_api ::
  "(bytes \<Rightarrow> pem) \<Rightarrow> (string \<Rightarrow> (x509_Certificate \<times> nat, x509_Certificate list) credentials \<Rightarrow> 'e go_error + 'cl) \<Rightarrow>
   ('e, x509_Certificate \<times> nat, x509_Certificate list, 'cl) transport_api" where
  "x509_api parse newClient =
     \<lparr>ta_X509KeyPair = X509KeyPair parse, ta_CertPool = AppendCertsFromPEM parse, ta_NewClient = newClient\<rparr>"

section \<open>Verifying a certificate\<close>

definition label_char :: "char \<Rightarrow> bool" where
  "label_char c \<longleftrightarrow> is_lower c \<or> is_upper c \<or> is_digit c \<or> c = CHR ''-'' \<or> c = CHR ''_''"

definition valid_label :: "string \<Rightarrow> bool" where
  "valid_label l \<longleftrightarrow> l \<noteq> [] \<and> hd l \<noteq> CHR ''-'' \<and> list_all label_char l"

definition trim_dot :: "string \<Rightarrow> string" where
  "trim_dot s = (if s \<noteq> [] \<and> last s = CHR ''.'' then butlast s else s)"

definition validHostname :: "bool \<Rightarrow> string \<Rightarrow> bool" where
  "validHostname isPattern s \<longleftrightarrow>
     (let host = (if isPattern then s else trim_dot s); parts = split_on CHR ''.'' host
      in host \<noteq> [] \<and> host \<noteq> ''*'' \<and>
         (case parts of
            [] \<Rightarrow> False
          | p # ps \<Rightarrow> (valid_label p \<or> isPattern \<and> p = ''*'') \<and> list_all valid_label ps))"

definition matchHostnames :: "string \<Rightarrow> string \<Rightarrow> bool" where
  "matchHostnames pattern host \<longleftrightarrow>
     (let p = map to_lower pattern; h = map to_lower (trim_dot host)
      in p \<noteq> [] \<and> h \<noteq> [] \<and>
         (case (split_on CHR ''.'' p, split_on CHR ''.'' h) of
            (x # xs, y # ys) \<Rightarrow> (x = ''*'' \<or> x = y) \<and> xs = ys
          | _ \<Rightarrow> False))"

definition matchExactly :: "string \<Rightarrow> string \<Rightarrow> bool" where
  "matchExactly a b \<longleftrightarrow> a \<notin> {'''', ''.''} \<and> b \<notin> {'''', ''.''} \<and> map to_lower a = map to_lower b"

definition match_name :: "string \<Rightarrow> string \<Rightarrow> bool" where
  "match_name h name \<longleftrightarrow>
     (let candidate = map to_lower h
      in if validHostname False candidate \<and> validHostname True name
         then matchHostnames name candidate else matchExactly name candidate)"

definition unbracket :: "string \<Rightarrow> string" where
  "unbracket h =
     (if 3 \<le> length h \<and> hd h = CHR ''['' \<and> last h = CHR '']'' then butlast (tl h) else h)"

definition VerifyHostname :: "x509_Certificate \<Rightarrow> string \<Rightarrow> bool" where
  "VerifyHostname x h \<longleftrightarrow>
     (if ParseIP (unbracket h) then unbracket h \<in> set (xc_IPAddresses x)
      else list_ex (match_name h) (xc_DNSNames x))"

definition valid_at :: "time \<Rightarrow> x509_Certificate \<Rightarrow> bool" where
  "valid_at t x \<longleftrightarrow> xc_NotBefore x \<le> t \<and> t \<le> xc_NotAfter x"

definition has_usage :: "ext_key_usage \<Rightarrow> x509_Certificate \<Rightarrow> bool" where
  "has_usage u x \<longleftrightarrow> xc_ExtKeyUsage x = [] \<or> u \<in> set (xc_ExtKeyUsage x)"

definition issued_by :: "x509_Certificate \<Rightarrow> x509_Certificate \<Rightarrow> bool" where
  "issued_by ca x \<longleftrightarrow>
     xc_CommonName ca = xc_IssuerCommonName x \<and> xc_Organization ca = xc_IssuerOrganization x \<and>
     xc_BasicConstraintsValid ca \<and> xc_IsCA ca \<and>
     (xc_KeyUsage ca = [] \<or> CertSign \<in> set (xc_KeyUsage ca)) \<and>
     xc_Signer x \<noteq> None \<and> xc_Signer x = xc_PublicKey ca"

definition Verify ::
  "x509_Certificate list \<Rightarrow> time \<Rightarrow> ext_key_usage \<Rightarrow> string option \<Rightarrow> x509_Certificate \<Rightarrow> bool" where
  "Verify pool t u host x \<longleftrightarrow>
     valid_at t x \<and> has_usage u x \<and>
     (case host of None \<Rightarrow> True | Some h \<Rightarrow> VerifyHostname x h) \<and>
     (x \<in> set pool \<or> list_ex (\<lambda>ca. issued_by ca x \<and> valid_at t ca \<and> has_usage u ca) pool)"

text \<open>
  Whether a connection comes about: the client checks the server's certificate against its roots and the name
  it dialled, and a server that requires it checks one of the client's. \<open>roots\<close> are the certificates of the
  machine, which stand in where no pool is given.
\<close>

type_synonym tls_credentials = "(x509_Certificate \<times> nat, x509_Certificate list) credentials"

definition pool_or :: "x509_Certificate list \<Rightarrow> x509_Certificate list option \<Rightarrow> x509_Certificate list" where
  "pool_or roots p = (case p of None \<Rightarrow> roots | Some ps \<Rightarrow> ps)"

fun tls_handshake ::
  "x509_Certificate list \<Rightarrow> tls_credentials \<Rightarrow> tls_credentials \<Rightarrow> string \<Rightarrow> time \<Rightarrow> bool" where
  "tls_handshake roots (TLS c) (TLS s) host t =
     ((case tls_Certificates s of
         [] \<Rightarrow> False
       | (x, _) # _ \<Rightarrow> tls_InsecureSkipVerify c \<or>
           Verify (pool_or roots (tls_RootCAs c)) t ServerAuth (Some host) x) \<and>
      (\<not> tls_RequireAndVerifyClientCert s \<or>
         list_ex (\<lambda>(x, _). Verify (pool_or roots (tls_ClientCAs s)) t ClientAuth None x) (tls_Certificates c)))"
| "tls_handshake roots InsecureCredentials InsecureCredentials host t = True"
| "tls_handshake roots _ _ host t = False"

text \<open>The credentials that a node makes of the files of its secret.\<close>

definition file_of :: "secret_data \<Rightarrow> string \<Rightarrow> bytes" where
  "file_of d name = (case map_of d name of None \<Rightarrow> '''' | Some b \<Rightarrow> b)"

definition secret_server ::
  "('e, 'cert, 'pool, 'cl) transport_api \<Rightarrow> secret_data \<Rightarrow> 'e go_error + ('cert, 'pool) credentials" where
  "secret_server api d =
     serverTLSConfig api (file_of d ''tls.crt'') (file_of d ''tls.key'') (file_of d ''ca.crt'')"

definition secret_client ::
  "('e, 'cert, 'pool, 'cl) transport_api \<Rightarrow> secret_data \<Rightarrow> 'e go_error + ('cert, 'pool) credentials" where
  "secret_client api d =
     clientTLSConfig api (file_of d ''tls.crt'') (file_of d ''tls.key'') (file_of d ''ca.crt'') []"

text \<open>A host that a name in a certificate can match, and the time for which a certificate is signed.\<close>

definition dialable :: "string \<Rightarrow> bool" where
  "dialable h \<longleftrightarrow> h \<notin> {'''', ''.''} \<and> hd h \<noteq> CHR ''[''"

definition signed_for :: "time \<Rightarrow> time \<Rightarrow> bool" where
  "signed_for now t \<longleftrightarrow> trunc_second (now - notBeforeGracePeriod) \<le> t \<and>
     t \<le> trunc_second (now + defaultCertificateExpiration)"

section \<open>Names\<close>

lemma to_lower_idem [simp]: "to_lower (to_lower c) = to_lower c"
  by (auto simp: to_lower_def is_upper_def of_char_of_nat_less)

lemma to_lower_other:
  assumes "\<not> is_lower d" and "\<not> is_upper d"
  shows "to_lower c = d \<longleftrightarrow> c = d"
proof
  assume lower: "to_lower c = d"
  show "c = d"
  proof (rule ccontr)
    assume "c \<noteq> d"
    with lower have up: "is_upper c" and "char_of ((of_char c :: nat) + 32) = d"
      by (auto simp: to_lower_def split: if_splits)
    then have "(of_char d :: nat) = of_char c + 32"
      using of_char_of_nat_less [of "of_char c + 32"] by (auto simp: is_upper_def)
    with up assms(1) show False by (simp add: is_upper_def is_lower_def)
  qed
next
  assume "c = d"
  with assms(2) show "to_lower c = d" by (simp add: to_lower_def)
qed

lemma to_lower_dot [simp]: "to_lower c = CHR ''.'' \<longleftrightarrow> c = CHR ''.''"
  and to_lower_bracket [simp]: "to_lower c = CHR ''['' \<longleftrightarrow> c = CHR ''[''"
  by (rule to_lower_other; simp add: is_lower_def is_upper_def)+

lemma split_on_not_Nil [simp]: "split_on sep s \<noteq> []"
  by (induction s) (auto split: list.splits)

lemma split_on_snoc: "split_on sep (s @ [sep]) = split_on sep s @ [[]]"
  by (induction s) (auto split: list.splits)

lemma pattern_no_final_dot:
  assumes "validHostname True h"
  shows "last h \<noteq> CHR ''.''"
proof
  assume "last h = CHR ''.''"
  moreover from assms have "h \<noteq> []" by (simp add: validHostname_def Let_def)
  ultimately have "h = butlast h @ [CHR ''.'']" by (metis append_butlast_last_id)
  then have "split_on CHR ''.'' h = split_on CHR ''.'' (butlast h) @ [[]]" by (metis split_on_snoc)
  moreover obtain q qs where "split_on CHR ''.'' (butlast h) = q # qs"
    by (meson list.exhaust split_on_not_Nil)
  ultimately show False using assms by (simp add: validHostname_def Let_def valid_label_def)
qed

lemma matches_itself:
  assumes "h \<noteq> ''''" and "h \<noteq> ''.''"
  shows "match_name h h"
proof (cases "validHostname True h")
  case True
  from pattern_no_final_dot [OF this] assms(1)
  have "trim_dot (map to_lower h) = map to_lower h" by (simp add: trim_dot_def last_map)
  moreover obtain y ys where "split_on CHR ''.'' (map to_lower h) = y # ys"
    by (meson list.exhaust split_on_not_Nil)
  ultimately have "matchHostnames h (map to_lower h)"
    using assms(1) by (simp add: matchHostnames_def Let_def comp_def)
  then show ?thesis
    using assms by (auto simp: match_name_def matchExactly_def Let_def map_eq_Cons_conv)
next
  case False
  with assms show ?thesis by (auto simp: match_name_def matchExactly_def Let_def map_eq_Cons_conv)
qed

lemma VerifyHostname_itself:
  assumes "dialable h" and "xc_IPAddresses x = filter ParseIP [h]"
    and "xc_DNSNames x = filter (\<lambda>name. \<not> ParseIP name) [h]"
  shows "VerifyHostname x h"
proof -
  from assms(1) have "unbracket h = h" by (simp add: dialable_def unbracket_def)
  with assms matches_itself [of h] show ?thesis by (auto simp: VerifyHostname_def dialable_def)
qed

section \<open>Certificates of one authority\<close>

text \<open>What makes a CA one that signs valid certificates; a generated CA is one.\<close>

definition signing_ca :: "CACertificate \<Rightarrow> bool" where
  "signing_ca c \<longleftrightarrow>
     ca_pem c = PEM ''CERTIFICATE'' (CertDER (ca_cert c)) \<and> issued_by (ca_cert c) (ca_cert c) \<and>
     xc_PublicKey (ca_cert c) = Some (ca_pk c) \<and> xc_ExtKeyUsage (ca_cert c) = [] \<and>
     trunc_second (xc_NotBefore (ca_cert c)) = xc_NotBefore (ca_cert c)"

lemma GenerateCA_signing:
  assumes "GenerateCA organization name configuration now k s = Inr c"
  shows "signing_ca c \<and> ca_gracePeriod c = cc_NotBeforeGracePeriod (ca_defaults configuration) \<and>
    ca_certificateExpiration c = cc_CertificateLifetime (ca_defaults configuration)"
  using assms
  by (auto simp: GenerateCA_def CreateCertificate_def MarshalECPrivateKey_def Let_def zero_template_def
      signing_ca_def issued_by_def split: if_splits sum.splits)

definition node_certificate :: "CACertificate \<Rightarrow> time \<Rightarrow> string \<Rightarrow> Certificate \<Rightarrow> bool" where
  "node_certificate c now h certificate \<longleftrightarrow>
     (\<exists>x k. ct_certificate certificate = PEM ''CERTIFICATE'' (CertDER x) \<and>
        ct_privateKey certificate = PEM ''EC PRIVATE KEY'' (KeyDER k) \<and>
        xc_PublicKey x = Some k \<and> issued_by (ca_cert c) x \<and> xc_ExtKeyUsage x = [ServerAuth, ClientAuth] \<and>
        xc_IPAddresses x = filter ParseIP [h] \<and> xc_DNSNames x = filter (\<lambda>name. \<not> ParseIP name) [h] \<and>
        xc_NotBefore x = trunc_second (now - ca_gracePeriod c) \<and>
        xc_NotAfter x = trunc_second (now + ca_certificateExpiration c) \<and>
        xc_NotBefore (ca_cert c) \<le> xc_NotBefore x \<and> xc_NotAfter x \<le> xc_NotAfter (ca_cert c))"

lemma Sign_node_certificate:
  assumes "signing_ca c" and "Sign c now k s [h] = Inr certificate"
  shows "node_certificate c now h certificate"
proof -
  from assms(2) have nb: "xc_NotBefore (ca_cert c) \<le> now - ca_gracePeriod c"
    and na: "now + ca_certificateExpiration c \<le> xc_NotAfter (ca_cert c)"
    by (auto simp: Sign_def validity_error_def Let_def split: if_splits)
  from trunc_second_mono [OF nb] assms(1)
  have "xc_NotBefore (ca_cert c) \<le> trunc_second (now - ca_gracePeriod c)" by (simp add: signing_ca_def)
  moreover have "trunc_second (now + ca_certificateExpiration c) \<le> xc_NotAfter (ca_cert c)"
    using trunc_second_le na by (rule order_trans)
  ultimately show ?thesis
    using assms
    by (auto simp: Sign_def CreateCertificate_def MarshalECPrivateKey_def Let_def zero_template_def
        node_certificate_def signing_ca_def issued_by_def split: if_splits option.splits sum.splits)
qed

lemma Verify_issued:
  assumes "signing_ca c" and "issued_by (ca_cert c) x" and "u \<in> set (xc_ExtKeyUsage x)" and "valid_at t x"
    and "xc_NotBefore (ca_cert c) \<le> xc_NotBefore x" and "xc_NotAfter x \<le> xc_NotAfter (ca_cert c)"
    and "\<And>h. host = Some h \<Longrightarrow> VerifyHostname x h"
  shows "Verify [ca_cert c] t u host x"
  using assms by (auto simp: Verify_def valid_at_def has_usage_def signing_ca_def split: option.splits)

text \<open>Nothing else is accepted below a generated CA than what was signed with its key.\<close>

lemma Verify_signer:
  assumes "signing_ca c" and "Verify [ca_cert c] t u host x"
  shows "xc_Signer x = Some (ca_pk c)"
  using assms by (auto simp: Verify_def signing_ca_def issued_by_def)

section \<open>Credentials from a secret\<close>

lemma file_of_tls_data [simp]:
  "file_of (tls_data render ca certificate) ''ca.crt'' = render (ca_pem ca)"
  "file_of (tls_data render ca certificate) ''tls.crt'' = render (ct_certificate certificate)"
  "file_of (tls_data render ca certificate) ''tls.key'' = render (ct_privateKey certificate)"
  by (simp_all add: file_of_def tls_data_def ca_Bytes_def certificate_Bytes_def certificate_PrivateKeyBytes_def)

lemma secret_credentials:
  assumes codec: "\<And>ty d. parse (render (PEM ty d)) = PEM ty d"
    and "signing_ca c"
    and "ct_certificate certificate = PEM ''CERTIFICATE'' (CertDER x)"
    and "ct_privateKey certificate = PEM ''EC PRIVATE KEY'' (KeyDER k)" and "xc_PublicKey x = Some k"
  shows "secret_server (x509_api parse newClient) (tls_data render c certificate) =
      Inr (TLS \<lparr>tls_Certificates = [(x, k)], tls_RequireAndVerifyClientCert = True,
        tls_ClientCAs = Some [ca_cert c], tls_RootCAs = None, tls_InsecureSkipVerify = False\<rparr>)"
    and "secret_client (x509_api parse newClient) (tls_data render c certificate) =
      Inr (TLS \<lparr>tls_Certificates = [(x, k)], tls_RequireAndVerifyClientCert = False,
        tls_ClientCAs = None, tls_RootCAs = Some [ca_cert c], tls_InsecureSkipVerify = False\<rparr>)"
proof -
  from assms have pair: "X509KeyPair parse (render (ct_certificate certificate))
      (render (ct_privateKey certificate)) = Inr (x, k)"
    by (simp add: X509KeyPair_def is_key_block_def)
  from assms have pool: "AppendCertsFromPEM parse (render (ca_pem c)) = Some [ca_cert c]"
    by (simp add: AppendCertsFromPEM_def signing_ca_def)
  show "secret_server (x509_api parse newClient) (tls_data render c certificate) =
      Inr (TLS \<lparr>tls_Certificates = [(x, k)], tls_RequireAndVerifyClientCert = True,
        tls_ClientCAs = Some [ca_cert c], tls_RootCAs = None, tls_InsecureSkipVerify = False\<rparr>)"
    by (simp add: secret_server_def serverTLSConfig_def x509_api_def pair pool)
  show "secret_client (x509_api parse newClient) (tls_data render c certificate) =
      Inr (TLS \<lparr>tls_Certificates = [(x, k)], tls_RequireAndVerifyClientCert = False,
        tls_ClientCAs = None, tls_RootCAs = Some [ca_cert c], tls_InsecureSkipVerify = False\<rparr>)"
    by (simp add: secret_client_def clientTLSConfig_def x509_api_def pair pool)
qed

text \<open>Two nodes with certificates of one CA, each within its time.\<close>

definition mutual_tls ::
  "('e, x509_Certificate \<times> nat, x509_Certificate list, 'cl) transport_api \<Rightarrow> CACertificate \<Rightarrow> string \<Rightarrow>
   time \<Rightarrow> secret_data \<Rightarrow> time \<Rightarrow> secret_data \<Rightarrow> bool" where
  "mutual_tls api ca h now d now' d' \<longleftrightarrow>
     (\<exists>server client. secret_server api d = Inr server \<and> secret_client api d' = Inr (TLS client) \<and>
        (dialable h \<longrightarrow> (\<forall>roots t. signed_for now t \<longrightarrow> signed_for now' t \<longrightarrow>
           tls_handshake roots (TLS client) server h t)) \<and>
        (\<forall>roots c host t. tls_handshake roots (TLS c) server host t \<longrightarrow>
           list_ex (\<lambda>(x, _). xc_Signer x = Some (ca_pk ca)) (tls_Certificates c)) \<and>
        (\<forall>roots s host t. tls_handshake roots (TLS client) (TLS s) host t \<longrightarrow>
           (case tls_Certificates s of [] \<Rightarrow> False | (x, _) # _ \<Rightarrow> xc_Signer x = Some (ca_pk ca))))"

lemma node_certificates_mutual:
  assumes codec: "\<And>ty d. parse (render (PEM ty d)) = PEM ty d"
    and ca: "signing_ca c" "ca_gracePeriod c = notBeforeGracePeriod"
      "ca_certificateExpiration c = defaultCertificateExpiration"
    and "node_certificate c now h certificate" and "node_certificate c now' h' certificate'"
  shows "mutual_tls (x509_api parse newClient) c h now (tls_data render c certificate)
    now' (tls_data render c certificate')"
proof -
  from assms(5) obtain x k where x: "ct_certificate certificate = PEM ''CERTIFICATE'' (CertDER x)"
    "ct_privateKey certificate = PEM ''EC PRIVATE KEY'' (KeyDER k)" "xc_PublicKey x = Some k"
    "issued_by (ca_cert c) x" "xc_ExtKeyUsage x = [ServerAuth, ClientAuth]"
    "xc_IPAddresses x = filter ParseIP [h]" "xc_DNSNames x = filter (\<lambda>name. \<not> ParseIP name) [h]"
    "xc_NotBefore x = trunc_second (now - ca_gracePeriod c)"
    "xc_NotAfter x = trunc_second (now + ca_certificateExpiration c)"
    "xc_NotBefore (ca_cert c) \<le> xc_NotBefore x" "xc_NotAfter x \<le> xc_NotAfter (ca_cert c)"
    unfolding node_certificate_def by blast
  from assms(6) obtain y l where y: "ct_certificate certificate' = PEM ''CERTIFICATE'' (CertDER y)"
    "ct_privateKey certificate' = PEM ''EC PRIVATE KEY'' (KeyDER l)" "xc_PublicKey y = Some l"
    "issued_by (ca_cert c) y" "xc_ExtKeyUsage y = [ServerAuth, ClientAuth]"
    "xc_NotBefore y = trunc_second (now' - ca_gracePeriod c)"
    "xc_NotAfter y = trunc_second (now' + ca_certificateExpiration c)"
    "xc_NotBefore (ca_cert c) \<le> xc_NotBefore y" "xc_NotAfter y \<le> xc_NotAfter (ca_cert c)"
    unfolding node_certificate_def by blast
  have accepts: "Verify [ca_cert c] t ServerAuth (Some h) x" if "dialable h" "signed_for now t" for t
    using VerifyHostname_itself [OF that(1) x(6,7)] x ca that
    by (intro Verify_issued) (simp_all add: valid_at_def signed_for_def)
  have presents: "Verify [ca_cert c] t ClientAuth None y" if "signed_for now' t" for t
    using y ca that by (intro Verify_issued) (simp_all add: valid_at_def signed_for_def)
  show ?thesis
    unfolding mutual_tls_def secret_credentials [OF codec ca(1) x(1-3)] secret_credentials [OF codec ca(1) y(1-3)]
    using accepts presents Verify_signer [OF ca(1)]
    by (auto simp: pool_or_def list_ex_iff split: list.splits) blast+
qed

section \<open>What the bootstrapper collects\<close>

lemma generate_now_signing:
  fixes ce :: "('w, 'e) ca_env"
  assumes "generate_now ce organization name w = (Inr ca, w1)"
  shows "signing_ca ca" "ca_gracePeriod ca = notBeforeGracePeriod"
    "ca_certificateExpiration ca = defaultCertificateExpiration"
proof -
  from assms obtain now and k :: "'e go_error + nat" and s where
    "GenerateCA organization name None now k s = Inr ca"
    by (auto simp: generate_now_def split: prod.splits)
  from GenerateCA_signing [OF this] show "signing_ca ca" "ca_gracePeriod ca = notBeforeGracePeriod"
    "ca_certificateExpiration ca = defaultCertificateExpiration"
    by (simp_all add: ca_defaults_def ca_default_defs)
qed

text \<open>\<open>now\<close> is what the clock showed when the cluster's certificate was signed.\<close>

definition signed_at ::
  "('w, 'e) ca_env \<Rightarrow> CACertificate \<Rightarrow> BootstrapClusterConfiguration \<Rightarrow> RemoteConfiguration \<Rightarrow> Certificate \<Rightarrow>
   time \<Rightarrow> bool" where
  "signed_at ce ca configuration cluster certificate now \<longleftrightarrow>
     (\<exists>h. (FQDN cluster configuration :: unit go_error + string) = Inr h \<and> (\<exists>w. now = fst (ce_Now ce w)) \<and>
        node_certificate ca now h certificate)"

lemma FQDN_Inr: "(FQDN r c :: 'e go_error + string) = Inr h \<Longrightarrow> (FQDN r c :: 'f go_error + string) = Inr h"
  by (auto simp: FQDN_def split: if_splits)

lemma collect_signed:
  fixes ce :: "('w, 'e) ca_env"
  assumes "signing_ca ca" and "bc_BootstrapTLS configuration"
    and "collect api ce configuration ca clusters kubeconfigs certificates w = Some (Inr (ks, cs), w')"
  shows "\<exists>new. cs = certificates @ new \<and>
    list_all2 (\<lambda>cluster certificate. \<exists>now. signed_at ce ca configuration cluster certificate now) clusters new"
  using assms(3)
proof (induction clusters arbitrary: kubeconfigs certificates w)
  case Nil
  then show ?case by simp
next
  case (Cons cluster clusters)
  from Cons.prems assms(2) obtain ks1 h certificate w1 w2 where
    h: "(FQDN cluster configuration :: 'e go_error + string) = Inr h" and
    sign: "sign_now ce ca [h] w1 = (Inr certificate, w2)" and
    rest: "collect api ce configuration ca clusters ks1 (certificates @ [certificate]) w2 = Some (Inr (ks, cs), w')"
    by (auto split: if_splits sum.splits option.splits prod.splits)
  from sign obtain k :: "'e go_error + nat" and s where "Sign ca (fst (ce_Now ce w1)) k s [h] = Inr certificate"
    by (auto simp: sign_now_def split: prod.splits)
  from Sign_node_certificate [OF assms(1) this] FQDN_Inr [OF h]
  have "signed_at ce ca configuration cluster certificate (fst (ce_Now ce w1))"
    by (auto simp: signed_at_def)
  with Cons.IH [OF rest] show ?case by auto
qed

lemma bootstrap_success:
  assumes "BootstrapKubernetesClusters api ce render organization configuration w = Some (Returns None, w')"
  obtains ca w1 kubeconfigs certificates w2 where
    "generate_now ce organization ''Root CA'' w = (Inr ca, w1)"
    "collect api ce configuration ca (bc_RemoteClusters configuration) [] [] w1 =
       Some (Inr (kubeconfigs, certificates), w2)"
    "run_effects (concat (map (cluster_effects api render configuration ca kubeconfigs certificates)
       (enumerate 0 (bc_RemoteClusters configuration)))) w2 = (None, w')"
proof -
  from assms obtain ca w1 kubeconfigs certificates w2 where
    ca: "generate_now ce organization ''Root CA'' w = (Inr ca, w1)" and
    col: "collect api ce configuration ca (bc_RemoteClusters configuration) [] [] w1 =
       Some (Inr (kubeconfigs, certificates), w2)"
    by (auto simp: BootstrapKubernetesClusters_def split: prod.splits sum.splits option.splits)
  with assms bootstrap_eq [OF ca col, of render] that show ?thesis
    by (auto split: prod.splits)
qed

section \<open>Properties\<close>

text \<open>
  C5: what the bootstrapper is for. When it has succeeded, every cluster was given, by the last of its effects,
  the secret of its own certificate, and with the credentials that the transports load from these secrets any
  node can connect to any other under the name of the other's service, from the moment both were signed on
  (less the grace period) for a year. The other way round, a node lets nobody in, and connects to nobody,
  who does not show a certificate signed with the key of the new CA.
\<close>

theorem bootstrapped_peers_authenticate:
  assumes "BootstrapKubernetesClusters api ce render organization configuration w = Some (Returns None, w')"
    and "bc_BootstrapTLS configuration"
    and "\<And>ty d. parse (render (PEM ty d)) = PEM ty d"
  shows "\<exists>ca kubeconfigs certificates w2.
    run_effects (concat (map (cluster_effects api render configuration ca kubeconfigs certificates)
      (enumerate 0 (bc_RemoteClusters configuration)))) w2 = (None, w') \<and>
    length certificates = length (bc_RemoteClusters configuration) \<and>
    (\<forall>i < length certificates. \<forall>j < length certificates. \<exists>h v v'.
      (FQDN (bc_RemoteClusters configuration ! i) configuration :: unit go_error + string) = Inr h \<and>
      mutual_tls (x509_api parse newClient) ca
        h (fst (ce_Now ce v)) (tls_data render ca (certificates ! i))
        (fst (ce_Now ce v')) (tls_data render ca (certificates ! j)))"
proof -
  obtain ca w1 kubeconfigs certificates w2 where
    ca: "generate_now ce organization ''Root CA'' w = (Inr ca, w1)" and
    col: "collect api ce configuration ca (bc_RemoteClusters configuration) [] [] w1 =
       Some (Inr (kubeconfigs, certificates), w2)" and
    run: "run_effects (concat (map (cluster_effects api render configuration ca kubeconfigs certificates)
       (enumerate 0 (bc_RemoteClusters configuration)))) w2 = (None, w')"
    using assms(1) by (rule bootstrap_success)
  note ca = generate_now_signing [OF ca]
  from collect_signed [OF ca(1) assms(2) col] have signed: "list_all2 (\<lambda>cluster certificate.
      \<exists>now. signed_at ce ca configuration cluster certificate now) (bc_RemoteClusters configuration) certificates"
    by simp
  have "\<exists>h v v'. (FQDN (bc_RemoteClusters configuration ! i) configuration :: unit go_error + string) = Inr h \<and>
      mutual_tls (x509_api parse newClient) ca h (fst (ce_Now ce v)) (tls_data render ca (certificates ! i))
        (fst (ce_Now ce v')) (tls_data render ca (certificates ! j))"
    if "i < length certificates" "j < length certificates" for i j
  proof -
    from list_all2_nthD2 [OF signed that(1)] obtain h v where
      h: "(FQDN (bc_RemoteClusters configuration ! i) configuration :: unit go_error + string) = Inr h" and
      ci: "node_certificate ca (fst (ce_Now ce v)) h (certificates ! i)"
      by (auto simp: signed_at_def)
    from list_all2_nthD2 [OF signed that(2)] obtain h' v' where
      cj: "node_certificate ca (fst (ce_Now ce v')) h' (certificates ! j)"
      by (auto simp: signed_at_def)
    show ?thesis
      by (intro exI conjI, rule h, rule node_certificates_mutual [OF assms(3) ca ci cj])
  qed
  with run list_all2_lengthD [OF signed] show ?thesis
    by (intro exI [of _ ca] exI [of _ kubeconfigs] exI [of _ certificates] exI [of _ w2]) simp
qed

text \<open>A way to write PEM blocks as texts, for the witness: there are countably many of them.\<close>

instance key_usage :: countable
  by countable_datatype

instance ext_key_usage :: countable
  by countable_datatype

instance x509_Certificate_ext :: (countable) countable
proof (rule countable_classI)
  fix x y :: "'a x509_Certificate_scheme"
  let ?f = "\<lambda>x :: 'a x509_Certificate_scheme. to_nat ((xc_SerialNumber x, xc_CommonName x, xc_Organization x,
    xc_IssuerCommonName x, xc_IssuerOrganization x, xc_NotBefore x, xc_NotAfter x, xc_KeyUsage x),
    (xc_ExtKeyUsage x, xc_BasicConstraintsValid x, xc_IsCA x, xc_MaxPathLen x, xc_DNSNames x, xc_IPAddresses x,
     xc_PublicKey x, xc_Signer x), x509_Certificate.more x)"
  assume "?f x = ?f y"
  then show "x = y" by simp
qed

instance der :: countable
  by countable_datatype

instance pem :: countable
  by countable_datatype

definition tally_render :: "pem \<Rightarrow> bytes" where "tally_render p = replicate (to_nat p) CHR ''x''"
definition tally_parse :: "bytes \<Rightarrow> pem" where "tally_parse b = from_nat (length b)"

definition two_secure_clusters :: BootstrapClusterConfiguration where
  "two_secure_clusters = two_clusters\<lparr>bc_BootstrapTLS := True, bc_BootstrapKubeconfigs := False\<rparr>"

lemma example_ca_signs: "\<exists>cert. (Sign example_ca 0 (Inr 1) (Inr 7) [''op-k1''] :: string go_error + Certificate) = Inr cert"
  "\<exists>cert. (Sign example_ca 0 (Inr 1) (Inr 7) [''op-k2''] :: string go_error + Certificate) = Inr cert"
  using GenerateCA_Inr [OF example_ca] Sign_iff [of example_ca "[''op-k1'']" 7 0 1, where 'e = string]
    Sign_iff [of example_ca "[''op-k2'']" 7 0 1, where 'e = string]
  by (simp_all add: ca_defaults_def ca_default_defs trunc_second_def isIA5String_def)

lemma two_secure_bootstrap:
  "\<exists>w'. BootstrapKubernetesClusters log_kube_api log_ca_env render ''org'' two_secure_clusters [] = Some (Returns None, w')"
proof -
  obtain c1 where c1: "(Sign example_ca 0 (Inr 1) (Inr 7) [''op-k1''] :: string go_error + Certificate) = Inr c1"
    using example_ca_signs(1) by blast
  obtain c2 where c2: "(Sign example_ca 0 (Inr 1) (Inr 7) [''op-k2''] :: string go_error + Certificate) = Inr c2"
    using example_ca_signs(2) by blast
  have "collect log_kube_api log_ca_env two_secure_clusters example_ca (bc_RemoteClusters two_secure_clusters)
      [] [] [] = Some (Inr ([], [c1, c2]), [])"
    by (simp add: two_secure_clusters_def two_clusters_def FQDN_def sign_now_def log_ca_env_def c1 c2
        del: One_nat_def)
  from bootstrap_eq [OF log_ca this, of render] show ?thesis
    by (simp add: two_secure_clusters_def two_clusters_def cluster_effects_def CreateTLSSecret_def tls_target_def
        complete_remote_def client_for_remote_def zero_remote_def log_kube_api_def Let_def)
qed

theorem bootstrapped_peers_authenticate_witness:
  "\<exists>w' ca certificates server client.
     BootstrapKubernetesClusters log_kube_api log_ca_env tally_render ''org'' two_secure_clusters [] =
       Some (Returns None, w') \<and>
     (secret_server (x509_api tally_parse (\<lambda>a c. Inr a))
       (tls_data tally_render ca (certificates ! 0)) :: string go_error + _) = Inr server \<and>
     (secret_client (x509_api tally_parse (\<lambda>a c. Inr a))
       (tls_data tally_render ca (certificates ! 1)) :: string go_error + _) = Inr client \<and>
     tls_handshake [] client server ''op-k1'' (24 * hour)"
proof -
  obtain w' where ok: "BootstrapKubernetesClusters log_kube_api log_ca_env tally_render ''org''
      two_secure_clusters [] = Some (Returns None, w')"
    using two_secure_bootstrap by blast
  have tls: "bc_BootstrapTLS two_secure_clusters" by (simp add: two_secure_clusters_def)
  have "\<And>ty d. tally_parse (tally_render (PEM ty d)) = PEM ty d"
    by (simp add: tally_parse_def tally_render_def)
  from bootstrapped_peers_authenticate [OF ok tls this,
      where newClient = "\<lambda>a c. Inr a :: string go_error + string"]
  obtain ca certificates where
    len: "length certificates = length (bc_RemoteClusters two_secure_clusters)" and
    all: "\<And>i j. i < length certificates \<Longrightarrow> j < length certificates \<Longrightarrow> \<exists>h v v'.
      (FQDN (bc_RemoteClusters two_secure_clusters ! i) two_secure_clusters :: unit go_error + string) = Inr h \<and>
      mutual_tls (x509_api tally_parse (\<lambda>a c. Inr a :: string go_error + string)) ca
        h (fst (ce_Now log_ca_env v)) (tls_data tally_render ca (certificates ! i))
        (fst (ce_Now log_ca_env v')) (tls_data tally_render ca (certificates ! j))"
    by blast
  from all [of 0 1] len have "mutual_tls (x509_api tally_parse (\<lambda>a c. Inr a :: string go_error + string)) ca
      ''op-k1'' 0 (tls_data tally_render ca (certificates ! 0)) 0 (tls_data tally_render ca (certificates ! 1))"
    by (simp add: two_secure_clusters_def two_clusters_def FQDN_def log_ca_env_def)
  moreover have "dialable ''op-k1''" by (simp add: dialable_def)
  moreover have "signed_for 0 (24 * hour)" by (simp add: signed_for_def ca_default_defs trunc_second_def)
  ultimately show ?thesis using ok unfolding mutual_tls_def by blast
qed

text \<open>
  The name in a certificate ends at the first colon of the service address, also where the address is an IPv6
  address in brackets. Such a certificate names the host \<open>[\<close>, and no peer that dials the address accepts it.
\<close>

lemma split_on_first: "sep \<notin> set a \<Longrightarrow> split_on sep (a @ sep # b) ! 0 = a"
  by (induction a) (auto split: list.splits)

lemma ipv6_service_never_verifies:
  assumes "rm_ServiceAddress r = CHR ''['' # CHR '':'' # rest"
    and "FQDN r configuration = Inr h" and "node_certificate ca now h certificate"
    and "ct_certificate certificate = PEM ''CERTIFICATE'' (CertDER x)" and "VerifyHostname x host"
  shows "host = ''[''"
proof -
  from split_on_first [of "CHR '':''" "''[''" rest] assms(1,2) have h: "h = ''[''"
    by (simp add: FQDN_def)
  have "\<not> ParseIP ''[''" by code_simp
  with assms(3,4) h have dns: "xc_IPAddresses x = []" "xc_DNSNames x = [''['']"
    by (auto simp: node_certificate_def)
  have "\<not> validHostname True ''[''" by code_simp
  moreover have low: "to_lower CHR ''['' = CHR ''[''" by simp
  ultimately show ?thesis
    using assms(5) dns
    by (auto simp: VerifyHostname_def match_name_def matchExactly_def low dest: sym split: if_splits)
qed

end
