(* ===== verification/Elector_Race.thy ===== *)
theory Elector_Race
  imports Kube_Elector Steps
begin

text \<open>
  The callbacks of \<open>leaderElector\<close> (\<open>kube/locker.go\<close>) at the grain of their atomic operations. client-go calls
  \<open>OnStartedLeading\<close> and \<open>OnNewLeader\<close> in goroutines of their own, so that the operations of two callbacks
  can interleave. A callback that runs alone does what \<open>elector_step\<close> says; two that overlap need not.
\<close>

section \<open>Threads\<close>

text \<open>
  A thread is one call of a callback: it starts, it has handled \<open>initialized\<close>, it has decided whether to call
  the client, or it is done. \<open>OnStoppedLeading\<close> and \<open>OnNewLeader\<close> have the same body.
\<close>

datatype thread_kind = StartThread | StopThread

datatype thread_pc = Begin | InitHandled | Decided bool | ThreadDone

record race_state =
  ra_initialized :: bool
  ra_isLeader :: bool
  ra_client :: bool
  ra_threads :: "(thread_kind \<times> thread_pc) list"

text \<open>
  The next atomic operation of a thread, with both callbacks of the client set. \<open>ra_client\<close> is the flag that the
  client's callbacks store.
\<close>

fun thread_step :: "thread_kind \<Rightarrow> thread_pc \<Rightarrow> race_state \<Rightarrow> thread_pc \<times> race_state" where
  "thread_step StartThread Begin s = (InitHandled, s\<lparr>ra_initialized := True\<rparr>)"
| "thread_step StartThread InitHandled s = (Decided (\<not> ra_isLeader s), s\<lparr>ra_isLeader := True\<rparr>)"
| "thread_step StartThread (Decided b) s = (ThreadDone, if b then s\<lparr>ra_client := True\<rparr> else s)"
| "thread_step StopThread Begin s =
     (if \<not> ra_initialized s then Decided True else InitHandled, s\<lparr>ra_initialized := True\<rparr>)"
| "thread_step StopThread InitHandled s = (Decided (ra_isLeader s), s\<lparr>ra_isLeader := False\<rparr>)"
| "thread_step StopThread (Decided b) s = (ThreadDone, if b then s\<lparr>ra_client := False\<rparr> else s)"
| "thread_step k ThreadDone s = (ThreadDone, s)"

inductive race_step :: "race_state \<Rightarrow> race_state \<Rightarrow> bool" where
  operation:
    "i < length (ra_threads s) \<Longrightarrow> ra_threads s ! i = (k, pc) \<Longrightarrow> pc \<noteq> ThreadDone \<Longrightarrow>
     thread_step k pc s = (pc', s') \<Longrightarrow>
     race_step s (s'\<lparr>ra_threads := (ra_threads s)[i := (k, pc')]\<rparr>)"

text \<open>How many operations a thread has left.\<close>

fun pc_left :: "thread_pc \<Rightarrow> nat" where
  "pc_left Begin = 3"
| "pc_left InitHandled = 2"
| "pc_left (Decided b) = 1"
| "pc_left ThreadDone = 0"

definition race_left :: "race_state \<Rightarrow> nat" where
  "race_left s = sum_list (map (\<lambda>(k, pc). pc_left pc) (ra_threads s))"

lemma thread_step_left:
  "thread_step k pc s = (pc', s') \<Longrightarrow> pc \<noteq> ThreadDone \<Longrightarrow> pc_left pc' < pc_left pc"
  by (cases k; cases pc) (auto split: if_splits)

lemma sum_list_decreases:
  fixes xs :: "nat list"
  shows "i < length xs \<Longrightarrow> y < xs ! i \<Longrightarrow> sum_list (xs[i := y]) < sum_list xs"
proof (induction xs arbitrary: i)
  case (Cons x xs)
  then show ?case by (cases i) auto
qed simp

interpretation elector_race: bounded_steps race_step "\<lambda>s. True" race_left
proof unfold_locales
  fix s t assume "race_step s t"
  then show "race_left t < race_left s"
  proof cases
    case (operation i k pc pc' s')
    have "map (\<lambda>(k, pc). pc_left pc) ((ra_threads s)[i := (k, pc')]) =
        (map (\<lambda>(k, pc). pc_left pc) (ra_threads s))[i := pc_left pc']"
      by (simp add: map_update)
    moreover have "pc_left pc' < map (\<lambda>(k, pc). pc_left pc) (ra_threads s) ! i"
      using operation(2,3) thread_step_left [OF operation(5,4)] operation(3) by simp
    ultimately show ?thesis
      using operation(1,2) sum_list_decreases [of i "map (\<lambda>(k, pc). pc_left pc) (ra_threads s)" "pc_left pc'"]
      by (simp add: race_left_def)
  qed
qed simp

section \<open>A thread alone\<close>

text \<open>All operations of a thread without an interruption.\<close>

fun run_thread :: "nat \<Rightarrow> thread_kind \<Rightarrow> thread_pc \<Rightarrow> race_state \<Rightarrow> thread_pc \<times> race_state" where
  "run_thread 0 k pc s = (pc, s)"
| "run_thread (Suc n) k pc s = (let (pc', s') = thread_step k pc s in run_thread n k pc' s')"

definition event_thread :: "elector_event \<Rightarrow> thread_kind" where
  "event_thread e = (if elector_promotes e then StartThread else StopThread)"

definition flags_of :: "race_state \<Rightarrow> elector_flags" where
  "flags_of s = \<lparr>initialized = ra_initialized s, isLeader = ra_isLeader s\<rparr>"

section \<open>Properties\<close>


text \<open>
  A race between the callbacks. With one start and one stop under way, an interleaving ends with the
  elector's own flag down and the client's flag up: the stop takes the leadership back between the decision
  of the start to call the client and that call, and its own call comes first.
\<close>

theorem race_leaves_client_leading:
  "\<exists>s. race_step\<^sup>*\<^sup>* \<lparr>ra_initialized = True, ra_isLeader = False, ra_client = False,
       ra_threads = [(StartThread, Begin), (StopThread, Begin)]\<rparr> s \<and>
     \<not> ra_isLeader s \<and> ra_client s \<and> list_all (\<lambda>(k, pc). pc = ThreadDone) (ra_threads s)"
proof -
  let ?s = "\<lambda>l c p q. \<lparr>ra_initialized = True, ra_isLeader = l, ra_client = c,
       ra_threads = [(StartThread, p), (StopThread, q)]\<rparr>"
  have start: "thread_step StartThread p (?s l c p q) = (p', ?s l' c' p q) \<Longrightarrow> p \<noteq> ThreadDone \<Longrightarrow>
      race_step (?s l c p q) (?s l' c' p' q)" for l c p q l' c' p'
    using operation [of 0 "?s l c p q" StartThread p p' "?s l' c' p q"] by simp
  have stop: "thread_step StopThread q (?s l c p q) = (q', ?s l' c' p q) \<Longrightarrow> q \<noteq> ThreadDone \<Longrightarrow>
      race_step (?s l c p q) (?s l' c' p q')" for l c p q l' c' q'
    using operation [of 1 "?s l c p q" StopThread q q' "?s l' c' p q"] by simp
  have "race_step (?s False False Begin Begin) (?s False False InitHandled Begin)"
    by (rule start) simp_all
  moreover have "race_step (?s False False InitHandled Begin) (?s True False (Decided True) Begin)"
    by (rule start) simp_all
  moreover have "race_step (?s True False (Decided True) Begin) (?s True False (Decided True) InitHandled)"
    by (rule stop) simp_all
  moreover have "race_step (?s True False (Decided True) InitHandled)
      (?s False False (Decided True) (Decided True))"
    by (rule stop) simp_all
  moreover have "race_step (?s False False (Decided True) (Decided True))
      (?s False False (Decided True) ThreadDone)"
    by (rule stop) simp_all
  moreover have "race_step (?s False False (Decided True) ThreadDone) (?s False True ThreadDone ThreadDone)"
    by (rule start) simp_all
  ultimately have "race_step\<^sup>*\<^sup>* (?s False False Begin Begin) (?s False True ThreadDone ThreadDone)"
    by (meson converse_rtranclp_into_rtranclp rtranclp.rtrancl_refl)
  then show ?thesis by (intro exI [of _ "?s False True ThreadDone ThreadDone"]) simp
qed

end
